(* ===== verification/Go_Prelude.thy ===== *)
theory Go_Prelude imports Main "HOL-Library.Word" "HOL-Library.AList" "HOL-Library.Multiset" begin

text \<open>
  What every component shares: the values a Go function can hand back (a result, an error, a
  panic, a process exit), the plumbing of \<open>if err != nil { return err }\<close>, state passing with
  errors, Go maps as association lists, and the order in which \<open>range\<close> visits a map.

  A Go \<open>error\<close> is a value of \<open>go_error\<close>. \<open>Panic\<close> stands for a run-time panic (an index out
  of range, an integer division by zero, an explicit \<open>panic\<close>), \<open>Fatal\<close> for \<open>log.Fatal\<close>,
  which ends the process, and \<open>Hang\<close> for a call that never returns; none of them is an error
  value, so \<open>errors.Wrap\<close> does not touch them.
\<close>

named_theorems andThen_simps \<open>equations of the error plumbing\<close>
named_theorems keys_simps \<open>key sets and lookups of Go maps\<close>

type_synonym u64 = "64 word"
type_synonym u32 = "32 word"

lemma unat_u64_less: "unat (n :: u64) < 2 ^ 64"
  using unsigned_less[of n, where ?'a = nat] by simp

lemma unat_u64_bound [simp]: "unat (n :: u64) < 18446744073709551616"
  using unat_u64_less[of n] by simp

lemma u64_less_Suc: "(n :: u64) < n + 1 \<Longrightarrow> e < n + 1 \<longleftrightarrow> e \<le> n"
  by unat_arith

datatype go_error =
    ErrNotExist
  | ErrMsg string
  | ErrExternal string
  | ErrSQL string
  | Fatal string
  | Panic string
  | Hang
  | Wrapped string go_error

fun unwinds :: "go_error \<Rightarrow> bool" where
  "unwinds (Panic m) = True"
| "unwinds (Fatal m) = True"
| "unwinds Hang = True"
| "unwinds e = False"

text \<open>\<open>errors.Cause\<close> follows the chain of \<open>errors.Wrap\<close>.\<close>

primrec cause :: "go_error \<Rightarrow> go_error" where
  "cause ErrNotExist = ErrNotExist"
| "cause (ErrMsg m) = ErrMsg m"
| "cause (ErrExternal m) = ErrExternal m"
| "cause (ErrSQL m) = ErrSQL m"
| "cause (Fatal m) = Fatal m"
| "cause (Panic m) = Panic m"
| "cause Hang = Hang"
| "cause (Wrapped m e) = cause e"

definition wrap :: "string \<Rightarrow> go_error + 'a \<Rightarrow> go_error + 'a" where
  "wrap m r = (case r of Inl e \<Rightarrow> Inl (if unwinds e then e else Wrapped m e) | Inr x \<Rightarrow> Inr x)"

definition andThen :: "go_error + 'a \<Rightarrow> ('a \<Rightarrow> go_error + 'b) \<Rightarrow> go_error + 'b" where
  "andThen r k = (case r of Inl e \<Rightarrow> Inl e | Inr x \<Rightarrow> k x)"

lemma andThen_Inr [simp, andThen_simps]: "andThen (Inr x) k = k x"
  by (simp add: andThen_def)

lemma andThen_Inl [simp, andThen_simps]: "andThen (Inl e) k = Inl e"
  by (simp add: andThen_def)

lemma andThen_eq_Inr: "andThen r k = Inr y \<longleftrightarrow> (\<exists>x. r = Inr x \<and> k x = Inr y)"
  by (cases r) simp_all

lemma andThen_eq_Inl:
  "andThen r k = Inl e \<longleftrightarrow> r = Inl e \<or> (\<exists>x. r = Inr x \<and> k x = Inl e)"
  by (cases r) simp_all

lemma andThen_cong [fundef_cong]:
  "r = r' \<Longrightarrow> (\<And>x. r' = Inr x \<Longrightarrow> k x = k' x) \<Longrightarrow> andThen r k = andThen r' k'"
  by (cases r') simp_all

lemma andThen_assoc: "andThen (andThen r f) g = andThen r (\<lambda>x. andThen (f x) g)"
  by (cases r) simp_all

lemma wrap_eq_Inr [simp]: "wrap m r = Inr x \<longleftrightarrow> r = Inr x"
  by (cases r) (simp_all add: wrap_def)

lemma wrap_Inr [simp, andThen_simps]: "wrap m (Inr x) = Inr x"
  by simp

lemma cause_wrap: "wrap m r = Inl e \<Longrightarrow> \<exists>e'. r = Inl e' \<and> cause e = cause e'"
  by (cases r) (auto simp: wrap_def split: if_splits)

text \<open>A loop that may run forever is an optional result; a caller of it does not return either.\<close>

definition returned :: "(go_error + 'a) option \<Rightarrow> go_error + 'a" where
  "returned r = (case r of None \<Rightarrow> Inl Hang | Some x \<Rightarrow> x)"

lemma returned_simps [simp]: "returned None = Inl Hang" "returned (Some x) = x"
  by (simp_all add: returned_def)

text \<open>Loops that may return an error from their body.\<close>

fun mapE :: "('a \<Rightarrow> go_error + 'b) \<Rightarrow> 'a list \<Rightarrow> go_error + 'b list" where
  "mapE f [] = Inr []"
| "mapE f (x # xs) = andThen (f x) (\<lambda>y. andThen (mapE f xs) (\<lambda>ys. Inr (y # ys)))"

fun foldE :: "('a \<Rightarrow> 's \<Rightarrow> go_error + 's) \<Rightarrow> 'a list \<Rightarrow> 's \<Rightarrow> go_error + 's" where
  "foldE f [] s = Inr s"
| "foldE f (x # xs) s = andThen (f x s) (\<lambda>t. foldE f xs t)"

lemma mapE_eq_Inr: "mapE f xs = Inr ys \<longleftrightarrow> list_all2 (\<lambda>x y. f x = Inr y) xs ys"
  by (induction xs arbitrary: ys) (auto simp: andThen_eq_Inr list_all2_Cons1)

lemma mapE_length: "mapE f xs = Inr ys \<Longrightarrow> length ys = length xs"
  by (auto simp: mapE_eq_Inr dest: list_all2_lengthD)

lemma mapE_map: "(\<And>x. x \<in> set xs \<Longrightarrow> f x = Inr (g x)) \<Longrightarrow> mapE f xs = Inr (map g xs)"
  by (induction xs) simp_all

lemma mapE_map_fst: 
  "mapE f xs = Inr ys \<Longrightarrow> (\<And>x y. f x = Inr y \<Longrightarrow> h y = g x) \<Longrightarrow> map h ys = map g xs"
  by (induction xs arbitrary: ys) (auto simp: andThen_eq_Inr)

lemma foldE_append: "foldE f (xs @ ys) s = andThen (foldE f xs s) (foldE f ys)"
proof (induction xs arbitrary: s)
  case (Cons x xs)
  then show ?case by (cases "f x s") simp_all
qed simp

lemma foldE_invariant:
  "foldE f xs s = Inr t \<Longrightarrow> I s \<Longrightarrow>
   (\<And>x s t. x \<in> set xs \<Longrightarrow> I s \<Longrightarrow> f x s = Inr t \<Longrightarrow> I t) \<Longrightarrow> I t"
  by (induction xs arbitrary: s) (auto simp: andThen_eq_Inr)

lemma foldE_pure: "(\<And>x s. x \<in> set xs \<Longrightarrow> f x s = Inr (g x s)) \<Longrightarrow> foldE f xs s = Inr (fold g xs s)"
  by (induction xs arbitrary: s) simp_all

text \<open>
  State passing with errors. In Go a mutation made before an error return stays made (only the
  database transaction is rolled back), so the state comes back with the error as well.
\<close>

type_synonym ('s, 'a) go = "'s \<Rightarrow> (go_error + 'a) \<times> 's"

definition go_ret :: "'a \<Rightarrow> ('s, 'a) go" where
  "go_ret x = (\<lambda>s. (Inr x, s))"

definition go_lift :: "go_error + 'a \<Rightarrow> ('s, 'a) go" where
  "go_lift r = (\<lambda>s. (r, s))"

definition go_bind :: "('s, 'a) go \<Rightarrow> ('a \<Rightarrow> ('s, 'b) go) \<Rightarrow> ('s, 'b) go" where
  "go_bind m k = (\<lambda>s. case m s of (Inl e, t) \<Rightarrow> (Inl e, t) | (Inr x, t) \<Rightarrow> k x t)"

definition go_wrap :: "string \<Rightarrow> ('s, 'a) go \<Rightarrow> ('s, 'a) go" where
  "go_wrap msg m = (\<lambda>s. case m s of (r, t) \<Rightarrow> (wrap msg r, t))"

fun go_each :: "('a \<Rightarrow> ('s, unit) go) \<Rightarrow> 'a list \<Rightarrow> ('s, unit) go" where
  "go_each f [] = go_ret ()"
| "go_each f (x # xs) = go_bind (f x) (\<lambda>_. go_each f xs)"

lemma go_ret_apply [simp]: "go_ret x s = (Inr x, s)"
  by (simp add: go_ret_def)

lemma go_lift_apply [simp]: "go_lift r s = (r, s)"
  by (simp add: go_lift_def)

lemma go_bind_Inr: 
  "go_bind m k s = (Inr y, u) \<longleftrightarrow> (\<exists>x t. m s = (Inr x, t) \<and> k x t = (Inr y, u))"
  by (auto simp: go_bind_def split: prod.splits sum.splits)

lemma go_bind_apply: 
  "go_bind m k s = (case m s of (r, t) \<Rightarrow> (case r of Inl e \<Rightarrow> (Inl e, t) | Inr x \<Rightarrow> k x t))"
  by (auto simp: go_bind_def split: prod.splits sum.splits)

lemma go_wrap_Inr: "go_wrap msg m s = (Inr y, t) \<longleftrightarrow> m s = (Inr y, t)"
  by (auto simp: go_wrap_def split: prod.splits)

text \<open>
  An invariant of the state kept by a computation whatever it returns. A handler that fails has
  already changed the state, so preservation is stated for both outcomes.
\<close>

definition go_keeps :: "('s \<Rightarrow> bool) \<Rightarrow> ('s, 'a) go \<Rightarrow> bool" where
  "go_keeps I m \<longleftrightarrow> (\<forall>s. I s \<longrightarrow> I (snd (m s)))"

lemma go_keeps_ret [simp, intro]: "go_keeps I (go_ret x)"
  by (simp add: go_keeps_def)

lemma go_keeps_lift [simp, intro]: "go_keeps I (go_lift r)"
  by (simp add: go_keeps_def)

lemma go_keeps_bind [intro]:
  "go_keeps I m \<Longrightarrow> (\<And>x. go_keeps I (k x)) \<Longrightarrow> go_keeps I (go_bind m k)"
  by (fastforce simp: go_keeps_def go_bind_def split: prod.splits sum.splits)

lemma go_keeps_wrap [intro]: "go_keeps I m \<Longrightarrow> go_keeps I (go_wrap msg m)"
  by (auto simp: go_keeps_def go_wrap_def split: prod.splits)

lemma go_keeps_each [intro]: "(\<And>x. x \<in> set xs \<Longrightarrow> go_keeps I (f x)) \<Longrightarrow> go_keeps I (go_each f xs)"
  by (induction xs) auto

text \<open>
  Go maps are association lists with distinct keys: \<open>map_of\<close> reads, \<open>AList.update\<close> writes and
  \<open>AList.map_default\<close> is the read-modify-write of an accumulator. A missing key reads as the
  zero value.
\<close>

definition get_or :: "'v \<Rightarrow> ('k \<times> 'v) list \<Rightarrow> 'k \<Rightarrow> 'v" where
  "get_or d m k = (case map_of m k of None \<Rightarrow> d | Some v \<Rightarrow> v)"

abbreviation keys :: "('k \<times> 'v) list \<Rightarrow> 'k set" where
  "keys m \<equiv> fst ` set m"

abbreviation distinct_keys :: "('k \<times> 'v) list \<Rightarrow> bool" where
  "distinct_keys m \<equiv> distinct (map fst m)"

lemma map_of_update [simp, keys_simps]: "map_of (AList.update k v m) = (map_of m)(k \<mapsto> v)"
  by (simp add: update_conv')

lemma keys_update [simp, keys_simps]: "keys (AList.update k v m) = insert k (keys m)"
  by (induction m) auto

lemma map_of_map_default [simp, keys_simps]:
  "map_of (AList.map_default k v f m) =
   (map_of m)(k \<mapsto> (case map_of m k of None \<Rightarrow> v | Some x \<Rightarrow> f x))"
  by (induction m) (auto simp: fun_eq_iff)

lemma keys_map_default [simp, keys_simps]:
  "keys (AList.map_default k v f m) = insert k (keys m)"
  by (induction m) auto

lemma distinct_map_default [simp, keys_simps]:
  "distinct_keys m \<Longrightarrow> distinct_keys (AList.map_default k v f m)"
  by (rule distinct_map_default)

lemma sum_map_default: 
  fixes m :: "('k \<times> int) list"
  shows "sum_list (map snd (AList.map_default k v (\<lambda>x. x + v) m)) = sum_list (map snd m) + v"
  by (induction m) auto

lemma get_or_update [simp, keys_simps]: 
  "get_or d (AList.update k v m) j = (if j = k then v else get_or d m j)"
  by (simp add: get_or_def)

lemma get_or_map_default [simp, keys_simps]:
  "get_or d (AList.map_default k v f m) j =
   (if j = k then (case map_of m k of None \<Rightarrow> v | Some x \<Rightarrow> f x) else get_or d m j)"
  by (simp add: get_or_def)

lemma get_or_default_sum:
  "get_or (0::int) (AList.map_default k v (\<lambda>x. x + v) m) j = get_or 0 m j + (if j = k then v else 0)"
  by (simp add: get_or_def split: option.splits)

text \<open>
  \<open>range\<close> over a map visits its entries in an order the language leaves open. A definition that
  ranges over a map takes that order as an argument: any function that permutes its list.
\<close>

definition range_order :: "('a list \<Rightarrow> 'a list) \<Rightarrow> bool" where
  "range_order ord \<longleftrightarrow> (\<forall>xs. mset (ord xs) = mset xs)"

lemma range_order_id [simp]: "range_order (\<lambda>xs. xs)"
  by (simp add: range_order_def)

lemma range_order_rev [simp]: "range_order rev"
  by (simp add: range_order_def)

lemma range_order_set [simp]: "range_order ord \<Longrightarrow> set (ord xs) = set xs"
  unfolding range_order_def by (metis set_mset_mset)

lemma range_order_length [simp]: "range_order ord \<Longrightarrow> length (ord xs) = length xs"
  unfolding range_order_def by (metis size_mset)

lemma range_order_distinct [simp]: "range_order ord \<Longrightarrow> distinct (ord xs) = distinct xs"
  unfolding range_order_def by (rule mset_eq_imp_distinct_iff) simp

lemma range_order_map: "range_order ord \<Longrightarrow> mset (map f (ord xs)) = mset (map f xs)"
  by (simp add: range_order_def)

lemma range_order_sum: 
  fixes f :: "'a \<Rightarrow> int"
  shows "range_order ord \<Longrightarrow> sum_list (map f (ord xs)) = sum_list (map f xs)"
  using arg_cong[OF range_order_map[of ord f xs], of sum_mset] by (simp only: sum_mset_sum_list)

text \<open>Sums over lists that the reward and voting components share.\<close>

lemma sum_list_nonneg_int: "(\<And>x. x \<in> set xs \<Longrightarrow> (0::int) \<le> f x) \<Longrightarrow> 0 \<le> sum_list (map f xs)"
  by (induction xs) auto

lemma sum_list_div_le:
  fixes f :: "'a \<Rightarrow> int"
  assumes "0 < d"
  shows "sum_list (map (\<lambda>x. f x div d) xs) \<le> sum_list (map f xs) div d"
proof (induction xs)
  case Nil
  then show ?case by simp
next
  case (Cons x xs)
  have "f x div d + y div d \<le> (f x + y) div d" for y
    using assms pos_imp_zdiv_nonneg_iff[of d "f x mod d + y mod d"]
    by (simp add: div_add1_eq[of "f x" y d])
  from this[of "sum_list (map f xs)"] Cons show ?case by simp
qed

lemma sum_list_share_le:
  fixes w :: "'a \<Rightarrow> int"
  assumes "0 < sum_list (map w xs)"
  shows "sum_list (map (\<lambda>x. (amount * w x) div sum_list (map w xs)) xs) \<le> amount"
proof -
  have "sum_list (map (\<lambda>x. amount * w x) xs) = amount * sum_list (map w xs)"
    by (simp add: sum_list_const_mult)
  then show ?thesis
    using sum_list_div_le[OF assms, of "\<lambda>x. amount * w x" xs] assms by simp
qed

lemma get_or_notin: "k \<notin> keys m \<Longrightarrow> get_or d m k = d"
  by (simp add: get_or_def map_of_eq_None_iff[symmetric] split: option.splits) 

lemma get_or_in: "distinct_keys m \<Longrightarrow> (k, v) \<in> set m \<Longrightarrow> get_or d m k = v"
  by (simp add: get_or_def)

lemma get_or_Cons: "get_or d ((j, v) # m) k = (if j = k then v else get_or d m k)"
  by (simp add: get_or_def)

lemma get_or_filter: "(\<And>v. (k, v) \<in> set m \<Longrightarrow> P (k, v)) \<Longrightarrow> get_or d (filter P m) k = get_or d m k"
  by (induction m) (auto simp: get_or_Cons)

lemma filter_key:
  "distinct_keys m \<Longrightarrow> k \<in> keys m \<Longrightarrow> filter (\<lambda>p. fst p = k) m = [(k, get_or d m k)]"
proof (induction m)
  case (Cons p m)
  obtain j v where p: "p = (j, v)" by (cases p)
  show ?case
  proof (cases "j = k")
    case True
    then have "filter (\<lambda>p. fst p = k) m = []"
      using Cons.prems(1) p by (auto simp: filter_empty_conv)
    with True show ?thesis by (simp add: p get_or_Cons)
  next
    case False
    with Cons p show ?thesis by (simp add: get_or_Cons)
  qed
qed simp

text \<open>The total of a map with distinct keys, as a sum over any set that contains them.\<close>

lemma sum_snd_get_or:
  fixes m :: "('k \<times> int) list"
  assumes "distinct_keys m" "finite K" "keys m \<subseteq> K"
  shows "sum_list (map snd m) = (\<Sum>k\<in>K. get_or 0 m k)"
  using assms
proof (induction m arbitrary: K)
  case Nil
  then show ?case by (simp add: get_or_def)
next
  case (Cons p m)
  obtain j v where p: "p = (j, v)" by (cases p)
  have "j \<notin> keys m" using Cons.prems(1) p by force
  then have j: "get_or 0 m j = 0" by (rule get_or_notin)
  have "(\<Sum>k\<in>K. get_or 0 (p # m) k) = (\<Sum>k\<in>K. (if j = k then v else 0) + get_or 0 m k)"
    by (intro sum.cong) (auto simp: p get_or_Cons j)
  also have "\<dots> = v + (\<Sum>k\<in>K. get_or 0 m k)"
    using Cons.prems p by (simp add: sum.distrib)
  also have "(\<Sum>k\<in>K. get_or 0 m k) = sum_list (map snd m)"
    using Cons.IH[of K] Cons.prems by simp
  finally show ?case by (simp add: p)
qed

text \<open>
  Splitting an amount in proportion to weights and rounding down never gives out more than the
  amount, also when only some of those the weights were counted for are paid, once each.
\<close>

lemma sum_list_subset_le:
  fixes w :: "'a \<Rightarrow> int"
  assumes "distinct ns" "set ns \<subseteq> set L" "\<And>n. 0 \<le> w n"
  shows "sum_list (map w ns) \<le> sum_list (map w L)"
proof -
  have "sum_list (map w ns) = (\<Sum>n\<in>set ns. w n)"
    using assms(1) by (simp add: sum_list_distinct_conv_sum_set)
  also have "\<dots> \<le> (\<Sum>n\<in>set L. w n)" using assms by (intro sum_mono2) auto
  also have "\<dots> = sum_list (map w (remdups L))" by (simp add: sum.set_conv_list)
  also have "\<dots> \<le> sum_list (map w L)"
    using assms(3) by (induction L) (auto intro: add_increasing)
  finally show ?thesis .
qed

lemma shares_le:
  fixes w :: "'a \<Rightarrow> int"
  assumes ns: "distinct ns" and w: "\<And>n. 0 \<le> w n" and pos: "0 < sum_list (map w L)" and a: "0 \<le> amount"
  shows "sum_list (map (\<lambda>n. if n \<in> set L then amount * w n div sum_list (map w L) else 0) ns) \<le> amount"
proof -
  let ?S = "sum_list (map w L)" and ?ns = "filter (\<lambda>n. n \<in> set L) ns"
  have "sum_list (map (\<lambda>n. if n \<in> set L then amount * w n div ?S else 0) ns)
      = sum_list (map (\<lambda>n. amount * w n div ?S) ?ns)"
    by (induction ns) simp_all
  also have "\<dots> \<le> sum_list (map (\<lambda>n. amount * w n) ?ns) div ?S"
    by (rule sum_list_div_le[OF pos])
  also have "\<dots> = (amount * sum_list (map w ?ns)) div ?S"
    by (simp add: sum_list_const_mult)
  also have "\<dots> \<le> (amount * ?S) div ?S"
  proof (rule zdiv_mono1[OF _ pos])
    have "sum_list (map w ?ns) \<le> ?S"
      by (rule sum_list_subset_le) (use ns w in auto)
    then show "amount * sum_list (map w ?ns) \<le> amount * ?S" by (rule mult_left_mono[OF _ a])
  qed
  also have "\<dots> = amount" using pos by simp
  finally show ?thesis .
qed

end
