(* ===== verification/Go_Num.thy ===== *)
theory Go_Num imports Go_Prelude begin

text \<open>
  The parts of Go's standard library that turn numbers into text and back: \<open>big.Int.String\<close> and
  \<open>big.Int.SetString\<close> (every amount of the program crosses the database as a decimal string),
  \<open>hex.EncodeToString\<close> and \<open>hex.DecodeString\<close> (hashes, addresses and delegate names), and the
  checked integer division of \<open>uint64\<close>. A string is its list of bytes.

  \<open>codec\<close> is the interface between an encoder and its decoder: the one law is the round trip,
  and injectivity of the encoder follows once for all of them.
\<close>

locale codec =
  fixes enc :: "'a \<Rightarrow> 'b"
    and dec :: "'b \<Rightarrow> 'r"
    and ok :: "'a \<Rightarrow> 'r"
    and valid :: "'a \<Rightarrow> bool"
  assumes ok_inj: "ok x = ok y \<Longrightarrow> x = y"
    and roundtrip: "valid x \<Longrightarrow> dec (enc x) = ok x"
begin

lemma enc_eq_iff: "valid x \<Longrightarrow> valid y \<Longrightarrow> enc x = enc y \<longleftrightarrow> x = y"
  by (metis ok_inj roundtrip)

lemma enc_inj_on: "inj_on enc {x. valid x}"
  by (rule inj_onI) (simp add: enc_eq_iff)

end

subsection \<open>Digits\<close>

definition digit_char :: "nat \<Rightarrow> char" where
  "digit_char d = (if d < 10 then char_of (48 + d) else char_of (87 + d))"

definition digit_val :: "nat \<Rightarrow> char \<Rightarrow> nat option" where
  "digit_val base ch =
     (let c = of_char ch;
          v = (if 48 \<le> c \<and> c \<le> 57 then c - 48
               else if 97 \<le> c \<and> c \<le> 122 then c - 87
               else if 65 \<le> c \<and> c \<le> 90 then c - 55
               else base)
      in if v < base then Some v else None)"

lemma of_char_digit_char: "d < 36 \<Longrightarrow> of_char (digit_char d) = (if d < 10 then 48 + d else 87 + d)"
  by (simp add: digit_char_def)

lemma digit_val_digit_char: "d < base \<Longrightarrow> base \<le> 36 \<Longrightarrow> digit_val base (digit_char d) = Some d"
  by (auto simp: digit_val_def Let_def of_char_digit_char)

subsection \<open>Decimal strings of \<open>big.Int\<close>\<close>

fun show_nat :: "nat \<Rightarrow> string" where
  "show_nat n = (if n < 10 then [digit_char n] else show_nat (n div 10) @ [digit_char (n mod 10)])"

declare show_nat.simps [simp del]

definition big_String :: "int \<Rightarrow> string" where
  "big_String i = (if i < 0 then CHR ''-'' # show_nat (nat (- i)) else show_nat (nat i))"

fun parse_digits :: "nat \<Rightarrow> nat \<Rightarrow> string \<Rightarrow> nat option" where
  "parse_digits base acc [] = Some acc"
| "parse_digits base acc (c # cs) =
     (case digit_val base c of None \<Rightarrow> None | Some d \<Rightarrow> parse_digits base (acc * base + d) cs)"

definition parse_nat :: "nat \<Rightarrow> string \<Rightarrow> nat option" where
  "parse_nat base cs = (if cs = [] then None else parse_digits base 0 cs)"

text \<open>\<open>SetString(s, base)\<close> for an explicit base: an optional sign, then one or more digits.\<close>

definition big_SetString :: "nat \<Rightarrow> string \<Rightarrow> int option" where
  "big_SetString base s =
     (case s of
        [] \<Rightarrow> None
      | c # cs \<Rightarrow>
          if c = CHR ''-'' then map_option (\<lambda>n. - int n) (parse_nat base cs)
          else if c = CHR ''+'' then map_option int (parse_nat base cs)
          else map_option int (parse_nat base s))"

lemma parse_digits_append:
  "parse_digits base acc (xs @ ys) =
   (case parse_digits base acc xs of None \<Rightarrow> None | Some a \<Rightarrow> parse_digits base a ys)"
  by (induction base acc xs rule: parse_digits.induct) (simp_all split: option.splits)

lemma show_nat_not_Nil [simp]: "show_nat n \<noteq> []"
  by (subst show_nat.simps) simp

lemma parse_show_nat: "parse_digits 10 0 (show_nat n) = Some n"
proof (induction n rule: show_nat.induct)
  case (1 n)
  show ?case
  proof (cases "n < 10")
    case True
    then show ?thesis by (simp add: show_nat.simps[of n] digit_val_digit_char)
  next
    case False
    with 1 have "parse_digits 10 0 (show_nat (n div 10)) = Some (n div 10)" by simp
    with False show ?thesis
      by (simp add: show_nat.simps[of n] parse_digits_append digit_val_digit_char)
  qed
qed

lemma hd_show_nat: "\<exists>d < 10. hd (show_nat n) = digit_char d"
proof (induction n rule: show_nat.induct)
  case (1 n)
  show ?case
  proof (cases "n < 10")
    case True
    then show ?thesis by (auto simp: show_nat.simps[of n])
  next
    case False
    with 1 show ?thesis by (simp add: show_nat.simps[of n] hd_append)
  qed
qed

lemma show_nat_unsigned: "show_nat n = c # cs \<Longrightarrow> c \<noteq> CHR ''-'' \<and> c \<noteq> CHR ''+''"
proof
  assume eq: "show_nat n = c # cs"
  obtain d where d: "d < 10" "c = digit_char d"
    using hd_show_nat[of n] eq by auto
  then have v: "of_char c = 48 + d" by (simp add: of_char_digit_char)
  show "c \<noteq> CHR ''-''" using v by auto
  show "c \<noteq> CHR ''+''" using v by auto
qed

lemma big_SetString_String: "big_SetString 10 (big_String i) = Some i"
proof (cases "i < 0")
  case True
  then show ?thesis
    by (simp add: big_String_def big_SetString_def parse_nat_def parse_show_nat)
next
  case False
  obtain c cs where c: "show_nat (nat i) = c # cs"
    by (cases "show_nat (nat i)") simp_all
  have p: "parse_nat 10 (c # cs) = Some (nat i)"
    using parse_show_nat[of "nat i"] by (simp add: parse_nat_def flip: c)
  show ?thesis
    using False show_nat_unsigned[OF c] p by (simp add: big_String_def big_SetString_def c)
qed

interpretation decimal: codec big_String "big_SetString 10" Some "\<lambda>_. True"
  by unfold_locales (simp_all add: big_SetString_String)

lemma big_String_inject [simp]: "big_String i = big_String j \<longleftrightarrow> i = j"
  by (simp add: decimal.enc_eq_iff)

text \<open>
  \<open>stringToBigInt\<close> of the reward packages, and the same conversion where the code reports its own
  message. A \<open>DECIMAL(65, 0)\<close> column read into a Go string is the decimal text of its value.
\<close>

definition toBigInt :: "string \<Rightarrow> string \<Rightarrow> go_error + int" where
  "toBigInt msg s = (case big_SetString 10 s of None \<Rightarrow> Inl (ErrMsg msg) | Some n \<Rightarrow> Inr n)"

definition stringToBigInt :: "string \<Rightarrow> go_error + int" where
  "stringToBigInt s = toBigInt ''failed to parse string to big int'' s"

lemma toBigInt_String [simp]: "toBigInt msg (big_String n) = Inr n"
  by (simp add: toBigInt_def big_SetString_String)

lemma stringToBigInt_String [simp]: "stringToBigInt (big_String n) = Inr n"
  by (simp add: stringToBigInt_def)

subsection \<open>Hexadecimal\<close>

fun hex_EncodeToString :: "string \<Rightarrow> string" where
  "hex_EncodeToString [] = []"
| "hex_EncodeToString (c # cs) =
     digit_char (of_char c div 16) # digit_char (of_char c mod 16) # hex_EncodeToString cs"

fun hex_DecodeString :: "string \<Rightarrow> go_error + string" where
  "hex_DecodeString [] = Inr []"
| "hex_DecodeString [c] = Inl (ErrMsg ''encoding/hex: odd length hex string'')"
| "hex_DecodeString (c # d # cs) =
     (case (digit_val 16 c, digit_val 16 d) of
        (Some h, Some l) \<Rightarrow>
          andThen (hex_DecodeString cs) (\<lambda>bs. Inr (char_of (h * 16 + l) # bs))
      | _ \<Rightarrow> Inl (ErrMsg ''encoding/hex: invalid byte''))"

lemma of_char_less [simp]: "of_char c < (256::nat)"
  by (metis of_char_mod_256 mod_less_divisor zero_less_numeral)

lemma hex_length [simp]: "length (hex_EncodeToString bs) = 2 * length bs"
  by (induction bs) simp_all

lemma hex_append: "hex_EncodeToString (xs @ ys) = hex_EncodeToString xs @ hex_EncodeToString ys"
  by (induction xs) simp_all

lemma nibbles: 
  "digit_val 16 (digit_char (of_char c div 16)) = Some (of_char c div 16)"
  "digit_val 16 (digit_char (of_char c mod 16)) = Some (of_char c mod 16)"
proof -
  have "(of_char c :: nat) div 16 < 16"
    using of_char_less[of c] by (simp add: less_mult_imp_div_less)
  then show "digit_val 16 (digit_char (of_char c div 16)) = Some (of_char c div 16)"
    by (simp add: digit_val_digit_char)
qed (simp add: digit_val_digit_char)

lemma hex_roundtrip: "hex_DecodeString (hex_EncodeToString bs) = Inr bs"
proof (induction bs)
  case (Cons c bs)
  have "char_of ((of_char c :: nat) div 16 * 16 + of_char c mod 16) = c"
    by (simp only: div_mult_mod_eq char_of_char)
  with Cons show ?case by (simp add: nibbles)
qed simp

interpretation hex: codec hex_EncodeToString hex_DecodeString "Inr :: string \<Rightarrow> go_error + string" "\<lambda>_. True"
  by unfold_locales (simp_all add: hex_roundtrip)

lemma hex_inject [simp]: "hex_EncodeToString xs = hex_EncodeToString ys \<longleftrightarrow> xs = ys"
  by (simp add: hex.enc_eq_iff)

text \<open>\<open>big.Int.SetBytes\<close>: the bytes as a big-endian number.\<close>

definition big_SetBytes :: "string \<Rightarrow> int" where
  "big_SetBytes bs = int (foldl (\<lambda>acc c. acc * 256 + of_char c) 0 bs)"

lemma parse_hex_bytes:
  "parse_digits 16 acc (hex_EncodeToString bs @ rest)
    = parse_digits 16 (foldl (\<lambda>acc c. acc * 256 + of_char c) acc bs) rest"
proof (induction bs arbitrary: acc)
  case (Cons c bs)
  have "(acc * 16 + of_char c div 16) * 16 + of_char c mod 16 = acc * 256 + (of_char c :: nat)"
    by (simp add: algebra_simps)
  then show ?case by (simp add: nibbles Cons del: mult_Suc_right distrib_right_numeral) 
qed simp

text \<open>A hexadecimal number of at least one byte is read back as the number its bytes are.\<close>

lemma hex_not_sign: "bs \<noteq> [] \<Longrightarrow> hd (hex_EncodeToString bs) \<noteq> CHR ''-'' \<and> hd (hex_EncodeToString bs) \<noteq> CHR ''+''"
proof (cases bs)
  case (Cons c cs)
  have "(of_char c :: nat) < 36 * 16" using of_char_less[of c] by linarith
  then have "(of_char c :: nat) div 16 < 36" by (rule less_mult_imp_div_less)
  then have "of_char (digit_char (of_char c div 16)) \<noteq> (of_char (CHR ''-'') :: nat)"
      "of_char (digit_char (of_char c div 16)) \<noteq> (of_char (CHR ''+'') :: nat)"
    by (simp_all add: of_char_digit_char)
  then show ?thesis by (auto simp: Cons)
qed simp

lemma big_SetString_hex: "bs \<noteq> [] \<Longrightarrow> big_SetString 16 (hex_EncodeToString bs) = Some (big_SetBytes bs)"
proof -
  assume ne: "bs \<noteq> []"
  obtain d ds where d: "hex_EncodeToString bs = d # ds" using ne by (cases bs) auto
  have "parse_nat 16 (d # ds) = Some (foldl (\<lambda>acc c. acc * 256 + of_char c) 0 bs)"
    using parse_hex_bytes[of 0 bs "[]"] by (simp add: parse_nat_def d)
  then show ?thesis
    using hex_not_sign[OF ne] by (simp add: big_SetString_def d big_SetBytes_def)
qed

subsection \<open>Machine integers\<close>

definition u64_div :: "u64 \<Rightarrow> u64 \<Rightarrow> go_error + u64" where
  "u64_div a b = (if b = 0 then Inl (Panic ''runtime error: integer divide by zero'') else Inr (a div b))"

lemma u64_div_nonzero [simp]: "b \<noteq> 0 \<Longrightarrow> u64_div a b = Inr (a div b)"
  by (simp add: u64_div_def)

text \<open>The remainder of Go's \<open>%\<close> has the sign of its left operand; \<open>int(x)\<close> of a \<open>uint64\<close> is signed.\<close>

definition go_rem :: "int \<Rightarrow> int \<Rightarrow> int" where
  "go_rem a b = (if a < 0 then - ((- a) mod b) else a mod b)"

lemma sint_small:
  assumes "unat (n :: u64) < 2 ^ 63"
  shows "sint n = int (unat n)"
proof -
  have "int (unat n) < int (2 ^ 63)" using assms by (simp only: of_nat_less_iff)
  then have "uint n < 2 ^ 63" by simp
  then show ?thesis
    by (simp add: sint_uint) (rule signed_take_bit_int_eq_self, simp_all, rule order_trans[of _ 0], simp_all)
qed

definition itoa :: "u64 \<Rightarrow> string" where
  "itoa n = big_String (sint n)"

text \<open>\<open>strconv.FormatUint\<close> and \<open>strconv.ParseUint\<close> with a bound on the bits.\<close>

definition format_uint :: "u64 \<Rightarrow> string" where
  "format_uint n = show_nat (unat n)"

definition parse_uint :: "nat \<Rightarrow> string \<Rightarrow> go_error + nat" where
  "parse_uint bits s =
     (case parse_nat 10 s of
        None \<Rightarrow> Inl (ErrMsg ''strconv.ParseUint: invalid syntax'')
      | Some n \<Rightarrow> if n < 2 ^ bits then Inr n
                  else Inl (ErrMsg ''strconv.ParseUint: value out of range''))"

lemma parse_uint_show: "n < 2 ^ bits \<Longrightarrow> parse_uint bits (show_nat n) = Inr n"
  by (simp add: parse_uint_def parse_nat_def parse_show_nat)

lemma parse_format_uint: "parse_uint 64 (format_uint n) = Inr (unat n)"
  unfolding format_uint_def by (rule parse_uint_show) (use unat_u64_less[of n] in simp)

end
