(* ===== verification/Go_Float.thy ===== *)
theory Go_Float imports Complex_Main Go_Num "HOL-Library.Log_Nat" begin

text \<open>
  Floating point as the code uses it. A finite \<open>float64\<close> is the rational number it stands for;
  an operation is the exact rational operation rounded to 53 significant bits, ties to even. A
  \<open>big.Float\<close> made by \<open>SetInt(x)\<close> has the precision \<open>max(bits of x, 64)\<close>; \<open>z.Mul(z, y)\<close> rounds
  the exact product to that precision and \<open>Int(nil)\<close> cuts towards zero. Infinities, NaN,
  subnormal numbers and overflow of the exponent are not modelled: no value of the code comes
  near them, and the divisions whose divisor can be zero are guarded where they are modelled.
\<close>

type_synonym f64 = rat

definition round_half_even :: "rat \<Rightarrow> int" where
  "round_half_even q =
     (let f = \<lfloor>q\<rfloor>; r = q - of_int f
      in if r < 1 / 2 then f else if 1 / 2 < r then f + 1 else if even f then f else f + 1)"

text \<open>The exponent of the leading bit: \<open>2 powi e \<le> q < 2 powi (e + 1)\<close> for positive \<open>q\<close>.\<close>

definition rat_ilog2 :: "rat \<Rightarrow> int" where
  "rat_ilog2 q =
     (case quotient_of q of (n, d) \<Rightarrow>
        let e = bitlen n - bitlen d in if 2 powi e \<le> q then e else e - 1)"

definition round_prec :: "nat \<Rightarrow> rat \<Rightarrow> rat" where
  "round_prec p q =
     (if q = 0 then 0
      else let u = 2 powi (rat_ilog2 \<bar>q\<bar> + 1 - int p) in of_int (round_half_even (q / u)) * u)"

definition f64_of_int :: "int \<Rightarrow> f64" where
  "f64_of_int n = round_prec 53 (of_int n)"

definition f64_add :: "f64 \<Rightarrow> f64 \<Rightarrow> f64" where
  "f64_add a b = round_prec 53 (a + b)"

definition f64_mul :: "f64 \<Rightarrow> f64 \<Rightarrow> f64" where
  "f64_mul a b = round_prec 53 (a * b)"

definition f64_div :: "f64 \<Rightarrow> f64 \<Rightarrow> f64" where
  "f64_div a b = round_prec 53 (a / b)"

definition trunc :: "rat \<Rightarrow> int" where
  "trunc q = (if 0 \<le> q then \<lfloor>q\<rfloor> else \<lceil>q\<rceil>)"

text \<open>
  \<open>votingPower := new(big.Float).SetInt(x); votingPower.Mul(votingPower, big.NewFloat(r)).Int(nil)\<close>,
  the way every weighted amount is scaled.
\<close>

definition bigFloat_scale :: "int \<Rightarrow> f64 \<Rightarrow> int" where
  "bigFloat_scale x r = trunc (round_prec (nat (max 64 (bitlen \<bar>x\<bar>))) (of_int x * r))"

lemma trunc_bounds: "0 \<le> q \<Longrightarrow> 0 \<le> trunc q" "0 \<le> q \<Longrightarrow> q \<le> of_int x \<Longrightarrow> trunc q \<le> x"
  by (simp_all add: trunc_def floor_le_iff)

lemma round_half_even_le: "q \<le> of_int k \<Longrightarrow> round_half_even q \<le> k"
  unfolding round_half_even_def Let_def by (auto split: if_splits simp: floor_le_iff)

lemma round_half_even_ge: "of_int k \<le> q \<Longrightarrow> k \<le> round_half_even q"
  unfolding round_half_even_def Let_def by (auto simp: le_floor_iff) linarith+

lemma round_half_even_of_int [simp]: "round_half_even (of_int k) = k"
  by (simp add: round_half_even_def)

lemma rat_ilog2_le:
  assumes "0 < q"
  shows "2 powi (rat_ilog2 q) \<le> q"
proof -
  obtain n d where nd: "quotient_of q = (n, d)" by (cases "quotient_of q")
  have q: "q = of_int n / of_int d" and d: "0 < d"
    using quotient_of_div[OF nd] quotient_of_denom_pos[OF nd] by auto
  have n: "0 < n" using assms q d by (simp add: zero_less_divide_iff)
  define a where "a = nat (bitlen n)"
  define b where "b = nat (bitlen d)"
  have "bitlen n > 0" "bitlen d > 0" using n d by (simp_all add: bitlen_def zero_less_iff_neq_zero floorlog_eq_zero_iff)
  then have ab: "bitlen n = int a" "bitlen d = int b" "0 < a" "0 < b" by (simp_all add: a_def b_def)
  have "(2::int) ^ nat (bitlen n - 1) \<le> n" "d < 2 ^ nat (bitlen d)"
    using bitlen_bounds[OF n] bitlen_bounds[OF d] by simp_all
  then have "(2::int) ^ (a - 1) \<le> n" "d < 2 ^ b" using ab by (simp_all add: nat_diff_distrib)
  then have lo: "(2::rat) ^ (a - 1) \<le> of_int n" and hi: "of_int d \<le> (2::rat) ^ b"
    by (metis of_int_le_iff of_int_numeral of_int_power less_imp_le)+
  have "(2::rat) powi (int a - int b - 1) = 2 ^ (a - 1) / 2 ^ b"
    using ab(3) by (simp add: power_int_diff power_int_of_nat flip: of_nat_Suc)
      (cases a, simp_all add: power_int_diff)
  also have "\<dots> \<le> of_int n / of_int d"
    using lo hi d n by (intro frac_le) simp_all
  finally have "(2::rat) powi (bitlen n - bitlen d - 1) \<le> q" using ab q by simp
  then show ?thesis by (simp add: rat_ilog2_def nd Let_def)
qed

text \<open>
  Rounding to \<open>p\<close> bits never crosses an integer of at most \<open>p\<close> bits: the integer is itself a
  multiple of the unit in the last place, or that unit is at most 1.
\<close>

lemma round_unit_divides:
  assumes q: "0 < q" "q \<le> of_int k" and k: "k < 2 ^ p"
  shows "\<exists>j. (of_int k :: rat) = of_int j * 2 powi (rat_ilog2 q + 1 - int p)"
proof -
  have "(2::rat) powi (rat_ilog2 q) \<le> of_int k"
    using rat_ilog2_le[OF q(1)] q(2) by linarith
  also have "(of_int k :: rat) < 2 ^ p"
    using k by (metis of_int_less_iff of_int_numeral of_int_power)
  finally have "(2::rat) powi (rat_ilog2 q) < 2 powi (int p)" by simp
  then have "rat_ilog2 q < int p" by (intro power_int_le_imp_less_exp[of 2]) simp_all
  then have m: "rat_ilog2 q + 1 - int p = - int m" if "m = nat (int p - 1 - rat_ilog2 q)" for m
    using that by simp
  define m where "m = nat (int p - 1 - rat_ilog2 q)"
  have "(of_int k :: rat) = of_int (k * 2 ^ m) * 2 powi (- int m)"
    by (simp add: power_int_minus)
  with m[OF m_def] show ?thesis by metis
qed

lemma round_prec_pos_eq:
  "0 < q \<Longrightarrow> round_prec p q =
     of_int (round_half_even (q / 2 powi (rat_ilog2 q + 1 - int p))) * 2 powi (rat_ilog2 q + 1 - int p)"
  by (simp add: round_prec_def Let_def)

lemma round_prec_le_int:
  assumes "0 < q" "q \<le> of_int k" "k < 2 ^ p"
  shows "round_prec p q \<le> of_int k"
proof -
  define u :: rat where "u = 2 powi (rat_ilog2 q + 1 - int p)"
  have u: "0 < u" by (simp add: u_def)
  obtain j where j: "of_int k = of_int j * u"
    using round_unit_divides[OF assms] by (auto simp: u_def)
  then have "q / u \<le> of_int j" using assms(2) u by (simp add: pos_divide_le_eq)
  then have "of_int (round_half_even (q / u)) * u \<le> of_int j * u"
    using u round_half_even_le[of "q / u" j] by simp
  then show ?thesis using assms(1) j by (simp add: round_prec_pos_eq u_def)
qed

lemma round_prec_of_int:
  assumes "0 \<le> k" "k < 2 ^ p"
  shows "round_prec p (of_int k) = of_int k"
proof (cases "k = 0")
  case False
  with assms have pos: "(0::rat) < of_int k" by simp
  define u :: rat where "u = 2 powi (rat_ilog2 (of_int k) + 1 - int p)"
  obtain j where j: "of_int k = of_int j * u"
    using round_unit_divides[OF pos order_refl assms(2)] by (auto simp: u_def)
  have "u \<noteq> 0" by (simp add: u_def)
  then have "of_int k / u = of_int j" using j by simp
  moreover have "round_prec p (of_int k) = of_int (round_half_even (of_int k / u)) * u"
    unfolding u_def by (rule round_prec_pos_eq[OF pos])
  ultimately show ?thesis using j by simp
qed (simp add: round_prec_def)

lemma round_prec_nonneg: "0 \<le> q \<Longrightarrow> 0 \<le> round_prec p q"
proof (cases "q = 0")
  case False
  assume "0 \<le> q"
  with False have q: "0 < q" by simp
  have "0 \<le> round_half_even (q / 2 powi (rat_ilog2 q + 1 - int p))"
    by (rule round_half_even_ge) (use q in simp)
  with q show ?thesis by (simp add: round_prec_pos_eq)
qed (simp add: round_prec_def)

lemma bitlen_less_power: "0 \<le> x \<Longrightarrow> x < 2 ^ nat (max 64 (bitlen \<bar>x\<bar>))"
proof (cases "x = 0")
  case False
  assume "0 \<le> x"
  with False have "x < 2 ^ nat (bitlen x)" using bitlen_bounds[of x] by simp
  also have "(2::int) ^ nat (bitlen x) \<le> 2 ^ nat (max 64 (bitlen \<bar>x\<bar>))"
    using \<open>0 \<le> x\<close> by (intro power_increasing) auto
  finally show ?thesis .
qed simp

text \<open>
  Scaling a weight by a rate between 0 and 1 never increases it and never makes it negative, for
  every weight and every rate, the two roundings included; the rate 1 keeps it exactly.
\<close>

lemma bigFloat_scale_bounds:
  assumes "0 \<le> x" "0 \<le> r" "r \<le> 1"
  shows "0 \<le> bigFloat_scale x r" and "bigFloat_scale x r \<le> x"
proof -
  let ?p = "nat (max 64 (bitlen \<bar>x\<bar>))"
  have nonneg: "0 \<le> of_int x * r" using assms by simp
  have le: "of_int x * r \<le> of_int x" using assms by (simp add: mult_left_le)
  have up: "round_prec ?p (of_int x * r) \<le> of_int x"
  proof (cases "of_int x * r = 0")
    case True
    then show ?thesis using assms(1) by (simp add: round_prec_def)
  next
    case False
    with nonneg have "0 < of_int x * r" by linarith
    then show ?thesis by (rule round_prec_le_int[OF _ le bitlen_less_power[OF assms(1)]])
  qed
  show "0 \<le> bigFloat_scale x r"
    unfolding bigFloat_scale_def by (rule trunc_bounds(1)[OF round_prec_nonneg[OF nonneg]])
  show "bigFloat_scale x r \<le> x"
    unfolding bigFloat_scale_def by (rule trunc_bounds(2)[OF round_prec_nonneg[OF nonneg] up])
qed

lemma bigFloat_scale_one: "0 \<le> x \<Longrightarrow> bigFloat_scale x 1 = x"
  using round_prec_of_int[OF _ bitlen_less_power, of x] by (simp add: bigFloat_scale_def trunc_def)

lemma bigFloat_scale_zero [simp]: "bigFloat_scale x 0 = 0"
  by (simp add: bigFloat_scale_def round_prec_def trunc_def)

end
