(* ===== verification/Epoch.thy ===== *)
theory Epoch imports Go_Num begin

text \<open>
  \<open>epochctx/epochctx.go\<close>: the arithmetic between block heights and epoch numbers. Heights and
  epoch numbers are \<open>uint64\<close> and wrap; a division by a zero parameter is the panic Go raises.
  Before the Dardanelles height an epoch has \<open>numDelegates * numSubEpochs\<close> blocks, after it
  \<open>numDelegates * numSubEpochsDardanelles\<close>. The abstract specification counts on natural
  numbers with the two epoch lengths; the refinement lemmas say when the \<open>uint64\<close> code computes
  exactly it.
\<close>

record EpochCtx =
  numCandidateDelegates :: u64
  numDelegates :: u64
  numSubEpochs :: u64
  numSubEpochsDardanelles :: u64
  dardanellesHeight :: u64
  dardanellesOn :: bool
  fairbankHeight :: u64

type_synonym epoch_option = "EpochCtx \<Rightarrow> go_error + EpochCtx"

definition EnableDardanellesSubEpoch :: "u64 \<Rightarrow> u64 \<Rightarrow> epoch_option" where
  "EnableDardanellesSubEpoch h n e =
     Inr (e\<lparr>dardanellesOn := True, numSubEpochsDardanelles := n, dardanellesHeight := h\<rparr>)"

definition FairbankHeight :: "u64 \<Rightarrow> epoch_option" where
  "FairbankHeight h e = Inr (e\<lparr>fairbankHeight := h\<rparr>)"

fun apply_options :: "epoch_option list \<Rightarrow> EpochCtx \<Rightarrow> go_error + EpochCtx" where
  "apply_options [] e = Inr e"
| "apply_options (opt # opts) e =
     (case opt e of
        Inl err \<Rightarrow> Inl (Panic ''Failed to execute epoch context creation option'')
      | Inr e' \<Rightarrow> apply_options opts e')"

definition NewEpochCtx :: "u64 \<Rightarrow> u64 \<Rightarrow> u64 \<Rightarrow> epoch_option list \<Rightarrow> go_error + EpochCtx" where
  "NewEpochCtx nc nd ns opts =
     (let nc' = (if nc < nd then nd else nc)
      in apply_options opts
           \<lparr>numCandidateDelegates = nc', numDelegates = nd, numSubEpochs = ns,
            numSubEpochsDardanelles = 0, dardanellesHeight = 0, dardanellesOn = False,
            fairbankHeight = 0\<rparr>)"

text \<open>
  \<open>GetEpochNumber\<close> and \<open>GetEpochHeight\<close> call each other: above the Dardanelles height the number
  is counted from the epoch of that height, and the start of an epoch from that epoch's start.
\<close>

function GetEpochNumber :: "EpochCtx \<Rightarrow> u64 \<Rightarrow> go_error + u64"
  and GetEpochHeight :: "EpochCtx \<Rightarrow> u64 \<Rightarrow> go_error + u64" where
  "GetEpochNumber e height =
     (if height = 0 then Inr 0
      else if \<not> dardanellesOn e \<or> height \<le> dardanellesHeight e then
        andThen (u64_div (height - 1) (numDelegates e)) (\<lambda>q.
        andThen (u64_div q (numSubEpochs e)) (\<lambda>r. Inr (r + 1)))
      else
        andThen (GetEpochNumber e (dardanellesHeight e)) (\<lambda>dardanellesEpoch.
        andThen (GetEpochHeight e dardanellesEpoch) (\<lambda>dardanellesEpochHeight.
        andThen (u64_div (height - dardanellesEpochHeight) (numDelegates e)) (\<lambda>q.
        andThen (u64_div q (numSubEpochsDardanelles e)) (\<lambda>r. Inr (dardanellesEpoch + r))))))"
| "GetEpochHeight e epochNum =
     (if epochNum = 0 then Inr 0
      else
        andThen (GetEpochNumber e (dardanellesHeight e)) (\<lambda>dardanellesEpoch.
          if \<not> dardanellesOn e \<or> epochNum \<le> dardanellesEpoch then
            Inr ((epochNum - 1) * numDelegates e * numSubEpochs e + 1)
          else
            andThen (GetEpochHeight e dardanellesEpoch) (\<lambda>dardanellesEpochHeight.
              Inr (dardanellesEpochHeight +
                (epochNum - dardanellesEpoch) * numDelegates e * numSubEpochsDardanelles e))))"
  by pat_completeness auto
termination
  by (relation "measures
       [\<lambda>x. case x of Inl (e, h) \<Rightarrow> if dardanellesOn e \<and> dardanellesHeight e < h then 2 else 0
                    | Inr (e, n) \<Rightarrow> 1,
        \<lambda>x. case x of Inl (e, h) \<Rightarrow> 0 | Inr (e, n) \<Rightarrow> unat n]")
    (auto simp: word_le_nat_alt word_less_nat_alt)

declare GetEpochNumber.simps [simp del] GetEpochHeight.simps [simp del]

definition NumCandidateDelegates :: "EpochCtx \<Rightarrow> u64" where
  "NumCandidateDelegates e = numCandidateDelegates e"

definition FairbankEffectiveHeight :: "EpochCtx \<Rightarrow> u64" where
  "FairbankEffectiveHeight e = fairbankHeight e + numDelegates e * numSubEpochsDardanelles e"

subsection \<open>The abstract specification\<close>

text \<open>
  \<open>epoch_plan\<close>: whether and where (\<open>pd\<close>) the epoch length changes, the length before (\<open>pl\<close>) and
  after (\<open>pm\<close>).
\<close>

record epoch_plan =
  p_on :: bool
  p_dh :: nat
  p_old :: nat
  p_new :: nat

definition old_epoch :: "epoch_plan \<Rightarrow> nat \<Rightarrow> nat" where
  "old_epoch p h = (if h = 0 then 0 else (h - 1) div p_old p + 1)"

definition old_start :: "epoch_plan \<Rightarrow> nat \<Rightarrow> nat" where
  "old_start p n = (if n = 0 then 0 else (n - 1) * p_old p + 1)"

definition switch_epoch :: "epoch_plan \<Rightarrow> nat" where
  "switch_epoch p = old_epoch p (p_dh p)"

definition switch_start :: "epoch_plan \<Rightarrow> nat" where
  "switch_start p = old_start p (switch_epoch p)"

definition epoch_spec :: "epoch_plan \<Rightarrow> nat \<Rightarrow> nat" where
  "epoch_spec p h =
     (if \<not> p_on p \<or> h \<le> p_dh p then old_epoch p h
      else switch_epoch p + (h - switch_start p) div p_new p)"

definition start_spec :: "epoch_plan \<Rightarrow> nat \<Rightarrow> nat" where
  "start_spec p n =
     (if \<not> p_on p \<or> n \<le> switch_epoch p then old_start p n
      else switch_start p + (n - switch_epoch p) * p_new p)"

text \<open>
  The configurations the code is meant for: no length is zero, and the length changes at the
  start of an epoch or does not shrink.
\<close>

definition plan_ok :: "epoch_plan \<Rightarrow> bool" where
  "plan_ok p \<longleftrightarrow> 0 < p_old p \<and> (p_on p \<longrightarrow>
     0 < p_new p \<and> (p_dh p = switch_start p \<or> p_old p \<le> p_new p))"

definition plan_of :: "EpochCtx \<Rightarrow> epoch_plan" where
  "plan_of e =
     \<lparr>p_on = dardanellesOn e, p_dh = unat (dardanellesHeight e),
      p_old = unat (numDelegates e) * unat (numSubEpochs e),
      p_new = unat (numDelegates e) * unat (numSubEpochsDardanelles e)\<rparr>"

definition ctx_ok :: "EpochCtx \<Rightarrow> bool" where
  "ctx_ok e \<longleftrightarrow> plan_ok (plan_of e)"

lemma old_start_epoch: "0 < h \<Longrightarrow> old_start p (old_epoch p h) \<le> h"
  by (simp add: old_start_def old_epoch_def) (metis Suc_leI Suc_pred div_times_less_eq_dividend le_imp_less_Suc)

lemma old_epoch_mono: "h \<le> k \<Longrightarrow> old_epoch p h \<le> old_epoch p k"
  by (auto simp: old_epoch_def div_le_mono diff_le_mono)

lemma old_epoch_pos: "0 < h \<Longrightarrow> 0 < old_epoch p h"
  by (simp add: old_epoch_def)

lemma old_epoch_before_next: "0 < p_old p \<Longrightarrow> 0 < h \<Longrightarrow> h < old_start p (old_epoch p h + 1)"
  using dividend_less_div_times[of "p_old p" "h - 1"] by (simp add: old_start_def old_epoch_def)

lemma old_epoch_start: "0 < p_old p \<Longrightarrow> 0 < n \<Longrightarrow> old_epoch p (old_start p n) = n"
  by (simp add: old_start_def old_epoch_def)

lemma old_start_mono: "n \<le> m \<Longrightarrow> old_start p n \<le> old_start p m"
  by (auto simp: old_start_def diff_le_mono)

lemma switch_start_le: "switch_start p \<le> p_dh p"
proof (cases "p_dh p = 0")
  case False
  then show ?thesis using old_start_epoch[of "p_dh p" p] by (simp add: switch_start_def switch_epoch_def)
qed (simp add: switch_start_def switch_epoch_def old_epoch_def old_start_def)

lemma switch_start_zero: "switch_start p = 0 \<longleftrightarrow> switch_epoch p = 0"
  by (simp add: switch_start_def old_start_def)

text \<open>The first epoch of the new length begins after the switch height.\<close>

lemma dh_before_new:
  assumes "plan_ok p" "p_on p"
  shows "p_dh p < switch_start p + p_new p"
proof (cases "p_dh p = 0")
  case True
  with assms show ?thesis by (simp add: plan_ok_def)
next
  case False
  with assms have "p_dh p < old_start p (switch_epoch p + 1)"
    unfolding switch_epoch_def by (intro old_epoch_before_next) (simp_all add: plan_ok_def)
  also have "\<dots> = switch_start p + p_old p"
    using False old_epoch_pos[of "p_dh p" p]
    by (simp add: switch_start_def old_start_def switch_epoch_def) (cases "old_epoch p (p_dh p)", simp_all)
  finally show ?thesis using assms by (auto simp: plan_ok_def)
qed

lemma start_spec_new:
  "p_on p \<Longrightarrow> switch_epoch p \<le> n \<Longrightarrow> start_spec p n = switch_start p + (n - switch_epoch p) * p_new p"
  by (auto simp: start_spec_def switch_start_def)

lemma start_spec_old: "\<not> p_on p \<or> n \<le> switch_epoch p \<Longrightarrow> start_spec p n = old_start p n"
  by (simp add: start_spec_def)

lemma epoch_spec_old: "\<not> p_on p \<or> h \<le> p_dh p \<Longrightarrow> epoch_spec p h = old_epoch p h"
  by (simp add: epoch_spec_def)

lemma epoch_spec_new:
  "p_on p \<Longrightarrow> p_dh p < h \<Longrightarrow> epoch_spec p h = switch_epoch p + (h - switch_start p) div p_new p"
  by (simp add: epoch_spec_def)

lemma epoch_le_switch: "h \<le> p_dh p \<Longrightarrow> old_epoch p h \<le> switch_epoch p"
  unfolding switch_epoch_def by (rule old_epoch_mono)

theorem start_of_epoch_le:
  assumes "0 < h"
  shows "start_spec p (epoch_spec p h) \<le> h"
proof (cases "p_on p \<and> p_dh p < h")
  case True
  then have "start_spec p (epoch_spec p h)
      = switch_start p + (h - switch_start p) div p_new p * p_new p"
    by (simp add: epoch_spec_new start_spec_new)
  also have "\<dots> \<le> h"
    using True switch_start_le[of p] div_times_less_eq_dividend[of "h - switch_start p" "p_new p"]
    by linarith
  finally show ?thesis .
next
  case False
  then have "\<not> p_on p \<or> h \<le> p_dh p" by auto
  then show ?thesis
    using old_start_epoch[OF assms] epoch_le_switch[of h p]
    by (auto simp: epoch_spec_old start_spec_old)
qed

theorem before_next_epoch:
  assumes ok: "plan_ok p" and h: "0 < h"
  shows "h < start_spec p (epoch_spec p h + 1)"
proof (cases "p_on p \<and> p_dh p < h")
  case True
  then have "start_spec p (epoch_spec p h + 1)
      = switch_start p + ((h - switch_start p) div p_new p + 1) * p_new p"
    by (simp add: epoch_spec_new start_spec_new)
  then show ?thesis
    using True ok switch_start_le[of p] dividend_less_div_times[of "p_new p" "h - switch_start p"]
    by (simp add: plan_ok_def)
next
  case False
  then have old: "\<not> p_on p \<or> h \<le> p_dh p" by auto
  show ?thesis
  proof (cases "p_on p \<and> epoch_spec p h = switch_epoch p")
    case True
    then show ?thesis
      using old dh_before_new[OF ok] by (simp add: start_spec_new)
  next
    case False
    with old epoch_le_switch[of h p] have "\<not> p_on p \<or> epoch_spec p h + 1 \<le> switch_epoch p"
      by (auto simp: epoch_spec_old)
    then show ?thesis
      using old old_epoch_before_next[of p h] ok h
      by (simp add: start_spec_old epoch_spec_old plan_ok_def)
  qed
qed

theorem epoch_of_start:
  assumes ok: "plan_ok p" and n: "0 < n"
  shows "epoch_spec p (start_spec p n) = n"
proof (cases "p_on p \<and> switch_epoch p < n")
  case True
  have "1 * p_new p \<le> (n - switch_epoch p) * p_new p"
    using True by (intro mult_right_mono) auto
  moreover have "start_spec p n = switch_start p + (n - switch_epoch p) * p_new p"
    using True by (simp add: start_spec_new)
  ultimately have "p_dh p < start_spec p n" using dh_before_new[OF ok] True by linarith
  with True ok show ?thesis by (simp add: epoch_spec_new start_spec_new plan_ok_def)
next
  case False
  then have le: "\<not> p_on p \<or> n \<le> switch_epoch p" by auto
  then have "\<not> p_on p \<or> start_spec p n \<le> p_dh p"
    using old_start_mono[of n "switch_epoch p" p] switch_start_le[of p]
    by (auto simp: start_spec_old switch_start_def)
  then show ?thesis
    using old_epoch_start[of p n] ok n le by (simp add: epoch_spec_old start_spec_old plan_ok_def)
qed

lemma start_spec_0: "plan_ok p \<Longrightarrow> start_spec p 0 = 0"
  by (simp add: start_spec_old old_start_def)

lemma start_spec_pos: "plan_ok p \<Longrightarrow> 0 < n \<Longrightarrow> 0 < start_spec p n"
  by (auto simp: start_spec_def old_start_def plan_ok_def)

lemma start_spec_Suc:
  assumes ok: "plan_ok p"
  shows "start_spec p n < start_spec p (Suc n)"
proof (cases "n = 0")
  case True
  then show ?thesis using start_spec_0[OF ok] start_spec_pos[OF ok, of "Suc n"] by simp
next
  case False
  then show ?thesis
    using before_next_epoch[OF ok start_spec_pos[OF ok, of n]] epoch_of_start[OF ok, of n] by simp
qed

lemma start_spec_strict_mono: "plan_ok p \<Longrightarrow> n < m \<Longrightarrow> start_spec p n < start_spec p m"
  by (rule lift_Suc_mono_less[of "start_spec p"]) (rule start_spec_Suc)

lemma start_spec_mono: "plan_ok p \<Longrightarrow> n \<le> m \<Longrightarrow> start_spec p n \<le> start_spec p m"
  using start_spec_strict_mono[of p n m] by (cases "n = m") auto

lemma epoch_spec_0: "epoch_spec p 0 = 0"
  by (simp add: epoch_spec_def old_epoch_def)

lemma epoch_spec_unique:
  assumes ok: "plan_ok p" and n: "0 < n" "start_spec p n \<le> h" "h < start_spec p (n + 1)"
  shows "epoch_spec p h = n"
proof -
  have h: "0 < h" using n start_spec_pos[OF ok, of n] by linarith
  have "\<not> epoch_spec p h < n"
    using before_next_epoch[OF ok h] start_spec_mono[OF ok, of "epoch_spec p h + 1" n] n(2) by force
  moreover have "\<not> n < epoch_spec p h"
    using start_of_epoch_le[OF h, of p] start_spec_mono[OF ok, of "n + 1" "epoch_spec p h"] n(3) by force
  ultimately show ?thesis by simp
qed

lemma epoch_spec_mono:
  assumes ok: "plan_ok p" and le: "h \<le> k"
  shows "epoch_spec p h \<le> epoch_spec p k"
proof (cases "h = 0")
  case False
  then show ?thesis
    using start_of_epoch_le[of h p] before_next_epoch[OF ok, of k] le
      start_spec_mono[OF ok, of "epoch_spec p k + 1" "epoch_spec p h"] by force
qed (simp add: epoch_spec_0)

subsection \<open>The \<open>uint64\<close> code computes the specification\<close>

lemma old_epoch_le: "old_epoch p h \<le> h"
proof (cases "h = 0")
  case False
  have "(h - 1) div p_old p \<le> h - 1" by (rule div_le_dividend)
  then have "(h - 1) div p_old p + 1 \<le> h" using False by linarith
  then show ?thesis by (simp add: old_epoch_def)
qed (simp add: old_epoch_def)

lemma epoch_spec_le: "epoch_spec p h \<le> h"
proof (cases "p_on p \<and> p_dh p < h")
  case True
  have "switch_epoch p \<le> switch_start p \<or> p_old p = 0"
    by (cases "switch_epoch p") (auto simp: switch_start_def old_start_def)
  moreover have "p_old p = 0 \<Longrightarrow> switch_epoch p \<le> 1 \<and> (switch_epoch p = 1 \<longrightarrow> switch_start p = 1)"
    by (auto simp: switch_epoch_def old_epoch_def switch_start_def old_start_def)
  ultimately have "switch_epoch p \<le> switch_start p"
    using switch_start_zero[of p] by linarith
  moreover have "(h - switch_start p) div p_new p \<le> h - switch_start p"
    by (rule div_le_dividend)
  moreover have "switch_start p \<le> h" using True switch_start_le[of p] by linarith
  moreover have "epoch_spec p h = switch_epoch p + (h - switch_start p) div p_new p"
    using True by (simp add: epoch_spec_new)
  ultimately show ?thesis by linarith
qed (auto simp: epoch_spec_old old_epoch_le)

lemma ctx_okD:
  assumes "ctx_ok e"
  shows "numDelegates e \<noteq> 0" "numSubEpochs e \<noteq> 0"
    "dardanellesOn e \<Longrightarrow> numSubEpochsDardanelles e \<noteq> 0" "plan_ok (plan_of e)"
  using assms by (auto simp: ctx_ok_def plan_ok_def plan_of_def)

lemma plan_of_simps [simp]:
  "p_on (plan_of e) = dardanellesOn e"
  "p_dh (plan_of e) = unat (dardanellesHeight e)"
  "p_old (plan_of e) = unat (numDelegates e) * unat (numSubEpochs e)"
  "p_new (plan_of e) = unat (numDelegates e) * unat (numSubEpochsDardanelles e)"
  by (simp_all add: plan_of_def)

lemma unat_mult3:
  fixes a b c :: u64
  assumes "unat a * (unat b * unat c) < 2 ^ 64" and "c \<noteq> 0"
  shows "unat (a * b * c) = unat a * (unat b * unat c)"
proof -
  have "1 \<le> unat c" using assms(2) by (simp add: Suc_le_eq unat_gt_0)
  then have "unat a * unat b * 1 \<le> unat a * unat b * unat c" by (intro mult_left_mono) simp_all
  also have "unat a * unat b * unat c < 2 ^ 64" using assms(1) by (simp only: mult.assoc)
  finally have "unat (a * b) = unat a * unat b"
    using unat_mult_lem[of a b] by simp
  then show ?thesis
    using assms(1) unat_mult_lem[of "a * b" c] by (simp add: mult.assoc)
qed

lemma unat_minus_1: "(h :: u64) \<noteq> 0 \<Longrightarrow> unat (h - 1) = unat h - 1"
  by (simp add: unat_minus_one)

lemma unat_add_small: "unat (a :: u64) + unat b < 2 ^ 64 \<Longrightarrow> unat (a + b) = unat a + unat b"
  using unat_add_lem[of a b] by simp

lemma GetEpochNumber_old:
  assumes ok: "ctx_ok e" and h: "\<not> dardanellesOn e \<or> h \<le> dardanellesHeight e"
  shows "\<exists>n. GetEpochNumber e h = Inr n \<and> unat n = old_epoch (plan_of e) (unat h)"
proof (cases "h = 0")
  case True
  then show ?thesis by (simp add: GetEpochNumber.simps old_epoch_def)
next
  case False
  let ?q = "(h - 1) div numDelegates e div numSubEpochs e"
  have q: "unat ?q + 1 = old_epoch (plan_of e) (unat h)"
    using False by (simp add: unat_div unat_minus_1 old_epoch_def div_mult2_eq unat_eq_zero)
  then have "unat ?q + unat (1::u64) < 2 ^ 64"
    using le_less_trans[OF old_epoch_le[of "plan_of e" "unat h"] unat_u64_less[of h]] by simp
  then have "unat (?q + 1) = unat ?q + 1" using unat_add_small[of ?q 1] by simp
  then show ?thesis
    using False h ok q by (auto simp: GetEpochNumber.simps[of e h] ctx_okD)
qed

lemma GetEpochHeight_old:
  assumes ok: "ctx_ok e" and n: "\<not> dardanellesOn e \<or> unat n \<le> switch_epoch (plan_of e)"
    and small: "old_start (plan_of e) (unat n) < 2 ^ 64"
  shows "\<exists>s. GetEpochHeight e n = Inr s \<and> unat s = old_start (plan_of e) (unat n)"
proof (cases "n = 0")
  case True
  then show ?thesis by (simp add: GetEpochHeight.simps old_start_def)
next
  case False
  obtain de where de: "GetEpochNumber e (dardanellesHeight e) = Inr de"
      "unat de = switch_epoch (plan_of e)"
    using GetEpochNumber_old[OF ok, of "dardanellesHeight e"] by (auto simp: switch_epoch_def)
  let ?m = "(n - 1) * numDelegates e * numSubEpochs e"
  have lt: "(unat n - 1) * (unat (numDelegates e) * unat (numSubEpochs e)) + 1 < 2 ^ 64"
    using small False by (simp add: old_start_def unat_eq_zero)
  then have m: "unat ?m = (unat n - 1) * (unat (numDelegates e) * unat (numSubEpochs e))"
    using unat_mult3[of "n - 1" "numDelegates e" "numSubEpochs e"] False ok
    by (simp add: unat_minus_1 ctx_okD)
  then have "unat (?m + 1) = unat ?m + 1" using lt unat_add_small[of ?m 1] by simp
  then show ?thesis
    using False n de m by (auto simp: GetEpochHeight.simps[of e n] word_le_nat_alt old_start_def unat_eq_zero)
qed

lemma unat_start_step:
  assumes s: "unat s + k * (unat nd * unat ns) < 2 ^ 64" and "ns \<noteq> (0 :: u64)" and k: "unat w = k"
  shows "unat (s + w * nd * ns) = unat s + k * (unat nd * unat ns)"
proof -
  have "unat (w * nd * ns) = k * (unat nd * unat ns)"
    using unat_mult3[of w nd ns] assms by simp
  then show ?thesis using unat_add_small[of s "w * nd * ns"] s by simp
qed

lemma switch_computed:
  assumes ok: "ctx_ok e"
  obtains de ds where "GetEpochNumber e (dardanellesHeight e) = Inr de" "unat de = switch_epoch (plan_of e)"
    "GetEpochHeight e de = Inr ds" "unat ds = switch_start (plan_of e)"
proof -
  obtain de where de: "GetEpochNumber e (dardanellesHeight e) = Inr de"
      "unat de = switch_epoch (plan_of e)"
    using GetEpochNumber_old[OF ok, of "dardanellesHeight e"] by (auto simp: switch_epoch_def)
  have "switch_start (plan_of e) < 2 ^ 64"
    using le_less_trans[OF switch_start_le[of "plan_of e"]] by simp
  then obtain ds where "GetEpochHeight e de = Inr ds" "unat ds = switch_start (plan_of e)"
    using GetEpochHeight_old[OF ok, of de] de by (auto simp: switch_start_def)
  with de that show ?thesis by blast
qed

lemma GetEpochNumber_refines:
  assumes ok: "ctx_ok e"
  shows "\<exists>n. GetEpochNumber e h = Inr n \<and> unat n = epoch_spec (plan_of e) (unat h)"
proof (cases "dardanellesOn e \<and> dardanellesHeight e < h")
  case False
  then show ?thesis
    using GetEpochNumber_old[OF ok, of h] by (auto simp: epoch_spec_old word_le_nat_alt word_less_nat_alt)
next
  case True
  obtain de ds where sw: "GetEpochNumber e (dardanellesHeight e) = Inr de"
      "unat de = switch_epoch (plan_of e)" "GetEpochHeight e de = Inr ds"
      "unat ds = switch_start (plan_of e)"
    using switch_computed[OF ok] by blast
  let ?q = "(h - ds) div numDelegates e div numSubEpochsDardanelles e"
  have "unat ds \<le> unat h"
    using True sw(4) switch_start_le[of "plan_of e"] by (simp add: word_less_nat_alt)
  then have "unat (h - ds) = unat h - switch_start (plan_of e)"
    using sw(4) by (simp add: unat_sub word_le_nat_alt)
  then have q: "unat de + unat ?q = epoch_spec (plan_of e) (unat h)"
    using True sw(2) by (simp add: unat_div div_mult2_eq epoch_spec_new word_less_nat_alt)
  then have "unat de + unat ?q < 2 ^ 64"
    using le_less_trans[OF epoch_spec_le[of "plan_of e" "unat h"] unat_u64_less[of h]] by simp
  then have "unat (de + ?q) = unat de + unat ?q" by (rule unat_add_small)
  moreover have "h \<noteq> 0" "\<not> h \<le> dardanellesHeight e" using True by auto
  ultimately show ?thesis
    using True ok q sw by (simp add: GetEpochNumber.simps[of e h] ctx_okD)
qed

lemma GetEpochHeight_refines:
  assumes ok: "ctx_ok e" and small: "start_spec (plan_of e) (unat n) < 2 ^ 64"
  shows "\<exists>s. GetEpochHeight e n = Inr s \<and> unat s = start_spec (plan_of e) (unat n)"
proof (cases "dardanellesOn e \<and> switch_epoch (plan_of e) < unat n")
  case False
  then show ?thesis
    using GetEpochHeight_old[OF ok, of n] small by (auto simp: start_spec_old)
next
  case True
  obtain de ds where sw: "GetEpochNumber e (dardanellesHeight e) = Inr de"
      "unat de = switch_epoch (plan_of e)" "GetEpochHeight e de = Inr ds"
      "unat ds = switch_start (plan_of e)"
    using switch_computed[OF ok] by blast
  let ?k = "unat n - switch_epoch (plan_of e)"
  have "unat (n - de) = ?k" using True sw(2) by (simp add: unat_sub word_le_nat_alt)
  moreover have st: "start_spec (plan_of e) (unat n)
      = unat ds + ?k * (unat (numDelegates e) * unat (numSubEpochsDardanelles e))"
    using True sw(4) by (simp add: start_spec_new)
  ultimately have "unat (ds + (n - de) * numDelegates e * numSubEpochsDardanelles e)
      = start_spec (plan_of e) (unat n)"
    using unat_start_step[of ds ?k "numDelegates e" "numSubEpochsDardanelles e" "n - de"]
      small True ok by (simp add: ctx_okD)
  moreover have "n \<noteq> 0" "\<not> n \<le> de" using True sw(2) by (auto simp: word_le_nat_alt)
  ultimately show ?thesis
    using True sw by (simp add: GetEpochHeight.simps[of e n])
qed


lemma GetEpochHeight_defined:
  assumes "ctx_ok e"
  shows "\<exists>s. GetEpochHeight e n = Inr s"
proof -
  obtain de ds where "GetEpochNumber e (dardanellesHeight e) = Inr de" "GetEpochHeight e de = Inr ds"
    using switch_computed[OF assms] by blast
  then show ?thesis by (auto simp: GetEpochHeight.simps[of e n])
qed

text \<open>
  What every block handler computes first: the block's epoch and the epoch's first height.
\<close>

definition epoch_prologue :: "EpochCtx \<Rightarrow> u64 \<Rightarrow> go_error + u64 \<times> u64" where
  "epoch_prologue e height =
     andThen (GetEpochNumber e height) (\<lambda>epochNumber.
     andThen (GetEpochHeight e epochNumber) (\<lambda>epochHeight. Inr (epochNumber, epochHeight)))"

lemma epoch_spec_Suc:
  assumes ok: "plan_ok p"
  shows "epoch_spec p (Suc h) =
    (if start_spec p (epoch_spec p (Suc h)) = Suc h then Suc (epoch_spec p h) else epoch_spec p h)"
proof -
  let ?n = "epoch_spec p (Suc h)"
  have b: "start_spec p ?n \<le> Suc h" "Suc h < start_spec p (?n + 1)"
    using start_of_epoch_le[of "Suc h" p] before_next_epoch[OF ok, of "Suc h"] by simp_all
  show ?thesis
  proof (cases "start_spec p ?n = Suc h")
    case True
    then obtain m where m: "?n = Suc m"
      using start_spec_0[OF ok] by (cases ?n) auto
    have "start_spec p m \<le> h" using start_spec_Suc[OF ok, of m] True m by simp
    moreover have "h < start_spec p (m + 1)" using True m by simp
    ultimately have "epoch_spec p h = m"
      using epoch_spec_unique[OF ok, of m h] start_of_epoch_le[of h p]
        start_spec_mono[OF ok, of 1 "epoch_spec p h"] epoch_spec_0[of p]
      by (cases m; cases "epoch_spec p h"; cases h) auto
    with True m show ?thesis by simp
  next
    case False
    then have "start_spec p ?n \<le> h" "h < start_spec p (?n + 1)" using b by simp_all
    then have "epoch_spec p h = ?n"
      using epoch_spec_unique[OF ok, of ?n h] start_of_epoch_le[of h p]
        start_spec_mono[OF ok, of 1 "epoch_spec p h"] epoch_spec_0[of p]
      by (cases ?n; cases "epoch_spec p h"; cases h) auto
    with False show ?thesis by simp
  qed
qed

lemma epoch_prologue_spec:
  assumes ok: "ctx_ok e"
  obtains n s where "epoch_prologue e h = Inr (n, s)" "GetEpochNumber e h = Inr n"
    "unat n = epoch_spec (plan_of e) (unat h)" "unat s = start_spec (plan_of e) (unat n)"
proof -
  obtain n where n: "GetEpochNumber e h = Inr n" "unat n = epoch_spec (plan_of e) (unat h)"
    using GetEpochNumber_refines[OF ok, of h] by blast
  have "start_spec (plan_of e) (unat n) \<le> unat h"
    using start_of_epoch_le[of "unat h" "plan_of e"] n(2) start_spec_0[OF ctx_okD(4)[OF ok]]
    by (cases "unat h") (simp_all add: epoch_spec_0)
  then have "start_spec (plan_of e) (unat n) < 2 ^ 64"
    using unat_u64_less[of h] by linarith
  then obtain s where "GetEpochHeight e n = Inr s" "unat s = start_spec (plan_of e) (unat n)"
    using GetEpochHeight_refines[OF ok, of n] by blast
  with n that show ?thesis by (simp add: epoch_prologue_def)
qed

text \<open>
  From one block to the next the epoch stays, or the next block is the first of the next epoch.
\<close>

lemma epoch_prologue_step:
  assumes ok: "ctx_ok e" and h: "h < h + 1"
    and m: "GetEpochNumber e h = Inr m" and n: "epoch_prologue e (h + 1) = Inr (n, s)"
  shows "if h + 1 = s then n = m + 1 \<and> m < n else n = m"
proof -
  have sh: "unat (h + 1) = Suc (unat h)" using h by unat_arith
  have m': "unat m = epoch_spec (plan_of e) (unat h)"
    using GetEpochNumber_refines[OF ok, of h] m by auto
  have n': "unat n = epoch_spec (plan_of e) (Suc (unat h))"
    "unat s = start_spec (plan_of e) (unat n)"
    using epoch_prologue_spec[OF ok, of "h + 1"] n sh by fastforce+
  have *: "unat n = (if unat s = Suc (unat h) then Suc (unat m) else unat m)"
    using epoch_spec_Suc[OF ctx_okD(4)[OF ok], of "unat h"] unfolding n' m' by simp
  show ?thesis
  proof (cases "h + 1 = s")
    case True
    then have s: "unat n = Suc (unat m)" using * sh by auto
    then have "unat (m + 1) = unat n" using unat_add_small[of m 1] unat_u64_less[of n] by simp
    with True s show ?thesis by (auto simp: word_unat_eq_iff word_less_nat_alt)
  next
    case False
    then have "unat s \<noteq> Suc (unat h)" using sh by (metis word_unat_eq_iff)
    with False * show ?thesis by (auto simp: word_unat_eq_iff)
  qed
qed

text \<open>
  The height at which the deployed configuration (\<open>config.yaml\<close>) is evaluated by the witnesses:
  24 delegates, 15 sub-epochs, 30 from height 1816201 on.
\<close>

definition mainnet_ctx :: EpochCtx where
  "mainnet_ctx =
     \<lparr>numCandidateDelegates = 36, numDelegates = 24, numSubEpochs = 15,
      numSubEpochsDardanelles = 30, dardanellesHeight = 1816201, dardanellesOn = True,
      fairbankHeight = 5165641\<rparr>"

lemma mainnet_new:
  "NewEpochCtx 36 24 15 [EnableDardanellesSubEpoch 1816201 30, FairbankHeight 5165641] = Inr mainnet_ctx"
  by (simp add: NewEpochCtx_def EnableDardanellesSubEpoch_def FairbankHeight_def mainnet_ctx_def)

lemma mainnet_ok: "ctx_ok mainnet_ctx"
  by (simp add: ctx_ok_def plan_ok_def plan_of_def mainnet_ctx_def switch_start_def switch_epoch_def
      old_start_def old_epoch_def)

lemma mainnet_start: "start_spec (plan_of mainnet_ctx) 5046 = 1816201"
  by (simp add: start_spec_def plan_of_def mainnet_ctx_def switch_start_def switch_epoch_def
      old_start_def old_epoch_def)

text \<open>A context with one block per epoch, for witnesses that need finished epochs.\<close>

definition tiny_ctx :: EpochCtx where
  "tiny_ctx =
     \<lparr>numCandidateDelegates = 1, numDelegates = 1, numSubEpochs = 1, numSubEpochsDardanelles = 1,
      dardanellesHeight = 1, dardanellesOn = True, fairbankHeight = 0\<rparr>"

lemma tiny_ok: "ctx_ok tiny_ctx"
  by (simp add: ctx_ok_def plan_ok_def plan_of_def tiny_ctx_def)

subsection \<open>Properties\<close>

text \<open>C1: The \<open>uint64\<close> code of \<open>GetEpochNumber\<close> computes the natural-number specification at
  every height, without a panic and without a wrap-around, for every well-formed epoch context;
  \<open>GetEpochHeight\<close> does so for every epoch that starts below \<open>2 ^ 64\<close>.\<close>

theorem epoch_code_refines_spec:
  assumes "ctx_ok e"
  shows "map_sum id unat (GetEpochNumber e h) = Inr (epoch_spec (plan_of e) (unat h)) \<and>
    (start_spec (plan_of e) (unat n) < 2 ^ 64 \<longrightarrow>
     map_sum id unat (GetEpochHeight e n) = Inr (start_spec (plan_of e) (unat n)))"
  using GetEpochNumber_refines[OF assms, of h] GetEpochHeight_refines[OF assms, of n] by auto

lemma epoch_code_refines_spec_witness:
  "map_sum id unat (GetEpochNumber mainnet_ctx 1816201) = Inr (epoch_spec (plan_of mainnet_ctx) 1816201) \<and>
   map_sum id unat (GetEpochHeight mainnet_ctx 5046) = Inr (1816201 :: nat)"
  using epoch_code_refines_spec[OF mainnet_ok, where h = 1816201 and n = 5046]
  by (simp add: mainnet_start)

text \<open>The epoch that \<open>GetEpochNumber\<close> returns for a block really contains it: the block is at
  or after the epoch's first height, before the first height of the next epoch, and no other epoch
  has that property.\<close>

theorem epoch_contains_block:
  assumes ok: "ctx_ok e" and h: "h \<noteq> 0"
    and n: "GetEpochNumber e h = Inr n"
    and next_start: "start_spec (plan_of e) (unat n + 1) < 2 ^ 64"
  shows "(\<exists>s t. GetEpochHeight e n = Inr s \<and> GetEpochHeight e (n + 1) = Inr t \<and> s \<le> h \<and> h < t) \<and>
    (\<forall>m s t. m \<noteq> 0 \<and> unat m < 2 ^ 64 - 1 \<and> start_spec (plan_of e) (unat m + 1) < 2 ^ 64 \<and>
       GetEpochHeight e m = Inr s \<and> GetEpochHeight e (m + 1) = Inr t \<and> s \<le> h \<and> h < t \<longrightarrow> m = n)"
proof -
  have ok': "plan_ok (plan_of e)" by (rule ctx_okD[OF ok])
  have n': "unat n = epoch_spec (plan_of e) (unat h)"
    using GetEpochNumber_refines[OF ok, of h] n by auto
  have suc: "\<exists>s t. GetEpochHeight e m = Inr s \<and> GetEpochHeight e (m + 1) = Inr t \<and>
      unat s = start_spec (plan_of e) (unat m) \<and> unat t = start_spec (plan_of e) (unat m + 1)"
    if "start_spec (plan_of e) (unat m + 1) < 2 ^ 64" "unat m < 2 ^ 64 - 1" for m
  proof -
    have "unat (m + 1) = unat m + 1" using that(2) unat_add_small[of m 1] by simp
    then show ?thesis
      using GetEpochHeight_refines[OF ok, of m] GetEpochHeight_refines[OF ok, of "m + 1"] that
        start_spec_Suc[OF ok', of "unat m"] by fastforce
  qed
  have pos: "0 < unat h" using h by (simp add: unat_gt_0)
  have "unat n < start_spec (plan_of e) (unat n + 1)"
    using start_spec_strict_mono[OF ok'] epoch_spec_le[of "plan_of e" "unat h"]
      before_next_epoch[OF ok' pos] n' by (metis le_less_trans)
  with next_start have "unat n < 2 ^ 64 - 1" using before_next_epoch[OF ok' pos] n'
      epoch_spec_le[of "plan_of e" "unat h"] by linarith
  from suc[OF next_start this]
  have contains: "\<exists>s t. GetEpochHeight e n = Inr s \<and> GetEpochHeight e (n + 1) = Inr t \<and> s \<le> h \<and> h < t"
    using start_of_epoch_le[OF pos] before_next_epoch[OF ok' pos] n'
    by (fastforce simp: word_le_nat_alt word_less_nat_alt)
  have unique: "m = n" if "m \<noteq> 0" "unat m < 2 ^ 64 - 1" "start_spec (plan_of e) (unat m + 1) < 2 ^ 64"
    "GetEpochHeight e m = Inr s" "GetEpochHeight e (m + 1) = Inr t" "s \<le> h" "h < t" for m s t
  proof -
    have "unat s = start_spec (plan_of e) (unat m)" "unat t = start_spec (plan_of e) (unat m + 1)"
      using suc[OF that(3,2)] that by auto
    then have "epoch_spec (plan_of e) (unat h) = unat m"
      using epoch_spec_unique[OF ok', of "unat m" "unat h"] that
      by (simp add: word_le_nat_alt word_less_nat_alt unat_gt_0)
    with n' show ?thesis by (simp add: word_unat_eq_iff)
  qed
  show ?thesis using contains unique by blast
qed

lemma mainnet_number: "GetEpochNumber mainnet_ctx 2000000 = Inr 5301"
proof -
  obtain n where n: "GetEpochNumber mainnet_ctx 2000000 = Inr n"
      "unat n = epoch_spec (plan_of mainnet_ctx) 2000000"
    using GetEpochNumber_refines[OF mainnet_ok, of 2000000] by auto
  have "epoch_spec (plan_of mainnet_ctx) 2000000 = 5301"
    by (simp add: epoch_spec_def plan_of_def mainnet_ctx_def switch_start_def switch_epoch_def
      old_start_def old_epoch_def)
  with n show ?thesis by (simp add: word_unat_eq_iff)
qed

lemma epoch_contains_block_witness:
  "\<exists>s t. GetEpochHeight mainnet_ctx 5301 = Inr s \<and> GetEpochHeight mainnet_ctx (5301 + 1) = Inr t
     \<and> s \<le> 2000000 \<and> 2000000 < t"
  by (rule epoch_contains_block[OF mainnet_ok _ mainnet_number, THEN conjunct1])
    (simp_all add: start_spec_def plan_of_def mainnet_ctx_def switch_start_def switch_epoch_def
      old_start_def old_epoch_def)

text \<open>The first height of an epoch belongs to that epoch: \<open>GetEpochNumber\<close> inverts
  \<open>GetEpochHeight\<close>, on both sides of the Dardanelles height.\<close>

theorem epoch_number_of_start:
  assumes ok: "ctx_ok e" and n: "n \<noteq> 0" and small: "start_spec (plan_of e) (unat n) < 2 ^ 64"
  shows "andThen (GetEpochHeight e n) (GetEpochNumber e) = Inr n"
proof -
  obtain s where s: "GetEpochHeight e n = Inr s" "unat s = start_spec (plan_of e) (unat n)"
    using GetEpochHeight_refines[OF ok small] by blast
  obtain m where "GetEpochNumber e s = Inr m" "unat m = epoch_spec (plan_of e) (unat s)"
    using GetEpochNumber_refines[OF ok] by blast
  moreover have "epoch_spec (plan_of e) (start_spec (plan_of e) (unat n)) = unat n"
    using n by (intro epoch_of_start[OF ctx_okD(4)[OF ok]]) (simp add: unat_gt_0)
  ultimately have "GetEpochNumber e s = Inr m \<and> unat m = unat n" using s(2) by simp
  then show ?thesis using s(1) by (auto simp: word_unat_eq_iff)
qed

lemma epoch_number_of_start_witness:
  "andThen (GetEpochHeight mainnet_ctx 5046) (GetEpochNumber mainnet_ctx) = Inr 5046"
  by (rule epoch_number_of_start[OF mainnet_ok]) (simp_all add: mainnet_start)

end
