(* ===== verification/Sql.thy ===== *)
theory Sql imports Go_Num begin

text \<open>
  The SQL statements of the repository as functions on tables, a table being the list of its
  rows: \<open>INSERT\<close> under a unique key, \<open>INSERT IGNORE\<close>, \<open>GROUP BY\<close> with \<open>SUM\<close> and \<open>COUNT\<close>.
  A \<open>DECIMAL(65, 0)\<close> column holds an integer.

  \<open>unique_table\<close> is the contract of a table with a unique key that rows are only added to.
  \<open>epoch_aggregate\<close> is the contract of the tables that are rebuilt once per epoch from a history
  table; \<open>built\<close> says what such a table holds, and the two lemmas of the locale that it is kept
  by the rebuild and by new history.
\<close>

subsection \<open>Inserting under a unique key\<close>

fun insert_ignore :: "('r \<Rightarrow> 'k) \<Rightarrow> 'r list \<Rightarrow> 'r list \<Rightarrow> 'r list" where
  "insert_ignore key [] t = t"
| "insert_ignore key (r # rs) t =
     insert_ignore key rs (if key r \<in> key ` set t then t else t @ [r])"

fun insert_unique :: "('r \<Rightarrow> 'k) \<Rightarrow> 'r list \<Rightarrow> 'r list \<Rightarrow> go_error + 'r list" where
  "insert_unique key [] t = Inr t"
| "insert_unique key (r # rs) t =
     (if key r \<in> key ` set t then Inl (ErrSQL ''Duplicate entry'')
      else insert_unique key rs (t @ [r]))"

text \<open>A statement built with an empty list of \<open>VALUES\<close> is a syntax error.\<close>

definition exec_values :: "'r list \<Rightarrow> (go_error + 'r list) \<Rightarrow> go_error + 'r list" where
  "exec_values rs res = (if rs = [] then Inl (ErrSQL ''syntax error'') else res)"

text \<open>A decimal string written into a \<open>DECIMAL(65, 0)\<close> column.\<close>

definition sql_decimal :: "string \<Rightarrow> go_error + int" where
  "sql_decimal s = (case big_SetString 10 s of
     None \<Rightarrow> Inl (ErrSQL ''Incorrect decimal value'') | Some n \<Rightarrow> Inr n)"

lemma sql_decimal_String [simp]: "sql_decimal (big_String n) = Inr n"
  by (simp add: sql_decimal_def big_SetString_String)

locale unique_table =
  fixes key :: "'r \<Rightarrow> 'k"
    and ins :: "'r list \<Rightarrow> 'r list \<Rightarrow> 'r list"
  assumes ins_distinct: "distinct (map key t) \<Longrightarrow> distinct (map key (ins rs t))"
    and ins_extends: "\<exists>us. ins rs t = t @ us \<and> set us \<subseteq> set rs"
    and ins_covers: "key ` set (ins rs t) = key ` set t \<union> key ` set rs"
begin

lemma ins_keeps: "r \<in> set t \<Longrightarrow> r \<in> set (ins rs t)"
  using ins_extends[of rs t] by auto

lemma ins_from: "r \<in> set (ins rs t) \<Longrightarrow> r \<in> set t \<or> r \<in> set rs"
  using ins_extends[of rs t] by auto

text \<open>The row found under a key never changes once it is there.\<close>

lemma ins_stable:
  assumes "distinct (map key t)" "r \<in> set t" "q \<in> set (ins rs t)" "key q = key r"
  shows "q = r"
proof -
  have "inj_on key (set (ins rs t))"
    using ins_distinct[OF assms(1)] by (simp add: distinct_map)
  then show ?thesis
    using assms ins_keeps[of r t rs] by (auto dest: inj_onD)
qed

end

lemma insert_ignore_extends: "\<exists>us. insert_ignore key rs t = t @ us \<and> set us \<subseteq> set rs"
proof (induction rs arbitrary: t)
  case (Cons r rs)
  obtain us where "insert_ignore key rs (if key r \<in> key ` set t then t else t @ [r])
      = (if key r \<in> key ` set t then t else t @ [r]) @ us" "set us \<subseteq> set rs"
    using Cons.IH by blast
  then show ?case by (auto split: if_splits)
qed simp

lemma insert_ignore_distinct:
  "distinct (map key t) \<Longrightarrow> distinct (map key (insert_ignore key rs t))"
  by (induction rs arbitrary: t) simp_all

lemma insert_ignore_covers: "key ` set (insert_ignore key rs t) = key ` set t \<union> key ` set rs"
proof (induction rs arbitrary: t)
  case (Cons r rs)
  show ?case by (cases "key r \<in> key ` set t") (auto simp: Cons.IH)
qed simp

interpretation ignoring: unique_table key "insert_ignore key" for key :: "'r \<Rightarrow> 'k"
  by unfold_locales (simp_all add: insert_ignore_extends insert_ignore_distinct insert_ignore_covers)

lemma insert_ignore_new:
  "distinct (map key rs) \<Longrightarrow> key ` set rs \<inter> key ` set t = {} \<Longrightarrow> insert_ignore key rs t = t @ rs"
  by (induction rs arbitrary: t) auto

lemma insert_ignore_present: "key ` set rs \<subseteq> key ` set t \<Longrightarrow> insert_ignore key rs t = t"
  by (induction rs) auto

lemma insert_unique_eq_Inr:
  "insert_unique key rs t = Inr u \<longleftrightarrow>
   u = t @ rs \<and> distinct (map key rs) \<and> key ` set rs \<inter> key ` set t = {}"
  by (induction rs arbitrary: t) auto

subsection \<open>Grouping\<close>

text \<open>\<open>SELECT key, SUM(val) ... GROUP BY key\<close>; \<open>COUNT\<close> is the sum of ones.\<close>

definition group_sum :: "('r \<Rightarrow> 'k) \<Rightarrow> ('r \<Rightarrow> int) \<Rightarrow> 'r list \<Rightarrow> ('k \<times> int) list" where
  "group_sum key val rs = fold (\<lambda>r m. AList.map_default (key r) (val r) (\<lambda>x. x + val r) m) rs []"

definition group_count :: "('r \<Rightarrow> 'k) \<Rightarrow> 'r list \<Rightarrow> ('k \<times> int) list" where
  "group_count key rs = group_sum key (\<lambda>_. 1) rs"

lemma fold_group_distinct:
  "distinct_keys m \<Longrightarrow>
   distinct_keys (fold (\<lambda>r m. AList.map_default (key r) (val r) (\<lambda>x. x + val r) m) rs m)"
  by (induction rs arbitrary: m) simp_all

lemma fold_group_keys:
  "keys (fold (\<lambda>r m. AList.map_default (key r) (val r) (\<lambda>x. x + val r) m) rs m)
   = keys m \<union> key ` set rs"
  by (induction rs arbitrary: m) auto

lemma fold_group_get:
  fixes val :: "'r \<Rightarrow> int"
  shows "get_or 0 (fold (\<lambda>r m. AList.map_default (key r) (val r) (\<lambda>x. x + val r) m) rs m) k
    = get_or 0 m k + sum_list (map val (filter (\<lambda>r. key r = k) rs))"
  by (induction rs arbitrary: m) (simp_all only: fold_simps get_or_default_sum, simp_all)

lemma fold_group_sum:
  fixes val :: "'r \<Rightarrow> int"
  shows "sum_list (map snd (fold (\<lambda>r m. AList.map_default (key r) (val r) (\<lambda>x. x + val r) m) rs m))
    = sum_list (map snd m) + sum_list (map val rs)"
  by (induction rs arbitrary: m) (simp_all add: sum_map_default)

lemma group_sum_distinct [simp]: "distinct_keys (group_sum key val rs)"
  unfolding group_sum_def by (rule fold_group_distinct) simp

lemma group_sum_keys [simp, keys_simps]: "keys (group_sum key val rs) = key ` set rs"
  unfolding group_sum_def fold_group_keys by simp

lemma group_sum_get: 
  "get_or 0 (group_sum key val rs) k = sum_list (map val (filter (\<lambda>r. key r = k) rs))"
  unfolding group_sum_def fold_group_get by (simp add: get_or_def)

lemma group_sum_total: "sum_list (map snd (group_sum key val rs)) = sum_list (map val rs)"
  unfolding group_sum_def fold_group_sum by simp

lemma group_sum_map_of:
  "map_of (group_sum key val rs) k =
   (if k \<in> key ` set rs then Some (sum_list (map val (filter (\<lambda>r. key r = k) rs))) else None)"
proof (cases "map_of (group_sum key val rs) k")
  case None
  then have "k \<notin> keys (group_sum key val rs)" by (simp add: map_of_eq_None_iff)
  with None show ?thesis by simp
next
  case (Some v)
  then have "k \<in> keys (group_sum key val rs)" by (simp add: map_of_eq_None_iff[symmetric] dom_map_of_conv_image_fst[symmetric] domI)
  with Some show ?thesis using group_sum_get[of key val rs k] by (simp add: get_or_def)
qed

lemma group_sum_mem:
  "(k, v) \<in> set (group_sum key val rs) \<longleftrightarrow>
   k \<in> key ` set rs \<and> v = sum_list (map val (filter (\<lambda>r. key r = k) rs))"
proof -
  have "(k, v) \<in> set (group_sum key val rs) \<longleftrightarrow> map_of (group_sum key val rs) k = Some v"
    by (simp add: map_of_eq_Some_iff)
  then show ?thesis by (auto simp: group_sum_map_of)
qed

subsection \<open>Tables rebuilt once per epoch\<close>

text \<open>
  \<open>built epoch agg n hs t\<close>: the table \<open>t\<close> holds, for each epoch from 1 up to but not including
  \<open>n\<close>, exactly the rows that \<open>agg\<close> computes from the history \<open>hs\<close>, and nothing else.
\<close>

definition built ::
  "('r \<Rightarrow> u64) \<Rightarrow> (u64 \<Rightarrow> 'h list \<Rightarrow> 'r list) \<Rightarrow> u64 \<Rightarrow> 'h list \<Rightarrow> 'r list \<Rightarrow> bool" where
  "built epoch agg n hs t \<longleftrightarrow>
     (\<forall>r \<in> set t. 0 < epoch r \<and> epoch r < n) \<and>
     (\<forall>e. 0 < e \<and> e < n \<longrightarrow> filter (\<lambda>r. epoch r = e) t = agg e hs)"

lemma built_Nil: "built epoch agg 0 hs []" "built epoch agg 1 hs []"
  by (auto simp: built_def word_less_nat_alt)

lemma built_rows: "built epoch agg n hs t \<Longrightarrow> 0 < e \<Longrightarrow> e < n \<Longrightarrow> filter (\<lambda>r. epoch r = e) t = agg e hs"
  by (simp add: built_def)

lemma built_none: "built epoch agg n hs t \<Longrightarrow> n \<le> e \<Longrightarrow> filter (\<lambda>r. epoch r = e) t = []"
  by (auto simp: built_def filter_empty_conv)

locale epoch_aggregate =
  fixes key :: "'r \<Rightarrow> 'k"
    and epoch :: "'r \<Rightarrow> u64"
    and hist_epoch :: "'h \<Rightarrow> u64"
    and agg :: "u64 \<Rightarrow> 'h list \<Rightarrow> 'r list"
  assumes agg_epoch: "r \<in> set (agg e hs) \<Longrightarrow> epoch r = e"
    and agg_local: "agg e hs = agg e (filter (\<lambda>h. hist_epoch h = e) hs)"
    and agg_distinct: "distinct (map key (agg e hs))"
    and key_epoch: "key r = key q \<Longrightarrow> epoch r = epoch q"
begin

lemma rebuild_fresh:
  assumes "built epoch agg n hs t"
  shows "insert_ignore key (agg n hs) t = t @ agg n hs"
proof (rule insert_ignore_new[OF agg_distinct])
  show "key ` set (agg n hs) \<inter> key ` set t = {}"
  proof (rule ccontr)
    assume "key ` set (agg n hs) \<inter> key ` set t \<noteq> {}"
    then obtain q r where "q \<in> set (agg n hs)" "r \<in> set t" "key q = key r" by auto
    then have "r \<in> set t" "epoch r = n" using agg_epoch key_epoch by metis+
    with assms show False by (auto simp: built_def)
  qed
qed

lemma built_rebuild:
  assumes b: "built epoch agg n hs t" and n: "0 < n" "n < n + 1"
  shows "built epoch agg (n + 1) hs (insert_ignore key (agg n hs) t)"
proof -
  have lt: "e < n + 1 \<longleftrightarrow> e < n \<or> e = n" for e
    using u64_less_Suc[OF n(2), of e] by (auto simp: order_le_less)
  have none: "filter (\<lambda>r. epoch r = n) t = []" using built_none[OF b] by simp
  have agg: "filter (\<lambda>r. epoch r = e) (agg n hs) = (if e = n then agg n hs else [])" for e
    using agg_epoch by (auto intro: filter_False filter_True)
  show ?thesis
    unfolding rebuild_fresh[OF b] built_def
  proof (intro conjI ballI allI impI)
    fix r assume "r \<in> set (t @ agg n hs)"
    then show "0 < epoch r" and "epoch r < n + 1"
      using b n agg_epoch by (auto simp: built_def lt)
  next
    fix e assume "0 < e \<and> e < n + 1"
    then show "filter (\<lambda>r. epoch r = e) (t @ agg n hs) = agg e hs"
      using built_rows[OF b] none by (auto simp: lt agg)
  qed
qed

lemma built_append:
  assumes b: "built epoch agg n hs t" and new: "\<And>h. h \<in> set new \<Longrightarrow> n \<le> hist_epoch h"
  shows "built epoch agg n (hs @ new) t"
proof -
  have "agg e (hs @ new) = agg e hs" if "e < n" for e
  proof -
    have "filter (\<lambda>h. hist_epoch h = e) new = []"
      using new that by (fastforce simp: filter_empty_conv)
    then show ?thesis using agg_local[of e "hs @ new"] agg_local[of e hs] by simp
  qed
  with b show ?thesis by (simp add: built_def)
qed

end

text \<open>
  The aggregates of the repository group one epoch of a history table by a name. A row
  \<open>(epoch_number, name, value)\<close> of the rebuilt table is \<open>((epoch_number, name), value)\<close>: its
  first component is the table's unique key.
\<close>

type_synonym epoch_row = "(u64 \<times> string) \<times> int"

definition epoch_group ::
  "('h \<Rightarrow> u64) \<Rightarrow> ('h \<Rightarrow> string) \<Rightarrow> ('h \<Rightarrow> int) \<Rightarrow> u64 \<Rightarrow> 'h list \<Rightarrow> epoch_row list" where
  "epoch_group ep name val e hs = group_sum (\<lambda>h. (ep h, name h)) val (filter (\<lambda>h. ep h = e) hs)"

lemma epoch_group_keys: "keys (epoch_group ep name val e hs) = {(e, name h) | h. h \<in> set hs \<and> ep h = e}"
  by (auto simp: epoch_group_def)

interpretation grouped: epoch_aggregate fst "\<lambda>r. fst (fst r)" ep "epoch_group ep name val"
  for ep :: "'h \<Rightarrow> u64" and name :: "'h \<Rightarrow> string" and val :: "'h \<Rightarrow> int"
proof unfold_locales
  show "fst (fst r) = e" if "r \<in> set (epoch_group ep name val e hs)" for r e hs
  proof -
    have "fst r \<in> keys (epoch_group ep name val e hs)" using that by simp
    then show ?thesis by (auto simp: epoch_group_keys)
  qed
  show "epoch_group ep name val e hs = epoch_group ep name val e (filter (\<lambda>h. ep h = e) hs)" for e hs
    by (simp add: epoch_group_def)
  show "distinct (map fst (epoch_group ep name val e hs))" for e hs
    by (simp add: epoch_group_def)
  show "fst (fst r) = fst (fst q)" if "fst r = fst q" for r q :: epoch_row
    using that by simp
qed

lemma epoch_group_value:
  "((e, a), v) \<in> set (epoch_group ep name val e hs) \<longleftrightarrow>
   (\<exists>h \<in> set hs. ep h = e \<and> name h = a) \<and>
   v = sum_list (map val (filter (\<lambda>h. ep h = e \<and> name h = a) hs))"
proof -
  have "filter (\<lambda>h. (ep h, name h) = (e, a)) (filter (\<lambda>h. ep h = e) hs)
      = filter (\<lambda>h. ep h = e \<and> name h = a) hs"
    by (induction hs) auto
  then show ?thesis by (auto simp: epoch_group_def group_sum_mem)
qed

lemma epoch_group_get:
  "get_or 0 (epoch_group ep name val e hs) (e, a) =
   sum_list (map val (filter (\<lambda>h. ep h = e \<and> name h = a) hs))"
proof -
  have "filter (\<lambda>h. (ep h, name h) = (e, a)) (filter (\<lambda>h. ep h = e) hs)
      = filter (\<lambda>h. ep h = e \<and> name h = a) hs"
    by (induction hs) auto
  then show ?thesis by (simp add: epoch_group_def group_sum_get)
qed

lemma epoch_group_total:
  "sum_list (map snd (epoch_group ep name val e hs)) = sum_list (map val (filter (\<lambda>h. ep h = e) hs))"
  by (simp add: epoch_group_def group_sum_total)

lemma epoch_group_distinct [simp]: "distinct_keys (epoch_group ep name val e hs)"
  by (simp add: epoch_group_def)

lemma built_0_1: "built epoch agg 0 hs t \<Longrightarrow> built epoch agg 1 hs t"
  by (auto simp: built_def word_less_nat_alt)

end
