(* ===== verification/Chain.thy ===== *)
theory Chain imports Go_Float Epoch Sql begin

text \<open>
  The values the indexer receives from the packages it is built on (\<open>iotex-core\<close>,
  \<open>iotex-proto\<close>, \<open>iotex-address\<close>, \<open>iotex-election\<close>, \<open>go-ethereum\<close>) and the calls it makes into
  them. None of that code is in the repository: the data are records with the fields the
  repository reads, and the calls are the functions of \<open>chain_client\<close>, \<open>election_client\<close> and
  \<open>libs\<close>, which every definition that uses them takes as an argument, inside an \<open>IndexCtx\<close>
  (\<open>indexcontext/context.go\<close>). Byte strings are strings; a hash is its 32 bytes.
\<close>

subsection \<open>Blocks\<close>

datatype (discs_sels) action =
    Transfer int
  | Execution int
  | DepositToRewardingFund int
  | ClaimFromRewardingFund int
  | GrantReward
  | CreateStake int
  | Unstake
  | WithdrawStake
  | DepositToStake int
  | Restake
  | ChangeCandidate
  | TransferStake
  | CandidateRegister int
  | CandidateUpdate
  | PutPollResult
  | OtherAction

record sealed_envelope =
  selp_Hash :: string
  selp_SrcPubkeyHash :: string
  selp_Destination :: string
  selp_GasPrice :: int
  selp_Nonce :: u64
  selp_Action :: action

record event_log =
  log_Address :: string
  log_Topics :: "string list"
  log_Data :: string
  log_BlockHeight :: u64
  log_ActionHash :: string
  log_Index :: u64

record receipt =
  rcp_Status :: u64
  rcp_ActionHash :: string
  rcp_Hash :: string
  rcp_GasConsumed :: u64
  rcp_Logs :: "event_log list"

record block =
  blk_Height :: u64
  blk_HashBlock :: string
  blk_ProducerAddress :: string
  blk_Timestamp :: int
  blk_TimestampString :: string
  blk_Actions :: "sealed_envelope list"
  blk_Receipts :: "receipt list"

definition ZeroHash256 :: string where
  "ZeroHash256 = replicate 32 (char_of (0 :: nat))"

subsection \<open>Transaction logs\<close>

datatype TransactionLogType =
    IN_CONTRACT_TRANSFER
  | WITHDRAW_BUCKET
  | CREATE_BUCKET
  | DEPOSIT_TO_BUCKET
  | CANDIDATE_SELF_STAKE
  | CANDIDATE_REGISTRATION_FEE
  | GAS_FEE
  | NATIVE_TRANSFER
  | DEPOSIT_TO_REWARDING_FUND
  | CLAIM_FROM_REWARDING_FUND
  | OtherTransactionLogType

record transaction =
  txn_Type :: TransactionLogType
  txn_Recipient :: string
  txn_Sender :: string
  txn_Amount :: string

record transaction_log =
  tl_ActionHash :: string
  tl_Transactions :: "transaction list"

subsection \<open>Candidates, buckets and reward logs\<close>

record election_candidate =
  ec_Name :: string
  ec_OperatorAddress :: string
  ec_RewardAddress :: string

text \<open>Timestamps are nanoseconds since 1970.\<close>

record VoteBucket =
  vb_Index :: u64
  vb_CandidateAddress :: string
  vb_StakedAmount :: string
  vb_StakedDuration :: u32
  vb_CreateTime :: int
  vb_StakeStartTime :: int
  vb_UnstakeStartTime :: int
  vb_AutoStake :: bool
  vb_Owner :: string

record CandidateV2 =
  cand_OwnerAddress :: string
  cand_OperatorAddress :: string
  cand_RewardAddress :: string
  cand_Name :: string
  cand_TotalWeightedVotes :: string
  cand_SelfStakeBucketIdx :: u64
  cand_SelfStakingTokens :: string

record ProbationCandidateList =
  pl_IntensityRate :: u32
  pl_ProbationList :: "(string \<times> u32) list"

datatype RewardType = BLOCK_REWARD | EPOCH_REWARD | FOUNDATION_BONUS | OtherRewardType

record RewardLog =
  rl_Addr :: string
  rl_Type :: RewardType
  rl_Amount :: string

subsection \<open>Calls\<close>

record ReadStateRequest =
  rq_ProtocolID :: string
  rq_MethodName :: string
  rq_Arguments :: "string list"
  rq_Height :: string

record BlockInfo =
  bi_Block :: string
  bi_Receipts :: "string list"

record chain_client =
  cc_ReadState :: "ReadStateRequest \<Rightarrow> go_error + string"
  cc_GetTransactionLogByBlockHeight :: "u64 \<Rightarrow> go_error + transaction_log list"
  cc_ReadContract :: "string \<Rightarrow> string \<Rightarrow> go_error + u64 \<times> string"
  cc_GetRawBlocks :: "u64 \<Rightarrow> u64 \<Rightarrow> go_error + BlockInfo list"
  cc_GetChainMeta :: "go_error + u64"
  cc_GetLogs :: "string \<Rightarrow> string \<Rightarrow> u64 \<Rightarrow> u64 \<Rightarrow> go_error + event_log list"

record election_client =
  el_GetCandidates :: "string \<Rightarrow> go_error + election_candidate list"

record libs =
  lib_MarshalStakingMethod :: "string \<Rightarrow> go_error + string"
  lib_MarshalStakingRequest :: "string \<Rightarrow> u32 \<Rightarrow> u32 \<Rightarrow> go_error + string"
  lib_UnmarshalBuckets :: "string \<Rightarrow> go_error + VoteBucket list"
  lib_UnmarshalCandidates :: "string \<Rightarrow> go_error + CandidateV2 list"
  lib_UnmarshalRewardLog :: "string \<Rightarrow> go_error + RewardLog"
  lib_DeserializeCandidateList :: "string \<Rightarrow> go_error + string list"
  lib_ConvertFromBlockPb :: "string \<Rightarrow> go_error + block"
  lib_ConvertFromReceiptPb :: "string \<Rightarrow> receipt"
  lib_AddressFromBytes :: "string \<Rightarrow> go_error + string"
  lib_Hash160b :: "string \<Rightarrow> string"
  lib_Keccak256 :: "string \<Rightarrow> string"
  lib_HexToAddress :: "string \<Rightarrow> string"
  lib_UnpackDistribute :: "string \<Rightarrow> go_error + int \<times> int"
  lib_HashBucket :: "VoteBucket \<Rightarrow> go_error + string"
  lib_HashCandidate :: "CandidateV2 \<Rightarrow> go_error + string"
  lib_IoAddrToEvmAddr :: "string \<Rightarrow> go_error + string"
  lib_UnpackProfileUpdated :: "string \<Rightarrow> go_error + string \<times> string \<times> string"
  lib_UnmarshalProbationList :: "string \<Rightarrow> go_error + ProbationCandidateList"
  lib_IsNotFound :: "go_error \<Rightarrow> bool"
  lib_Sort :: "(string \<times> int) list \<Rightarrow> u64 \<Rightarrow> string list"
  lib_Log :: "f64 \<Rightarrow> f64"
  lib_Retry :: "nat \<Rightarrow> go_error + u64 \<Rightarrow> go_error + u64"

text \<open>
  \<open>lib_HashBucket\<close> and \<open>lib_HashCandidate\<close> are the hash of the protobuf message, \<open>lib_Sort\<close> is
  \<open>util.Sort\<close> of iotex-election, which orders names by decreasing votes, and \<open>lib_Log\<close> is
  \<open>math.Log\<close>, whose documentation fixes no rounding. \<open>lib_Retry\<close> is \<open>backoff.Retry\<close> with a maximal number of retries, applied to the result its
  operation has against this chain; documented, it returns the operation's result when that is no
  error and its last error otherwise.
\<close>

text \<open>\<open>indexcontext.IndexCtx\<close>, with the library calls beside it.\<close>

record IndexCtx =
  ChainClient :: chain_client
  ElectionClient :: election_client
  ConsensusScheme :: string
  Libs :: libs

definition ROLLDPOS :: string where
  "ROLLDPOS = ''ROLLDPOS''"

text \<open>\<open>db.ErrNotExist\<close> of iotex-election; \<open>ErrNotExist\<close> is the repository's own error.\<close>

definition db_ErrNotExist :: go_error where
  "db_ErrNotExist = ErrExternal ''not exist in DB''"

text \<open>
  A context in which every call fails. The witnesses of the properties take it and replace the
  calls they need.
\<close>

definition offline :: "go_error + 'a" where
  "offline = Inl (ErrExternal ''unavailable'')"

definition offline_ctx :: IndexCtx where
  "offline_ctx =
     \<lparr>ChainClient =
        \<lparr>cc_ReadState = \<lambda>_. offline, cc_GetTransactionLogByBlockHeight = \<lambda>_. offline,
         cc_ReadContract = \<lambda>_ _. offline, cc_GetRawBlocks = \<lambda>_ _. offline, cc_GetChainMeta = offline,
         cc_GetLogs = \<lambda>_ _ _ _. offline\<rparr>,
      ElectionClient = \<lparr>el_GetCandidates = \<lambda>_. offline\<rparr>,
      ConsensusScheme = [],
      Libs =
        \<lparr>lib_MarshalStakingMethod = \<lambda>_. offline, lib_MarshalStakingRequest = \<lambda>_ _ _. offline,
         lib_UnmarshalBuckets = \<lambda>_. offline, lib_UnmarshalCandidates = \<lambda>_. offline,
         lib_UnmarshalRewardLog = \<lambda>_. offline, lib_DeserializeCandidateList = \<lambda>_. offline,
         lib_ConvertFromBlockPb = \<lambda>_. offline,
         lib_ConvertFromReceiptPb = \<lambda>_.
           \<lparr>rcp_Status = 0, rcp_ActionHash = [], rcp_Hash = [], rcp_GasConsumed = 0, rcp_Logs = []\<rparr>,
         lib_AddressFromBytes = \<lambda>_. offline, lib_Hash160b = \<lambda>_. [], lib_Keccak256 = \<lambda>_. [],
         lib_HexToAddress = \<lambda>_. [], lib_UnpackDistribute = \<lambda>_. offline,
         lib_HashBucket = \<lambda>_. offline, lib_HashCandidate = \<lambda>_. offline, lib_IoAddrToEvmAddr = \<lambda>_. offline,
         lib_UnpackProfileUpdated = \<lambda>_. offline, lib_UnmarshalProbationList = \<lambda>_. offline,
         lib_IsNotFound = \<lambda>_. False, lib_Sort = \<lambda>m _. map fst m, lib_Log = \<lambda>_. 0, lib_Retry = \<lambda>_ r. r\<rparr>\<rparr>"

text \<open>A block without actions.\<close>

definition sample_block :: "u64 \<Rightarrow> block" where
  "sample_block h =
     \<lparr>blk_Height = h, blk_HashBlock = ''h'', blk_ProducerAddress = ''io1p'', blk_Timestamp = 0,
      blk_TimestampString = [], blk_Actions = [], blk_Receipts = []\<rparr>"

end
