(* ===== verification/Index_Protocol.thy ===== *)
theory Index_Protocol imports Chain begin

text \<open>
  \<open>indexprotocol/protocol.go\<close>: the configuration records, the reads of chain state that page
  through all staking buckets and candidates, and the internal encoding of delegate names.
\<close>

record GravityChain =
  GravityChainStartHeight :: u64
  GravityChainAPIs :: "string list"
  RegisterContractAddress :: string
  RewardPercentageStartHeight :: u64

record Rewarding =
  NumDelegatesForEpochReward :: u64
  NumDelegatesForFoundationBonus :: u64
  ProductivityThreshold :: u64
  ExemptCandidatesFromEpochReward :: "string list"

record HermesConfig =
  HermesContractAddress :: string
  MultiSendContractAddressList :: "string list"

type_synonym Genesis = "(string \<times> string) list"

definition PollProtocolID :: string where "PollProtocolID = ''poll''"
definition protocolID :: string where "protocolID = ''staking''"
definition readBucketsLimit :: u32 where "readBucketsLimit = 30000"
definition readCandidatesLimit :: u32 where "readCandidatesLimit = 20000"

subsection \<open>Reading chain state\<close>

definition GetGravityChainStartHeight :: "IndexCtx \<Rightarrow> u64 \<Rightarrow> go_error + u64" where
  "GetGravityChainStartHeight ictx height =
     andThen (wrap ''failed to get gravity chain start height''
       (cc_ReadState (ChainClient ictx)
          \<lparr>rq_ProtocolID = PollProtocolID, rq_MethodName = ''GetGravityChainStartHeight'',
           rq_Arguments = [format_uint height], rq_Height = []\<rparr>)) (\<lambda>data.
     andThen (wrap ''failed to parse gravityChainStartHeight'' (parse_uint 64 data)) (\<lambda>n.
     Inr (of_nat n)))"

definition getStakingBuckets :: "IndexCtx \<Rightarrow> u32 \<Rightarrow> u32 \<Rightarrow> u64 \<Rightarrow> go_error + VoteBucket list" where
  "getStakingBuckets ictx offset limit height =
     andThen (lib_MarshalStakingMethod (Libs ictx) ''BUCKETS'') (\<lambda>methodName.
     andThen (lib_MarshalStakingRequest (Libs ictx) ''BUCKETS'' offset limit) (\<lambda>arg.
     andThen (cc_ReadState (ChainClient ictx)
       \<lparr>rq_ProtocolID = protocolID, rq_MethodName = methodName, rq_Arguments = [arg],
        rq_Height = format_uint height\<rparr>) (\<lambda>data.
     wrap ''failed to unmarshal VoteBucketList'' (lib_UnmarshalBuckets (Libs ictx) data))))"

definition getStakingCandidates :: "IndexCtx \<Rightarrow> u32 \<Rightarrow> u32 \<Rightarrow> u64 \<Rightarrow> go_error + CandidateV2 list" where
  "getStakingCandidates ictx offset limit height =
     andThen (lib_MarshalStakingMethod (Libs ictx) ''CANDIDATES'') (\<lambda>methodName.
     andThen (lib_MarshalStakingRequest (Libs ictx) ''CANDIDATES'' offset limit) (\<lambda>arg.
     andThen (cc_ReadState (ChainClient ictx)
       \<lparr>rq_ProtocolID = protocolID, rq_MethodName = methodName, rq_Arguments = [arg],
        rq_Height = format_uint height\<rparr>) (\<lambda>data.
     wrap ''failed to unmarshal VoteBucketList'' (lib_UnmarshalCandidates (Libs ictx) data))))"

text \<open>
  \<open>for i := uint32(0); ; i++\<close>: both loops ask for page \<open>i\<close> at offset \<open>i * limit\<close> (in \<open>uint32\<close>),
  keep some of its entries and stop at the first page that is not full. A server whose pages are
  always full keeps the loop running forever, so not returning is the value \<open>None\<close>.
\<close>

partial_function (option) read_pages ::
  "string \<Rightarrow> (u32 \<Rightarrow> go_error + 'a list) \<Rightarrow> u32 \<Rightarrow> ('a \<Rightarrow> bool) \<Rightarrow> u32 \<Rightarrow> 'a list \<Rightarrow> (go_error + 'a list) option"
where
  "read_pages msg page limit keep i acc =
     (case wrap msg (page (i * limit)) of
        Inl e \<Rightarrow> Some (Inl e)
      | Inr xs \<Rightarrow>
          if length xs < unat limit then Some (Inr (acc @ filter keep xs))
          else read_pages msg page limit keep (i + 1) (acc @ filter keep xs))"

definition keepBucket :: "VoteBucket \<Rightarrow> bool" where
  "keepBucket b \<longleftrightarrow> \<not> vb_UnstakeStartTime b > vb_StakeStartTime b"

definition GetAllStakingBuckets :: "IndexCtx \<Rightarrow> u64 \<Rightarrow> (go_error + VoteBucket list) option" where
  "GetAllStakingBuckets ictx height =
     read_pages ''failed to get bucket''
       (\<lambda>offset. getStakingBuckets ictx offset readBucketsLimit height) readBucketsLimit keepBucket 0 []"

definition keepCandidate :: "CandidateV2 \<Rightarrow> bool" where
  "keepCandidate c \<longleftrightarrow> cand_SelfStakingTokens c \<noteq> ''0''"

definition GetAllStakingCandidates :: "IndexCtx \<Rightarrow> u64 \<Rightarrow> (go_error + CandidateV2 list) option" where
  "GetAllStakingCandidates ictx height =
     read_pages ''failed to get candidates''
       (\<lambda>offset. getStakingCandidates ictx offset readCandidatesLimit height) readCandidatesLimit
       keepCandidate 0 []"

text \<open>A server that pages through a fixed list.\<close>

definition serves :: "(u32 \<Rightarrow> go_error + 'a list) \<Rightarrow> u32 \<Rightarrow> 'a list \<Rightarrow> bool" where
  "serves page limit items \<longleftrightarrow>
     (\<forall>offset. page offset = Inr (take (unat limit) (drop (unat offset) items)))"

lemma read_pages_from:
  assumes srv: "serves page limit items" and lim: "0 < limit"
    and small: "length items + unat limit < 2 ^ 32"
  shows "unat i * unat limit \<le> length items \<Longrightarrow> read_pages msg page limit keep i acc
    = Some (Inr (acc @ filter keep (drop (unat i * unat limit) items)))"
proof (induction "length items - unat i * unat limit" arbitrary: i acc rule: less_induct)
  case less
  let ?o = "unat i * unat limit"
  have l: "0 < unat limit" using lim by (simp add: word_less_nat_alt)
  have "?o < 2 ^ 32" using less.prems small by linarith
  then have o: "unat (i * limit) = ?o" using unat_mult_lem[of i limit] by simp
  then have pg: "page (i * limit) = Inr (take (unat limit) (drop ?o items))"
    using srv by (simp add: serves_def)
  show ?case
  proof (cases "length (drop ?o items) < unat limit")
    case True
    then show ?thesis by (subst read_pages.simps) (simp add: pg)
  next
    case False
    then have more: "?o + unat limit \<le> length items" using less.prems by simp
    have "unat i * 1 \<le> ?o" using l by (intro mult_left_mono) simp_all
    then have "unat i + 1 < 2 ^ 32" using more small l by linarith
    then have i1: "unat (i + 1) = unat i + 1" using unat_add_lem[of i 1] by simp
    then have o1: "unat (i + 1) * unat limit = ?o + unat limit" by simp
    have dec: "length items - (?o + unat limit) < length items - ?o" using more l by linarith
    have pages: "take (unat limit) (drop ?o items) @ drop (?o + unat limit) items = drop ?o items"
      using append_take_drop_id[of "unat limit" "drop ?o items"] by (simp only: drop_drop add.commute)
    have "read_pages msg page limit keep i acc
        = read_pages msg page limit keep (i + 1) (acc @ filter keep (take (unat limit) (drop ?o items)))"
      by (subst read_pages.simps) (use False in \<open>simp add: pg\<close>)
    also have "\<dots> = Some (Inr ((acc @ filter keep (take (unat limit) (drop ?o items)))
            @ filter keep (drop (?o + unat limit) items)))"
      unfolding o1[symmetric]
      by (rule less.hyps) (simp_all only: o1 dec more)
    also have "(acc @ filter keep (take (unat limit) (drop ?o items))) @ filter keep (drop (?o + unat limit) items)
        = acc @ filter keep (drop ?o items)"
      by (simp only: append_assoc pages flip: filter_append)
    finally show ?thesis .
  qed
qed

lemma read_pages_all:
  "serves page limit items \<Longrightarrow> 0 < limit \<Longrightarrow> length items + unat limit < 2 ^ 32 \<Longrightarrow>
   read_pages msg page limit keep 0 [] = Some (Inr (filter keep items))"
  using read_pages_from[of page limit items 0 msg keep "[]"] by simp

lemma read_pages_error:
  "page (i * limit) = Inl e \<Longrightarrow> read_pages msg page limit keep i acc = Some (wrap msg (Inl e))"
  by (subst read_pages.simps) (simp add: wrap_def)

end
