(* ===== verification/Accounts.thy ===== *)
theory Accounts imports Index_Protocol begin

text \<open>
  \<open>indexprotocol/accounts/protocol.go\<close>: the history of token transfers and, per epoch, the inflow,
  outflow and income of every address. The protocol keeps no memory between blocks; its state is
  its four tables. A row of the three rebuilt tables is \<open>((epoch_number, address), amount)\<close>, its
  first component being the unique key \<open>epoch_address_index\<close>.
\<close>

record balance_history_row =
  bh_EpochNumber :: u64
  bh_BlockHeight :: u64
  bh_ActionHash :: string
  bh_ActionType :: string
  bh_From :: string
  bh_To :: string
  bh_Amount :: int

record accounts_db =
  balance_history :: "balance_history_row list"
  account_inflow :: "epoch_row list"
  account_outflow :: "epoch_row list"
  account_income :: "epoch_row list"

definition specialActionHash :: string where
  "specialActionHash = ZeroHash256"

subsection \<open>Writing the history\<close>

definition insertBalanceHistory ::
  "u64 \<Rightarrow> u64 \<Rightarrow> string \<Rightarrow> string \<Rightarrow> string \<Rightarrow> string \<Rightarrow> string \<Rightarrow> accounts_db \<Rightarrow> go_error + accounts_db"
where
  "insertBalanceHistory epochNumber blockHeight actionHash actionType from to amount db =
     andThen (sql_decimal amount) (\<lambda>n.
     Inr (db\<lparr>balance_history := balance_history db @
       [\<lparr>bh_EpochNumber = epochNumber, bh_BlockHeight = blockHeight, bh_ActionHash = actionHash,
         bh_ActionType = actionType, bh_From = from, bh_To = to, bh_Amount = n\<rparr>]\<rparr>))"

definition updateBalanceHistory ::
  "u64 \<Rightarrow> u64 \<Rightarrow> string \<Rightarrow> string \<Rightarrow> string \<Rightarrow> string \<Rightarrow> string \<Rightarrow> accounts_db \<Rightarrow> go_error + accounts_db"
where
  "updateBalanceHistory epochNumber blockHeight actionHash actionType to from amount db =
     wrap ''failed to update balance history''
       (insertBalanceHistory epochNumber blockHeight actionHash actionType from to amount db)"

text \<open>
  \<open>Initialize\<close> looks for a row of the special action hash in the committed tables and writes the
  genesis balances, in any order, when there is none.
\<close>

definition accounts_Initialize ::
  "((string \<times> string) list \<Rightarrow> (string \<times> string) list) \<Rightarrow> accounts_db \<Rightarrow> Genesis \<Rightarrow> accounts_db \<Rightarrow>
   go_error + accounts_db"
where
  "accounts_Initialize ord committed genesis db =
     (if \<exists>r \<in> set (balance_history committed). bh_ActionHash r = hex_EncodeToString specialActionHash
      then Inr db
      else foldE (\<lambda>(addr, amount) db.
             wrap ''failed to update balance history for address''
               (insertBalanceHistory 0 0 (hex_EncodeToString specialActionHash) ''genesis'' [] addr amount db))
             (ord genesis) db)"

fun getActionType :: "TransactionLogType \<Rightarrow> string" where
  "getActionType IN_CONTRACT_TRANSFER = ''execution''"
| "getActionType WITHDRAW_BUCKET = ''stakeWithdraw''"
| "getActionType CREATE_BUCKET = ''stakeCreate''"
| "getActionType DEPOSIT_TO_BUCKET = ''stakeAddDeposit''"
| "getActionType CLAIM_FROM_REWARDING_FUND = ''claimFromRewardingFund''"
| "getActionType DEPOSIT_TO_REWARDING_FUND = ''depositToRewardingFund''"
| "getActionType CANDIDATE_REGISTRATION_FEE = ''candidateRegisterFee''"
| "getActionType CANDIDATE_SELF_STAKE = ''candidateRegisterSelfStake''"
| "getActionType GAS_FEE = ''gasFee''"
| "getActionType NATIVE_TRANSFER = ''transfer''"
| "getActionType OtherTransactionLogType = []"

text \<open>
  An error of the call is dropped: the block then counts as having no transfers. A later log of
  the same action hash replaces an earlier one.
\<close>

definition getTransactionLog :: "u64 \<Rightarrow> chain_client \<Rightarrow> (string \<times> transaction list) list" where
  "getTransactionLog height client =
     (case cc_GetTransactionLogByBlockHeight client height of
        Inl _ \<Rightarrow> []
      | Inr logs \<Rightarrow>
          fold (\<lambda>a m. AList.update (hex_EncodeToString (tl_ActionHash a)) (tl_Transactions a) m) logs [])"

subsection \<open>The tables rebuilt at the start of an epoch\<close>

definition inflow_rows :: "u64 \<Rightarrow> balance_history_row list \<Rightarrow> epoch_row list" where
  "inflow_rows = epoch_group bh_EpochNumber bh_To bh_Amount"

definition outflow_rows :: "u64 \<Rightarrow> balance_history_row list \<Rightarrow> epoch_row list" where
  "outflow_rows = epoch_group bh_EpochNumber bh_From bh_Amount"

text \<open>
  The \<open>LEFT JOIN\<close> and the \<open>RIGHT JOIN\<close> of the two tables on their unique key, their \<open>UNION\<close>
  (which drops the rows both produce), and inflow minus outflow with \<open>NULL\<close> as 0.
\<close>

definition income_join :: "u64 \<Rightarrow> epoch_row list \<Rightarrow> epoch_row list \<Rightarrow> epoch_row list" where
  "income_join e inflow outflow =
     remdups
       (map (\<lambda>(k, v). (k, v - get_or 0 outflow k)) (filter (\<lambda>r. fst (fst r) = e) inflow) @
        map (\<lambda>(k, v). (k, get_or 0 inflow k - v)) (filter (\<lambda>r. fst (fst r) = e) outflow))"

definition rebuildAccountIncomeTable :: "u64 \<Rightarrow> accounts_db \<Rightarrow> accounts_db" where
  "rebuildAccountIncomeTable epochNumber db =
     (if epochNumber = 0 then db
      else
        let inflow = insert_ignore fst (inflow_rows epochNumber (balance_history db)) (account_inflow db);
            outflow = insert_ignore fst (outflow_rows epochNumber (balance_history db)) (account_outflow db);
            income = insert_ignore fst (income_join epochNumber inflow outflow) (account_income db)
        in db\<lparr>account_inflow := inflow, account_outflow := outflow, account_income := income\<rparr>)"

text \<open>
  \<open>HandleBlock\<close>. The map \<open>actionSuccess\<close> the code fills from the receipts is never read, so it has
  no counterpart here. \<open>ord\<close> is the order in which the map of transaction logs is visited.
\<close>

definition accounts_HandleBlock ::
  "((string \<times> transaction list) list \<Rightarrow> (string \<times> transaction list) list) \<Rightarrow> EpochCtx \<Rightarrow> IndexCtx \<Rightarrow>
   block \<Rightarrow> accounts_db \<Rightarrow> go_error + accounts_db"
where
  "accounts_HandleBlock ord epochCtx ictx blk db =
     (let height = blk_Height blk in
      andThen (epoch_prologue epochCtx height) (\<lambda>(epochNumber, epochHeight).
      let db = (if height = epochHeight then rebuildAccountIncomeTable (epochNumber - 1) db else db)
      in foldE (\<lambda>(h, transactions). foldE (\<lambda>t db.
             wrap ''failed to update balance history on height''
               (updateBalanceHistory epochNumber height h (getActionType (txn_Type t))
                  (txn_Recipient t) (txn_Sender t) (txn_Amount t) db)) transactions)
           (ord (getTransactionLog height (ChainClient ictx))) db))"

text \<open>The two readers of the package; a \<open>DECIMAL\<close> column is read as its decimal text.\<close>

record AccountIncome =
  ai_EpochNumber :: u64
  ai_Address :: string
  ai_Income :: string

definition getBalanceHistory :: "string \<Rightarrow> accounts_db \<Rightarrow> go_error + balance_history_row list" where
  "getBalanceHistory address db =
     (let rows = filter (\<lambda>r. bh_From r = address \<or> bh_To r = address) (balance_history db)
      in if rows = [] then Inl ErrNotExist else Inr rows)"

definition getAccountIncome :: "u64 \<Rightarrow> string \<Rightarrow> accounts_db \<Rightarrow> go_error + AccountIncome" where
  "getAccountIncome epochNumber address db =
     (case filter (\<lambda>r. fst r = (epochNumber, address)) (account_income db) of
        [] \<Rightarrow> Inl ErrNotExist
      | [((e, a), v)] \<Rightarrow> Inr \<lparr>ai_EpochNumber = e, ai_Address = a, ai_Income = big_String v\<rparr>
      | _ \<Rightarrow> Inl (ErrMsg ''only one row is expected''))"

subsection \<open>What a rebuilt epoch holds\<close>

definition income_rows :: "u64 \<Rightarrow> balance_history_row list \<Rightarrow> epoch_row list" where
  "income_rows e hs = income_join e (inflow_rows e hs) (outflow_rows e hs)"

lemma flow_distinct [simp]: "distinct_keys (inflow_rows e hs)" "distinct_keys (outflow_rows e hs)"
  by (simp_all add: inflow_rows_def outflow_rows_def)

lemma flow_epoch:
  "r \<in> set (inflow_rows e hs) \<Longrightarrow> fst (fst r) = e" "r \<in> set (outflow_rows e hs) \<Longrightarrow> fst (fst r) = e"
  by (simp_all add: inflow_rows_def outflow_rows_def grouped.agg_epoch)

lemma flow_filter [simp]:
  "filter (\<lambda>r. fst (fst r) = e) (inflow_rows e hs) = inflow_rows e hs"
  "filter (\<lambda>r. fst (fst r) = e) (outflow_rows e hs) = outflow_rows e hs"
  by (simp_all add: filter_id_conv flow_epoch)

interpretation inflows: epoch_aggregate fst "\<lambda>r. fst (fst r)" bh_EpochNumber inflow_rows
  unfolding inflow_rows_def by (rule grouped.epoch_aggregate_axioms)

interpretation outflows: epoch_aggregate fst "\<lambda>r. fst (fst r)" bh_EpochNumber outflow_rows
  unfolding outflow_rows_def by (rule grouped.epoch_aggregate_axioms)

text \<open>The join only looks at the rows of its epoch.\<close>

lemma income_join_epoch:
  assumes "filter (\<lambda>r. fst (fst r) = e) inflow = inflow'" "filter (\<lambda>r. fst (fst r) = e) outflow = outflow'"
  shows "income_join e inflow outflow = income_join e inflow' outflow'"
proof -
  have g: "get_or 0 (filter (\<lambda>r. fst (fst r) = e) m) k = get_or 0 m k" if "fst k = e"
    for m :: "epoch_row list" and k
    using that by (intro get_or_filter) auto
  show ?thesis
    unfolding income_join_def assms[symmetric]
    by (intro arg_cong[where f = remdups] arg_cong2[where f = append] map_cong)
      (auto simp: g)
qed

lemma income_join_mem:
  assumes d: "distinct_keys inflow" "distinct_keys outflow"
    and e: "\<And>r. r \<in> set inflow \<Longrightarrow> fst (fst r) = e" "\<And>r. r \<in> set outflow \<Longrightarrow> fst (fst r) = e"
  shows "(k, v) \<in> set (income_join e inflow outflow) \<longleftrightarrow>
    k \<in> keys inflow \<union> keys outflow \<and> v = get_or 0 inflow k - get_or 0 outflow k"
proof -
  have "set (income_join e inflow outflow)
      = (\<lambda>k. (k, get_or 0 inflow k - get_or 0 outflow k)) ` (keys inflow \<union> keys outflow)"
    using e d by (force simp: income_join_def get_or_in image_Un image_image intro!: arg_cong2[where f = "(\<union>)"] image_cong)
  then show ?thesis by auto
qed

lemma income_rows_mem:
  "(k, v) \<in> set (income_rows e hs) \<longleftrightarrow>
   k \<in> keys (inflow_rows e hs) \<union> keys (outflow_rows e hs) \<and>
   v = get_or 0 (inflow_rows e hs) k - get_or 0 (outflow_rows e hs) k"
  unfolding income_rows_def by (rule income_join_mem) (simp_all add: flow_epoch)

lemma income_rows_keys: "keys (income_rows e hs) = keys (inflow_rows e hs) \<union> keys (outflow_rows e hs)"
proof (intro set_eqI iffI)
  fix k assume "k \<in> keys (income_rows e hs)"
  then obtain v where "(k, v) \<in> set (income_rows e hs)" by auto
  then show "k \<in> keys (inflow_rows e hs) \<union> keys (outflow_rows e hs)"
    by (simp only: income_rows_mem)
next
  fix k assume "k \<in> keys (inflow_rows e hs) \<union> keys (outflow_rows e hs)"
  then have "(k, get_or 0 (inflow_rows e hs) k - get_or 0 (outflow_rows e hs) k) \<in> set (income_rows e hs)"
    by (simp only: income_rows_mem simp_thms)
  then show "k \<in> keys (income_rows e hs)" by force
qed

lemma income_rows_distinct [simp]: "distinct_keys (income_rows e hs)"
proof -
  have "distinct (income_rows e hs)" by (simp add: income_rows_def income_join_def)
  moreover have "inj_on fst (set (income_rows e hs))"
    by (rule inj_onI) (auto simp: income_rows_mem)
  ultimately show ?thesis by (simp add: distinct_map)
qed

lemma income_rows_get:
  "get_or 0 (income_rows e hs) k = get_or 0 (inflow_rows e hs) k - get_or 0 (outflow_rows e hs) k"
proof (cases "k \<in> keys (income_rows e hs)")
  case True
  then obtain v where v: "(k, v) \<in> set (income_rows e hs)" by auto
  then show ?thesis using get_or_in[OF income_rows_distinct v] by (simp add: income_rows_mem)
next
  case False
  then have "k \<notin> keys (inflow_rows e hs)" "k \<notin> keys (outflow_rows e hs)"
    unfolding income_rows_keys by blast+
  then show ?thesis using False by (simp add: get_or_notin)
qed

lemma income_rows_epoch:
  assumes "r \<in> set (income_rows e hs)"
  shows "fst (fst r) = e"
proof -
  have "fst r \<in> keys (inflow_rows e hs) \<union> keys (outflow_rows e hs)"
    using assms unfolding income_rows_keys[symmetric] by simp
  then show ?thesis using flow_epoch by fastforce
qed

interpretation incomes: epoch_aggregate fst "\<lambda>r. fst (fst r)" bh_EpochNumber income_rows
proof unfold_locales
  show "income_rows e hs = income_rows e (filter (\<lambda>h. bh_EpochNumber h = e) hs)" for e hs
    using grouped.agg_local[of bh_EpochNumber bh_To bh_Amount e hs]
      grouped.agg_local[of bh_EpochNumber bh_From bh_Amount e hs]
    by (simp add: income_rows_def inflow_rows_def outflow_rows_def)
qed (auto simp: income_rows_epoch)

text \<open>Every transfer adds to one inflow and to one outflow, so an epoch's incomes cancel out.\<close>

lemma income_rows_sum: "sum_list (map snd (income_rows e hs)) = 0"
proof -
  let ?K = "keys (inflow_rows e hs) \<union> keys (outflow_rows e hs)"
  have fin: "finite ?K" by simp
  have "sum_list (map snd (income_rows e hs)) = (\<Sum>k\<in>?K. get_or 0 (income_rows e hs) k)"
    by (rule sum_snd_get_or[OF income_rows_distinct fin]) (simp only: income_rows_keys)
  also have "\<dots> = (\<Sum>k\<in>?K. get_or 0 (inflow_rows e hs) k) - (\<Sum>k\<in>?K. get_or 0 (outflow_rows e hs) k)"
    by (simp add: income_rows_get sum_subtractf)
  also have "\<dots> = sum_list (map snd (inflow_rows e hs)) - sum_list (map snd (outflow_rows e hs))"
    using sum_snd_get_or[OF flow_distinct(1) fin, of e hs] sum_snd_get_or[OF flow_distinct(2) fin, of e hs]
    by simp
  also have "\<dots> = 0" by (simp add: inflow_rows_def outflow_rows_def epoch_group_total)
  finally show ?thesis .
qed

subsection \<open>The invariant of block handling\<close>

text \<open>
  \<open>accounts_indexed epochCtx h db\<close>: the tables are those of an indexer that has handled the blocks
  up to \<open>h\<close>. Each history row carries the epoch of its block, and the three rebuilt tables hold
  exactly the sums of every epoch before the epoch of \<open>h\<close>.
\<close>

definition accounts_built :: "u64 \<Rightarrow> accounts_db \<Rightarrow> bool" where
  "accounts_built n db \<longleftrightarrow>
     built (\<lambda>r. fst (fst r)) inflow_rows n (balance_history db) (account_inflow db) \<and>
     built (\<lambda>r. fst (fst r)) outflow_rows n (balance_history db) (account_outflow db) \<and>
     built (\<lambda>r. fst (fst r)) income_rows n (balance_history db) (account_income db)"

definition accounts_indexed :: "EpochCtx \<Rightarrow> u64 \<Rightarrow> accounts_db \<Rightarrow> bool" where
  "accounts_indexed epochCtx h db \<longleftrightarrow>
     (\<forall>r \<in> set (balance_history db). bh_BlockHeight r \<le> h \<and>
        GetEpochNumber epochCtx (bh_BlockHeight r) = Inr (bh_EpochNumber r)) \<and>
     (\<exists>n. GetEpochNumber epochCtx h = Inr n \<and> accounts_built n db)"

lemma rebuild_history [simp]: "balance_history (rebuildAccountIncomeTable n db) = balance_history db"
  by (simp add: rebuildAccountIncomeTable_def Let_def)

lemma accounts_built_rebuild:
  assumes b: "accounts_built n db" and n: "n < n + 1"
  shows "accounts_built (n + 1) (rebuildAccountIncomeTable n db)"
proof (cases "n = 0")
  case True
  with b show ?thesis
    using built_0_1 by (fastforce simp: accounts_built_def rebuildAccountIncomeTable_def)
next
  case False
  then have pos: "0 < n" by (simp add: word_neq_0_conv)
  let ?hs = "balance_history db"
  let ?in = "insert_ignore fst (inflow_rows n ?hs) (account_inflow db)"
  let ?out = "insert_ignore fst (outflow_rows n ?hs) (account_outflow db)"
  have i: "built (\<lambda>r. fst (fst r)) inflow_rows (n + 1) ?hs ?in"
    using inflows.built_rebuild[OF _ pos n] b by (simp add: accounts_built_def)
  have o: "built (\<lambda>r. fst (fst r)) outflow_rows (n + 1) ?hs ?out"
    using outflows.built_rebuild[OF _ pos n] b by (simp add: accounts_built_def)
  have "income_join n ?in ?out = income_rows n ?hs"
    unfolding income_rows_def
    by (intro income_join_epoch built_rows[OF i pos n] built_rows[OF o pos n])
  then show ?thesis
    using i o incomes.built_rebuild[OF _ pos n] b False
    by (simp add: accounts_built_def rebuildAccountIncomeTable_def Let_def)
qed

text \<open>What the loops over the transaction logs do: they only append rows of this block.\<close>

definition block_rows_only :: "u64 \<Rightarrow> u64 \<Rightarrow> accounts_db \<Rightarrow> accounts_db \<Rightarrow> bool" where
  "block_rows_only n h db db' \<longleftrightarrow>
     (\<exists>new. db' = db\<lparr>balance_history := balance_history db @ new\<rparr> \<and>
        (\<forall>r \<in> set new. bh_EpochNumber r = n \<and> bh_BlockHeight r = h))"

lemma block_rows_refl: "block_rows_only n h db db"
  by (auto simp: block_rows_only_def intro: exI[of _ "[]"])

lemma block_rows_trans: "block_rows_only n h a b \<Longrightarrow> block_rows_only n h b c \<Longrightarrow> block_rows_only n h a c"
  unfolding block_rows_only_def
  by (elim exE conjE, rule_tac x = "new @ newa" in exI) auto

lemma insertBalanceHistory_rows:
  "insertBalanceHistory n h ah ty from to amount db = Inr db' \<Longrightarrow> block_rows_only n h db db'"
  by (auto simp: insertBalanceHistory_def andThen_eq_Inr block_rows_only_def)

lemma updateBalanceHistory_rows:
  "updateBalanceHistory n h ah ty to from amount db = Inr db' \<Longrightarrow> block_rows_only n h db db'"
  by (simp add: updateBalanceHistory_def insertBalanceHistory_rows)

lemma foldE_block_rows:
  assumes "foldE f xs db = Inr db'" "\<And>x a b. f x a = Inr b \<Longrightarrow> block_rows_only n h a b"
  shows "block_rows_only n h db db'"
  using foldE_invariant[OF assms(1), of "block_rows_only n h db"] assms(2)
  by (metis block_rows_refl block_rows_trans)

lemma accounts_HandleBlock_shape:
  assumes "accounts_HandleBlock ord e ictx blk db = Inr db'"
    and p: "epoch_prologue e (blk_Height blk) = Inr (n, s)"
  shows "block_rows_only n (blk_Height blk)
    (if blk_Height blk = s then rebuildAccountIncomeTable (n - 1) db else db) db'"
proof -
  from assms have "foldE (\<lambda>(h, transactions). foldE (\<lambda>t db.
             wrap ''failed to update balance history on height''
               (updateBalanceHistory n (blk_Height blk) h (getActionType (txn_Type t))
                  (txn_Recipient t) (txn_Sender t) (txn_Amount t) db)) transactions)
           (ord (getTransactionLog (blk_Height blk) (ChainClient ictx)))
           (if blk_Height blk = s then rebuildAccountIncomeTable (n - 1) db else db) = Inr db'"
    by (simp add: accounts_HandleBlock_def Let_def)
  then show ?thesis
    by (rule foldE_block_rows)
      (auto split: prod.splits elim!: foldE_block_rows intro: updateBalanceHistory_rows)
qed

lemma accounts_built_append:
  "accounts_built n db \<Longrightarrow> (\<And>r. r \<in> set new \<Longrightarrow> bh_EpochNumber r = n) \<Longrightarrow>
   accounts_built n (db\<lparr>balance_history := balance_history db @ new\<rparr>)"
  by (auto simp: accounts_built_def
      intro!: inflows.built_append outflows.built_append incomes.built_append)

lemma accounts_HandleBlock_indexed:
  assumes ok: "ctx_ok e" and inv: "accounts_indexed e h db" and h: "h < h + 1"
    and blk: "blk_Height blk = h + 1" and run: "accounts_HandleBlock ord e ictx blk db = Inr db'"
  shows "accounts_indexed e (h + 1) db'"
proof -
  obtain m where m: "GetEpochNumber e h = Inr m" "accounts_built m db"
    and hist: "\<forall>r \<in> set (balance_history db). bh_BlockHeight r \<le> h \<and>
        GetEpochNumber e (bh_BlockHeight r) = Inr (bh_EpochNumber r)"
    using inv by (auto simp: accounts_indexed_def)
  obtain n s where n: "epoch_prologue e (h + 1) = Inr (n, s)" "GetEpochNumber e (h + 1) = Inr n"
    using epoch_prologue_spec[OF ok, of "h + 1"] by blast
  let ?db = "if h + 1 = s then rebuildAccountIncomeTable (n - 1) db else db"
  have "accounts_built n ?db"
    using epoch_prologue_step[OF ok h m(1) n(1)] m(2) accounts_built_rebuild[of m db]
    by (auto split: if_splits)
  moreover obtain new where new: "db' = ?db\<lparr>balance_history := balance_history ?db @ new\<rparr>"
      "\<forall>r \<in> set new. bh_EpochNumber r = n \<and> bh_BlockHeight r = h + 1"
    using accounts_HandleBlock_shape[OF run] n(1) blk by (auto simp: block_rows_only_def)
  ultimately have "accounts_built n db'"
    using accounts_built_append[of n ?db new] by auto
  moreover have "\<forall>r \<in> set (balance_history db'). bh_BlockHeight r \<le> h + 1 \<and>
      GetEpochNumber e (bh_BlockHeight r) = Inr (bh_EpochNumber r)"
    using hist new n(2) h by (auto intro: order_trans[OF _ less_imp_le[OF h]] split: if_splits)
  ultimately show ?thesis using n(2) by (auto simp: accounts_indexed_def)
qed

lemma accounts_indexed_initial:
  "accounts_indexed e 0 \<lparr>balance_history = [], account_inflow = [], account_outflow = [], account_income = []\<rparr>"
  by (simp add: accounts_indexed_def accounts_built_def built_Nil GetEpochNumber.simps)

text \<open>The genesis rows are rows of block 0 and keep the invariant.\<close>

lemma accounts_Initialize_indexed:
  assumes "accounts_Initialize ord committed genesis db = Inr db'" and inv: "accounts_indexed e 0 db"
  shows "accounts_indexed e 0 db'"
proof -
  have "block_rows_only 0 0 db db'"
    using assms(1) block_rows_refl
    by (auto simp: accounts_Initialize_def split: if_splits prod.splits
        elim!: foldE_block_rows intro: insertBalanceHistory_rows)
  then obtain new where "db' = db\<lparr>balance_history := balance_history db @ new\<rparr>"
      "\<forall>r \<in> set new. bh_EpochNumber r = 0 \<and> bh_BlockHeight r = 0"
    by (auto simp: block_rows_only_def)
  then show ?thesis
    using inv accounts_built_append[of 0 db new]
    by (auto simp: accounts_indexed_def GetEpochNumber.simps[of e 0])
qed

lemma income_of_epoch:
  assumes "accounts_indexed e h db" "GetEpochNumber e h = Inr n" "0 < ep" "ep < n"
  shows "filter (\<lambda>r. fst (fst r) = ep) (account_income db) = income_rows ep (balance_history db)"
proof -
  have "built (\<lambda>r. fst (fst r)) income_rows n (balance_history db) (account_income db)"
    using assms(1,2) by (auto simp: accounts_indexed_def accounts_built_def)
  from built_rows[OF this assms(3,4)] show ?thesis .
qed

subsection \<open>Properties\<close>

text \<open>A chain that reports two transfers for every block, for the witnesses.\<close>

definition sample_transfers :: IndexCtx where
  "sample_transfers = offline_ctx\<lparr>ChainClient := (ChainClient offline_ctx)
     \<lparr>cc_GetTransactionLogByBlockHeight := \<lambda>_. Inr
        [\<lparr>tl_ActionHash = ''a'', tl_Transactions =
           [\<lparr>txn_Type = NATIVE_TRANSFER, txn_Recipient = ''io1b'', txn_Sender = ''io1a'', txn_Amount = ''70''\<rparr>,
            \<lparr>txn_Type = GAS_FEE, txn_Recipient = [], txn_Sender = ''io1a'', txn_Amount = ''5''\<rparr>]\<rparr>]\<rparr>\<rparr>"

definition empty_accounts :: accounts_db where
  "empty_accounts = \<lparr>balance_history = [], account_inflow = [], account_outflow = [], account_income = []\<rparr>"

definition sample_row :: "u64 \<Rightarrow> u64 \<Rightarrow> string \<Rightarrow> string \<Rightarrow> string \<Rightarrow> int \<Rightarrow> balance_history_row" where
  "sample_row e h ty from to n =
     \<lparr>bh_EpochNumber = e, bh_BlockHeight = h, bh_ActionHash = ''61'', bh_ActionType = ty,
      bh_From = from, bh_To = to, bh_Amount = n\<rparr>"

lemma sample_block_handled:
  "accounts_HandleBlock (\<lambda>m. m) mainnet_ctx sample_transfers (sample_block 1) empty_accounts =
   Inr (empty_accounts\<lparr>balance_history :=
     [sample_row 1 1 ''transfer'' ''io1a'' ''io1b'' 70, sample_row 1 1 ''gasFee'' ''io1a'' [] 5]\<rparr>)"
  by code_simp

text \<open>C8: Handling the next block keeps the tables of the accounts protocol exact: afterwards the
  inflow, outflow and income tables again hold, for every epoch before the block's own and for no
  other, precisely the sums of the transfer history, and every history row carries the epoch of
  its block. This covers the first block of an epoch, whose handling adds the finished epoch.\<close>

theorem accounts_block_invariant:
  assumes "ctx_ok e" "accounts_indexed e h db" "h < h + 1" "blk_Height blk = h + 1"
    and "accounts_HandleBlock ord e ictx blk db = Inr db'"
  shows "accounts_indexed e (h + 1) db'"
  using assms by (rule accounts_HandleBlock_indexed)

lemma accounts_block_invariant_witness:
  "accounts_indexed mainnet_ctx (0 + 1) (empty_accounts\<lparr>balance_history :=
     [sample_row 1 1 ''transfer'' ''io1a'' ''io1b'' 70, sample_row 1 1 ''gasFee'' ''io1a'' [] 5]\<rparr>)"
  by (rule accounts_block_invariant[OF mainnet_ok _ _ _ sample_block_handled])
    (simp_all add: accounts_indexed_initial empty_accounts_def sample_block_def)

text \<open>The same transfers in the first two epochs, one block each.\<close>

definition sample_epoch_1 :: accounts_db where
  "sample_epoch_1 = empty_accounts\<lparr>balance_history :=
     [sample_row 1 1 ''transfer'' ''io1a'' ''io1b'' 70, sample_row 1 1 ''gasFee'' ''io1a'' [] 5]\<rparr>"

definition sample_epoch_2 :: accounts_db where
  "sample_epoch_2 =
     \<lparr>balance_history = balance_history sample_epoch_1 @
        [sample_row 2 2 ''transfer'' ''io1a'' ''io1b'' 70, sample_row 2 2 ''gasFee'' ''io1a'' [] 5],
      account_inflow = [((1, ''io1b''), 70), ((1, []), 5)],
      account_outflow = [((1, ''io1a''), 75)],
      account_income = [((1, ''io1b''), 70), ((1, []), 5), ((1, ''io1a''), - 75)]\<rparr>"

lemma sample_epoch_1_handled:
  "accounts_HandleBlock (\<lambda>m. m) tiny_ctx sample_transfers (sample_block 1) empty_accounts = Inr sample_epoch_1"
  by code_simp

lemma sample_epoch_2_handled:
  "accounts_HandleBlock (\<lambda>m. m) tiny_ctx sample_transfers (sample_block 2) sample_epoch_1 = Inr sample_epoch_2"
  by code_simp

lemma sample_epoch_2_number: "GetEpochNumber tiny_ctx 2 = Inr 2"
  by code_simp

lemma sample_epoch_2_indexed: "accounts_indexed tiny_ctx 2 sample_epoch_2"
proof -
  have "accounts_indexed tiny_ctx (0 + 1) sample_epoch_1"
    by (rule accounts_HandleBlock_indexed[OF tiny_ok _ _ _ sample_epoch_1_handled])
      (simp_all add: accounts_indexed_initial empty_accounts_def sample_block_def)
  then have "accounts_indexed tiny_ctx (1 + 1) sample_epoch_2"
    by (intro accounts_HandleBlock_indexed[OF tiny_ok _ _ _ sample_epoch_2_handled])
      (simp_all add: sample_block_def)
  then show ?thesis by simp
qed

text \<open>The account income the package returns for a finished epoch is the sum of what the
  address received in that epoch minus the sum of what it sent, and an address without transfers
  in the epoch has no income row.\<close>

theorem account_income_is_net_flow:
  assumes inv: "accounts_indexed e h db" and n: "GetEpochNumber e h = Inr n" and ep: "0 < ep" "ep < n"
  shows "getAccountIncome ep a db =
    (if \<exists>r \<in> set (balance_history db). bh_EpochNumber r = ep \<and> (bh_To r = a \<or> bh_From r = a) then
       Inr \<lparr>ai_EpochNumber = ep, ai_Address = a, ai_Income = big_String
         (sum_list (map bh_Amount (filter (\<lambda>r. bh_EpochNumber r = ep \<and> bh_To r = a) (balance_history db))) -
          sum_list (map bh_Amount (filter (\<lambda>r. bh_EpochNumber r = ep \<and> bh_From r = a) (balance_history db))))\<rparr>
     else Inl ErrNotExist)"
proof -
  let ?hs = "balance_history db"
  note of_epoch = income_of_epoch[OF inv n ep]
  have rows: "filter (\<lambda>r. fst r = (ep, a)) (account_income db)
      = filter (\<lambda>r. fst r = (ep, a)) (income_rows ep ?hs)"
  proof -
    have "filter (\<lambda>r. fst r = (ep, a)) (account_income db)
        = filter (\<lambda>r. fst r = (ep, a)) (filter (\<lambda>r. fst (fst r) = ep) (account_income db))"
      unfolding filter_filter by (rule filter_cong) auto
    then show ?thesis by (simp only: of_epoch)
  qed
  have get: "get_or 0 (inflow_rows ep ?hs) (ep, a) =
        sum_list (map bh_Amount (filter (\<lambda>r. bh_EpochNumber r = ep \<and> bh_To r = a) ?hs))"
      "get_or 0 (outflow_rows ep ?hs) (ep, a) =
        sum_list (map bh_Amount (filter (\<lambda>r. bh_EpochNumber r = ep \<and> bh_From r = a) ?hs))"
    unfolding inflow_rows_def outflow_rows_def by (rule epoch_group_get)+
  have keys: "(ep, a) \<in> keys (income_rows ep ?hs) \<longleftrightarrow>
      (\<exists>r \<in> set ?hs. bh_EpochNumber r = ep \<and> (bh_To r = a \<or> bh_From r = a))"
    unfolding income_rows_keys by (auto simp: inflow_rows_def outflow_rows_def epoch_group_keys)
  show ?thesis
  proof (cases "(ep, a) \<in> keys (income_rows ep ?hs)")
    case True
    have "filter (\<lambda>r. fst r = (ep, a)) (income_rows ep ?hs) = [((ep, a), get_or 0 (income_rows ep ?hs) (ep, a))]"
      by (rule filter_key[OF income_rows_distinct True])
    with True keys show ?thesis
      by (simp add: getAccountIncome_def rows income_rows_get get)
  next
    case False
    then have "filter (\<lambda>r. fst r = (ep, a)) (income_rows ep ?hs) = []"
      by (auto simp: filter_empty_conv image_iff)
    with False keys show ?thesis by (simp add: getAccountIncome_def rows)
  qed
qed

lemma account_income_is_net_flow_witness:
  "getAccountIncome 1 ''io1a'' sample_epoch_2 =
   Inr \<lparr>ai_EpochNumber = 1, ai_Address = ''io1a'', ai_Income = ''-75''\<rparr>"
proof -
  have "big_String (- 75) = ''-75''" by code_simp
  then show ?thesis
    using account_income_is_net_flow[OF sample_epoch_2_indexed sample_epoch_2_number, of 1 "''io1a''"]
    by (simp add: sample_epoch_2_def sample_epoch_1_def sample_row_def empty_accounts_def)
qed

text \<open>C39: The incomes of a finished epoch add up to zero: what the accounts protocol records as
  earned by some addresses it records as spent by others.\<close>

theorem account_income_conserved:
  assumes "accounts_indexed e h db" "GetEpochNumber e h = Inr n" "0 < ep" "ep < n"
  shows "sum_list (map snd (filter (\<lambda>r. fst (fst r) = ep) (account_income db))) = 0"
  by (simp add: income_of_epoch[OF assms] income_rows_sum)

lemma account_income_conserved_witness:
  "sum_list (map snd (filter (\<lambda>r. fst (fst r) = 1) (account_income sample_epoch_2))) = 0"
  by (rule account_income_conserved[OF sample_epoch_2_indexed sample_epoch_2_number]) simp_all

text \<open>When the chain cannot report the transfers of a block, the block is still indexed
  without an error and none of its transfers is ever recorded.\<close>

theorem accounts_lost_transfers:
  assumes "epoch_prologue e (blk_Height blk) = Inr (n, s)"
    and "cc_GetTransactionLogByBlockHeight (ChainClient ictx) (blk_Height blk) = Inl err"
    and "ord [] = []"
  shows "\<exists>db'. accounts_HandleBlock ord e ictx blk db = Inr db' \<and> balance_history db' = balance_history db"
  using assms by (simp add: accounts_HandleBlock_def getTransactionLog_def)

lemma accounts_lost_transfers_witness:
  "\<exists>db'. accounts_HandleBlock (\<lambda>m. m) mainnet_ctx offline_ctx (sample_block 1) empty_accounts = Inr db' \<and>
     balance_history db' = balance_history empty_accounts"
proof (rule accounts_lost_transfers)
  show "epoch_prologue mainnet_ctx (blk_Height (sample_block 1)) = Inr (1, 1)" by code_simp
  show "cc_GetTransactionLogByBlockHeight (ChainClient offline_ctx) (blk_Height (sample_block 1)) =
    Inl (ErrExternal ''unavailable'')"
    by (simp add: offline_ctx_def offline_def)
qed simp

end
