(* ===== verification/Xrc.thy ===== *)
theory Xrc imports Index_Protocol begin

text \<open>
  \<open>indexprotocol/actions/xrc20.go\<close>: recognising the transfer events of XRC20 and XRC721 contracts
  and recording them and their holders. Whether an address is such a contract is found out by
  calling four of its functions once and cached in four package-wide maps, which are memory
  outside the transaction.
\<close>

record Xrc20History =
  xh_ActionHash :: string
  xh_ReceiptHash :: string
  xh_Address :: string
  xh_Topics :: string
  xh_Data :: string
  xh_BlockHeight :: u64
  xh_Index :: u64
  xh_Timestamp :: int
  xh_Status :: string

record xrc_db =
  xrc20_history :: "Xrc20History list"
  xrc20_holders :: "((string \<times> string) \<times> int) list"
  xrc721_history :: "Xrc20History list"
  xrc721_holders :: "((string \<times> string) \<times> int) list"

text \<open>The maps only ever hold \<open>true\<close>, so each is the list of its keys.\<close>

record xrc_mem =
  xrc20Contract :: "string list"
  nonXrc20Contract :: "string list"
  xrc721Contract :: "string list"
  nonXrc721Contract :: "string list"

definition new_xrc_mem :: xrc_mem where
  "new_xrc_mem = \<lparr>xrc20Contract = [], nonXrc20Contract = [], xrc721Contract = [], nonXrc721Contract = []\<rparr>"

definition transferSha3 :: string where
  "transferSha3 = ''ddf252ad1be2c89b69c2b068fc378daa952ba7f163c4a11628f55a4df523b3ef''"

definition totalSupply :: string where "totalSupply = ''18160ddd''"

definition probeAddress :: string where
  "probeAddress = ''000000000000000000000000fea7d8ac16886585f1c232f13fefc3cfa26eb4cc''"

definition balanceOf :: string where "balanceOf = ''70a08231'' @ probeAddress"
definition allowance :: string where "allowance = ''dd62ed3e'' @ probeAddress @ probeAddress"
definition approve :: string where "approve = ''095ea7b3'' @ probeAddress @ replicate 63 (CHR ''0'') @ ''1''"
definition ownerOf :: string where "ownerOf = ''6352211e'' @ probeAddress"

definition successStatus :: u64 where "successStatus = 1"
definition revertStatus :: u64 where "revertStatus = 106"

fun is_prefix :: "string \<Rightarrow> string \<Rightarrow> bool" where
  "is_prefix [] ys = True"
| "is_prefix (x # xs) [] = False"
| "is_prefix (x # xs) (y # ys) = (x = y \<and> is_prefix xs ys)"

fun contains :: "string \<Rightarrow> string \<Rightarrow> bool" where
  "contains [] sub = is_prefix sub []"
| "contains (x # xs) sub = (is_prefix sub (x # xs) \<or> contains xs sub)"

definition checkTopics :: "string \<Rightarrow> string \<Rightarrow> bool" where
  "checkTopics topics data =
     (if topics = [] \<or> length topics > 64 * 3 \<or> length data > 64 * 3 then False
      else contains topics transferSha3)"

definition checkXrc721Topics :: "string \<Rightarrow> string \<Rightarrow> bool" where
  "checkXrc721Topics topics data =
     (if topics = [] \<or> length topics \<noteq> 256 \<or> length data \<noteq> 0 then False
      else contains topics transferSha3)"

text \<open>Any error of the call counts as the contract not having the function.\<close>

definition readContract :: "chain_client \<Rightarrow> string \<Rightarrow> string \<Rightarrow> bool" where
  "readContract cli addr callData =
     (case cc_ReadContract cli addr callData of
        Inl _ \<Rightarrow> False
      | Inr (status, data) \<Rightarrow> (status = successStatus \<or> status = revertStatus) \<and> data \<noteq> [])"

text \<open>A chain client is always there in this model, so the check for \<open>nil\<close> has no counterpart.\<close>

definition checkIsXrc20 :: "IndexCtx \<Rightarrow> string \<Rightarrow> string \<Rightarrow> string \<Rightarrow> xrc_mem \<Rightarrow> bool \<times> xrc_mem" where
  "checkIsXrc20 ictx addr topics data mem =
     (if \<not> checkTopics topics data then (False, mem)
      else if addr \<in> set (nonXrc20Contract mem) then (False, mem)
      else if addr \<in> set (xrc20Contract mem) then (True, mem)
      else if list_all (readContract (ChainClient ictx) addr) [totalSupply, balanceOf, allowance, approve]
      then (True, mem\<lparr>xrc20Contract := addr # xrc20Contract mem\<rparr>)
      else (False, mem\<lparr>nonXrc20Contract := addr # nonXrc20Contract mem\<rparr>))"

definition checkIsXrc721 :: "IndexCtx \<Rightarrow> string \<Rightarrow> string \<Rightarrow> string \<Rightarrow> xrc_mem \<Rightarrow> bool \<times> xrc_mem" where
  "checkIsXrc721 ictx addr topics data mem =
     (if \<not> checkXrc721Topics topics data then (False, mem)
      else if addr \<in> set (nonXrc721Contract mem) then (False, mem)
      else if addr \<in> set (xrc721Contract mem) then (True, mem)
      else if list_all (readContract (ChainClient ictx) addr) [totalSupply, balanceOf, approve, ownerOf]
      then (True, mem\<lparr>xrc721Contract := addr # xrc721Contract mem\<rparr>)
      else (False, mem\<lparr>nonXrc721Contract := addr # nonXrc721Contract mem\<rparr>))"

text \<open>
  \<open>ParseContractData\<close>: topics and data together are the event's hash, the two addresses and the
  amount, 64 hexadecimal digits each, however many of the parameters are indexed.
\<close>

definition slice :: "nat \<Rightarrow> nat \<Rightarrow> string \<Rightarrow> string" where
  "slice i j xs = take (j - i) (drop i xs)"

definition sha3Len :: nat where "sha3Len = 64"
definition contractParamsLen :: nat where "contractParamsLen = 64"
definition addressLen :: nat where "addressLen = 40"
definition topicsPlusDataLen :: nat where "topicsPlusDataLen = 256"

definition ParseContractData :: "libs \<Rightarrow> string \<Rightarrow> string \<Rightarrow> go_error + string \<times> string \<times> string" where
  "ParseContractData l topics data =
     (let all = topics @ data in
      if length all \<noteq> topicsPlusDataLen then Inl (ErrMsg ''data's len is wrong'')
      else
        let fromEth = slice (sha3Len + contractParamsLen - addressLen) (sha3Len + contractParamsLen) all;
            toEth = slice (sha3Len + contractParamsLen * 2 - addressLen) (sha3Len + contractParamsLen * 2) all
        in andThen (lib_AddressFromBytes l (lib_HexToAddress l fromEth)) (\<lambda>from.
           andThen (lib_AddressFromBytes l (lib_HexToAddress l toEth)) (\<lambda>to.
           case big_SetString 16 (drop (sha3Len + contractParamsLen * 2) all) of
             None \<Rightarrow> Inl (ErrMsg ''amount convert error'')
           | Some amount \<Rightarrow> Inr (from, to, big_String amount))))"

text \<open>What the loop over the logs collects before anything is written.\<close>

record xrc_rows =
  xr_vals :: "Xrc20History list"
  xr_holders :: "((string \<times> string) \<times> int) list"
  xr_xrc721Vals :: "Xrc20History list"
  xr_xrc721Holders :: "((string \<times> string) \<times> int) list"

definition no_xrc_rows :: xrc_rows where
  "no_xrc_rows = \<lparr>xr_vals = [], xr_holders = [], xr_xrc721Vals = [], xr_xrc721Holders = []\<rparr>"

definition collect_log ::
  "IndexCtx \<Rightarrow> block \<Rightarrow> receipt \<Rightarrow> event_log \<Rightarrow> xrc_rows \<times> xrc_mem \<Rightarrow> xrc_rows \<times> xrc_mem"
where
  "collect_log ictx blk receipt l = (\<lambda>(rows, mem).
     let data = hex_EncodeToString (log_Data l);
         topics = concat (map hex_EncodeToString (log_Topics l));
         (isXrc20, mem) = checkIsXrc20 ictx (log_Address l) topics data mem;
         (isXrc721, mem) = checkIsXrc721 ictx (log_Address l) topics data mem
     in if \<not> isXrc20 \<and> \<not> isXrc721 then (rows, mem)
        else
          let receiptStatus = (if rcp_Status receipt = successStatus then ''success'' else ''failure'');
              data' = (if isXrc721 then drop 192 topics else data);
              topics' = (if isXrc721 then take 192 topics else topics);
              row = \<lparr>xh_ActionHash = hex_EncodeToString (log_ActionHash l),
                     xh_ReceiptHash = hex_EncodeToString (rcp_Hash receipt),
                     xh_Address = log_Address l, xh_Topics = topics', xh_Data = data',
                     xh_BlockHeight = log_BlockHeight l, xh_Index = log_Index l,
                     xh_Timestamp = blk_Timestamp blk, xh_Status = receiptStatus\<rparr>;
              rows = (if isXrc721 then rows\<lparr>xr_xrc721Vals := xr_xrc721Vals rows @ [row]\<rparr> else rows);
              rows = (if isXrc20 then rows\<lparr>xr_vals := xr_vals rows @ [row]\<rparr> else rows)
          in (case ParseContractData (Libs ictx) topics' data' of
                Inl _ \<Rightarrow> (rows, mem)
              | Inr (from, to, _) \<Rightarrow>
                  let hs = [((log_Address l, from), blk_Timestamp blk), ((log_Address l, to), blk_Timestamp blk)];
                      rows = (if isXrc721 then rows\<lparr>xr_xrc721Holders := xr_xrc721Holders rows @ hs\<rparr> else rows);
                      rows = (if isXrc20 then rows\<lparr>xr_holders := xr_holders rows @ hs\<rparr> else rows)
                  in (rows, mem)))"

definition collect_xrc :: "IndexCtx \<Rightarrow> block \<Rightarrow> xrc_mem \<Rightarrow> xrc_rows \<times> xrc_mem" where
  "collect_xrc ictx blk mem =
     fold (\<lambda>receipt. fold (collect_log ictx blk receipt) (rcp_Logs receipt)) (blk_Receipts blk) (no_xrc_rows, mem)"

text \<open>
  The history tables have the primary key (action hash, receipt hash, topics) and declare
  \<open>receipt_hash\<close> unique on its own as well, so \<open>INSERT IGNORE\<close> keeps one row per receipt.
\<close>

definition insert_history :: "Xrc20History list \<Rightarrow> Xrc20History list \<Rightarrow> go_error + Xrc20History list" where
  "insert_history rows t = exec_values rows (Inr (insert_ignore xh_ReceiptHash rows t))"

definition insert_holders ::
  "((string \<times> string) \<times> int) list \<Rightarrow> ((string \<times> string) \<times> int) list \<Rightarrow> go_error + ((string \<times> string) \<times> int) list"
where
  "insert_holders rows t = exec_values rows (Inr (insert_ignore fst rows t))"

definition write_xrc20 :: "xrc_rows \<Rightarrow> xrc_db \<Rightarrow> go_error + xrc_db" where
  "write_xrc20 rows db =
     (if xr_vals rows \<noteq> [] then
        andThen (insert_history (xr_vals rows) (xrc20_history db)) (\<lambda>h.
        andThen (insert_holders (xr_holders rows) (xrc20_holders db)) (\<lambda>hs.
        Inr (db\<lparr>xrc20_history := h, xrc20_holders := hs\<rparr>)))
      else Inr db)"

definition write_xrc721 :: "xrc_rows \<Rightarrow> xrc_db \<Rightarrow> go_error + xrc_db" where
  "write_xrc721 rows db =
     (if xr_xrc721Holders rows \<noteq> [] then
        andThen (insert_history (xr_xrc721Vals rows) (xrc721_history db)) (\<lambda>h.
        andThen (insert_holders (xr_xrc721Holders rows) (xrc721_holders db)) (\<lambda>hs.
        Inr (db\<lparr>xrc721_history := h, xrc721_holders := hs\<rparr>)))
      else Inr db)"

definition updateXrc20History :: "IndexCtx \<Rightarrow> block \<Rightarrow> xrc_db \<Rightarrow> xrc_mem \<Rightarrow> (go_error + xrc_db) \<times> xrc_mem" where
  "updateXrc20History ictx blk db mem =
     (case collect_xrc ictx blk mem of
        (rows, mem) \<Rightarrow> (andThen (write_xrc20 rows db) (write_xrc721 rows), mem))"

text \<open>\<open>initContract\<close> fills the positive caches from the tables when the indexer starts.\<close>

definition initContracts :: "xrc_db \<Rightarrow> xrc_mem \<Rightarrow> xrc_mem" where
  "initContracts db mem =
     mem\<lparr>xrc20Contract := remdups (map xh_Address (xrc20_history db)) @ xrc20Contract mem,
         xrc721Contract := remdups (map xh_Address (xrc721_history db)) @ xrc721Contract mem\<rparr>"

definition getXrc20History :: "string \<Rightarrow> xrc_db \<Rightarrow> go_error + Xrc20History list" where
  "getXrc20History address db =
     (let rows = filter (\<lambda>r. xh_Address r = address) (xrc20_history db)
      in if rows = [] then Inl ErrNotExist else Inr rows)"

subsection \<open>Lemmas\<close>

lemma slice_append: "length xs = i \<Longrightarrow> slice i (i + n) (xs @ ys) = take n ys"
  by (simp add: slice_def)

lemma checks_exclusive: "\<not> (checkTopics topics data \<and> checkXrc721Topics topics data')"
  by (auto simp: checkTopics_def checkXrc721Topics_def split: if_splits)

lemma checkIsXrc20_topics: "fst (checkIsXrc20 ictx addr topics data mem) \<Longrightarrow> checkTopics topics data"
  by (auto simp: checkIsXrc20_def split: if_splits)

lemma checkIsXrc721_topics: "fst (checkIsXrc721 ictx addr topics data mem) \<Longrightarrow> checkXrc721Topics topics data"
  by (auto simp: checkIsXrc721_def split: if_splits)

text \<open>Every collected history row is a row of the receipt being visited.\<close>

lemma collect_log_vals:
  assumes "collect_log ictx blk receipt l (rows, mem) = (rows', mem')"
  shows "\<exists>new. xr_vals rows' = xr_vals rows @ new \<and>
    (\<forall>r \<in> set new. xh_ReceiptHash r = hex_EncodeToString (rcp_Hash receipt))"
  using assms
  by (auto simp: collect_log_def Let_def split: prod.splits if_splits sum.splits)

lemma collect_receipt_vals:
  assumes "fold (collect_log ictx blk receipt) ls (rows, mem) = (rows', mem')"
  shows "\<exists>new. xr_vals rows' = xr_vals rows @ new \<and>
    (\<forall>r \<in> set new. xh_ReceiptHash r = hex_EncodeToString (rcp_Hash receipt))"
  using assms
proof (induction ls arbitrary: rows mem)
  case (Cons l ls)
  obtain rows1 mem1 where one: "collect_log ictx blk receipt l (rows, mem) = (rows1, mem1)" by fastforce
  with Cons.prems have "fold (collect_log ictx blk receipt) ls (rows1, mem1) = (rows', mem')" by simp
  from Cons.IH[OF this] collect_log_vals[OF one] show ?case by auto
qed simp

lemma collect_xrc_vals:
  assumes "fold (\<lambda>receipt. fold (collect_log ictx blk receipt) (rcp_Logs receipt)) rs (rows, mem) = (rows', mem')"
  shows "\<exists>new. xr_vals rows' = xr_vals rows @ new \<and>
    (\<forall>r \<in> set new. xh_ReceiptHash r \<in> (\<lambda>r. hex_EncodeToString (rcp_Hash r)) ` set rs)"
  using assms
proof (induction rs arbitrary: rows mem)
  case (Cons r rs)
  obtain rows1 mem1 where one: "fold (collect_log ictx blk r) (rcp_Logs r) (rows, mem) = (rows1, mem1)" by fastforce
  with Cons.prems have "fold (\<lambda>receipt. fold (collect_log ictx blk receipt) (rcp_Logs receipt)) rs (rows1, mem1) = (rows', mem')"
    by simp
  from Cons.IH[OF this] collect_receipt_vals[OF one] show ?case by fastforce
qed simp

lemma insert_ignore_length_le:
  assumes "distinct (map key t)"
  shows "length (insert_ignore key rs t) \<le> length t + card (key ` set rs)"
proof -
  obtain us where us: "insert_ignore key rs t = t @ us" "set us \<subseteq> set rs"
    using ignoring.ins_extends[of key rs t] by blast
  have "distinct (map key us)" using ignoring.ins_distinct[OF assms, of rs] us(1) by simp
  then have "length us = card (key ` set us)" using distinct_card[of "map key us"] by simp
  also have "\<dots> \<le> card (key ` set rs)" using us(2) by (intro card_mono image_mono) auto
  finally show ?thesis by (simp add: us(1))
qed

lemma write_xrc20_history:
  "write_xrc20 rows db = Inr db' \<Longrightarrow>
   xrc20_history db' = insert_ignore xh_ReceiptHash (xr_vals rows) (xrc20_history db)"
  by (auto simp: write_xrc20_def andThen_eq_Inr insert_history_def exec_values_def split: if_splits)

lemma write_xrc721_keeps: "write_xrc721 rows db = Inr db' \<Longrightarrow> xrc20_history db' = xrc20_history db"
  by (auto simp: write_xrc721_def andThen_eq_Inr split: if_splits)

lemma ParseContractData_event:
  assumes len: "length sig = 32" "length pad1 = 12" "length from = 20" "length pad2 = 12" "length to = 20"
      "length amount = 32"
    and event: "topics @ data = hex_EncodeToString (sig @ pad1 @ from @ pad2 @ to @ amount)"
    and addrs: "lib_AddressFromBytes l (lib_HexToAddress l (hex_EncodeToString from)) = Inr ioFrom"
      "lib_AddressFromBytes l (lib_HexToAddress l (hex_EncodeToString to)) = Inr ioTo"
  shows "ParseContractData l topics data = Inr (ioFrom, ioTo, big_String (big_SetBytes amount))"
proof -
  let ?h = hex_EncodeToString
  let ?all = "?h (sig @ pad1 @ from @ pad2 @ to @ amount)"
  have all: "?all = ?h (sig @ pad1) @ ?h from @ ?h (pad2 @ to @ amount)"
    by (simp add: hex_append)
  have from': "slice 88 128 ?all = ?h from"
    unfolding all using slice_append[of "?h (sig @ pad1)" 88 40] len by simp
  have all2: "?all = ?h (sig @ pad1 @ from @ pad2) @ ?h to @ ?h amount"
    by (simp add: hex_append)
  have to': "slice 152 192 ?all = ?h to"
    unfolding all2 using slice_append[of "?h (sig @ pad1 @ from @ pad2)" 152 40] len by simp
  have amount': "drop 192 ?all = ?h amount"
    unfolding all2 using len by simp
  have "length ?all = 256" using len by simp
  moreover have "big_SetString 16 (?h amount) = Some (big_SetBytes amount)"
    using len by (intro big_SetString_hex) auto
  ultimately show ?thesis
    unfolding ParseContractData_def Let_def event topicsPlusDataLen_def sha3Len_def contractParamsLen_def addressLen_def
    using from' to' amount' addrs by simp
qed

subsection \<open>Properties\<close>

text \<open>C38: \<open>ParseContractData\<close> reads back a transfer event: from the 32-byte event hash, the two
  20-byte addresses padded to 32 bytes and the 32-byte amount, split between topics and data at
  any point, it returns the two addresses and the decimal text of the amount.\<close>

theorem contract_data_roundtrip:
  assumes "length sig = 32" "length pad1 = 12" "length from = 20" "length pad2 = 12" "length to = 20"
      "length amount = 32"
    and "topics @ data = hex_EncodeToString (sig @ pad1 @ from @ pad2 @ to @ amount)"
    and "lib_AddressFromBytes l (lib_HexToAddress l (hex_EncodeToString from)) = Inr ioFrom"
      "lib_AddressFromBytes l (lib_HexToAddress l (hex_EncodeToString to)) = Inr ioTo"
  shows "ParseContractData l topics data = Inr (ioFrom, ioTo, big_String (big_SetBytes amount))"
  using assms by (rule ParseContractData_event)

definition address_libs :: libs where
  "address_libs = (Libs offline_ctx)\<lparr>lib_HexToAddress := \<lambda>s. s, lib_AddressFromBytes := \<lambda>bs. Inr (take 4 bs)\<rparr>"

lemma contract_data_roundtrip_witness:
  "ParseContractData address_libs
     (hex_EncodeToString (replicate 32 (CHR ''s'') @ replicate 12 (CHR ''0'') @ replicate 20 (CHR ''a'')))
     (hex_EncodeToString (replicate 12 (CHR ''1'') @ replicate 20 (CHR ''b'') @ replicate 31 (char_of (0 :: nat)) @ ''*''))
   = Inr (''6161'', ''6262'', big_String (big_SetBytes (replicate 31 (char_of (0 :: nat)) @ ''*'')))"
proof (rule contract_data_roundtrip)
  show "lib_AddressFromBytes address_libs (lib_HexToAddress address_libs (hex_EncodeToString (replicate 20 (CHR ''a'')))) = Inr ''6161''"
    "lib_AddressFromBytes address_libs (lib_HexToAddress address_libs (hex_EncodeToString (replicate 20 (CHR ''b'')))) = Inr ''6262''"
    by code_simp+
qed (simp_all add: hex_append)

text \<open>At most one XRC20 transfer is recorded per receipt: however many transfer events the
  receipts of a block contain, the history grows by at most the number of distinct receipt
  hashes, and the other events are dropped without an error.\<close>

theorem one_transfer_per_receipt:
  assumes "updateXrc20History ictx blk db mem = (Inr db', mem')"
    and "distinct (map xh_ReceiptHash (xrc20_history db))"
  shows "length (xrc20_history db') \<le> length (xrc20_history db) + card (rcp_Hash ` set (blk_Receipts blk))"
proof -
  obtain rows where rows: "collect_xrc ictx blk mem = (rows, mem')"
    and written: "andThen (write_xrc20 rows db) (write_xrc721 rows) = Inr db'"
    using assms(1) by (auto simp: updateXrc20History_def split: prod.splits)
  have hist: "xrc20_history db' = insert_ignore xh_ReceiptHash (xr_vals rows) (xrc20_history db)"
    using written write_xrc20_history write_xrc721_keeps by (fastforce simp: andThen_eq_Inr)
  have "\<forall>r \<in> set (xr_vals rows). xh_ReceiptHash r \<in> (\<lambda>r. hex_EncodeToString (rcp_Hash r)) ` set (blk_Receipts blk)"
    using collect_xrc_vals[of ictx blk "blk_Receipts blk" no_xrc_rows mem rows mem'] rows
    by (auto simp: collect_xrc_def no_xrc_rows_def)
  then have "card (xh_ReceiptHash ` set (xr_vals rows)) \<le> card ((\<lambda>r. hex_EncodeToString (rcp_Hash r)) ` set (blk_Receipts blk))"
    by (intro card_mono) auto
  also have "\<dots> \<le> card (rcp_Hash ` set (blk_Receipts blk))"
    using card_image_le[of "rcp_Hash ` set (blk_Receipts blk)" hex_EncodeToString] by (simp add: image_image)
  finally show ?thesis
    using insert_ignore_length_le[OF assms(2), of "xr_vals rows"] hist by simp
qed

text \<open>A contract that answers every probe, and a receipt with two of its transfer events.\<close>

definition token_ctx :: IndexCtx where
  "token_ctx = offline_ctx\<lparr>ChainClient := (ChainClient offline_ctx)\<lparr>cc_ReadContract := \<lambda>_ _. Inr (1, ''01'')\<rparr>,
     Libs := address_libs\<rparr>"

definition sig_bytes :: string where
  "sig_bytes = map char_of
     [221 :: nat, 242, 82, 173, 27, 226, 200, 155, 105, 194, 176, 104, 252, 55, 141, 170,
      149, 43, 167, 241, 99, 196, 161, 22, 40, 245, 90, 77, 245, 35, 179, 239]"

definition transfer_log :: "u64 \<Rightarrow> event_log" where
  "transfer_log i =
     \<lparr>log_Address = ''io1token'', log_Topics = [sig_bytes, replicate 32 (CHR ''a''), replicate 32 (CHR ''b'')],
      log_Data = replicate 31 (char_of (0 :: nat)) @ ''*'', log_BlockHeight = 7, log_ActionHash = ''a'', log_Index = i\<rparr>"

definition token_block :: block where
  "token_block = (sample_block 7)\<lparr>blk_Receipts :=
     [\<lparr>rcp_Status = 1, rcp_ActionHash = ''a'', rcp_Hash = ''r'', rcp_GasConsumed = 0,
       rcp_Logs = [transfer_log 0, transfer_log 1]\<rparr>]\<rparr>"

definition empty_xrc :: xrc_db where
  "empty_xrc = \<lparr>xrc20_history = [], xrc20_holders = [], xrc721_history = [], xrc721_holders = []\<rparr>"

definition token_topics :: string where
  "token_topics = concat (map hex_EncodeToString (log_Topics (transfer_log 0)))"

definition token_data :: string where
  "token_data = hex_EncodeToString (log_Data (transfer_log 0))"

lemma transfer_log_fields:
  "concat (map hex_EncodeToString (log_Topics (transfer_log i))) = token_topics"
  "hex_EncodeToString (log_Data (transfer_log i)) = token_data"
  "log_Address (transfer_log i) = ''io1token''" "log_BlockHeight (transfer_log i) = 7"
  "log_ActionHash (transfer_log i) = ''a''" "log_Index (transfer_log i) = i"
  by (simp_all add: transfer_log_def token_topics_def token_data_def)

lemma digit_chars [simp]:
  "digit_char 0 = CHR ''0''" "digit_char (Suc 0) = CHR ''1''" "digit_char 2 = CHR ''2''" "digit_char 3 = CHR ''3''"
  "digit_char 4 = CHR ''4''" "digit_char 5 = CHR ''5''" "digit_char 6 = CHR ''6''" "digit_char 7 = CHR ''7''"
  "digit_char 8 = CHR ''8''" "digit_char 9 = CHR ''9''" "digit_char 10 = CHR ''a''" "digit_char 11 = CHR ''b''"
  "digit_char 12 = CHR ''c''" "digit_char 13 = CHR ''d''" "digit_char 14 = CHR ''e''" "digit_char 15 = CHR ''f''"
  by code_simp+

lemma sig_hex: "hex_EncodeToString sig_bytes = transferSha3"
  by (simp add: sig_bytes_def transferSha3_def)

lemma is_prefix_append: "is_prefix xs (xs @ ys)"
  by (induction xs) auto

lemma contains_prefix: "contains (xs @ ys) xs"
  using is_prefix_append[of xs ys] by (cases "xs @ ys") auto

lemma token_topics_sig: "token_topics = transferSha3 @ hex_EncodeToString (replicate 32 (CHR ''a'') @ replicate 32 (CHR ''b''))"
  by (simp add: token_topics_def transfer_log_def sig_hex hex_append)

lemma sig_length: "length sig_bytes = 32" "length transferSha3 = 64"
  by (simp_all add: sig_bytes_def transferSha3_def)

lemma token_lengths: "length token_topics = 192" "length token_data = 64"
  by (simp_all add: token_topics_sig sig_length token_data_def transfer_log_def)

lemma transfer_topics: "contains token_topics transferSha3"
  by (simp add: token_topics_sig contains_prefix)

lemma token_checks: "checkTopics token_topics token_data" "checkTopics token_topics []"
    "\<not> checkXrc721Topics token_topics token_data"
  using token_lengths transfer_topics by (auto simp: checkTopics_def checkXrc721Topics_def)

lemma token_parsed: "ParseContractData (Libs token_ctx) token_topics token_data
    = Inr (''6161'', ''6262'', big_String (big_SetBytes (replicate 31 (char_of (0 :: nat)) @ ''*'')))"
proof (rule ParseContractData_event)
  let ?a = "\<lambda>n. replicate n (CHR ''a'')" and ?b = "\<lambda>n. replicate n (CHR ''b'')"
  have split: "replicate 32 c = replicate 12 c @ replicate 20 c" for c :: char
    by (simp flip: replicate_add)
  show "token_topics @ token_data = hex_EncodeToString
      (sig_bytes @ ?a 12 @ ?a 20 @ ?b 12 @ ?b 20 @ replicate 31 (char_of (0 :: nat)) @ ''*'')"
    by (simp add: token_topics_def token_data_def transfer_log_def hex_append split)
  show "length sig_bytes = 32" by (rule sig_length)
  show "lib_AddressFromBytes (Libs token_ctx) (lib_HexToAddress (Libs token_ctx) (hex_EncodeToString (?a 20))) = Inr ''6161''"
    "lib_AddressFromBytes (Libs token_ctx) (lib_HexToAddress (Libs token_ctx) (hex_EncodeToString (?b 20))) = Inr ''6262''"
    by code_simp+
qed simp_all

lemma probes: "readContract (ChainClient token_ctx) addr f"
  by (simp add: readContract_def token_ctx_def successStatus_def)

definition token_row :: Xrc20History where
  "token_row =
     \<lparr>xh_ActionHash = ''61'', xh_ReceiptHash = ''72'', xh_Address = ''io1token'', xh_Topics = token_topics,
      xh_Data = token_data, xh_BlockHeight = 7, xh_Index = 0, xh_Timestamp = 0, xh_Status = ''success''\<rparr>"

definition token_db :: xrc_db where
  "token_db = empty_xrc\<lparr>xrc20_history := [token_row],
     xrc20_holders := [((''io1token'', ''6161''), 0), ((''io1token'', ''6262''), 0)]\<rparr>"

lemma token_block_handled:
  "updateXrc20History token_ctx token_block empty_xrc new_xrc_mem
   = (Inr token_db, new_xrc_mem\<lparr>xrc20Contract := [''io1token'']\<rparr>)"
proof -
  have hex: "digit_char 6 = CHR ''6''" "digit_char (Suc 0) = CHR ''1''" "digit_char 7 = CHR ''7''"
      "digit_char 2 = CHR ''2''" by code_simp+
  show ?thesis
    by (simp add: updateXrc20History_def collect_xrc_def token_block_def sample_block_def collect_log_def
        Let_def transfer_log_fields checkIsXrc20_def checkIsXrc721_def token_checks probes token_parsed
        new_xrc_mem_def no_xrc_rows_def write_xrc20_def write_xrc721_def insert_history_def
        insert_holders_def exec_values_def empty_xrc_def token_db_def token_row_def hex successStatus_def)
qed

lemma one_transfer_per_receipt_witness:
  "map xh_Index (xrc20_history token_db) = [0] \<and>
   length (xrc20_history token_db) \<le> length (xrc20_history empty_xrc) + card (rcp_Hash ` set (blk_Receipts token_block))"
proof
  show "length (xrc20_history token_db) \<le> length (xrc20_history empty_xrc) + card (rcp_Hash ` set (blk_Receipts token_block))"
    by (rule one_transfer_per_receipt[OF token_block_handled]) (simp add: empty_xrc_def)
qed (simp add: token_db_def token_row_def)

text \<open>A contract that once fails a probe, be it because the call to the chain failed, is never
  again taken for an XRC20 contract while the indexer runs, whatever the chain answers later; one
  that passed is accepted without asking again.\<close>

theorem xrc20_verdict_is_final:
  assumes "checkTopics topics data" and "checkIsXrc20 ictx addr topics data mem = (verdict, mem')"
    and "addr \<in> set (xrc20Contract mem) \<Longrightarrow> addr \<notin> set (nonXrc20Contract mem)"
  shows "checkIsXrc20 ictx' addr topics' data' mem' = (verdict \<and> checkTopics topics' data', mem')"
  using assms by (auto simp: checkIsXrc20_def split: if_splits)

lemma xrc20_verdict_is_final_witness:
  "checkIsXrc20 token_ctx ''io1token'' transferSha3 [] (new_xrc_mem\<lparr>nonXrc20Contract := [''io1token'']\<rparr>)
   = (False \<and> checkTopics transferSha3 [], new_xrc_mem\<lparr>nonXrc20Contract := [''io1token'']\<rparr>)"
proof (rule xrc20_verdict_is_final)
  show "checkTopics transferSha3 []"
    using contains_prefix[of transferSha3 "[]"] sig_length(2) by (auto simp: checkTopics_def)
  then show "checkIsXrc20 offline_ctx ''io1token'' transferSha3 [] new_xrc_mem
      = (False, new_xrc_mem\<lparr>nonXrc20Contract := [''io1token'']\<rparr>)"
    by (simp add: checkIsXrc20_def readContract_def offline_ctx_def offline_def new_xrc_mem_def)
qed (simp add: new_xrc_mem_def)

text \<open>A single event that looks like an XRC20 transfer but whose data cannot be parsed stops the
  indexing of its block: the history rows are there, the list of holders is empty, and the
  \<open>INSERT\<close> of the holders without values is refused.\<close>

theorem unparsable_transfer_blocks_indexing:
  assumes block: "blk_Receipts blk = [r]" "rcp_Logs r = [l]"
    and token: "checkIsXrc20 ictx (log_Address l) (concat (map hex_EncodeToString (log_Topics l)))
      (hex_EncodeToString (log_Data l)) mem = (True, mem')"
    and bad: "ParseContractData (Libs ictx) (concat (map hex_EncodeToString (log_Topics l)))
      (hex_EncodeToString (log_Data l)) = Inl err"
  shows "updateXrc20History ictx blk db mem = (Inl (ErrSQL ''syntax error''), mem')"
proof -
  have "checkTopics (concat (map hex_EncodeToString (log_Topics l))) (hex_EncodeToString (log_Data l))"
    using checkIsXrc20_topics token by (metis fst_conv)
  then have not721: "checkIsXrc721 ictx (log_Address l) (concat (map hex_EncodeToString (log_Topics l)))
      (hex_EncodeToString (log_Data l)) mem' = (False, mem')"
    using checks_exclusive by (auto simp: checkIsXrc721_def)
  show ?thesis
    using block token not721 bad
    by (simp add: updateXrc20History_def collect_xrc_def collect_log_def Let_def no_xrc_rows_def
        write_xrc20_def insert_history_def insert_holders_def exec_values_def)
qed

definition short_block :: block where
  "short_block = (sample_block 7)\<lparr>blk_Receipts :=
     [\<lparr>rcp_Status = 1, rcp_ActionHash = ''a'', rcp_Hash = ''r'', rcp_GasConsumed = 0,
       rcp_Logs = [(transfer_log 0)\<lparr>log_Data := []\<rparr>]\<rparr>]\<rparr>"

lemma unparsable_transfer_blocks_indexing_witness:
  "updateXrc20History token_ctx short_block empty_xrc new_xrc_mem
   = (Inl (ErrSQL ''syntax error''), new_xrc_mem\<lparr>xrc20Contract := [''io1token'']\<rparr>)"
proof (rule unparsable_transfer_blocks_indexing)
  let ?l = "(transfer_log 0)\<lparr>log_Data := []\<rparr>"
  show "blk_Receipts short_block = [\<lparr>rcp_Status = 1, rcp_ActionHash = ''a'', rcp_Hash = ''r'',
      rcp_GasConsumed = 0, rcp_Logs = [?l]\<rparr>]"
    by (simp add: short_block_def)
  show "checkIsXrc20 token_ctx (log_Address ?l) (concat (map hex_EncodeToString (log_Topics ?l)))
      (hex_EncodeToString (log_Data ?l)) new_xrc_mem = (True, new_xrc_mem\<lparr>xrc20Contract := [''io1token'']\<rparr>)"
    by (simp add: checkIsXrc20_def transfer_log_fields token_checks probes new_xrc_mem_def)
  show "ParseContractData (Libs token_ctx) (concat (map hex_EncodeToString (log_Topics ?l)))
      (hex_EncodeToString (log_Data ?l)) = Inl (ErrMsg ''data's len is wrong'')"
    by (simp add: ParseContractData_def transfer_log_fields token_lengths topicsPlusDataLen_def)
qed simp

end
