(* ===== verification/Actions.thy ===== *)
theory Actions imports Xrc begin

text \<open>
  \<open>indexprotocol/actions\<close> (\<open>protocol.go\<close>, \<open>bucket.go\<close>, \<open>hermes.go\<close>): one history row per action
  with the outcome its receipt reports, the staking bucket an action concerns, and the
  distributions of the Hermes contract. The heights of the block history are an argument, because
  the table has a foreign key on them.
\<close>

record ActionInfo =
  ai_ActionType :: string
  ai_ActionHash :: string
  ai_ReceiptHash :: string
  ai_From :: string
  ai_To :: string
  ai_GasPrice :: string
  ai_Nonce :: u64
  ai_Amount :: string

record ReceiptInfo =
  ri_ReceiptHash :: string
  ri_GasConsumed :: u64
  ri_ReceiptStatus :: string

record ActionHistory =
  ah_ActionType :: string
  ah_ActionHash :: string
  ah_ReceiptHash :: string
  ah_BlockHeight :: u64
  ah_From :: string
  ah_To :: string
  ah_GasPrice :: int
  ah_GasConsumed :: u64
  ah_Nonce :: u64
  ah_Amount :: int
  ah_ReceiptStatus :: string

record HermesContractInfo =
  hc_EpochNumber :: u64
  hc_ActionHash :: string
  hc_FromEpoch :: u64
  hc_ToEpoch :: u64
  hc_DelegateName :: string
  hc_Timestamp :: string

text \<open>The table of bucket actions is \<open>None\<close> when it does not exist.\<close>

record actions_db =
  action_history :: "ActionHistory list"
  bucket_actions :: "(string \<times> int) list option"
  hermes_contract :: "HermesContractInfo list"
  xrc_tables :: xrc_db

subsection \<open>Actions and receipts\<close>

fun action_type_amount :: "action \<Rightarrow> string \<times> string" where
  "action_type_amount (Transfer n) = (''transfer'', big_String n)"
| "action_type_amount (Execution n) = (''execution'', big_String n)"
| "action_type_amount (DepositToRewardingFund n) = (''depositToRewardingFund'', big_String n)"
| "action_type_amount (ClaimFromRewardingFund n) = (''claimFromRewardingFund'', big_String n)"
| "action_type_amount GrantReward = (''grantReward'', ''0'')"
| "action_type_amount (CreateStake n) = (''stakeCreate'', big_String n)"
| "action_type_amount Unstake = (''stakeUnstake'', ''0'')"
| "action_type_amount WithdrawStake = (''stakeWithdraw'', ''0'')"
| "action_type_amount (DepositToStake n) = (''stakeAddDeposit'', big_String n)"
| "action_type_amount Restake = (''stakeRestake'', ''0'')"
| "action_type_amount ChangeCandidate = (''stakeChangeCandidate'', ''0'')"
| "action_type_amount TransferStake = (''stakeTransferOwnership'', ''0'')"
| "action_type_amount (CandidateRegister n) = (''candidateRegister'', big_String n)"
| "action_type_amount CandidateUpdate = (''candidateUpdate'', ''0'')"
| "action_type_amount PutPollResult = (''putPollResult'', ''0'')"
| "action_type_amount OtherAction = ([], ''0'')"

text \<open>
  The first loop: the action at index \<open>i\<close> is stored under the action hash of the receipt at index
  \<open>i\<close>, which panics when there are fewer receipts than actions.
\<close>

definition index_receipt :: "receipt list \<Rightarrow> nat \<Rightarrow> go_error + receipt" where
  "index_receipt receipts i =
     (if i < length receipts then Inr (receipts ! i) else Inl (Panic ''runtime error: index out of range''))"

definition action_info :: "IndexCtx \<Rightarrow> string \<Rightarrow> sealed_envelope \<Rightarrow> go_error + ActionInfo" where
  "action_info ictx actionHash selp =
     andThen (lib_AddressFromBytes (Libs ictx) (selp_SrcPubkeyHash selp)) (\<lambda>callerAddr.
     case action_type_amount (selp_Action selp) of (actionType, amount) \<Rightarrow>
     Inr \<lparr>ai_ActionType = actionType, ai_ActionHash = hex_EncodeToString actionHash,
          ai_ReceiptHash = ZeroHash256, ai_From = callerAddr, ai_To = selp_Destination selp,
          ai_GasPrice = big_String (selp_GasPrice selp), ai_Nonce = selp_Nonce selp, ai_Amount = amount\<rparr>)"

definition add_action ::
  "IndexCtx \<Rightarrow> HermesConfig \<Rightarrow> receipt list \<Rightarrow> nat \<times> sealed_envelope \<Rightarrow>
   (string \<times> ActionInfo) list \<times> string list \<Rightarrow> go_error + (string \<times> ActionInfo) list \<times> string list"
where
  "add_action ictx cfg receipts = (\<lambda>(i, selp) (infos, hermesHashes).
     andThen (index_receipt receipts i) (\<lambda>r.
     andThen (action_info ictx (rcp_ActionHash r) selp) (\<lambda>info.
     Inr (AList.update (rcp_ActionHash r) info infos,
          if selp_Destination selp = HermesContractAddress cfg then rcp_ActionHash r # hermesHashes
          else hermesHashes))))"

definition receipt_status :: "receipt \<Rightarrow> string" where
  "receipt_status r = (if rcp_Status r = 1 then ''success'' else ''failure'')"

definition receipt_info :: "receipt \<Rightarrow> ReceiptInfo" where
  "receipt_info r =
     \<lparr>ri_ReceiptHash = hex_EncodeToString (rcp_Hash r), ri_GasConsumed = rcp_GasConsumed r,
      ri_ReceiptStatus = receipt_status r\<rparr>"

text \<open>The second loop: each receipt is joined to its action and noted if Hermes succeeded.\<close>

definition add_receipt ::
  "string list \<Rightarrow> receipt \<Rightarrow> (string \<times> ActionInfo) list \<times> (string \<times> ReceiptInfo) list \<times> receipt list \<Rightarrow>
   go_error + (string \<times> ActionInfo) list \<times> (string \<times> ReceiptInfo) list \<times> receipt list"
where
  "add_receipt hermesHashes r = (\<lambda>(infos, receiptInfos, hermesReceipts).
     case map_of infos (rcp_ActionHash r) of
       None \<Rightarrow> Inl (ErrMsg ''failed to find the corresponding action from receipt'')
     | Some info \<Rightarrow>
         Inr (AList.update (rcp_ActionHash r) (info\<lparr>ai_ReceiptHash := rcp_Hash r\<rparr>) infos,
              AList.update (rcp_Hash r) (receipt_info r) receiptInfos,
              if receipt_status r = ''success'' \<and> rcp_ActionHash r \<in> set hermesHashes
              then hermesReceipts @ [r] else hermesReceipts))"

definition history_row ::
  "(string \<times> ActionInfo) list \<Rightarrow> (string \<times> ReceiptInfo) list \<Rightarrow> block \<Rightarrow> nat \<Rightarrow> go_error + ActionHistory"
where
  "history_row infos receiptInfos blk i =
     andThen (index_receipt (blk_Receipts blk) i) (\<lambda>r.
     case map_of infos (rcp_ActionHash r) of
       None \<Rightarrow> Inl (Panic ''invalid memory address or nil pointer dereference'')
     | Some info \<Rightarrow>
         if ai_ReceiptHash info = ZeroHash256 then Inl (ErrMsg ''action receipt is missing'')
         else
           (case map_of receiptInfos (ai_ReceiptHash info) of
              None \<Rightarrow> Inl (Panic ''invalid memory address or nil pointer dereference'')
            | Some rinfo \<Rightarrow>
                andThen (sql_decimal (ai_GasPrice info)) (\<lambda>gasPrice.
                andThen (sql_decimal (ai_Amount info)) (\<lambda>amount.
                Inr \<lparr>ah_ActionType = ai_ActionType info, ah_ActionHash = ai_ActionHash info,
                     ah_ReceiptHash = ri_ReceiptHash rinfo, ah_BlockHeight = blk_Height blk,
                     ah_From = ai_From info, ah_To = ai_To info, ah_GasPrice = gasPrice,
                     ah_GasConsumed = ri_GasConsumed rinfo, ah_Nonce = ai_Nonce info,
                     ah_Amount = amount, ah_ReceiptStatus = ri_ReceiptStatus rinfo\<rparr>))))"

text \<open>
  One \<open>INSERT\<close> of all rows: the action hash is the primary key, the receipt hash is unique, and
  the block height has to be in the block history already.
\<close>

definition insert_actions :: "u64 list \<Rightarrow> ActionHistory list \<Rightarrow> ActionHistory list \<Rightarrow> go_error + ActionHistory list" where
  "insert_actions heights rows t =
     exec_values rows
       (if \<not> (\<forall>r \<in> set rows. ah_BlockHeight r \<in> set heights)
        then Inl (ErrSQL ''a foreign key constraint fails'')
        else andThen (insert_unique ah_ActionHash rows t) (\<lambda>t'.
             andThen (insert_unique ah_ReceiptHash rows t) (\<lambda>_. Inr t')))"

definition updateActionHistory ::
  "u64 list \<Rightarrow> (string \<times> ActionInfo) list \<Rightarrow> (string \<times> ReceiptInfo) list \<Rightarrow> block \<Rightarrow> actions_db \<Rightarrow>
   go_error + actions_db"
where
  "updateActionHistory heights infos receiptInfos blk db =
     andThen (mapE (history_row infos receiptInfos blk) [0..<length (blk_Actions blk)]) (\<lambda>rows.
     andThen (insert_actions heights rows (action_history db)) (\<lambda>t.
     Inr (db\<lparr>action_history := t\<rparr>)))"

subsection \<open>Staking buckets\<close>

definition bucket_rows :: "string \<Rightarrow> block \<Rightarrow> (string \<times> int) list" where
  "bucket_rows stakingAddr blk =
     concat (map (\<lambda>r. map (\<lambda>l. (hex_EncodeToString (rcp_ActionHash r), big_SetBytes (log_Topics l ! 1)))
       (filter (\<lambda>l. log_Address l = stakingAddr \<and> 1 < length (log_Topics l)) (rcp_Logs r))) (blk_Receipts blk))"

text \<open>\<open>INSERT IGNORE\<close> also drops the rows whose action is not in the action history.\<close>

definition insert_bucket_actions :: "(string \<times> int) list \<Rightarrow> actions_db \<Rightarrow> go_error + actions_db" where
  "insert_bucket_actions rows db =
     (case bucket_actions db of
        None \<Rightarrow> Inl (ErrSQL ''Table bucket_actions does not exist'')
      | Some t \<Rightarrow> Inr (db\<lparr>bucket_actions := Some
          (insert_ignore fst (filter (\<lambda>r. fst r \<in> ah_ActionHash ` set (action_history db)) rows) t)\<rparr>))"

definition updateBucketActions :: "IndexCtx \<Rightarrow> block \<Rightarrow> actions_db \<Rightarrow> go_error + actions_db" where
  "updateBucketActions ictx blk db =
     andThen (lib_AddressFromBytes (Libs ictx) (lib_Hash160b (Libs ictx) ''staking'')) (\<lambda>stakingAddr.
     let rows = bucket_rows stakingAddr blk in
     if rows = [] then Inr db else insert_bucket_actions rows db)"

text \<open>
  \<open>CreateBucketActionTables\<close> creates the table if it is missing; \<open>CreateTables\<close> creates the tables
  of the history, of XRC20 and of Hermes, which are always there in this state, and does not call it.
\<close>

definition CreateBucketActionTables :: "actions_db \<Rightarrow> actions_db" where
  "CreateBucketActionTables db =
     db\<lparr>bucket_actions := (case bucket_actions db of None \<Rightarrow> Some [] | Some t \<Rightarrow> Some t)\<rparr>"

subsection \<open>The Hermes contract\<close>

definition DistributeMsgEmitter :: string where
  "DistributeMsgEmitter = ''Distribute(uint256,uint256,bytes32,uint256,uint256)''"

definition emitterIsDistributeByTopic :: "libs \<Rightarrow> string \<Rightarrow> bool" where
  "emitterIsDistributeByTopic l logTopic = (lib_Keccak256 l DistributeMsgEmitter = logTopic)"

text \<open>\<open>logTopic[:n]\<close> with \<open>n = -1\<close>, when there is no zero byte, is a slice out of range.\<close>

definition getDelegateNameFromTopic :: "string \<Rightarrow> go_error + string" where
  "getDelegateNameFromTopic logTopic =
     (if char_of (0 :: nat) \<in> set logTopic then Inr (takeWhile (\<lambda>c. c \<noteq> char_of (0 :: nat)) logTopic)
      else Inl (Panic ''runtime error: slice bounds out of range''))"

text \<open>The reverse loop over the logs; \<open>Uint64()\<close> keeps the low 64 bits.\<close>

fun distribute_event :: "libs \<Rightarrow> event_log list \<Rightarrow> go_error + (u64 \<times> u64 \<times> string) option" where
  "distribute_event l [] = Inr None"
| "distribute_event l (ev # earlier) =
     (if length (log_Topics ev) < 2 then distribute_event l earlier
      else if \<not> emitterIsDistributeByTopic l (log_Topics ev ! 0) then distribute_event l earlier
      else
        andThen (lib_UnpackDistribute l (log_Data ev)) (\<lambda>(startEpoch, endEpoch).
        andThen (getDelegateNameFromTopic (log_Topics ev ! 1)) (\<lambda>name.
        Inr (Some (of_int startEpoch, of_int endEpoch, name)))))"

definition getDistributeEventFromLog :: "libs \<Rightarrow> event_log list \<Rightarrow> go_error + (u64 \<times> u64 \<times> string) option" where
  "getDistributeEventFromLog l logs = distribute_event l (rev logs)"

definition hermes_info :: "libs \<Rightarrow> u64 \<Rightarrow> string \<Rightarrow> receipt \<Rightarrow> go_error + HermesContractInfo list" where
  "hermes_info l epochNumber timestamp r =
     andThen (wrap ''failed to get distribute event information from log''
       (getDistributeEventFromLog l (rcp_Logs r))) (\<lambda>event.
     Inr (case event of
        None \<Rightarrow> []
      | Some (fromEpoch, toEpoch, delegateName) \<Rightarrow>
          [\<lparr>hc_EpochNumber = epochNumber, hc_ActionHash = hex_EncodeToString (rcp_ActionHash r),
            hc_FromEpoch = fromEpoch, hc_ToEpoch = toEpoch, hc_DelegateName = delegateName,
            hc_Timestamp = timestamp\<rparr>]))"

definition insertHermesContract :: "HermesContractInfo list \<Rightarrow> actions_db \<Rightarrow> go_error + actions_db" where
  "insertHermesContract contractList db =
     andThen (exec_values contractList (insert_unique hc_ActionHash contractList (hermes_contract db))) (\<lambda>t.
     Inr (db\<lparr>hermes_contract := t\<rparr>))"

definition updateHermesContract ::
  "libs \<Rightarrow> receipt list \<Rightarrow> u64 \<Rightarrow> string \<Rightarrow> actions_db \<Rightarrow> go_error + actions_db"
where
  "updateHermesContract l receipts epochNumber timestamp db =
     andThen (mapE (hermes_info l epochNumber timestamp) receipts) (\<lambda>infos.
     if concat infos = [] then Inr db else insertHermesContract (concat infos) db)"

subsection \<open>Handling a block\<close>

definition join_block ::
  "IndexCtx \<Rightarrow> HermesConfig \<Rightarrow> block \<Rightarrow>
   go_error + (string \<times> ActionInfo) list \<times> (string \<times> ReceiptInfo) list \<times> receipt list"
where
  "join_block ictx cfg blk =
     andThen (foldE (add_action ictx cfg (blk_Receipts blk)) (enumerate 0 (blk_Actions blk)) ([], [])) (\<lambda>(infos, hermesHashes).
     foldE (add_receipt hermesHashes) (blk_Receipts blk) (infos, [], []))"

definition actions_HandleBlock ::
  "EpochCtx \<Rightarrow> HermesConfig \<Rightarrow> IndexCtx \<Rightarrow> u64 list \<Rightarrow> block \<Rightarrow> (actions_db \<times> xrc_mem, unit) go"
where
  "actions_HandleBlock epochCtx cfg ictx heights blk = (\<lambda>(db, mem).
     case andThen (join_block ictx cfg blk) (\<lambda>(infos, receiptInfos, hermesReceipts).
       andThen (updateActionHistory heights infos receiptInfos blk db) (\<lambda>db.
       Inr (db, hermesReceipts))) of
       Inl e \<Rightarrow> (Inl e, (db, mem))
     | Inr (db, hermesReceipts) \<Rightarrow>
         (case updateXrc20History ictx blk (xrc_tables db) mem of
            (Inl e, mem) \<Rightarrow> (Inl e, (db, mem))
          | (Inr x, mem) \<Rightarrow>
              (case andThen (updateBucketActions ictx blk (db\<lparr>xrc_tables := x\<rparr>)) (\<lambda>db.
                  if hermesReceipts = [] then Inr db
                  else andThen (GetEpochNumber epochCtx (blk_Height blk)) (\<lambda>epochNumber.
                       updateHermesContract (Libs ictx) hermesReceipts epochNumber (blk_TimestampString blk) db)) of
                 Inl e \<Rightarrow> (Inl e, (db, mem))
               | Inr db' \<Rightarrow> (Inr (), (db', mem)))))"

definition getActionHistory :: "string \<Rightarrow> actions_db \<Rightarrow> go_error + ActionHistory" where
  "getActionHistory actionHash db =
     (case filter (\<lambda>r. ah_ActionHash r = actionHash) (action_history db) of
        [] \<Rightarrow> Inl ErrNotExist
      | [r] \<Rightarrow> Inr r
      | _ \<Rightarrow> Inl (ErrMsg ''only one row is expected''))"

subsection \<open>Lemmas\<close>

text \<open>
  The two loops. \<open>action_info\<close> stores an action under the hash of its receipt, and the second
  loop only sets the receipt hash of an entry.
\<close>

lemma action_info_hash: "action_info ictx h selp = Inr info \<Longrightarrow> ai_ActionHash info = hex_EncodeToString h"
  by (cases "action_type_amount (selp_Action selp)") (auto simp: action_info_def andThen_eq_Inr)

lemma add_action_eq_Inr:
  "add_action ictx cfg receipts (i, selp) (infos, hh) = Inr (infos', hh') \<longleftrightarrow>
   i < length receipts \<and>
   (\<exists>info. action_info ictx (rcp_ActionHash (receipts ! i)) selp = Inr info \<and>
      infos' = AList.update (rcp_ActionHash (receipts ! i)) info infos \<and>
      hh' = (if selp_Destination selp = HermesContractAddress cfg then rcp_ActionHash (receipts ! i) # hh else hh))"
  by (auto simp: add_action_def index_receipt_def andThen_eq_Inr)

definition infos_hashed :: "(string \<times> ActionInfo) list \<Rightarrow> bool" where
  "infos_hashed infos = (\<forall>h info. map_of infos h = Some info \<longrightarrow> ai_ActionHash info = hex_EncodeToString h)"

lemma add_actions_hashed:
  assumes "foldE (add_action ictx cfg receipts) xs (infos, hh) = Inr (infos', hh')" "infos_hashed infos"
  shows "infos_hashed infos'"
proof -
  have "infos_hashed (fst (infos', hh'))"
  proof (rule foldE_invariant[OF assms(1), where I = "\<lambda>s. infos_hashed (fst s)"])
    fix x s t
    assume "infos_hashed (fst s)" "add_action ictx cfg receipts x s = Inr t"
    then show "infos_hashed (fst t)"
      by (cases x; cases s; cases t) (auto simp: add_action_eq_Inr infos_hashed_def action_info_hash split: if_splits)
  qed (simp add: assms(2))
  then show ?thesis by simp
qed

lemma add_actions_bound:
  "foldE (add_action ictx cfg receipts) (enumerate n acts) s = Inr s' \<Longrightarrow> acts = [] \<or> n + length acts \<le> length receipts"
proof (induction acts arbitrary: n s)
  case (Cons a acts)
  obtain s1 where one: "add_action ictx cfg receipts (n, a) s = Inr s1"
    and more: "foldE (add_action ictx cfg receipts) (enumerate (Suc n) acts) s1 = Inr s'"
    using Cons.prems by (auto simp: andThen_eq_Inr)
  from one have "n < length receipts" by (cases s; cases s1) (auto simp: add_action_eq_Inr)
  with Cons.IH[OF more] show ?case by auto
qed simp

text \<open>The entries of the actions from index \<open>n\<close> on.\<close>

lemma add_actions_entries:
  assumes "foldE (add_action ictx cfg receipts) (enumerate n acts) (infos, hh) = Inr (infos', hh')"
    and "distinct (map rcp_ActionHash (drop n receipts))"
  shows "h \<notin> rcp_ActionHash ` set (drop n receipts) \<Longrightarrow> map_of infos' h = map_of infos h"
    and "i < length acts \<Longrightarrow>
     \<exists>info. action_info ictx (rcp_ActionHash (receipts ! (n + i))) (acts ! i) = Inr info \<and>
       map_of infos' (rcp_ActionHash (receipts ! (n + i))) = Some info"
  using assms
proof (induction acts arbitrary: n infos hh i h)
  case (Cons a acts)
  {
    case 1
    then obtain infos1 hh1 where one: "add_action ictx cfg receipts (n, a) (infos, hh) = Inr (infos1, hh1)"
      and more: "foldE (add_action ictx cfg receipts) (enumerate (Suc n) acts) (infos1, hh1) = Inr (infos', hh')"
      by (auto simp: andThen_eq_Inr)
    from one have n: "n < length receipts" by (simp add: add_action_eq_Inr)
    have "h \<notin> rcp_ActionHash ` set (drop (Suc n) receipts)" "distinct (map rcp_ActionHash (drop (Suc n) receipts))"
        "h \<noteq> rcp_ActionHash (receipts ! n)"
      using 1 n by (simp_all flip: Cons_nth_drop_Suc)
    then show ?case using Cons.IH(1)[OF _ more] one by (auto simp: add_action_eq_Inr)
  next
    case 2
    obtain infos1 hh1 where one: "add_action ictx cfg receipts (n, a) (infos, hh) = Inr (infos1, hh1)"
      and more: "foldE (add_action ictx cfg receipts) (enumerate (Suc n) acts) (infos1, hh1) = Inr (infos', hh')"
      using 2(2) by (auto simp: andThen_eq_Inr)
    from one obtain info where info: "n < length receipts"
        "action_info ictx (rcp_ActionHash (receipts ! n)) a = Inr info"
        "infos1 = AList.update (rcp_ActionHash (receipts ! n)) info infos"
      by (auto simp: add_action_eq_Inr)
    have dist: "distinct (map rcp_ActionHash (drop (Suc n) receipts))"
        "rcp_ActionHash (receipts ! n) \<notin> rcp_ActionHash ` set (drop (Suc n) receipts)"
      using 2(3) info(1) by (simp_all flip: Cons_nth_drop_Suc)
    show ?case
    proof (cases i)
      case 0
      then show ?thesis using Cons.IH(1)[OF dist(2) more dist(1)] info by simp
    next
      case (Suc j)
      then show ?thesis using Cons.IH(2)[OF _ more dist(1), of j] 2(1) by simp
    qed
  }
qed simp_all

text \<open>The second loop keeps every entry up to its receipt hash and needs an entry per receipt.\<close>

lemma add_receipt_eq_Inr:
  "add_receipt hh r (infos, ris, hr) = Inr (infos', ris', hr') \<longleftrightarrow>
   (\<exists>info. map_of infos (rcp_ActionHash r) = Some info \<and>
      infos' = AList.update (rcp_ActionHash r) (info\<lparr>ai_ReceiptHash := rcp_Hash r\<rparr>) infos \<and>
      ris' = AList.update (rcp_Hash r) (receipt_info r) ris \<and>
      hr' = (if receipt_status r = ''success'' \<and> rcp_ActionHash r \<in> set hh then hr @ [r] else hr))"
  by (auto simp: add_receipt_def split: option.splits)

lemma add_receipts_hashed:
  "foldE (add_receipt hh) rs (infos, ris, hr) = Inr (infos', ris', hr') \<Longrightarrow> infos_hashed infos \<Longrightarrow> infos_hashed infos'"
proof (induction rs arbitrary: infos ris hr)
  case (Cons r rs)
  obtain infos1 ris1 hr1 where one: "add_receipt hh r (infos, ris, hr) = Inr (infos1, ris1, hr1)"
    and more: "foldE (add_receipt hh) rs (infos1, ris1, hr1) = Inr (infos', ris', hr')"
    using Cons.prems(1) by (auto simp: andThen_eq_Inr)
  from one Cons.prems(2) have "infos_hashed infos1" by (auto simp: add_receipt_eq_Inr infos_hashed_def split: if_splits)
  with Cons.IH[OF more] show ?case by blast
qed simp

lemma add_receipts_entries:
  assumes "foldE (add_receipt hh) rs (infos, ris, hr) = Inr (infos', ris', hr')"
    and "distinct (map rcp_ActionHash rs)"
  shows "h \<notin> rcp_ActionHash ` set rs \<Longrightarrow> map_of infos' h = map_of infos h"
    and "r \<in> set rs \<Longrightarrow> \<exists>info. map_of infos (rcp_ActionHash r) = Some info \<and>
       map_of infos' (rcp_ActionHash r) = Some (info\<lparr>ai_ReceiptHash := rcp_Hash r\<rparr>)"
  using assms
proof (induction rs arbitrary: infos ris hr h)
  case (Cons x rs)
  {
    case 1
    then show ?case using Cons.IH(1) by (fastforce simp: andThen_eq_Inr add_receipt_eq_Inr)
  next
    case 2
    obtain infos1 ris1 hr1 where one: "add_receipt hh x (infos, ris, hr) = Inr (infos1, ris1, hr1)"
      and more: "foldE (add_receipt hh) rs (infos1, ris1, hr1) = Inr (infos', ris', hr')"
      using 2(2) by (auto simp: andThen_eq_Inr)
    have dist: "distinct (map rcp_ActionHash rs)" "rcp_ActionHash x \<notin> rcp_ActionHash ` set rs"
      using 2(3) by simp_all
    show ?case
    proof (cases "r = x")
      case True
      then show ?thesis using Cons.IH(1)[OF dist(2) more dist(1)] one by (auto simp: add_receipt_eq_Inr)
    next
      case False
      then have "r \<in> set rs" using 2(1) by simp
      moreover from this dist(2) have "rcp_ActionHash r \<noteq> rcp_ActionHash x" by (metis imageI)
      ultimately show ?thesis using Cons.IH(2)[OF _ more dist(1)] one by (auto simp: add_receipt_eq_Inr)
    qed
  }
qed simp_all

lemma add_receipts_infos:
  assumes "foldE (add_receipt hh) rs (infos, ris, hr) = Inr (infos', ris', hr')"
    and "map_of ris' h = Some ri"
  shows "map_of ris h = Some ri \<or> (\<exists>r \<in> set rs. rcp_Hash r = h \<and> ri = receipt_info r)"
  using assms
proof (induction rs arbitrary: infos ris hr)
  case (Cons x rs)
  obtain infos1 ris1 hr1 where one: "add_receipt hh x (infos, ris, hr) = Inr (infos1, ris1, hr1)"
    and more: "foldE (add_receipt hh) rs (infos1, ris1, hr1) = Inr (infos', ris', hr')"
    using Cons.prems(1) by (auto simp: andThen_eq_Inr)
  from Cons.IH[OF more Cons.prems(2)] one show ?case
    by (auto simp: add_receipt_eq_Inr split: if_splits)
qed simp

text \<open>What a block writes into the action history.\<close>

lemma updateBucketActions_keeps: "updateBucketActions ictx blk db = Inr db' \<Longrightarrow> action_history db' = action_history db"
  by (auto simp: updateBucketActions_def insert_bucket_actions_def Let_def andThen_eq_Inr split: if_splits option.splits)

lemma updateHermesContract_keeps:
  "updateHermesContract l rs ep ts db = Inr db' \<Longrightarrow> action_history db' = action_history db"
  by (auto simp: updateHermesContract_def insertHermesContract_def andThen_eq_Inr split: if_splits)

lemma insert_actions_eq_Inr:
  "insert_actions heights rows t = Inr t' \<longleftrightarrow>
   rows \<noteq> [] \<and> (\<forall>r \<in> set rows. ah_BlockHeight r \<in> set heights) \<and> t' = t @ rows \<and>
   distinct (map ah_ActionHash rows) \<and> ah_ActionHash ` set rows \<inter> ah_ActionHash ` set t = {} \<and>
   distinct (map ah_ReceiptHash rows) \<and> ah_ReceiptHash ` set rows \<inter> ah_ReceiptHash ` set t = {}"
  by (auto simp: insert_actions_def exec_values_def andThen_eq_Inr insert_unique_eq_Inr)

lemma actions_HandleBlock_eq_Inr:
  assumes "actions_HandleBlock ec cfg ictx heights blk (db, mem) = (Inr u, (db', mem'))"
  obtains infos ris hr rows where
    "join_block ictx cfg blk = Inr (infos, ris, hr)"
    "mapE (history_row infos ris blk) [0..<length (blk_Actions blk)] = Inr rows"
    "insert_actions heights rows (action_history db) = Inr (action_history db @ rows)"
    "action_history db' = action_history db @ rows"
proof -
  obtain infos ris hr db1 where join: "join_block ictx cfg blk = Inr (infos, ris, hr)"
    and upd: "updateActionHistory heights infos ris blk db = Inr db1"
    and rest: "(case updateXrc20History ictx blk (xrc_tables db1) mem of
            (Inl e, mem) \<Rightarrow> (Inl e, (db1, mem))
          | (Inr x, mem) \<Rightarrow>
              (case andThen (updateBucketActions ictx blk (db1\<lparr>xrc_tables := x\<rparr>)) (\<lambda>db.
                  if hr = [] then Inr db
                  else andThen (GetEpochNumber ec (blk_Height blk)) (\<lambda>epochNumber.
                       updateHermesContract (Libs ictx) hr epochNumber (blk_TimestampString blk) db)) of
                 Inl e \<Rightarrow> (Inl e, (db1, mem))
               | Inr db' \<Rightarrow> (Inr (), (db', mem)))) = (Inr u, (db', mem'))"
    using assms by (auto simp: actions_HandleBlock_def andThen_eq_Inr split: sum.splits)
  obtain x mem1 where "updateXrc20History ictx blk (xrc_tables db1) mem = (Inr x, mem1)"
    using rest by (auto split: prod.splits sum.splits)
  with rest have "action_history db' = action_history db1"
    by (auto simp: andThen_eq_Inr split: sum.splits if_splits
        dest!: updateBucketActions_keeps updateHermesContract_keeps)
  moreover from upd obtain rows where "mapE (history_row infos ris blk) [0..<length (blk_Actions blk)] = Inr rows"
    "insert_actions heights rows (action_history db) = Inr (action_history db1)"
    by (auto simp: updateActionHistory_def andThen_eq_Inr)
  ultimately show ?thesis using that[OF join] by (metis insert_actions_eq_Inr)
qed

lemma history_row_eq_Inr:
  assumes "history_row infos ris blk i = Inr row"
  shows "\<exists>info ri gasPrice amount. i < length (blk_Receipts blk) \<and>
    map_of infos (rcp_ActionHash (blk_Receipts blk ! i)) = Some info \<and>
    map_of ris (ai_ReceiptHash info) = Some ri \<and>
    sql_decimal (ai_GasPrice info) = Inr gasPrice \<and> sql_decimal (ai_Amount info) = Inr amount \<and>
    row = \<lparr>ah_ActionType = ai_ActionType info, ah_ActionHash = ai_ActionHash info,
       ah_ReceiptHash = ri_ReceiptHash ri, ah_BlockHeight = blk_Height blk, ah_From = ai_From info,
       ah_To = ai_To info, ah_GasPrice = gasPrice, ah_GasConsumed = ri_GasConsumed ri,
       ah_Nonce = ai_Nonce info, ah_Amount = amount, ah_ReceiptStatus = ri_ReceiptStatus ri\<rparr>"
proof -
  let ?h = "rcp_ActionHash (blk_Receipts blk ! i)"
  from assms have "i < length (blk_Receipts blk)"
    by (auto simp: history_row_def index_receipt_def split: if_splits)
  moreover from this assms obtain info where "map_of infos ?h = Some info"
    by (cases "map_of infos ?h") (auto simp: history_row_def index_receipt_def)
  moreover from calculation assms obtain ri where "map_of ris (ai_ReceiptHash info) = Some ri"
    by (cases "map_of ris (ai_ReceiptHash info)") (auto simp: history_row_def index_receipt_def split: if_splits)
  ultimately show ?thesis
    using assms by (auto simp: history_row_def index_receipt_def andThen_eq_Inr split: if_splits)
qed

text \<open>The row an action and its receipt stand for.\<close>

fun transferred :: "action \<Rightarrow> int" where
  "transferred (Transfer n) = n"
| "transferred (Execution n) = n"
| "transferred (DepositToRewardingFund n) = n"
| "transferred (ClaimFromRewardingFund n) = n"
| "transferred (CreateStake n) = n"
| "transferred (DepositToStake n) = n"
| "transferred (CandidateRegister n) = n"
| "transferred _ = 0"

lemma action_amount: "action_type_amount a = (ty, am) \<Longrightarrow> am = big_String (transferred a)"
  by (cases a) (auto simp: big_String_def show_nat.simps)

definition action_row :: "string \<Rightarrow> u64 \<Rightarrow> sealed_envelope \<Rightarrow> receipt \<Rightarrow> ActionHistory" where
  "action_row caller height selp r =
     \<lparr>ah_ActionType = fst (action_type_amount (selp_Action selp)), ah_ActionHash = hex_EncodeToString (rcp_ActionHash r),
      ah_ReceiptHash = hex_EncodeToString (rcp_Hash r), ah_BlockHeight = height, ah_From = caller,
      ah_To = selp_Destination selp, ah_GasPrice = selp_GasPrice selp, ah_GasConsumed = rcp_GasConsumed r,
      ah_Nonce = selp_Nonce selp, ah_Amount = transferred (selp_Action selp), ah_ReceiptStatus = receipt_status r\<rparr>"

lemma join_block_hashed:
  "join_block ictx cfg blk = Inr (infos, ris, hr) \<Longrightarrow> infos_hashed infos"
  by (auto simp: join_block_def andThen_eq_Inr infos_hashed_def
      dest!: add_actions_hashed add_receipts_hashed)

lemma join_block_entry:
  assumes "join_block ictx cfg blk = Inr (infos, ris, hr)"
    and "distinct (map rcp_ActionHash (blk_Receipts blk))"
    and "i < length (blk_Actions blk)" "i < length (blk_Receipts blk)"
  shows "\<exists>info. action_info ictx (rcp_ActionHash (blk_Receipts blk ! i)) (blk_Actions blk ! i) = Inr info \<and>
    map_of infos (rcp_ActionHash (blk_Receipts blk ! i)) = Some (info\<lparr>ai_ReceiptHash := rcp_Hash (blk_Receipts blk ! i)\<rparr>)"
proof -
  obtain infos1 hh where acts: "foldE (add_action ictx cfg (blk_Receipts blk)) (enumerate 0 (blk_Actions blk)) ([], []) = Inr (infos1, hh)"
    and rcps: "foldE (add_receipt hh) (blk_Receipts blk) (infos1, [], []) = Inr (infos, ris, hr)"
    using assms(1) by (auto simp: join_block_def andThen_eq_Inr)
  show ?thesis
    using add_actions_entries(2)[OF acts _ assms(3)] add_receipts_entries(2)[OF rcps assms(2) nth_mem[OF assms(4)]]
      assms(2) by auto
qed

lemma join_block_receipt:
  assumes "join_block ictx cfg blk = Inr (infos, ris, hr)" and "map_of ris h = Some ri"
  shows "\<exists>r \<in> set (blk_Receipts blk). rcp_Hash r = h \<and> ri = receipt_info r"
  using assms add_receipts_infos by (fastforce simp: join_block_def andThen_eq_Inr)

text \<open>When every action has a receipt, the rows written are the \<open>action_row\<close>s of the pairs.\<close>

lemma distinct_key_rows:
  assumes "\<And>i. i < length rows \<Longrightarrow> f (rows ! i) = hex_EncodeToString (g (rs ! i))"
    and "length rs = length rows" and "distinct (map f rows)"
  shows "distinct (map g rs)"
proof -
  have "map f rows = map (hex_EncodeToString \<circ> g) rs"
    using assms(1,2) by (intro nth_equalityI) auto
  with assms(3) show ?thesis by (metis distinct_map list.map_comp)
qed

lemma written_rows:
  assumes join: "join_block ictx cfg blk = Inr (infos, ris, hr)"
    and rows: "mapE (history_row infos ris blk) [0..<length (blk_Actions blk)] = Inr rows"
    and len: "length (blk_Receipts blk) = length (blk_Actions blk)"
    and uniq: "distinct (map ah_ActionHash rows)" "distinct (map ah_ReceiptHash rows)"
    and i: "i < length (blk_Actions blk)"
  shows "\<exists>caller. lib_AddressFromBytes (Libs ictx) (selp_SrcPubkeyHash (blk_Actions blk ! i)) = Inr caller \<and>
    rows ! i = action_row caller (blk_Height blk) (blk_Actions blk ! i) (blk_Receipts blk ! i)"
proof -
  let ?rs = "blk_Receipts blk"
  have n: "length ?rs = length rows" using mapE_length[OF rows] len by simp
  have row: "history_row infos ris blk j = Inr (rows ! j)" if "j < length rows" for j
    using rows that by (auto simp: mapE_eq_Inr list_all2_conv_all_nth)
  have "distinct (map rcp_ActionHash ?rs)"
    using history_row_eq_Inr[OF row] join_block_hashed[OF join]
    by (intro distinct_key_rows[OF _ n uniq(1)]) (fastforce simp: infos_hashed_def)
  then have entry: "\<exists>info. action_info ictx (rcp_ActionHash (?rs ! j)) (blk_Actions blk ! j) = Inr info \<and>
      map_of infos (rcp_ActionHash (?rs ! j)) = Some (info\<lparr>ai_ReceiptHash := rcp_Hash (?rs ! j)\<rparr>)"
    if "j < length rows" for j
    using join_block_entry[OF join] that n len by simp
  have "ah_ReceiptHash (rows ! j) = hex_EncodeToString (rcp_Hash (?rs ! j))" if "j < length rows" for j
    using history_row_eq_Inr[OF row[OF that]] entry[OF that] join_block_receipt[OF join]
    by (fastforce simp: receipt_info_def)
  from distinct_key_rows[OF this n uniq(2)] have dist: "distinct (map rcp_Hash ?rs)" .
  have i': "i < length rows" using i n len by simp
  obtain info where info: "action_info ictx (rcp_ActionHash (?rs ! i)) (blk_Actions blk ! i) = Inr info"
    "map_of infos (rcp_ActionHash (?rs ! i)) = Some (info\<lparr>ai_ReceiptHash := rcp_Hash (?rs ! i)\<rparr>)"
    using entry[OF i'] by blast
  have "r = ?rs ! i" if "r \<in> set ?rs" "rcp_Hash r = rcp_Hash (?rs ! i)" for r
    using dist that i' n by (metis distinct_map inj_on_def nth_mem)
  then have "ri = receipt_info (?rs ! i)" if "map_of ris (rcp_Hash (?rs ! i)) = Some ri" for ri
    using join_block_receipt[OF join that] by blast
  with history_row_eq_Inr[OF row[OF i']] info show ?thesis
    by (cases "action_type_amount (selp_Action (blk_Actions blk ! i))")
      (fastforce simp: action_info_def andThen_eq_Inr action_row_def receipt_info_def dest: action_amount)
qed

text \<open>Without a receipt for the action at some index the first loop panics.\<close>

lemma add_actions_missing:
  assumes "\<forall>selp \<in> set acts. \<exists>a. lib_AddressFromBytes (Libs ictx) (selp_SrcPubkeyHash selp) = Inr a"
    and "length receipts < n + length acts" "n \<le> length receipts"
  shows "foldE (add_action ictx cfg receipts) (enumerate n acts) s = Inl (Panic ''runtime error: index out of range'')"
  using assms
proof (induction acts arbitrary: n s)
  case (Cons a acts)
  obtain infos hh where s: "s = (infos, hh)" by fastforce
  obtain addr where addr: "lib_AddressFromBytes (Libs ictx) (selp_SrcPubkeyHash a) = Inr addr"
    using Cons.prems(1) by auto
  obtain ty am where "action_type_amount (selp_Action a) = (ty, am)" by fastforce
  with Cons addr show ?case
    by (cases "n < length receipts") (auto simp: s add_action_def index_receipt_def action_info_def)
qed simp

text \<open>The distribution events of a list of logs.\<close>

definition is_distribute :: "libs \<Rightarrow> event_log \<Rightarrow> bool" where
  "is_distribute l ev = (2 \<le> length (log_Topics ev) \<and> emitterIsDistributeByTopic l (log_Topics ev ! 0))"

lemma distribute_event_skips:
  "\<forall>ev \<in> set evs. \<not> is_distribute l ev \<Longrightarrow> distribute_event l (evs @ rest) = distribute_event l rest"
  by (induction evs) (auto simp: is_distribute_def not_le)

subsection \<open>Properties\<close>

text \<open>C14: When a block with one receipt per action is handled without an error, the action history
  grows by exactly one row per action, and each row joins the action with the receipt at its own
  position: type, sender, destination, gas price, nonce and amount are the action's, the hashes,
  the gas consumed and the status are the receipt's.\<close>

theorem actions_joined_with_receipts:
  assumes "actions_HandleBlock ec cfg ictx heights blk (db, mem) = (Inr u, (db', mem'))"
    and "length (blk_Receipts blk) = length (blk_Actions blk)"
  shows "\<exists>rows. action_history db' = action_history db @ rows \<and> length rows = length (blk_Actions blk) \<and>
    (\<forall>i < length rows. \<exists>caller.
      lib_AddressFromBytes (Libs ictx) (selp_SrcPubkeyHash (blk_Actions blk ! i)) = Inr caller \<and>
      rows ! i = action_row caller (blk_Height blk) (blk_Actions blk ! i) (blk_Receipts blk ! i))"
proof -
  obtain infos ris hr rows where join: "join_block ictx cfg blk = Inr (infos, ris, hr)"
    and rows: "mapE (history_row infos ris blk) [0..<length (blk_Actions blk)] = Inr rows"
    and ins: "insert_actions heights rows (action_history db) = Inr (action_history db @ rows)"
    and db': "action_history db' = action_history db @ rows"
    using assms(1) by (rule actions_HandleBlock_eq_Inr)
  have uniq: "distinct (map ah_ActionHash rows)" "distinct (map ah_ReceiptHash rows)"
    using ins by (auto simp: insert_actions_eq_Inr)
  have "length rows = length (blk_Actions blk)" using mapE_length[OF rows] by simp
  then show ?thesis using db' written_rows[OF join rows assms(2) uniq] by auto
qed

definition transfer_env :: sealed_envelope where
  "transfer_env = \<lparr>selp_Hash = ''a'', selp_SrcPubkeyHash = ''from'', selp_Destination = ''io1to'',
     selp_GasPrice = 1, selp_Nonce = 3, selp_Action = Transfer 25\<rparr>"

definition transfer_block :: block where
  "transfer_block = (sample_block 7)\<lparr>blk_Actions := [transfer_env],
     blk_Receipts := [\<lparr>rcp_Status = 1, rcp_ActionHash = ''a'', rcp_Hash = ''r'', rcp_GasConsumed = 100, rcp_Logs = []\<rparr>]\<rparr>"

definition hermes_cfg :: HermesConfig where
  "hermes_cfg = \<lparr>HermesContractAddress = ''io1hermes'', MultiSendContractAddressList = []\<rparr>"

definition new_actions_db :: actions_db where
  "new_actions_db = \<lparr>action_history = [], bucket_actions = None, hermes_contract = [], xrc_tables = empty_xrc\<rparr>"

definition actions_ctx :: IndexCtx where
  "actions_ctx = offline_ctx\<lparr>Libs := (Libs offline_ctx)\<lparr>lib_AddressFromBytes := \<lambda>bs. Inr bs,
     lib_Hash160b := \<lambda>s. s\<rparr>\<rparr>"

lemma transfer_block_handled:
  "actions_HandleBlock tiny_ctx hermes_cfg actions_ctx [7] transfer_block (new_actions_db, new_xrc_mem)
   = (Inr (), (new_actions_db\<lparr>action_history :=
       [action_row ''from'' 7 transfer_env (hd (blk_Receipts transfer_block))]\<rparr>, new_xrc_mem))"
  by code_simp

lemma actions_joined_with_receipts_witness:
  "\<exists>rows. [action_row ''from'' 7 transfer_env (hd (blk_Receipts transfer_block))] = [] @ rows \<and> length rows = 1 \<and>
    (\<forall>i < length rows. \<exists>caller.
      lib_AddressFromBytes (Libs actions_ctx) (selp_SrcPubkeyHash (blk_Actions transfer_block ! i)) = Inr caller \<and>
      rows ! i = action_row caller 7 (blk_Actions transfer_block ! i) (blk_Receipts transfer_block ! i))"
  using actions_joined_with_receipts[OF transfer_block_handled]
  by (simp add: transfer_block_def sample_block_def new_actions_db_def)

text \<open>A block with fewer receipts than actions makes the handler panic before anything is
  written.\<close>

theorem missing_receipt_panics:
  assumes "length (blk_Receipts blk) < length (blk_Actions blk)"
    and "\<forall>selp \<in> set (blk_Actions blk). \<exists>a. lib_AddressFromBytes (Libs ictx) (selp_SrcPubkeyHash selp) = Inr a"
  shows "actions_HandleBlock ec cfg ictx heights blk (db, mem)
    = (Inl (Panic ''runtime error: index out of range''), (db, mem))"
  using add_actions_missing[OF assms(2), of "blk_Receipts blk" 0] assms(1)
  by (simp add: actions_HandleBlock_def join_block_def)

lemma missing_receipt_panics_witness:
  "actions_HandleBlock tiny_ctx hermes_cfg actions_ctx [7] (transfer_block\<lparr>blk_Receipts := []\<rparr>) (new_actions_db, new_xrc_mem)
   = (Inl (Panic ''runtime error: index out of range''), (new_actions_db, new_xrc_mem))"
  by (rule missing_receipt_panics) (simp_all add: transfer_block_def actions_ctx_def)

text \<open>A block is never accepted before the block history has its height, nor when it has no
  action at all: the rows refer to the block history by a foreign key, and an \<open>INSERT\<close> without
  rows is a syntax error.\<close>

theorem actions_need_block_history:
  assumes "blk_Height blk \<notin> set heights \<or> blk_Actions blk = []"
  shows "\<exists>e. fst (actions_HandleBlock ec cfg ictx heights blk (db, mem)) = Inl e"
proof (rule ccontr)
  assume "\<not> ?thesis"
  then obtain u db' mem' where ok: "actions_HandleBlock ec cfg ictx heights blk (db, mem) = (Inr u, (db', mem'))"
    by (metis obj_sumE prod.exhaust_sel)
  then obtain infos ris hr rows where rows: "mapE (history_row infos ris blk) [0..<length (blk_Actions blk)] = Inr rows"
    and ins: "insert_actions heights rows (action_history db) = Inr (action_history db @ rows)"
    by (rule actions_HandleBlock_eq_Inr)
  from ins have "rows \<noteq> []" and fk: "\<forall>r \<in> set rows. ah_BlockHeight r \<in> set heights"
    by (auto simp: insert_actions_eq_Inr)
  with mapE_length[OF rows] have ne: "blk_Actions blk \<noteq> []" by auto
  then have "history_row infos ris blk 0 = Inr (rows ! 0)" and "rows ! 0 \<in> set rows"
    using rows \<open>rows \<noteq> []\<close> by (auto simp: mapE_eq_Inr list_all2_conv_all_nth)
  with fk history_row_eq_Inr have "blk_Height blk \<in> set heights" by fastforce
  with assms ne show False by simp
qed

lemma actions_need_block_history_witness:
  "\<exists>e. fst (actions_HandleBlock tiny_ctx hermes_cfg actions_ctx [6] transfer_block (new_actions_db, new_xrc_mem)) = Inl e"
  by (rule actions_need_block_history) (simp add: transfer_block_def sample_block_def)


definition bucket_block :: block where
  "bucket_block = transfer_block\<lparr>blk_Receipts := [(hd (blk_Receipts transfer_block))\<lparr>rcp_Logs :=
     [(transfer_log 0)\<lparr>log_Address := ''staking'', log_Topics := [''h'', ''b'']\<rparr>]\<rparr>]\<rparr>"


text \<open>Of the logs of a Hermes receipt the last distribution event counts, whatever other logs
  surround it: its epochs are taken modulo \<open>2 ^ 64\<close> and its delegate name ends before the first
  zero byte; a name that fills all 32 bytes makes the handler panic.\<close>

theorem last_distribution_counts:
  assumes "is_distribute l ev" and "\<forall>ev' \<in> set later. \<not> is_distribute l ev'"
    and "lib_UnpackDistribute l (log_Data ev) = Inr (startEpoch, endEpoch)"
    and "log_Topics ev ! 1 = name @ rest" "char_of (0 :: nat) \<notin> set name"
    and "rest = [] \<or> hd rest = char_of (0 :: nat)"
  shows "getDistributeEventFromLog l (earlier @ ev # later)
    = (if rest = [] then Inl (Panic ''runtime error: slice bounds out of range'')
       else Inr (Some (of_int startEpoch, of_int endEpoch, name)))"
proof -
  have "takeWhile (\<lambda>c. c \<noteq> char_of (0 :: nat)) (name @ rest) = name"
    using assms(5,6) by (cases rest) (auto simp: takeWhile_append takeWhile_eq_all_conv[THEN iffD2])
  then have "getDelegateNameFromTopic (log_Topics ev ! 1)
      = (if rest = [] then Inl (Panic ''runtime error: slice bounds out of range'') else Inr name)"
    using assms(4,5,6) by (cases rest) (auto simp: getDelegateNameFromTopic_def)
  moreover have "distribute_event l (rev later @ ev # rev earlier) = distribute_event l (ev # rev earlier)"
    using assms(2) by (intro distribute_event_skips) simp
  ultimately show ?thesis
    using assms(1,3) by (simp add: getDistributeEventFromLog_def is_distribute_def)
qed

definition hermes_libs :: libs where
  "hermes_libs = (Libs offline_ctx)\<lparr>lib_Keccak256 := \<lambda>_. ''k'', lib_UnpackDistribute := \<lambda>_. Inr (3, 5)\<rparr>"

definition distribute_log :: "string \<Rightarrow> event_log" where
  "distribute_log name = (transfer_log 0)\<lparr>log_Topics := [''k'', name]\<rparr>"

lemma last_distribution_counts_witness:
  "getDistributeEventFromLog hermes_libs ([distribute_log ''other''] @ distribute_log (''bp'' @ [char_of (0 :: nat)]) # [transfer_log 1])
   = (if [char_of (0 :: nat)] = [] then Inl (Panic ''runtime error: slice bounds out of range'')
      else Inr (Some (of_int 3, of_int 5, ''bp'')))"
proof (rule last_distribution_counts)
  show "\<forall>ev' \<in> set [transfer_log 1]. \<not> is_distribute hermes_libs ev'"
    by (simp add: is_distribute_def emitterIsDistributeByTopic_def hermes_libs_def transfer_log_def sig_bytes_def)
qed (simp_all add: is_distribute_def emitterIsDistributeByTopic_def hermes_libs_def distribute_log_def, code_simp)

end
