(* ===== verification/Names.thy ===== *)
theory Names imports Index_Protocol begin

text \<open>
  The internal format of delegate names (\<open>indexprotocol/protocol.go\<close>): a name of at most 12 bytes
  is padded with zero bytes on the left, each trailing \<open>#\<close> becomes a zero byte on the right, and
  the 12 bytes are written in hexadecimal. The decoder strips the zeros again.
\<close>

definition strip_hashes :: "string \<Rightarrow> string" where
  "strip_hashes name = rev (dropWhile (\<lambda>c. c = CHR ''#'') (rev name))"

definition count_hashes :: "string \<Rightarrow> nat" where
  "count_hashes name = length (takeWhile (\<lambda>c. c = CHR ''#'') (rev name))"

abbreviation zero_bytes :: "nat \<Rightarrow> string" where
  "zero_bytes n \<equiv> replicate n (char_of (0 :: nat))"

definition EncodeDelegateName :: "string \<Rightarrow> go_error + string" where
  "EncodeDelegateName name =
     (if length name = 24 then Inr name
      else if length name \<le> 12 then
        Inr (hex_EncodeToString
          (zero_bytes (12 - length name) @ strip_hashes name @ zero_bytes (count_hashes name)))
      else Inl (ErrMsg ''invalid length''))"

text \<open>\<open>strings.TrimSuffix(name, "00")\<close> while the suffix is there, on the reversed string.\<close>

fun drop_00 :: "string \<Rightarrow> string \<times> nat" where
  "drop_00 (c # d # cs) =
     (if c = CHR ''0'' \<and> d = CHR ''0'' then case drop_00 cs of (r, k) \<Rightarrow> (r, Suc k)
      else (c # d # cs, 0))"
| "drop_00 cs = (cs, 0)"

definition DecodeDelegateName :: "string \<Rightarrow> go_error + string" where
  "DecodeDelegateName name =
     (case drop_00 (rev name) of (r, k) \<Rightarrow>
        andThen (hex_DecodeString (dropWhile (\<lambda>c. c = CHR ''0'') (rev r))) (\<lambda>aliasBytes.
        Inr (aliasBytes @ replicate k (CHR ''#''))))"

text \<open>
  The names the format can carry: the part before the trailing \<open>#\<close>s starts with a byte that has
  a non-zero high digit (every printable character does) and does not end in a zero byte.
\<close>

definition name_ok :: "string \<Rightarrow> bool" where
  "name_ok name \<longleftrightarrow> length name \<le> 12 \<and> strip_hashes name \<noteq> [] \<and>
     16 \<le> (of_char (hd (strip_hashes name)) :: nat) \<and> last (strip_hashes name) \<noteq> char_of (0 :: nat)"

lemma strip_count: "strip_hashes name @ replicate (count_hashes name) (CHR ''#'') = name"
proof -
  have "takeWhile (\<lambda>c. c = CHR ''#'') (rev name) = replicate (count_hashes name) (CHR ''#'')"
    unfolding count_hashes_def by (induction "rev name" arbitrary: name) (auto simp: takeWhile_eq_all_conv intro: replicate_eqI dest: set_takeWhileD)
  then have "rev name = replicate (count_hashes name) (CHR ''#'') @ dropWhile (\<lambda>c. c = CHR ''#'') (rev name)"
    by (metis takeWhile_dropWhile_id)
  from arg_cong[OF this, of rev] show ?thesis by (simp add: strip_hashes_def)
qed

lemma strip_length: "length (strip_hashes name) + count_hashes name = length name"
  using arg_cong[OF strip_count, of length name] by simp

lemma digit_char_0 [simp]: "digit_char 0 = CHR ''0''"
  by code_simp

lemma hex_zeros: "hex_EncodeToString (zero_bytes n) = replicate (2 * n) (CHR ''0'')"
  by (induction n) simp_all

lemma digit_zero: "d < 16 \<Longrightarrow> digit_char d = CHR ''0'' \<longleftrightarrow> d = 0"
proof
  assume "d < 16" "digit_char d = CHR ''0''"
  then have "(of_char (digit_char d) :: nat) = of_char (CHR ''0'')" by simp
  with \<open>d < 16\<close> show "d = 0" by (simp add: of_char_digit_char split: if_splits)
qed simp

lemma drop_00_zeros: "drop_00 (replicate (2 * k) (CHR ''0'') @ cs) = (case drop_00 cs of (r, j) \<Rightarrow> (r, k + j))"
  by (induction k) (simp_all split: prod.splits)

lemma drop_00_rev_hex:
  assumes "c \<noteq> char_of (0 :: nat)"
  shows "drop_00 (rev (hex_EncodeToString (bs @ [c]))) = (rev (hex_EncodeToString (bs @ [c])), 0)"
proof -
  have "of_char c div 16 \<noteq> (0::nat) \<or> of_char c mod 16 \<noteq> (0::nat)"
  proof (rule ccontr)
    assume "\<not> ?thesis"
    then have "of_char c = (0::nat)" by (metis div_mult_mod_eq add.right_neutral mult_0)
    then have "c = char_of (0::nat)" by (metis char_of_char)
    with assms show False by simp
  qed
  moreover have "(of_char c :: nat) div 16 < 16"
    using of_char_less[of c] by (simp add: less_mult_imp_div_less)
  ultimately show ?thesis
    by (auto simp: hex_append digit_zero)
qed

lemma hd_hex_nonzero:
  assumes "16 \<le> (of_char c :: nat)"
  shows "dropWhile (\<lambda>c. c = CHR ''0'') (hex_EncodeToString (c # bs)) = hex_EncodeToString (c # bs)"
proof -
  have "(of_char c :: nat) div 16 < 16" "(of_char c :: nat) div 16 \<noteq> 0"
    using of_char_less[of c] assms by (simp_all add: less_mult_imp_div_less)
  then show ?thesis by (simp add: digit_zero)
qed

lemma drop_zeros: "dropWhile (\<lambda>c. c = x) (replicate n x @ ys) = dropWhile (\<lambda>c. c = x) ys"
  by (induction n) simp_all

lemma delegate_name_decode:
  assumes ok: "name_ok name"
  shows "andThen (EncodeDelegateName name) DecodeDelegateName = Inr name"
proof -
  let ?core = "strip_hashes name" and ?k = "count_hashes name"
  let ?z = "12 - length name"
  have len: "length name \<le> 12" using ok by (simp add: name_ok_def)
  obtain c cs where c: "?core = c # cs" using ok by (cases ?core) (simp_all add: name_ok_def)
  obtain ds d where d: "?core = ds @ [d]" using c by (metis list.distinct(1) rev_exhaust)
  have c16: "16 \<le> (of_char c :: nat)" using ok by (simp add: name_ok_def c)
  have d0: "d \<noteq> char_of (0 :: nat)" using ok by (simp add: name_ok_def d)
  have enc: "EncodeDelegateName name = Inr
      (hex_EncodeToString ((zero_bytes ?z @ ds) @ [d]) @ replicate (2 * ?k) (CHR ''0''))"
    using len by (simp add: EncodeDelegateName_def d hex_append hex_zeros)
  have "drop_00 (rev (hex_EncodeToString ((zero_bytes ?z @ ds) @ [d]) @ replicate (2 * ?k) (CHR ''0'')))
      = (rev (hex_EncodeToString ((zero_bytes ?z @ ds) @ [d])), ?k)"
    by (simp only: rev_append rev_replicate drop_00_zeros drop_00_rev_hex[OF d0]) simp
  moreover have "dropWhile (\<lambda>c. c = CHR ''0'') (hex_EncodeToString ((zero_bytes ?z @ ds) @ [d]))
      = hex_EncodeToString ?core"
    using hd_hex_nonzero[OF c16, of cs]
    by (simp only: append_assoc hex_append[of "zero_bytes ?z"] hex_zeros drop_zeros d[symmetric] c)
  ultimately show ?thesis
    by (simp add: enc DecodeDelegateName_def hex_roundtrip strip_count del: append_assoc rev_append)
qed

interpretation delegate_names: codec EncodeDelegateName "\<lambda>r. andThen r DecodeDelegateName"
  "Inr :: string \<Rightarrow> go_error + string" name_ok
  by unfold_locales (simp_all add: delegate_name_decode)

lemma encoded_length: "EncodeDelegateName name = Inr s \<Longrightarrow> length s = 24"
  using strip_length[of name] by (auto simp: EncodeDelegateName_def split: if_splits)

subsection \<open>Properties\<close>

text \<open>C31: Decoding an encoded delegate name gives the name back, for every name of at most 12
  bytes that the format can carry; so two different such names never share their encoding.\<close>

theorem delegate_name_roundtrip:
  assumes "name_ok name"
  shows "andThen (EncodeDelegateName name) DecodeDelegateName = Inr name \<and>
    (\<forall>other. name_ok other \<and> EncodeDelegateName name = EncodeDelegateName other \<longrightarrow> name = other)"
  using assms delegate_names.roundtrip delegate_names.enc_eq_iff by blast

lemma delegate_name_roundtrip_witness:
  "andThen (EncodeDelegateName ''iotexlab#'') DecodeDelegateName = Inr ''iotexlab#''"
  by (rule delegate_name_roundtrip[THEN conjunct1]) code_simp

text \<open>\<open>EncodeDelegateName\<close> fails exactly on the lengths it documents, always produces a
  24-character name, and encoding an encoded name again changes nothing.\<close>

theorem delegate_name_encoding:
  "((\<exists>e. EncodeDelegateName name = Inl e) \<longleftrightarrow> 12 < length name \<and> length name \<noteq> 24) \<and>
   (EncodeDelegateName name = Inr s \<longrightarrow> length s = 24 \<and> EncodeDelegateName s = Inr s)"
proof
  show "(\<exists>e. EncodeDelegateName name = Inl e) \<longleftrightarrow> 12 < length name \<and> length name \<noteq> 24"
    by (simp add: EncodeDelegateName_def)
  show "EncodeDelegateName name = Inr s \<longrightarrow> length s = 24 \<and> EncodeDelegateName s = Inr s"
    using encoded_length[of name s] by (simp add: EncodeDelegateName_def[of s])
qed

lemma delegate_name_encoding_witness:
  "length ''00000000696f7465786c6162'' = 24 \<and>
   EncodeDelegateName ''00000000696f7465786c6162'' = Inr ''00000000696f7465786c6162''"
proof (rule delegate_name_encoding[THEN conjunct2, THEN mp])
  show "EncodeDelegateName ''iotexlab'' = Inr ''00000000696f7465786c6162''" by code_simp
qed

text \<open>C36: The paging loops end and return everything: when the chain serves a fixed list of
  buckets or candidates in pages, the loop returns exactly the entries the filter keeps, in order.\<close>

theorem paging_complete:
  assumes "serves (\<lambda>offset. getStakingBuckets ictx offset readBucketsLimit height) readBucketsLimit buckets"
    and "serves (\<lambda>offset. getStakingCandidates ictx offset readCandidatesLimit height) readCandidatesLimit cands"
    and "length buckets < 2 ^ 32 - 30000" "length cands < 2 ^ 32 - 20000"
  shows "GetAllStakingBuckets ictx height =
       Some (Inr (filter (\<lambda>b. vb_UnstakeStartTime b \<le> vb_StakeStartTime b) buckets)) \<and>
     GetAllStakingCandidates ictx height =
       Some (Inr (filter (\<lambda>c. cand_SelfStakingTokens c \<noteq> ''0'') cands))"
  using assms
  by (simp add: GetAllStakingBuckets_def GetAllStakingCandidates_def read_pages_all
      readBucketsLimit_def readCandidatesLimit_def keepBucket_def[abs_def] keepCandidate_def[abs_def] not_less)

text \<open>A chain that serves two buckets, the second one unstaked, for the witness.\<close>

definition paging_bucket :: "int \<Rightarrow> VoteBucket" where
  "paging_bucket unstaked =
     \<lparr>vb_Index = 7, vb_CandidateAddress = ''io1'', vb_StakedAmount = ''100'', vb_StakedDuration = 0,
      vb_CreateTime = 5, vb_StakeStartTime = 5, vb_UnstakeStartTime = unstaked,
      vb_AutoStake = False, vb_Owner = ''io2''\<rparr>"

definition paging_ctx :: IndexCtx where
  "paging_ctx = offline_ctx
     \<lparr>ChainClient := (ChainClient offline_ctx)\<lparr>cc_ReadState := \<lambda>rq. Inr (hd (rq_Arguments rq))\<rparr>,
      Libs := (Libs offline_ctx)
        \<lparr>lib_MarshalStakingMethod := Inr,
         lib_MarshalStakingRequest := \<lambda>_ offset _. Inr (show_nat (unat offset)),
         lib_UnmarshalBuckets := \<lambda>data. case parse_nat 10 data of None \<Rightarrow> offline | Some n \<Rightarrow>
           Inr (take 30000 (drop n [paging_bucket 0, paging_bucket 9])),
         lib_UnmarshalCandidates := \<lambda>_. Inr []\<rparr>\<rparr>"

lemma paging_complete_witness:
  "GetAllStakingBuckets paging_ctx 100 = Some (Inr [paging_bucket 0]) \<and>
   GetAllStakingCandidates paging_ctx 100 = Some (Inr [])"
proof -
  let ?bs = "[paging_bucket 0, paging_bucket 9]"
  have "serves (\<lambda>offset. getStakingBuckets paging_ctx offset readBucketsLimit 100) readBucketsLimit ?bs"
    by (simp add: serves_def getStakingBuckets_def paging_ctx_def readBucketsLimit_def parse_nat_def
        parse_show_nat)
  moreover have "serves (\<lambda>offset. getStakingCandidates paging_ctx offset readCandidatesLimit 100) readCandidatesLimit []"
    by (simp add: serves_def getStakingCandidates_def paging_ctx_def)
  ultimately show ?thesis using paging_complete[of paging_ctx 100 ?bs "[]"] by (simp add: paging_bucket_def)
qed

end
