(* ===== verification/Blocks.thy ===== *)
theory Blocks imports Names begin

text \<open>
  \<open>indexprotocol/blocks/protocol.go\<close>: one history row per block, with the number of actions of
  each type, the producer and the expected producer, and the productivity of every delegate per
  finished epoch. The protocol keeps the active block producers of the epoch and the delegate
  name of each operator address in memory; that memory survives a failed block.
\<close>

record BlockHistory =
  bk_EpochNumber :: u64
  bk_BlockHeight :: u64
  bk_BlockHash :: string
  bk_Transfer :: u64
  bk_Execution :: u64
  bk_DepositToRewaringFund :: u64
  bk_ClaimFromRewardingFund :: u64
  bk_GrantReward :: u64
  bk_PutPollResult :: u64
  bk_StakeCreate :: u64
  bk_StakeUnstake :: u64
  bk_StakeWithdraw :: u64
  bk_StakeAddDeposit :: u64
  bk_StakeRestake :: u64
  bk_StakeChangeCandidate :: u64
  bk_StakeTransferOwnership :: u64
  bk_CandidateRegister :: u64
  bk_CandidateUpdate :: u64
  bk_GasConsumed :: u64
  bk_ProducerAddress :: string
  bk_ProducerName :: string
  bk_ExpectedProducerAddress :: string
  bk_ExpectedProducerName :: string
  bk_Timestamp :: int

record ProductivityHistory =
  ph_EpochNumber :: u64
  ph_ProducerName :: string
  ph_Production :: int
  ph_ExpectedProduction :: int

type_synonym productivity_row = "(u64 \<times> string) \<times> (int \<times> int)"

record blocks_db =
  block_history :: "BlockHistory list"
  expected_producer_history :: "epoch_row list"
  producer_history :: "epoch_row list"
  productivity_history :: "productivity_row list"

text \<open>\<open>OperatorAddrToName\<close> is \<open>nil\<close> (\<open>None\<close>) until the first update.\<close>

record blocks_mem =
  ActiveBlockProducers :: "string list"
  OperatorAddrToName :: "(string \<times> string) list option"

definition new_blocks_mem :: blocks_mem where
  "new_blocks_mem = \<lparr>ActiveBlockProducers = [], OperatorAddrToName = None\<rparr>"

definition numOfRetry :: nat where "numOfRetry = 1000"

subsection \<open>Refreshing the delegates\<close>

definition updateActiveBlockProducers :: "IndexCtx \<Rightarrow> u64 \<Rightarrow> (blocks_mem, unit) go" where
  "updateActiveBlockProducers ictx epochNumber mem =
     (case andThen (wrap ''failed to get active block producers''
         (cc_ReadState (ChainClient ictx)
            \<lparr>rq_ProtocolID = PollProtocolID, rq_MethodName = ''ActiveBlockProducersByEpoch'',
             rq_Arguments = [format_uint epochNumber], rq_Height = []\<rparr>)) (\<lambda>data.
       wrap ''failed to deserialize active block producers''
         (lib_DeserializeCandidateList (Libs ictx) data)) of
        Inl e \<Rightarrow> (Inl e, mem)
      | Inr addresses \<Rightarrow> (Inr (), mem\<lparr>ActiveBlockProducers := addresses\<rparr>))"

text \<open>The map is replaced first and filled while the names are encoded.\<close>

fun encode_names :: "CandidateV2 list \<Rightarrow> (string \<times> string) list \<Rightarrow> (go_error + unit) \<times> (string \<times> string) list" where
  "encode_names [] m = (Inr (), m)"
| "encode_names (c # cs) m =
     (case wrap ''encode delegate name error'' (EncodeDelegateName (cand_Name c)) of
        Inl e \<Rightarrow> (Inl e, m)
      | Inr name \<Rightarrow> encode_names cs (AList.update (cand_OperatorAddress c) name m))"

definition updateStakingDelegates :: "IndexCtx \<Rightarrow> u64 \<Rightarrow> (blocks_mem, unit) go" where
  "updateStakingDelegates ictx height mem =
     (case wrap ''get candidate error'' (returned (GetAllStakingCandidates ictx height)) of
        Inl e \<Rightarrow> (Inl e, mem)
      | Inr candidates \<Rightarrow>
          (case encode_names candidates [] of
             (r, m) \<Rightarrow> (r, mem\<lparr>OperatorAddrToName := Some m\<rparr>)))"

definition blocks_gravityHeight :: "EpochCtx \<Rightarrow> GravityChain \<Rightarrow> IndexCtx \<Rightarrow> u64 \<Rightarrow> go_error + u64" where
  "blocks_gravityHeight epochCtx gravityChainCfg ictx epochNumber =
     (if epochNumber = 1 then Inr (GravityChainStartHeight gravityChainCfg)
      else
        andThen (GetEpochHeight epochCtx (epochNumber - 1)) (\<lambda>prevEpochHeight.
        wrap ''failed to get gravity chain start height by backoff''
          (lib_Retry (Libs ictx) numOfRetry
            (andThen (wrap ''failed to parse gravityChainStartHeight''
                 (GetGravityChainStartHeight ictx prevEpochHeight)) (\<lambda>h.
             if h = 0 then Inl (ErrMsg ''waiting for fetching next timestamp in election service'')
             else Inr h)))))"

definition updateDelegates :: "EpochCtx \<Rightarrow> GravityChain \<Rightarrow> IndexCtx \<Rightarrow> u64 \<Rightarrow> u64 \<Rightarrow> (blocks_mem, unit) go" where
  "updateDelegates epochCtx gravityChainCfg ictx height epochNumber =
     go_bind (go_wrap ''update active block producers'' (updateActiveBlockProducers ictx epochNumber)) (\<lambda>_.
     go_bind (go_lift (GetEpochHeight epochCtx (epochNumber - 1))) (\<lambda>preEpochHeight.
     if FairbankEffectiveHeight epochCtx \<le> height then updateStakingDelegates ictx preEpochHeight
     else
       go_bind (go_lift (blocks_gravityHeight epochCtx gravityChainCfg ictx epochNumber)) (\<lambda>gravityHeight.
       go_bind (go_lift (wrap ''failed to get candidates from election service''
           (el_GetCandidates (ElectionClient ictx) (itoa gravityHeight)))) (\<lambda>candidates.
       (\<lambda>mem. (Inr (), mem\<lparr>OperatorAddrToName :=
          Some (fold (\<lambda>c. AList.update (ec_OperatorAddress c) (ec_Name c)) candidates [])\<rparr>))))))"

subsection \<open>The productivity of an epoch\<close>

definition expected_rows :: "u64 \<Rightarrow> BlockHistory list \<Rightarrow> epoch_row list" where
  "expected_rows = epoch_group bk_EpochNumber bk_ExpectedProducerName (\<lambda>_. 1)"

definition producer_rows :: "u64 \<Rightarrow> BlockHistory list \<Rightarrow> epoch_row list" where
  "producer_rows = epoch_group bk_EpochNumber bk_ProducerName (\<lambda>_. 1)"

definition productivity_join :: "u64 \<Rightarrow> epoch_row list \<Rightarrow> epoch_row list \<Rightarrow> productivity_row list" where
  "productivity_join e expected producer =
     map (\<lambda>(k, n). (k, (get_or 0 producer k, n))) (filter (\<lambda>r. fst (fst r) = e) expected)"

definition rebuildProductivityTable :: "u64 \<Rightarrow> blocks_db \<Rightarrow> blocks_db" where
  "rebuildProductivityTable epochNumber db =
     (if epochNumber = 0 then db
      else
        let expected = insert_ignore fst (expected_rows epochNumber (block_history db)) (expected_producer_history db);
            producer = insert_ignore fst (producer_rows epochNumber (block_history db)) (producer_history db)
        in db\<lparr>expected_producer_history := expected, producer_history := producer,
              productivity_history := insert_ignore fst (productivity_join epochNumber expected producer)
                (productivity_history db)\<rparr>)"

subsection \<open>Handling a block\<close>

record action_counts =
  n_transfer :: u64
  n_execution :: u64
  n_depositToRewardingFund :: u64
  n_claimFromRewardingFund :: u64
  n_grantReward :: u64
  n_putPollResult :: u64
  n_stakeCreate :: u64
  n_stakeUnstake :: u64
  n_stakeWithdraw :: u64
  n_stakeAddDeposit :: u64
  n_stakeRestake :: u64
  n_stakeChangeCandidate :: u64
  n_stakeTransferOwnership :: u64
  n_candidateRegister :: u64
  n_candidateUpdate :: u64

definition no_actions :: action_counts where
  "no_actions =
     \<lparr>n_transfer = 0, n_execution = 0, n_depositToRewardingFund = 0, n_claimFromRewardingFund = 0,
      n_grantReward = 0, n_putPollResult = 0, n_stakeCreate = 0, n_stakeUnstake = 0,
      n_stakeWithdraw = 0, n_stakeAddDeposit = 0, n_stakeRestake = 0, n_stakeChangeCandidate = 0,
      n_stakeTransferOwnership = 0, n_candidateRegister = 0, n_candidateUpdate = 0\<rparr>"

fun count_action :: "action \<Rightarrow> action_counts \<Rightarrow> action_counts" where
  "count_action (Transfer _) c = c\<lparr>n_transfer := n_transfer c + 1\<rparr>"
| "count_action (Execution _) c = c\<lparr>n_execution := n_execution c + 1\<rparr>"
| "count_action (DepositToRewardingFund _) c = c\<lparr>n_depositToRewardingFund := n_depositToRewardingFund c + 1\<rparr>"
| "count_action (ClaimFromRewardingFund _) c = c\<lparr>n_claimFromRewardingFund := n_claimFromRewardingFund c + 1\<rparr>"
| "count_action GrantReward c = c\<lparr>n_grantReward := n_grantReward c + 1\<rparr>"
| "count_action (CreateStake _) c = c\<lparr>n_stakeCreate := n_stakeCreate c + 1\<rparr>"
| "count_action Unstake c = c\<lparr>n_stakeUnstake := n_stakeUnstake c + 1\<rparr>"
| "count_action WithdrawStake c = c\<lparr>n_stakeWithdraw := n_stakeWithdraw c + 1\<rparr>"
| "count_action (DepositToStake _) c = c\<lparr>n_stakeAddDeposit := n_stakeAddDeposit c + 1\<rparr>"
| "count_action Restake c = c\<lparr>n_stakeRestake := n_stakeRestake c + 1\<rparr>"
| "count_action ChangeCandidate c = c\<lparr>n_stakeChangeCandidate := n_stakeChangeCandidate c + 1\<rparr>"
| "count_action TransferStake c = c\<lparr>n_stakeTransferOwnership := n_stakeTransferOwnership c + 1\<rparr>"
| "count_action (CandidateRegister _) c = c\<lparr>n_candidateRegister := n_candidateRegister c + 1\<rparr>"
| "count_action CandidateUpdate c = c\<lparr>n_candidateUpdate := n_candidateUpdate c + 1\<rparr>"
| "count_action PutPollResult c = c\<lparr>n_putPollResult := n_putPollResult c + 1\<rparr>"
| "count_action OtherAction c = c"

definition updateBlockHistory :: "BlockHistory \<Rightarrow> blocks_db \<Rightarrow> go_error + blocks_db" where
  "updateBlockHistory row db =
     andThen (insert_unique bk_BlockHeight [row] (block_history db)) (\<lambda>rows.
     Inr (db\<lparr>block_history := rows\<rparr>))"

text \<open>\<open>ActiveBlockProducers[int(height) % len(ActiveBlockProducers)]\<close>, or no address without producers.\<close>

definition expectedProducerAddr :: "u64 \<Rightarrow> string list \<Rightarrow> go_error + string" where
  "expectedProducerAddr height producers =
     (if producers = [] then Inr []
      else
        let i = go_rem (sint height) (int (length producers))
        in if i < 0 then Inl (Panic ''runtime error: index out of range'') else Inr (producers ! nat i))"

definition operatorName :: "blocks_mem \<Rightarrow> string \<Rightarrow> string" where
  "operatorName mem addr =
     (case OperatorAddrToName mem of None \<Rightarrow> [] | Some m \<Rightarrow> get_or [] m addr)"

definition block_row :: "u64 \<Rightarrow> block \<Rightarrow> blocks_mem \<Rightarrow> go_error + BlockHistory" where
  "block_row epochNumber blk mem =
     (let c = fold (\<lambda>selp. count_action (selp_Action selp)) (blk_Actions blk) no_actions;
          gasConsumed = fold (\<lambda>receipt g. g + rcp_GasConsumed receipt) (blk_Receipts blk) 0;
          producerAddr = blk_ProducerAddress blk in
      andThen (expectedProducerAddr (blk_Height blk) (ActiveBlockProducers mem)) (\<lambda>expectedAddr.
      Inr
        \<lparr>bk_EpochNumber = epochNumber, bk_BlockHeight = blk_Height blk,
         bk_BlockHash = hex_EncodeToString (blk_HashBlock blk),
         bk_Transfer = n_transfer c, bk_Execution = n_execution c,
         bk_DepositToRewaringFund = n_depositToRewardingFund c,
         bk_ClaimFromRewardingFund = n_claimFromRewardingFund c,
         bk_GrantReward = n_grantReward c, bk_PutPollResult = n_putPollResult c,
         bk_StakeCreate = n_stakeCreate c, bk_StakeUnstake = n_stakeUnstake c,
         bk_StakeWithdraw = n_stakeWithdraw c, bk_StakeAddDeposit = n_stakeAddDeposit c,
         bk_StakeRestake = n_stakeRestake c, bk_StakeChangeCandidate = n_stakeChangeCandidate c,
         bk_StakeTransferOwnership = n_stakeTransferOwnership c,
         bk_CandidateRegister = n_candidateRegister c, bk_CandidateUpdate = n_candidateUpdate c,
         bk_GasConsumed = gasConsumed, bk_ProducerAddress = producerAddr,
         bk_ProducerName = operatorName mem producerAddr,
         bk_ExpectedProducerAddress = expectedAddr,
         bk_ExpectedProducerName = operatorName mem expectedAddr,
         bk_Timestamp = blk_Timestamp blk\<rparr>))"

definition blocks_HandleBlock ::
  "EpochCtx \<Rightarrow> GravityChain \<Rightarrow> IndexCtx \<Rightarrow> block \<Rightarrow> (blocks_db \<times> blocks_mem, unit) go"
where
  "blocks_HandleBlock epochCtx gravityChainCfg ictx blk = (\<lambda>(db, mem).
     let height = blk_Height blk in
     case epoch_prologue epochCtx height of
       Inl e \<Rightarrow> (Inl e, (db, mem))
     | Inr (epochNumber, epochHeight) \<Rightarrow>
         (case (if ConsensusScheme ictx = ROLLDPOS \<and> (height = epochHeight \<or> OperatorAddrToName mem = None)
                then go_wrap ''failed to update delegates in epoch''
                       (updateDelegates epochCtx gravityChainCfg ictx height epochNumber) mem
                else (Inr (), mem)) of
            (Inl e, mem) \<Rightarrow> (Inl e, (db, mem))
          | (Inr _, mem) \<Rightarrow>
              let db = (if height = epochHeight then rebuildProductivityTable (epochNumber - 1) db else db)
              in (case andThen (block_row epochNumber blk mem) (\<lambda>row. updateBlockHistory row db) of
                    Inl e \<Rightarrow> (Inl e, (db, mem))
                  | Inr db' \<Rightarrow> (Inr (), (db', mem)))))"

text \<open>\<open>getBlockHistory\<close> and \<open>getProductivityHistory\<close> read one row.\<close>

definition getBlockHistory :: "u64 \<Rightarrow> blocks_db \<Rightarrow> go_error + BlockHistory" where
  "getBlockHistory blockHeight db =
     (case filter (\<lambda>r. bk_BlockHeight r = blockHeight) (block_history db) of
        [] \<Rightarrow> Inl ErrNotExist
      | [r] \<Rightarrow> Inr r
      | _ \<Rightarrow> Inl (ErrMsg ''only one row is expected''))"

definition getProductivityHistory :: "u64 \<Rightarrow> string \<Rightarrow> blocks_db \<Rightarrow> go_error + ProductivityHistory" where
  "getProductivityHistory epochNumber producerName db =
     (case filter (\<lambda>r. fst r = (epochNumber, producerName)) (productivity_history db) of
        [] \<Rightarrow> Inl ErrNotExist
      | [((e, name), (p, x))] \<Rightarrow>
          Inr \<lparr>ph_EpochNumber = e, ph_ProducerName = name, ph_Production = p, ph_ExpectedProduction = x\<rparr>
      | _ \<Rightarrow> Inl (ErrMsg ''only one row is expected''))"

subsection \<open>What a rebuilt epoch holds\<close>

interpretation expected: epoch_aggregate fst "\<lambda>r. fst (fst r)" bk_EpochNumber expected_rows
  unfolding expected_rows_def by (rule grouped.epoch_aggregate_axioms)

interpretation producer: epoch_aggregate fst "\<lambda>r. fst (fst r)" bk_EpochNumber producer_rows
  unfolding producer_rows_def by (rule grouped.epoch_aggregate_axioms)

definition productivity_rows :: "u64 \<Rightarrow> BlockHistory list \<Rightarrow> productivity_row list" where
  "productivity_rows e hs = productivity_join e (expected_rows e hs) (producer_rows e hs)"

lemma expected_distinct [simp]: "distinct_keys (expected_rows e hs)"
  by (simp add: expected_rows_def)

lemma expected_filter [simp]: "filter (\<lambda>r. fst (fst r) = e) (expected_rows e hs) = expected_rows e hs"
  by (simp add: filter_id_conv expected.agg_epoch)

lemma productivity_join_epoch:
  assumes "filter (\<lambda>r. fst (fst r) = e) t1 = t1'" "filter (\<lambda>r. fst (fst r) = e) t2 = t2'"
  shows "productivity_join e t1 t2 = productivity_join e t1' t2'"
proof -
  have g: "get_or 0 (filter (\<lambda>r. fst (fst r) = e) m) k = get_or 0 m k" if "fst k = e"
    for m :: "epoch_row list" and k
    using that by (intro get_or_filter) auto
  show ?thesis
    unfolding productivity_join_def assms[symmetric]
    by (intro map_cong) (auto simp: g)
qed

lemma productivity_rows_eq:
  "productivity_rows e hs = map (\<lambda>(k, n). (k, (get_or 0 (producer_rows e hs) k, n))) (expected_rows e hs)"
  by (simp add: productivity_rows_def productivity_join_def)

lemma productivity_rows_fst: "map fst (productivity_rows e hs) = map fst (expected_rows e hs)"
  by (simp add: productivity_rows_eq case_prod_unfold comp_def)

interpretation productivities: epoch_aggregate fst "\<lambda>r. fst (fst r)" bk_EpochNumber productivity_rows
proof unfold_locales
  show "fst (fst r) = e" if "r \<in> set (productivity_rows e hs)" for r e hs
    using that by (auto simp: productivity_rows_eq dest: expected.agg_epoch)
  show "productivity_rows e hs = productivity_rows e (filter (\<lambda>h. bk_EpochNumber h = e) hs)" for e hs
    using expected.agg_local[of e hs] producer.agg_local[of e hs] by (simp add: productivity_rows_eq)
  show "distinct (map fst (productivity_rows e hs))" for e hs
    by (simp add: productivity_rows_fst)
  show "fst (fst r) = fst (fst q)" if "fst r = fst q" for r q :: productivity_row
    using that by simp
qed

subsection \<open>The invariant of block handling\<close>

text \<open>
  \<open>blocks_indexed epochCtx h db\<close>: the history has exactly one row for each of the blocks 1 to
  \<open>h\<close>, in order, with the block's epoch, and the rebuilt tables are exact for every finished epoch.
\<close>

definition heights_upto :: "u64 \<Rightarrow> u64 list" where
  "heights_upto h = map of_nat [1..<unat h + 1]"

definition blocks_built :: "u64 \<Rightarrow> blocks_db \<Rightarrow> bool" where
  "blocks_built n db \<longleftrightarrow>
     built (\<lambda>r. fst (fst r)) expected_rows n (block_history db) (expected_producer_history db) \<and>
     built (\<lambda>r. fst (fst r)) producer_rows n (block_history db) (producer_history db) \<and>
     built (\<lambda>r. fst (fst r)) productivity_rows n (block_history db) (productivity_history db)"

definition blocks_indexed :: "EpochCtx \<Rightarrow> u64 \<Rightarrow> blocks_db \<Rightarrow> bool" where
  "blocks_indexed epochCtx h db \<longleftrightarrow>
     map bk_BlockHeight (block_history db) = heights_upto h \<and>
     (\<forall>r \<in> set (block_history db). GetEpochNumber epochCtx (bk_BlockHeight r) = Inr (bk_EpochNumber r)) \<and>
     (\<exists>n. GetEpochNumber epochCtx h = Inr n \<and> blocks_built n db)"

lemma heights_upto_Suc: "h < h + 1 \<Longrightarrow> heights_upto (h + 1) = heights_upto h @ [h + 1]"
proof -
  assume h: "h < h + 1"
  then have u: "unat (h + 1) = Suc (unat h)" by unat_arith
  have "of_nat (Suc (unat h)) = h + 1" unfolding u[symmetric] by simp
  then show ?thesis by (simp add: heights_upto_def u)
qed

lemma heights_upto_set: "k \<in> set (heights_upto h) \<longleftrightarrow> 0 < k \<and> k \<le> h"
proof
  assume "k \<in> set (heights_upto h)"
  then obtain i where "k = of_nat i" "i \<in> set [1..<unat h + 1]" unfolding heights_upto_def by auto
  then have i: "0 < i" "i \<le> unat h" "k = of_nat i" by auto
  then have "i < 2 ^ 64" using unat_u64_less[of h] by linarith
  with i have "unat k = i" by (simp add: unat_of_nat)
  with i show "0 < k \<and> k \<le> h" by (simp add: word_less_nat_alt word_le_nat_alt)
next
  assume "0 < k \<and> k \<le> h"
  then show "k \<in> set (heights_upto h)"
    unfolding heights_upto_def set_map
    by (intro image_eqI[of _ _ "unat k"]) (simp_all add: word_less_nat_alt word_le_nat_alt del: upt_Suc)
qed

lemma rebuild_productivity_history [simp]: "block_history (rebuildProductivityTable n db) = block_history db"
  by (simp add: rebuildProductivityTable_def Let_def)

lemma blocks_built_rebuild:
  assumes b: "blocks_built n db" and n: "n < n + 1"
  shows "blocks_built (n + 1) (rebuildProductivityTable n db)"
proof (cases "n = 0")
  case True
  with b show ?thesis by (simp add: blocks_built_def rebuildProductivityTable_def built_0_1)
next
  case False
  then have pos: "0 < n" by (simp add: word_neq_0_conv)
  let ?hs = "block_history db"
  let ?x = "insert_ignore fst (expected_rows n ?hs) (expected_producer_history db)"
  let ?p = "insert_ignore fst (producer_rows n ?hs) (producer_history db)"
  have x: "built (\<lambda>r. fst (fst r)) expected_rows (n + 1) ?hs ?x"
    using expected.built_rebuild[OF _ pos n] b by (simp add: blocks_built_def)
  have p: "built (\<lambda>r. fst (fst r)) producer_rows (n + 1) ?hs ?p"
    using producer.built_rebuild[OF _ pos n] b by (simp add: blocks_built_def)
  have "productivity_join n ?x ?p = productivity_rows n ?hs"
    unfolding productivity_rows_def
    by (intro productivity_join_epoch built_rows[OF x pos n] built_rows[OF p pos n])
  then show ?thesis
    using x p productivities.built_rebuild[OF _ pos n] b False
    by (simp add: blocks_built_def rebuildProductivityTable_def Let_def)
qed

lemma blocks_built_append:
  "blocks_built n db \<Longrightarrow> bk_EpochNumber row = n \<Longrightarrow>
   blocks_built n (db\<lparr>block_history := block_history db @ [row]\<rparr>)"
  by (auto simp: blocks_built_def
      intro!: expected.built_append producer.built_append productivities.built_append)

lemma updateBlockHistory_eq_Inr:
  "updateBlockHistory row db = Inr db' \<longleftrightarrow>
   db' = db\<lparr>block_history := block_history db @ [row]\<rparr> \<and>
   bk_BlockHeight row \<notin> bk_BlockHeight ` set (block_history db)"
  by (auto simp: updateBlockHistory_def)

lemma block_row_fields:
  "block_row n blk mem = Inr row \<Longrightarrow> bk_EpochNumber row = n \<and> bk_BlockHeight row = blk_Height blk"
  by (auto simp: block_row_def Let_def andThen_eq_Inr)

text \<open>Every successful run appends the block's row to the tables rebuilt when an epoch starts.\<close>

lemma blocks_HandleBlock_shape:
  assumes "blocks_HandleBlock e g ictx blk (db, mem) = (Inr (), (db', mem'))"
    and "epoch_prologue e (blk_Height blk) = Inr (n, s)"
  obtains row where "block_row n blk mem' = Inr row"
    "updateBlockHistory row
      (if blk_Height blk = s then rebuildProductivityTable (n - 1) db else db) = Inr db'"
  using assms
  by (auto simp: blocks_HandleBlock_def Let_def andThen_eq_Inr
      split: prod.splits sum.splits if_splits)

lemma blocks_HandleBlock_indexed:
  assumes ok: "ctx_ok e" and inv: "blocks_indexed e h db" and h: "h < h + 1"
    and blk: "blk_Height blk = h + 1"
    and run: "blocks_HandleBlock e g ictx blk (db, mem) = (Inr (), (db', mem'))"
  shows "blocks_indexed e (h + 1) db'"
proof -
  obtain m where m: "GetEpochNumber e h = Inr m" "blocks_built m db"
    and hist: "map bk_BlockHeight (block_history db) = heights_upto h"
      "\<forall>r \<in> set (block_history db). GetEpochNumber e (bk_BlockHeight r) = Inr (bk_EpochNumber r)"
    using inv by (auto simp: blocks_indexed_def)
  obtain n s where n: "epoch_prologue e (h + 1) = Inr (n, s)" "GetEpochNumber e (h + 1) = Inr n"
    using epoch_prologue_spec[OF ok, of "h + 1"] by blast
  let ?db = "if h + 1 = s then rebuildProductivityTable (n - 1) db else db"
  have built: "blocks_built n ?db"
    using epoch_prologue_step[OF ok h m(1) n(1)] m(2) blocks_built_rebuild[of m db]
    by (auto split: if_splits)
  obtain row where "block_row n blk mem' = Inr row" and upd: "updateBlockHistory row ?db = Inr db'"
    using blocks_HandleBlock_shape[OF run n(1)[folded blk]] unfolding blk by blast
  then have row: "bk_EpochNumber row = n" "bk_BlockHeight row = h + 1"
      "db' = ?db\<lparr>block_history := block_history ?db @ [row]\<rparr>"
    using block_row_fields[of n blk mem' row] blk upd[unfolded updateBlockHistory_eq_Inr] by simp_all
  have "block_history ?db = block_history db" by simp
  then have "map bk_BlockHeight (block_history db') = heights_upto (h + 1)"
    using hist(1) row heights_upto_Suc[OF h] by simp
  moreover have "\<forall>r \<in> set (block_history db'). GetEpochNumber e (bk_BlockHeight r) = Inr (bk_EpochNumber r)"
    using hist(2) row n(2) by auto
  moreover have "blocks_built n db'"
    using blocks_built_append[OF built row(1)] row(3) by simp
  ultimately show ?thesis using n(2) by (auto simp: blocks_indexed_def)
qed

lemma blocks_indexed_initial:
  "blocks_indexed e 0 \<lparr>block_history = [], expected_producer_history = [], producer_history = [],
     productivity_history = []\<rparr>"
  by (simp add: blocks_indexed_def blocks_built_def built_Nil GetEpochNumber.simps heights_upto_def)

text \<open>The heights of a finished epoch are exactly those from its start to the next one.\<close>

lemma built_of_epoch:
  assumes "blocks_indexed e h db" "GetEpochNumber e h = Inr n" "0 < ep" "ep < n"
  shows "filter (\<lambda>r. fst (fst r) = ep) (productivity_history db) = productivity_rows ep (block_history db)"
proof -
  have "built (\<lambda>r. fst (fst r)) productivity_rows n (block_history db) (productivity_history db)"
    using assms(1,2) by (auto simp: blocks_indexed_def blocks_built_def)
  from built_rows[OF this assms(3,4)] show ?thesis .
qed

lemma epoch_heights:
  assumes ok: "ctx_ok e" and n: "GetEpochNumber e h = Inr n" and ep: "0 < ep" "ep < n"
    and s: "GetEpochHeight e ep = Inr s" and t: "GetEpochHeight e (ep + 1) = Inr t"
  shows "{k. 0 < k \<and> k \<le> h \<and> GetEpochNumber e k = Inr ep} = {k. s \<le> k \<and> k < t}"
    and "unat s < unat t"
proof -
  let ?p = "plan_of e"
  have ok': "plan_ok ?p" by (rule ctx_okD[OF ok])
  have n': "unat n = epoch_spec ?p (unat h)" using GetEpochNumber_refines[OF ok, of h] n by auto
  have ep1: "unat (ep + 1) = unat ep + 1" using ep(2) by unat_arith
  have lt: "unat ep + 1 \<le> unat n" using ep(2) by (simp add: word_less_nat_alt)
  have pos: "0 < unat ep" using ep(1) by (simp add: word_less_nat_alt)
  have h0: "0 < unat h" using lt n' by (cases "unat h") (simp_all add: epoch_spec_0)
  have th: "start_spec ?p (unat ep + 1) \<le> unat h"
    using start_spec_mono[OF ok' lt] start_of_epoch_le[OF h0, of ?p] unfolding n' by linarith
  have st: "start_spec ?p (unat ep) < start_spec ?p (unat ep + 1)"
    using start_spec_Suc[OF ok', of "unat ep"] by simp
  have small: "start_spec ?p (unat ep + 1) < 2 ^ 64" using th unat_u64_less[of h] by linarith
  have t': "unat t = start_spec ?p (unat ep + 1)"
    using GetEpochHeight_refines[OF ok, of "ep + 1"] t small by (auto simp: ep1)
  have s': "unat s = start_spec ?p (unat ep)"
    using GetEpochHeight_refines[OF ok, of ep] s st small by fastforce
  show "unat s < unat t" using st s' t' by simp
  have spec: "GetEpochNumber e k = Inr ep \<longleftrightarrow> epoch_spec ?p (unat k) = unat ep" for k
    using GetEpochNumber_refines[OF ok, of k] by (auto simp: word_unat_eq_iff)
  show "{k. 0 < k \<and> k \<le> h \<and> GetEpochNumber e k = Inr ep} = {k. s \<le> k \<and> k < t}"
  proof (intro set_eqI iffI; clarify)
    fix k assume k: "0 < k" "GetEpochNumber e k = Inr ep"
    then have "0 < unat k" "epoch_spec ?p (unat k) = unat ep"
      by (simp_all add: spec word_less_nat_alt)
    then show "s \<le> k \<and> k < t"
      using start_of_epoch_le[of "unat k" ?p] before_next_epoch[OF ok', of "unat k"] s' t'
      by (simp add: word_le_nat_alt word_less_nat_alt)
  next
    fix k assume "s \<le> k" "k < t"
    then have k: "start_spec ?p (unat ep) \<le> unat k" "unat k < start_spec ?p (unat ep + 1)"
      using s' t' by (simp_all add: word_le_nat_alt word_less_nat_alt)
    then have "0 < unat k" using start_spec_pos[OF ok' pos] by linarith
    moreover have "epoch_spec ?p (unat k) = unat ep" using epoch_spec_unique[OF ok' pos] k by simp
    ultimately show "0 < k \<and> k \<le> h \<and> GetEpochNumber e k = Inr ep"
      using k th by (simp add: spec word_le_nat_alt word_less_nat_alt)
  qed
qed

lemma card_word_interval: "card {k :: u64. s \<le> k \<and> k < t} = unat t - unat s"
proof -
  have "unat ` {k :: u64. s \<le> k \<and> k < t} = {unat s ..< unat t}"
  proof (intro set_eqI iffI)
    fix i assume "i \<in> {unat s ..< unat t}"
    moreover from this have "i < 2 ^ 64" using unat_u64_less[of t] by (meson atLeastLessThan_iff less_trans)
    then have "unat (of_nat i :: u64) = i" by (simp add: unat_of_nat)
    ultimately show "i \<in> unat ` {k :: u64. s \<le> k \<and> k < t}"
      by (intro image_eqI[of _ _ "of_nat i"]) (simp_all add: word_le_nat_alt word_less_nat_alt)
  qed (auto simp: word_le_nat_alt word_less_nat_alt)
  moreover have "inj_on unat {k :: u64. s \<le> k \<and> k < t}" by (rule inj_onI) (simp add: word_unat_eq_iff)
  ultimately show ?thesis using card_image[of unat "{k :: u64. s \<le> k \<and> k < t}"] by simp
qed

lemma heights_upto_distinct: "distinct (heights_upto h)"
proof -
  have "inj_on (of_nat :: nat \<Rightarrow> u64) (set [1..<unat h + 1])"
  proof (rule inj_on_inverseI)
    fix i assume "i \<in> set [1..<unat h + 1]"
    then have "i < unat h + 1" by (simp only: set_upt atLeastLessThan_iff)
    then have "i < 2 ^ 64" using unat_u64_less[of h] by linarith
    then show "unat (of_nat i :: u64) = i" by (simp add: unat_of_nat)
  qed
  then show ?thesis by (simp add: heights_upto_def distinct_map del: upt_Suc)
qed

lemma epoch_block_count:
  assumes inv: "blocks_indexed e h db" and ok: "ctx_ok e" and n: "GetEpochNumber e h = Inr n"
    and ep: "0 < ep" "ep < n"
    and s: "GetEpochHeight e ep = Inr s" and t: "GetEpochHeight e (ep + 1) = Inr t"
  shows "length (filter (\<lambda>r. bk_EpochNumber r = ep) (block_history db)) = unat t - unat s"
proof -
  let ?rs = "filter (\<lambda>r. bk_EpochNumber r = ep) (block_history db)"
  have heights: "map bk_BlockHeight (block_history db) = heights_upto h"
    and nums: "\<And>r. r \<in> set (block_history db) \<Longrightarrow> GetEpochNumber e (bk_BlockHeight r) = Inr (bk_EpochNumber r)"
    using inv by (auto simp: blocks_indexed_def)
  have "distinct (map bk_BlockHeight ?rs)"
    using heights_upto_distinct[of h] heights[symmetric] by (simp add: distinct_map_filter)
  then have "length ?rs = card (bk_BlockHeight ` set ?rs)"
    using distinct_card[of "map bk_BlockHeight ?rs"] by simp
  also have "bk_BlockHeight ` set ?rs = {k \<in> set (heights_upto h). GetEpochNumber e k = Inr ep}"
    unfolding heights[symmetric] using nums by force
  also have "\<dots> = {k. s \<le> k \<and> k < t}"
    using epoch_heights(1)[OF ok n ep s t] by (simp add: heights_upto_set conj_assoc)
  finally show ?thesis by (simp add: card_word_interval)
qed

lemma expected_rows_total:
  "sum_list (map snd (expected_rows e hs)) = int (length (filter (\<lambda>r. bk_EpochNumber r = e) hs))"
  by (simp add: expected_rows_def epoch_group_total sum_list_triv)

text \<open>Each counter counts the actions of one type.\<close>

definition num_of :: "(action \<Rightarrow> bool) \<Rightarrow> sealed_envelope list \<Rightarrow> u64" where
  "num_of P acts = of_nat (length (filter (\<lambda>selp. P (selp_Action selp)) acts))"

lemma fold_counter:
  assumes "\<And>a c. sel (count_action a c) = sel c + (if P a then 1 else 0)"
  shows "sel (fold (\<lambda>selp. count_action (selp_Action selp)) acts c) = sel c + num_of P acts"
  by (induction acts arbitrary: c) (simp_all add: assms num_of_def)

lemma count_steps:
  "n_transfer (count_action a c) = n_transfer c + (if is_Transfer a then 1 else 0)"
  "n_execution (count_action a c) = n_execution c + (if is_Execution a then 1 else 0)"
  "n_depositToRewardingFund (count_action a c) = n_depositToRewardingFund c + (if is_DepositToRewardingFund a then 1 else 0)"
  "n_claimFromRewardingFund (count_action a c) = n_claimFromRewardingFund c + (if is_ClaimFromRewardingFund a then 1 else 0)"
  "n_grantReward (count_action a c) = n_grantReward c + (if a = GrantReward then 1 else 0)"
  "n_putPollResult (count_action a c) = n_putPollResult c + (if a = PutPollResult then 1 else 0)"
  "n_stakeCreate (count_action a c) = n_stakeCreate c + (if is_CreateStake a then 1 else 0)"
  "n_stakeUnstake (count_action a c) = n_stakeUnstake c + (if a = Unstake then 1 else 0)"
  "n_stakeWithdraw (count_action a c) = n_stakeWithdraw c + (if a = WithdrawStake then 1 else 0)"
  "n_stakeAddDeposit (count_action a c) = n_stakeAddDeposit c + (if is_DepositToStake a then 1 else 0)"
  "n_stakeRestake (count_action a c) = n_stakeRestake c + (if a = Restake then 1 else 0)"
  "n_stakeChangeCandidate (count_action a c) = n_stakeChangeCandidate c + (if a = ChangeCandidate then 1 else 0)"
  "n_stakeTransferOwnership (count_action a c) = n_stakeTransferOwnership c + (if a = TransferStake then 1 else 0)"
  "n_candidateRegister (count_action a c) = n_candidateRegister c + (if is_CandidateRegister a then 1 else 0)"
  "n_candidateUpdate (count_action a c) = n_candidateUpdate c + (if a = CandidateUpdate then 1 else 0)"
  by (cases a; simp)+

lemmas block_counters =
  fold_counter[of n_transfer is_Transfer, OF count_steps(1)]
  fold_counter[of n_execution is_Execution, OF count_steps(2)]
  fold_counter[of n_depositToRewardingFund is_DepositToRewardingFund, OF count_steps(3)]
  fold_counter[of n_claimFromRewardingFund is_ClaimFromRewardingFund, OF count_steps(4)]
  fold_counter[of n_grantReward "\<lambda>a. a = GrantReward", OF count_steps(5)]
  fold_counter[of n_putPollResult "\<lambda>a. a = PutPollResult", OF count_steps(6)]
  fold_counter[of n_stakeCreate is_CreateStake, OF count_steps(7)]
  fold_counter[of n_stakeUnstake "\<lambda>a. a = Unstake", OF count_steps(8)]
  fold_counter[of n_stakeWithdraw "\<lambda>a. a = WithdrawStake", OF count_steps(9)]
  fold_counter[of n_stakeAddDeposit is_DepositToStake, OF count_steps(10)]
  fold_counter[of n_stakeRestake "\<lambda>a. a = Restake", OF count_steps(11)]
  fold_counter[of n_stakeChangeCandidate "\<lambda>a. a = ChangeCandidate", OF count_steps(12)]
  fold_counter[of n_stakeTransferOwnership "\<lambda>a. a = TransferStake", OF count_steps(13)]
  fold_counter[of n_candidateRegister is_CandidateRegister, OF count_steps(14)]
  fold_counter[of n_candidateUpdate "\<lambda>a. a = CandidateUpdate", OF count_steps(15)]

lemma gas_sum: "fold (\<lambda>receipt g. g + rcp_GasConsumed receipt) rs g = g + sum_list (map rcp_GasConsumed rs)"
  by (induction rs arbitrary: g) simp_all

lemma expectedProducerAddr_small:
  assumes "producers \<noteq> []" "unat height < 2 ^ 63"
  shows "expectedProducerAddr height producers = Inr (producers ! (unat height mod length producers))"
proof -
  have "sint height = int (unat height)"
    by (rule sint_small[OF assms(2)])
  then have "go_rem (sint height) (int (length producers)) = int (unat height mod length producers)"
    unfolding go_rem_def by (simp only: of_nat_less_0_iff if_False of_nat_mod)
  then show ?thesis using assms(1) by (simp only: expectedProducerAddr_def Let_def) simp
qed

text \<open>A memory with names is only touched by the first block of an epoch.\<close>

lemma blocks_memory_kept:
  assumes "OperatorAddrToName mem = Some m" "epoch_prologue e (blk_Height blk) = Inr (n, s)"
    "blk_Height blk \<noteq> s"
  shows "snd (snd (blocks_HandleBlock e g ictx blk (db, mem))) = mem"
  using assms by (simp add: blocks_HandleBlock_def Let_def split: sum.split)

lemma encode_names_fail:
  assumes "list_all2 (\<lambda>c name. EncodeDelegateName (cand_Name c) = Inr name) cs names"
    and "EncodeDelegateName (cand_Name bad) = Inl err"
  shows "\<exists>e. encode_names (cs @ bad # rest) m =
    (Inl e, fold (\<lambda>(c, name). AList.update (cand_OperatorAddress c) name) (zip cs names) m)"
  using assms(1)
proof (induction arbitrary: m rule: list_all2_induct)
  case Nil
  then show ?case using assms(2) by (simp add: wrap_def)
qed simp

subsection \<open>Properties\<close>

text \<open>Two blocks of two epochs, both made by the first of two producers, for the witnesses.\<close>

definition two_producers :: blocks_mem where
  "two_producers =
     \<lparr>ActiveBlockProducers = [''io1p'', ''io1q''],
      OperatorAddrToName = Some [(''io1p'', ''alpha''), (''io1q'', ''beta'')]\<rparr>"

definition no_gravity :: GravityChain where
  "no_gravity =
     \<lparr>GravityChainStartHeight = 0, GravityChainAPIs = [], RegisterContractAddress = [],
      RewardPercentageStartHeight = 0\<rparr>"

definition empty_blocks :: blocks_db where
  "empty_blocks =
     \<lparr>block_history = [], expected_producer_history = [], producer_history = [], productivity_history = []\<rparr>"

definition blocks_1 :: blocks_db where
  "blocks_1 = fst (snd (blocks_HandleBlock tiny_ctx no_gravity offline_ctx (sample_block 1) (empty_blocks, two_producers)))"

definition blocks_2 :: blocks_db where
  "blocks_2 = fst (snd (blocks_HandleBlock tiny_ctx no_gravity offline_ctx (sample_block 2) (blocks_1, two_producers)))"

lemma blocks_1_handled:
  "blocks_HandleBlock tiny_ctx no_gravity offline_ctx (sample_block 1) (empty_blocks, two_producers) =
   (Inr (), (blocks_1, two_producers))"
  by code_simp

lemma blocks_2_handled:
  "blocks_HandleBlock tiny_ctx no_gravity offline_ctx (sample_block 2) (blocks_1, two_producers) =
   (Inr (), (blocks_2, two_producers))"
  by code_simp

lemma blocks_1_indexed: "blocks_indexed tiny_ctx 1 blocks_1"
proof -
  have "blocks_indexed tiny_ctx (0 + 1) blocks_1"
    by (rule blocks_HandleBlock_indexed[OF tiny_ok _ _ _ blocks_1_handled])
      (simp_all add: blocks_indexed_initial empty_blocks_def sample_block_def)
  then show ?thesis by simp
qed

lemma blocks_2_indexed: "blocks_indexed tiny_ctx 2 blocks_2"
proof -
  have "blocks_indexed tiny_ctx (1 + 1) blocks_2"
    by (rule blocks_HandleBlock_indexed[OF tiny_ok blocks_1_indexed _ _ blocks_2_handled])
      (simp_all add: sample_block_def)
  then show ?thesis by simp
qed

lemma tiny_number_2: "GetEpochNumber tiny_ctx 2 = Inr 2"
  by code_simp

text \<open>C4: Handling the next block keeps the tables of the blocks protocol exact, whatever the
  memory of producers and names: the history has exactly one row for every block from 1 to the
  new one, in order, and the rebuilt tables are exact for every finished epoch and empty for the
  others.\<close>

theorem blocks_block_invariant:
  assumes "ctx_ok e" "blocks_indexed e h db" "h < h + 1" "blk_Height blk = h + 1"
    and "blocks_HandleBlock e g ictx blk (db, mem) = (Inr (), (db', mem'))"
  shows "blocks_indexed e (h + 1) db'"
  using assms by (rule blocks_HandleBlock_indexed)

lemma blocks_block_invariant_witness: "blocks_indexed tiny_ctx (1 + 1) blocks_2"
  by (rule blocks_block_invariant[OF tiny_ok blocks_1_indexed _ _ blocks_2_handled])
    (simp_all add: sample_block_def)

text \<open>The productivity returned for a delegate in a finished epoch is the number of blocks of
  that epoch it was expected to make and the number it made, counted over the block history; a
  delegate that was never expected has no productivity row, even if it made blocks.\<close>

theorem productivity_of_delegate:
  assumes inv: "blocks_indexed e h db" and n: "GetEpochNumber e h = Inr n" and ep: "0 < ep" "ep < n"
  shows "getProductivityHistory ep name db =
    (if \<exists>r \<in> set (block_history db). bk_EpochNumber r = ep \<and> bk_ExpectedProducerName r = name then
       Inr \<lparr>ph_EpochNumber = ep, ph_ProducerName = name,
         ph_Production = int (length (filter (\<lambda>r. bk_EpochNumber r = ep \<and> bk_ProducerName r = name) (block_history db))),
         ph_ExpectedProduction =
           int (length (filter (\<lambda>r. bk_EpochNumber r = ep \<and> bk_ExpectedProducerName r = name) (block_history db)))\<rparr>
     else Inl ErrNotExist)"
proof -
  let ?hs = "block_history db" and ?k = "(ep, name)"
  have "filter (\<lambda>r. fst r = ?k) (productivity_history db)
      = filter (\<lambda>r. fst r = ?k) (filter (\<lambda>r. fst (fst r) = ep) (productivity_history db))"
    unfolding filter_filter by (rule filter_cong) auto
  also have "\<dots> = filter (\<lambda>r. fst r = ?k) (productivity_rows ep ?hs)"
    by (simp only: built_of_epoch[OF inv n ep])
  also have "\<dots> = map (\<lambda>(k, x). (k, (get_or 0 (producer_rows ep ?hs) k, x)))
      (filter (\<lambda>r. fst r = ?k) (expected_rows ep ?hs))"
    unfolding productivity_rows_eq filter_map by (simp add: comp_def case_prod_unfold)
  finally have rows: "filter (\<lambda>r. fst r = ?k) (productivity_history db) = \<dots>" .
  have get: "get_or 0 (producer_rows ep ?hs) ?k = int (length (filter (\<lambda>r. bk_EpochNumber r = ep \<and> bk_ProducerName r = name) ?hs))"
      "get_or 0 (expected_rows ep ?hs) ?k = int (length (filter (\<lambda>r. bk_EpochNumber r = ep \<and> bk_ExpectedProducerName r = name) ?hs))"
    unfolding producer_rows_def expected_rows_def epoch_group_get by (simp_all add: sum_list_triv)
  have keys: "?k \<in> keys (expected_rows ep ?hs) \<longleftrightarrow>
      (\<exists>r \<in> set ?hs. bk_EpochNumber r = ep \<and> bk_ExpectedProducerName r = name)"
    by (auto simp: expected_rows_def epoch_group_keys)
  show ?thesis
  proof (cases "?k \<in> keys (expected_rows ep ?hs)")
    case True
    then show ?thesis
      using filter_key[OF expected_distinct True, of 0] keys
      by (simp add: getProductivityHistory_def rows get)
  next
    case False
    then have "filter (\<lambda>r. fst r = ?k) (expected_rows ep ?hs) = []"
      by (auto simp: filter_empty_conv image_iff)
    with False keys show ?thesis by (simp add: getProductivityHistory_def rows)
  qed
qed

lemma productivity_of_delegate_witness:
  "getProductivityHistory 1 ''beta'' blocks_2 =
   Inr \<lparr>ph_EpochNumber = 1, ph_ProducerName = ''beta'', ph_Production = 0, ph_ExpectedProduction = 1\<rparr>"
proof -
  have "block_history blocks_2 = block_history blocks_1 @
      [(hd (block_history blocks_1))\<lparr>bk_EpochNumber := 2, bk_BlockHeight := 2,
         bk_ExpectedProducerAddress := ''io1p'', bk_ExpectedProducerName := ''alpha''\<rparr>]"
    "map (\<lambda>r. (bk_EpochNumber r, bk_ProducerName r, bk_ExpectedProducerName r)) (block_history blocks_1)
      = [(1, ''alpha'', ''beta'')]"
    by code_simp+
  then show ?thesis
    using productivity_of_delegate[OF blocks_2_indexed tiny_number_2, of 1 "''beta''"]
    by (cases "block_history blocks_1") (auto split: if_splits)
qed

text \<open>Over a finished epoch the expected productions of all delegates add up to the number of
  blocks the epoch contexts gives it, the distance between its first height and the next epoch's:
  every block of the epoch is expected from exactly one delegate.\<close>

theorem expected_production_total:
  assumes inv: "blocks_indexed e h db" and ok: "ctx_ok e" and n: "GetEpochNumber e h = Inr n"
    and ep: "0 < ep" "ep < n"
    and s: "GetEpochHeight e ep = Inr s" and t: "GetEpochHeight e (ep + 1) = Inr t"
  shows "sum_list (map (\<lambda>r. snd (snd r)) (filter (\<lambda>r. fst (fst r) = ep) (productivity_history db)))
    = int (unat t) - int (unat s)"
proof -
  have "map (\<lambda>r. snd (snd r)) (productivity_rows ep (block_history db))
      = map snd (expected_rows ep (block_history db))"
    by (simp add: productivity_rows_eq case_prod_unfold)
  then show ?thesis
    using epoch_block_count[OF inv ok n ep s t] epoch_heights(2)[OF ok n ep s t]
    by (simp add: built_of_epoch[OF inv n ep] expected_rows_total of_nat_diff)
qed

lemma expected_production_total_witness:
  "sum_list (map (\<lambda>r. snd (snd r)) (filter (\<lambda>r. fst (fst r) = 1) (productivity_history blocks_2)))
    = int (unat (2 :: u64)) - int (unat (1 :: u64))"
proof (rule expected_production_total[OF blocks_2_indexed tiny_ok tiny_number_2])
  show "GetEpochHeight tiny_ctx 1 = Inr 1" "GetEpochHeight tiny_ctx (1 + 1) = Inr 2" by code_simp+
qed simp_all

text \<open>The row of a block counts its actions by type (modulo \<open>2 ^ 64\<close>), adds up the gas of
  its receipts, and names the producers by the names of the current epoch.\<close>

theorem block_row_counts:
  assumes "block_row n blk mem = Inr row"
  shows "bk_Transfer row = num_of is_Transfer (blk_Actions blk) \<and>
    bk_Execution row = num_of is_Execution (blk_Actions blk) \<and>
    bk_DepositToRewaringFund row = num_of is_DepositToRewardingFund (blk_Actions blk) \<and>
    bk_ClaimFromRewardingFund row = num_of is_ClaimFromRewardingFund (blk_Actions blk) \<and>
    bk_GrantReward row = num_of (\<lambda>a. a = GrantReward) (blk_Actions blk) \<and>
    bk_PutPollResult row = num_of (\<lambda>a. a = PutPollResult) (blk_Actions blk) \<and>
    bk_StakeCreate row = num_of is_CreateStake (blk_Actions blk) \<and>
    bk_StakeUnstake row = num_of (\<lambda>a. a = Unstake) (blk_Actions blk) \<and>
    bk_StakeWithdraw row = num_of (\<lambda>a. a = WithdrawStake) (blk_Actions blk) \<and>
    bk_StakeAddDeposit row = num_of is_DepositToStake (blk_Actions blk) \<and>
    bk_StakeRestake row = num_of (\<lambda>a. a = Restake) (blk_Actions blk) \<and>
    bk_StakeChangeCandidate row = num_of (\<lambda>a. a = ChangeCandidate) (blk_Actions blk) \<and>
    bk_StakeTransferOwnership row = num_of (\<lambda>a. a = TransferStake) (blk_Actions blk) \<and>
    bk_CandidateRegister row = num_of is_CandidateRegister (blk_Actions blk) \<and>
    bk_CandidateUpdate row = num_of (\<lambda>a. a = CandidateUpdate) (blk_Actions blk) \<and>
    bk_GasConsumed row = sum_list (map rcp_GasConsumed (blk_Receipts blk)) \<and>
    bk_ProducerName row = operatorName mem (blk_ProducerAddress blk) \<and>
    bk_ExpectedProducerName row = operatorName mem (bk_ExpectedProducerAddress row)"
  using assms by (auto simp: block_row_def Let_def andThen_eq_Inr block_counters no_actions_def gas_sum)

lemma block_row_counts_witness:
  "bk_ExpectedProducerName (hd (block_history blocks_1))
   = operatorName two_producers (bk_ExpectedProducerAddress (hd (block_history blocks_1)))"
proof (rule block_row_counts[THEN conjunct2, THEN conjunct2, THEN conjunct2, THEN conjunct2, THEN conjunct2, THEN conjunct2, THEN conjunct2, THEN conjunct2, THEN conjunct2, THEN conjunct2, THEN conjunct2, THEN conjunct2, THEN conjunct2, THEN conjunct2, THEN conjunct2, THEN conjunct2, THEN conjunct2])
  show "block_row 1 (sample_block 1) two_producers = Inr (hd (block_history blocks_1))" by code_simp
qed

text \<open>With active producers known, the expected producer of a block below height
  \<open>2 ^ 63\<close> is found without an index panic and goes round the list: after as many blocks as there
  are producers it is the same one again.\<close>

theorem expected_producer_round_robin:
  assumes "producers \<noteq> []" "unat height + length producers < 2 ^ 63"
  shows "expectedProducerAddr height producers = Inr (producers ! (unat height mod length producers)) \<and>
    expectedProducerAddr (height + of_nat (length producers)) producers = expectedProducerAddr height producers"
proof -
  have len: "unat (of_nat (length producers) :: u64) = length producers"
    using assms(2) by (simp add: unat_of_nat)
  have sum: "unat (height + of_nat (length producers)) = unat height + length producers"
    using unat_add_small[of height "of_nat (length producers)"] assms(2) by (simp add: len)
  have "expectedProducerAddr height producers = Inr (producers ! (unat height mod length producers))"
    using assms by (simp add: expectedProducerAddr_small)
  moreover have "expectedProducerAddr (height + of_nat (length producers)) producers = expectedProducerAddr height producers"
    using assms sum
      expectedProducerAddr_small[OF assms(1), of "height + of_nat (length producers)"]
      expectedProducerAddr_small[OF assms(1), of height] by simp
  ultimately show ?thesis ..
qed

lemma expected_producer_round_robin_witness:
  "expectedProducerAddr 7 [''a'', ''b'', ''c''] = Inr ([''a'', ''b'', ''c''] ! (unat (7 :: u64) mod length [''a'', ''b'', ''c'']))"
  by (rule expected_producer_round_robin[THEN conjunct1]) simp_all

text \<open>A block that is already in the history is rejected with an error, whatever else the
  handler did: no block is recorded twice.\<close>

theorem block_recorded_once:
  assumes "blk_Height blk \<in> bk_BlockHeight ` set (block_history db)"
  shows "\<exists>err. fst (blocks_HandleBlock e g ictx blk (db, mem)) = Inl err"
proof (cases "fst (blocks_HandleBlock e g ictx blk (db, mem))")
  case (Inr u)
  then obtain db' mem' where run: "blocks_HandleBlock e g ictx blk (db, mem) = (Inr (), (db', mem'))"
    by (cases "blocks_HandleBlock e g ictx blk (db, mem)") auto
  then obtain n s where p: "epoch_prologue e (blk_Height blk) = Inr (n, s)"
    by (cases "epoch_prologue e (blk_Height blk)") (auto simp: blocks_HandleBlock_def Let_def)
  from blocks_HandleBlock_shape[OF run p] obtain row where "block_row n blk mem' = Inr row"
    "updateBlockHistory row
      (if blk_Height blk = s then rebuildProductivityTable (n - 1) db else db) = Inr db'" by blast
  with assms show ?thesis
    using block_row_fields[of n blk mem' row] by (simp add: updateBlockHistory_eq_Inr split: if_splits)
qed simp

lemma block_recorded_once_witness:
  "\<exists>err. fst (blocks_HandleBlock tiny_ctx no_gravity offline_ctx (sample_block 2) (blocks_2, two_producers)) = Inl err"
  by (rule block_recorded_once) code_simp

text \<open>A chain whose second candidate has a name of 13 bytes, at a height inside an epoch.\<close>

definition named :: "string \<Rightarrow> string \<Rightarrow> CandidateV2" where
  "named addr name =
     \<lparr>cand_OwnerAddress = addr, cand_OperatorAddress = addr, cand_RewardAddress = addr,
      cand_Name = name, cand_TotalWeightedVotes = ''1'', cand_SelfStakeBucketIdx = 0,
      cand_SelfStakingTokens = ''1''\<rparr>"

definition bad_name_ctx :: IndexCtx where
  "bad_name_ctx = offline_ctx
     \<lparr>ChainClient := (ChainClient offline_ctx)\<lparr>cc_ReadState := \<lambda>_. Inr []\<rparr>, ConsensusScheme := ROLLDPOS,
      Libs := (Libs offline_ctx)
        \<lparr>lib_MarshalStakingMethod := Inr, lib_MarshalStakingRequest := \<lambda>_ _ _. Inr [],
         lib_DeserializeCandidateList := \<lambda>_. Inr [''io1p'', ''io1q''],
         lib_UnmarshalCandidates := \<lambda>_. Inr [named ''io1p'' ''alpha'', named ''io1q'' ''thirteenbytes'']\<rparr>\<rparr>"

text \<open>When the indexer starts inside an epoch and one candidate's name cannot be encoded, the
  block fails but the names encoded so far stay in memory; since the map is no longer empty, the
  retry of the same block does not refresh it, so that block and the rest of the epoch are
  recorded with the partial names.\<close>

theorem partial_names_stay:
  assumes scheme: "ConsensusScheme ictx = ROLLDPOS" and none: "OperatorAddrToName mem = None"
    and p: "epoch_prologue e (blk_Height blk) = Inr (n, s)" "blk_Height blk \<noteq> s"
    and fair: "FairbankEffectiveHeight e \<le> blk_Height blk"
    and prod: "updateActiveBlockProducers ictx n mem = (Inr (), mem1)"
    and prev: "GetEpochHeight e (n - 1) = Inr ph"
    and cands: "GetAllStakingCandidates ictx ph = Some (Inr (cs @ bad # rest))"
    and good: "list_all2 (\<lambda>c name. EncodeDelegateName (cand_Name c) = Inr name) cs names"
    and bad: "EncodeDelegateName (cand_Name bad) = Inl err"
  shows "\<exists>err mem2. blocks_HandleBlock e g ictx blk (db, mem) = (Inl err, (db, mem2)) \<and>
    mem2 = mem1\<lparr>OperatorAddrToName :=
      Some (fold (\<lambda>(c, name). AList.update (cand_OperatorAddress c) name) (zip cs names) [])\<rparr> \<and>
    (\<forall>db. snd (snd (blocks_HandleBlock e g ictx blk (db, mem2))) = mem2)"
proof -
  let ?m = "fold (\<lambda>(c, name). AList.update (cand_OperatorAddress c) name) (zip cs names) []"
  let ?mem2 = "mem1\<lparr>OperatorAddrToName := Some ?m\<rparr>"
  obtain e1 where "encode_names (cs @ bad # rest) [] = (Inl e1, ?m)"
    using encode_names_fail[OF good bad] by blast
  then have "updateStakingDelegates ictx ph mem1 = (Inl e1, ?mem2)"
    using cands by (simp add: updateStakingDelegates_def)
  then have "\<exists>e2. go_wrap ''failed to update delegates in epoch''
      (updateDelegates e g ictx (blk_Height blk) n) mem = (Inl e2, ?mem2)"
    using prod prev fair by (simp add: updateDelegates_def go_bind_apply go_wrap_def wrap_def)
  then obtain e2 where "go_wrap ''failed to update delegates in epoch''
      (updateDelegates e g ictx (blk_Height blk) n) mem = (Inl e2, ?mem2)" by blast
  then have "blocks_HandleBlock e g ictx blk (db, mem) = (Inl e2, (db, ?mem2))"
    using scheme none p by (simp add: blocks_HandleBlock_def Let_def)
  moreover have "\<forall>db. snd (snd (blocks_HandleBlock e g ictx blk (db, ?mem2))) = ?mem2"
    using blocks_memory_kept[OF _ p, of ?mem2 ?m g ictx] by simp
  ultimately show ?thesis by blast
qed

lemma partial_names_stay_witness:
  "\<exists>err mem2. blocks_HandleBlock (mainnet_ctx\<lparr>fairbankHeight := 0\<rparr>) no_gravity bad_name_ctx (sample_block 1000)
      (empty_blocks, new_blocks_mem) = (Inl err, (empty_blocks, mem2)) \<and>
    mem2 = new_blocks_mem\<lparr>ActiveBlockProducers := [''io1p'', ''io1q''], OperatorAddrToName :=
      Some (fold (\<lambda>(c, name). AList.update (cand_OperatorAddress c) name)
        (zip [named ''io1p'' ''alpha''] [''00000000000000616c706861'']) [])\<rparr> \<and>
    (\<forall>db. snd (snd (blocks_HandleBlock (mainnet_ctx\<lparr>fairbankHeight := 0\<rparr>) no_gravity bad_name_ctx
      (sample_block 1000) (db, mem2))) = mem2)"
proof (rule partial_names_stay)
  show "epoch_prologue (mainnet_ctx\<lparr>fairbankHeight := 0\<rparr>) (blk_Height (sample_block 1000)) = Inr (3, 721)"
    by code_simp
  show "GetEpochHeight (mainnet_ctx\<lparr>fairbankHeight := 0\<rparr>) (3 - 1) = Inr 361" by code_simp
  show "GetAllStakingCandidates bad_name_ctx 361 =
      Some (Inr ([named ''io1p'' ''alpha''] @ named ''io1q'' ''thirteenbytes'' # []))"
    unfolding GetAllStakingCandidates_def
    by (subst read_pages.simps)
      (simp add: getStakingCandidates_def bad_name_ctx_def readCandidatesLimit_def keepCandidate_def named_def)
  show "updateActiveBlockProducers bad_name_ctx 3 new_blocks_mem =
      (Inr (), new_blocks_mem\<lparr>ActiveBlockProducers := [''io1p'', ''io1q'']\<rparr>)"
    by (simp add: updateActiveBlockProducers_def bad_name_ctx_def)
  show "list_all2 (\<lambda>c name. EncodeDelegateName (cand_Name c) = Inr name) [named ''io1p'' ''alpha'']
      [''00000000000000616c706861'']"
    by code_simp
  show "EncodeDelegateName (cand_Name (named ''io1q'' ''thirteenbytes'')) = Inl (ErrMsg ''invalid length'')"
    by code_simp
  show "FairbankEffectiveHeight (mainnet_ctx\<lparr>fairbankHeight := 0\<rparr>) \<le> blk_Height (sample_block 1000)"
    by code_simp
qed (simp_all add: bad_name_ctx_def new_blocks_mem_def sample_block_def)

end
