(* ===== verification/Store.thy ===== *)
theory Store imports Chain begin

text \<open>
  \<open>sql/storebase.go\<close> \<open>Transact\<close> and \<open>indexprotocol/registry.go\<close>. A transaction works on a copy of
  the tables; the memory of the protocols is not part of it and keeps what the function did to it.
  The outcomes the database decides (whether \<open>Begin\<close> and \<open>Commit\<close> succeed) are a \<open>tx_env\<close>.
\<close>

record tx_env =
  tx_begin_error :: "go_error option"
  tx_commits :: bool

text \<open>
  The deferred function of \<open>Transact\<close>: a panic is recovered and rolled back, and leaves the
  result \<open>err\<close> as it was, which is \<open>nil\<close>; an error is rolled back and returned; otherwise the
  transaction is committed, and an error of \<open>Commit\<close> is dropped. A process exit or a call that
  does not return leaves the transaction uncommitted.
\<close>

fun is_Panic :: "go_error \<Rightarrow> bool" where
  "is_Panic (Panic m) = True"
| "is_Panic e = False"

definition Transact :: "tx_env \<Rightarrow> ('db \<Rightarrow> ('db \<times> 'mem, unit) go) \<Rightarrow> ('db \<times> 'mem, unit) go" where
  "Transact env txFunc = (\<lambda>(db, mem).
     case tx_begin_error env of
       Some e \<Rightarrow> (Inl e, (db, mem))
     | None \<Rightarrow>
         (case txFunc db (db, mem) of
            (Inl e, (_, mem')) \<Rightarrow> (if is_Panic e then Inr () else Inl e, (db, mem'))
          | (Inr _, (db', mem')) \<Rightarrow> (Inr (), (if tx_commits env then db' else db, mem'))))"

lemma Transact_error:
  "Transact env txFunc (db, mem) = (Inl e, (db', mem')) \<Longrightarrow> db' = db"
  by (auto simp: Transact_def split: option.splits prod.splits sum.splits if_splits)

lemma Transact_ok:
  assumes "tx_begin_error env = None" "tx_commits env"
    and "\<And>e. fst (txFunc db (db, mem)) = Inl e \<Longrightarrow> \<not> is_Panic e"
    and "Transact env txFunc (db, mem) = (Inr (), (db', mem'))"
  shows "txFunc db (db, mem) = (Inr (), (db', mem'))"
  using assms by (auto simp: Transact_def split: option.splits prod.splits sum.splits if_splits)

subsection \<open>The registry of protocols\<close>

type_synonym 'p registry = "(string \<times> 'p) list"

definition Register :: "string \<Rightarrow> 'p \<Rightarrow> 'p registry \<Rightarrow> go_error + 'p registry" where
  "Register protocol_id p r =
     (case map_of r protocol_id of
        Some _ \<Rightarrow> Inl (ErrMsg ''Protocol is already registered'')
      | None \<Rightarrow> Inr (r @ [(protocol_id, p)]))"

definition ForceRegister :: "string \<Rightarrow> 'p \<Rightarrow> 'p registry \<Rightarrow> 'p registry" where
  "ForceRegister protocol_id p r = AList.update protocol_id p r"

definition Find :: "string \<Rightarrow> 'p registry \<Rightarrow> 'p option" where
  "Find protocol_id r = map_of r protocol_id"

definition All :: "('p registry \<Rightarrow> 'p registry) \<Rightarrow> 'p registry \<Rightarrow> 'p list" where
  "All ord r = map snd (ord r)"

text \<open>
  The contract of a hub of components: what is registered under a new name is found there, the
  rest stays, and a name in use is refused.
\<close>

locale hub =
  fixes reg :: "string \<Rightarrow> 'p \<Rightarrow> 'r \<Rightarrow> go_error + 'r"
    and find :: "string \<Rightarrow> 'r \<Rightarrow> 'p option"
  assumes refused: "find i r \<noteq> None \<Longrightarrow> \<exists>e. reg i p r = Inl e"
    and registered: "find i r = None \<Longrightarrow> \<exists>r'. reg i p r = Inr r' \<and> find i r' = Some p \<and>
      (\<forall>j. j \<noteq> i \<longrightarrow> find j r' = find j r)"
begin

lemma reg_found:
  assumes "reg i p r = Inr r'"
  shows "find i r = None" and "find j r' = (if j = i then Some p else find j r)"
proof -
  show none: "find i r = None"
  proof (rule ccontr)
    assume "find i r \<noteq> None"
    then show False using refused[of i r p] assms by auto
  qed
  show "find j r' = (if j = i then Some p else find j r)"
    using registered[OF none, of p] assms by auto
qed

lemma reg_once: "reg i p r = Inr r' \<Longrightarrow> \<exists>e. reg i q r' = Inl e"
  using reg_found(2)[of i p r r' i] by (intro refused) simp

end

interpretation protocols_hub: hub Register Find
  by unfold_locales (auto simp: Register_def Find_def map_add_def split: option.splits)

end
