(* ===== verification/Indexer.thy ===== *)
theory Indexer imports Store Blocks Accounts begin

text \<open>
  \<open>indexservice/indexer.go\<close> and \<open>queryprotocol/chainmeta/chainmetautil\<close>: the indexer runs every
  block through the registered protocols inside one transaction and remembers the last height it
  handled. The definitions are generic in the tables \<open>'db\<close> and the protocols' memory \<open>'mem\<close>; the
  locale \<open>block_indexer\<close> is what the indexer needs of the protocols, and the last part interprets
  it on the tables and handlers of this development.
\<close>

record ('db, 'mem) protocol =
  prot_CreateTables :: "go_error + unit"
  prot_Initialize :: "IndexCtx \<Rightarrow> 'db \<Rightarrow> Genesis \<Rightarrow> ('db \<times> 'mem, unit) go"
  prot_HandleBlock :: "IndexCtx \<Rightarrow> 'db \<Rightarrow> block \<Rightarrow> ('db \<times> 'mem, unit) go"

record Config =
  cfg_NumDelegates :: u64
  cfg_NumCandidateDelegates :: u64
  cfg_NumSubEpochs :: u64
  cfg_NumSubEpochsDardanelles :: u64
  cfg_DardanellesHeight :: u64
  cfg_DardanellesOn :: bool
  cfg_FairbankHeight :: u64
  cfg_RangeQueryLimit :: u64
  cfg_Genesis :: Genesis
  cfg_ReadOnly :: bool

record ('db, 'mem) indexer =
  idx_Registry :: "('db, 'mem) protocol registry"
  idx_IndexProtocols :: "('db, 'mem) protocol list"
  idx_Config :: Config
  idx_epochCtx :: EpochCtx
  idx_lastHeight :: u64
  idx_world :: "'db \<times> 'mem"

definition NewIndexer :: "'db \<times> 'mem \<Rightarrow> Config \<Rightarrow> go_error + ('db, 'mem) indexer" where
  "NewIndexer world cfg =
     andThen (NewEpochCtx (cfg_NumCandidateDelegates cfg) (cfg_NumDelegates cfg) (cfg_NumSubEpochs cfg)
       [EnableDardanellesSubEpoch (cfg_DardanellesHeight cfg) (cfg_NumSubEpochsDardanelles cfg),
        FairbankHeight (cfg_FairbankHeight cfg)]) (\<lambda>e.
     Inr \<lparr>idx_Registry = [], idx_IndexProtocols = [], idx_Config = cfg, idx_epochCtx = e,
          idx_lastHeight = 0, idx_world = world\<rparr>)"

definition RegisterProtocol ::
  "string \<Rightarrow> ('db, 'mem) protocol \<Rightarrow> ('db, 'mem) indexer \<Rightarrow> go_error + ('db, 'mem) indexer"
where
  "RegisterProtocol protocol_id protocol idx =
     andThen (wrap ''failed to register index protocol with protocol ID''
       (Register protocol_id protocol (idx_Registry idx))) (\<lambda>reg.
     Inr (idx\<lparr>idx_Registry := reg, idx_IndexProtocols := idx_IndexProtocols idx @ [protocol]\<rparr>))"

text \<open>The five protocols, already built; an error of \<open>votings.NewProtocol\<close> is only logged.\<close>

definition RegisterDefaultProtocols ::
  "('db, 'mem) protocol \<Rightarrow> ('db, 'mem) protocol \<Rightarrow> ('db, 'mem) protocol \<Rightarrow> ('db, 'mem) protocol \<Rightarrow>
   ('db, 'mem) protocol \<Rightarrow> ('db, 'mem) indexer \<Rightarrow> go_error + ('db, 'mem) indexer"
where
  "RegisterDefaultProtocols blocksP actionsP rewardsP votingsP accountsP idx =
     andThen (wrap ''failed to register blocks protocol'' (RegisterProtocol ''blocks'' blocksP idx)) (\<lambda>idx.
     andThen (wrap ''failed to register actions protocol'' (RegisterProtocol ''actions'' actionsP idx)) (\<lambda>idx.
     andThen (wrap ''failed to register rewards protocol'' (RegisterProtocol ''rewards'' rewardsP idx)) (\<lambda>idx.
     andThen (wrap ''failed to register votings protocol'' (RegisterProtocol ''voting'' votingsP idx)) (\<lambda>idx.
     RegisterProtocol ''accounts'' accountsP idx))))"

subsection \<open>Building the index\<close>

definition Initialize ::
  "IndexCtx \<Rightarrow> tx_env \<Rightarrow> Genesis \<Rightarrow> ('db, 'mem) indexer \<Rightarrow> (go_error + unit) \<times> ('db, 'mem) indexer"
where
  "Initialize ictx env genesis idx =
     (case Transact env (\<lambda>committed. go_each (\<lambda>p. go_wrap ''failed to initialize the protocol''
             (prot_Initialize p ictx committed genesis)) (idx_IndexProtocols idx)) (idx_world idx) of
        (r, w) \<Rightarrow> (r, idx\<lparr>idx_world := w\<rparr>))"

definition CreateTablesIfNotExist :: "('db, 'mem) indexer \<Rightarrow> go_error + unit" where
  "CreateTablesIfNotExist idx =
     foldE (\<lambda>p _. wrap ''failed to create a table'' (prot_CreateTables p)) (idx_IndexProtocols idx) ()"

definition handle_all ::
  "IndexCtx \<Rightarrow> ('db, 'mem) protocol list \<Rightarrow> block \<Rightarrow> 'db \<Rightarrow> ('db \<times> 'mem, unit) go"
where
  "handle_all ictx protocols blk committed =
     go_each (\<lambda>p. go_wrap ''failed to build index for block on height''
       (prot_HandleBlock p ictx committed blk)) protocols"

definition buildIndex ::
  "IndexCtx \<Rightarrow> tx_env \<Rightarrow> ('db, 'mem) protocol list \<Rightarrow> block \<Rightarrow> ('db \<times> 'mem, unit) go"
where
  "buildIndex ictx env protocols blk = Transact env (handle_all ictx protocols blk)"

definition block_of_info :: "IndexCtx \<Rightarrow> BlockInfo \<Rightarrow> go_error + block" where
  "block_of_info ictx info =
     andThen (wrap ''failed to convert block protobuf to raw block''
       (lib_ConvertFromBlockPb (Libs ictx) (bi_Block info))) (\<lambda>blk.
     Inr (blk\<lparr>blk_Receipts := blk_Receipts blk @ map (lib_ConvertFromReceiptPb (Libs ictx)) (bi_Receipts info)\<rparr>))"

text \<open>
  The inner loop of \<open>IndexInBatch\<close>. \<open>env\<close> gives the outcome of the transaction of a block.
  \<open>lastHeight\<close> moves on whenever \<open>buildIndex\<close> returns no error.
\<close>

fun index_blocks ::
  "IndexCtx \<Rightarrow> (block \<Rightarrow> tx_env) \<Rightarrow> BlockInfo list \<Rightarrow> (('db, 'mem) indexer, unit) go"
where
  "index_blocks ictx env [] idx = (Inr (), idx)"
| "index_blocks ictx env (info # infos) idx =
     (case block_of_info ictx info of
        Inl e \<Rightarrow> (Inl e, idx)
      | Inr blk \<Rightarrow>
          (case go_wrap ''failed to build index for the block''
                  (buildIndex ictx (env blk) (idx_IndexProtocols idx) blk) (idx_world idx) of
             (Inl e, w) \<Rightarrow> (Inl e, idx\<lparr>idx_world := w\<rparr>)
           | (Inr _, w) \<Rightarrow>
               index_blocks ictx env infos (idx\<lparr>idx_world := w, idx_lastHeight := blk_Height blk\<rparr>)))"

text \<open>
  The outer loop. It need not end: with a \<open>RangeQueryLimit\<close> of 0, or with a tip of
  \<open>2 ^ 64 - 1\<close>, \<open>startHeight\<close> never passes the tip.
\<close>

partial_function (option) index_from ::
  "IndexCtx \<Rightarrow> (block \<Rightarrow> tx_env) \<Rightarrow> u64 \<Rightarrow> u64 \<Rightarrow> ('db, 'mem) indexer \<Rightarrow>
   ((go_error + unit) \<times> ('db, 'mem) indexer) option"
where
  "index_from ictx env tipHeight startHeight idx =
     (if startHeight \<le> tipHeight then
        let limit = cfg_RangeQueryLimit (idx_Config idx);
            count = (if limit > tipHeight - startHeight + 1 then tipHeight - startHeight + 1 else limit)
        in (case wrap ''failed to get raw blocks from the chain''
                   (cc_GetRawBlocks (ChainClient ictx) startHeight count) of
              Inl e \<Rightarrow> Some (Inl e, idx)
            | Inr infos \<Rightarrow>
                (case index_blocks ictx env infos idx of
                   (Inl e, idx') \<Rightarrow> Some (Inl e, idx')
                 | (Inr _, idx') \<Rightarrow> index_from ictx env tipHeight (startHeight + count) idx'))
      else Some (Inr (), idx))"

definition IndexInBatch ::
  "IndexCtx \<Rightarrow> (block \<Rightarrow> tx_env) \<Rightarrow> u64 \<Rightarrow> ('db, 'mem) indexer \<Rightarrow>
   ((go_error + unit) \<times> ('db, 'mem) indexer) option"
where
  "IndexInBatch ictx env tipHeight idx = index_from ictx env tipHeight (idx_lastHeight idx + 1) idx"

subsection \<open>Start\<close>

text \<open>\<open>SELECT MAX(epoch_number), MAX(block_height)\<close> of the block history.\<close>

definition GetCurrentEpochAndHeight :: "'p registry \<Rightarrow> blocks_db \<Rightarrow> go_error + u64 \<times> u64" where
  "GetCurrentEpochAndHeight registry db =
     (case Find ''blocks'' registry of
        None \<Rightarrow> Inl (ErrMsg ''blocks protocol is unregistered'')
      | Some _ \<Rightarrow>
          if block_history db = [] then Inl ErrNotExist
          else Inr (Max (set (map bk_EpochNumber (block_history db))),
                    Max (set (map bk_BlockHeight (block_history db)))))"

text \<open>
  \<open>Start\<close> up to the loop that waits for new blocks; \<open>None\<close> when the catching up does not end.
  The checks of the client and the opening of the database are outside the model.
\<close>

definition Start ::
  "('db \<Rightarrow> blocks_db) \<Rightarrow> IndexCtx \<Rightarrow> tx_env \<Rightarrow> (block \<Rightarrow> tx_env) \<Rightarrow> ('db, 'mem) indexer \<Rightarrow>
   ((go_error + unit) \<times> ('db, 'mem) indexer) option"
where
  "Start blocks_of ictx env0 env idx =
     (let readOnly = cfg_ReadOnly (idx_Config idx) in
      case (if readOnly then Inr () else wrap ''failed to create tables'' (CreateTablesIfNotExist idx)) of
        Inl e \<Rightarrow> Some (Inl e, idx)
      | Inr _ \<Rightarrow>
          (case Initialize ictx env0 (cfg_Genesis (idx_Config idx)) idx of
             (Inl e, idx) \<Rightarrow> Some (wrap ''failed to initialize the index protocols'' (Inl e), idx)
           | (Inr _, idx) \<Rightarrow>
               (case (case GetCurrentEpochAndHeight (idx_Registry idx) (blocks_of (fst (idx_world idx))) of
                        Inr (_, lastHeight) \<Rightarrow> Inr lastHeight
                      | Inl e \<Rightarrow> if e = ErrNotExist then Inr 0
                          else wrap ''failed to get current epoch and tip height'' (Inl e)) of
                  Inl e \<Rightarrow> Some (Inl e, idx)
                | Inr lastHeight \<Rightarrow>
                    let idx = idx\<lparr>idx_lastHeight := lastHeight\<rparr> in
                    if readOnly then Some (Inr (), idx)
                    else
                      (case wrap ''failed to get chain metadata'' (cc_GetChainMeta (ChainClient ictx)) of
                         Inl e \<Rightarrow> Some (Inl e, idx)
                       | Inr tipHeight \<Rightarrow>
                           map_option (\<lambda>(r, idx). (wrap ''failed to index blocks in batch'' r, idx))
                             (IndexInBatch ictx env tipHeight idx)))))"

text \<open>
  The running indexer: a tick of \<open>SubscribeNewBlock\<close> asks for the chain's height and hands it to
  \<open>IndexInBatch\<close>, whose error is only logged; a failed \<open>GetChainMeta\<close> is only reported.
\<close>

inductive idx_step ::
  "IndexCtx \<Rightarrow> (block \<Rightarrow> tx_env) \<Rightarrow> ('db, 'mem) indexer \<Rightarrow> ('db, 'mem) indexer \<Rightarrow> bool"
  for ictx :: IndexCtx and env :: "block \<Rightarrow> tx_env"
where
  tick: "cc_GetChainMeta (ChainClient ictx) = Inr tipHeight \<Longrightarrow>
    IndexInBatch ictx env tipHeight idx = Some (r, idx') \<Longrightarrow> idx_step ictx env idx idx'"
| no_tip: "cc_GetChainMeta (ChainClient ictx) = Inl e \<Longrightarrow> idx_step ictx env idx idx"

inductive_cases idx_stepE: "idx_step ictx env idx idx'"

text \<open>The chain and the database may answer differently at every step.\<close>

inductive idx_run :: "('db, 'mem) indexer \<Rightarrow> ('db, 'mem) indexer \<Rightarrow> (IndexCtx \<times> (block \<Rightarrow> tx_env)) list \<Rightarrow> bool" where
  run_nil: "idx_run idx idx []"
| run_step: "idx_run idx idx' envs \<Longrightarrow> idx_step ictx env idx' idx'' \<Longrightarrow>
    idx_run idx idx'' (envs @ [(ictx, env)])"

inductive_simps idx_run_nil: "idx_run idx idx' []"

subsection \<open>What the indexer needs of the chain, the database and the protocols\<close>

text \<open>
  An honest chain answers a request for blocks with all of them, in order; committing works; and no
  protocol panics on a block the chain serves. Requests, conversions, handlers and \<open>Begin\<close> may
  still fail with an error at any point.
\<close>

definition block_ok :: "IndexCtx \<Rightarrow> (block \<Rightarrow> tx_env) \<Rightarrow> ('db, 'mem) protocol list \<Rightarrow> block \<Rightarrow> bool" where
  "block_ok ictx env protocols blk \<longleftrightarrow> tx_commits (env blk) \<and>
     (\<forall>db mem m. fst (handle_all ictx protocols blk db (db, mem)) \<noteq> Inl (Panic m))"

definition infos_ok ::
  "IndexCtx \<Rightarrow> (block \<Rightarrow> tx_env) \<Rightarrow> ('db, 'mem) protocol list \<Rightarrow> u64 \<Rightarrow> BlockInfo list \<Rightarrow> bool"
where
  "infos_ok ictx env protocols start infos \<longleftrightarrow>
     (\<forall>i < length infos. \<forall>blk. block_of_info ictx (infos ! i) = Inr blk \<longrightarrow>
        blk_Height blk = start + of_nat i \<and> block_ok ictx env protocols blk)"

definition honest_chain :: "IndexCtx \<Rightarrow> (block \<Rightarrow> tx_env) \<Rightarrow> ('db, 'mem) protocol list \<Rightarrow> bool" where
  "honest_chain ictx env protocols \<longleftrightarrow>
     (\<forall>start count infos. cc_GetRawBlocks (ChainClient ictx) start count = Inr infos \<longrightarrow>
        length infos = unat count \<and> infos_ok ictx env protocols start infos)"

lemma infos_ok_Cons:
  "infos_ok ictx env protocols start (info # infos) \<Longrightarrow>
   infos_ok ictx env protocols (start + 1) infos"
  unfolding infos_ok_def
proof (intro allI impI)
  fix i blk
  assume ok: "\<forall>i < length (info # infos). \<forall>blk. block_of_info ictx ((info # infos) ! i) = Inr blk \<longrightarrow>
      blk_Height blk = start + of_nat i \<and> block_ok ictx env protocols blk"
    and i: "i < length infos" "block_of_info ictx (infos ! i) = Inr blk"
  from ok[rule_format, of "Suc i" blk] i
  show "blk_Height blk = start + 1 + of_nat i \<and> block_ok ictx env protocols blk" by simp
qed

lemma buildIndex_ok:
  assumes "block_ok ictx env protocols blk"
    and "buildIndex ictx (env blk) protocols blk (db, mem) = (Inr (), (db', mem'))"
  shows "handle_all ictx protocols blk db (db, mem) = (Inr (), (db', mem'))"
proof (rule Transact_ok)
  show "tx_begin_error (env blk) = None"
    using assms(2) by (cases "tx_begin_error (env blk)") (simp_all add: buildIndex_def Transact_def)
  show "\<not> is_Panic e" if "fst (handle_all ictx protocols blk db (db, mem)) = Inl e" for e
    using assms(1) that by (cases e) (auto simp: block_ok_def)
qed (use assms in \<open>auto simp: block_ok_def buildIndex_def\<close>)

locale block_indexer =
  fixes indexed :: "u64 \<Rightarrow> 'db \<Rightarrow> bool"
    and protocols :: "('db, 'mem) protocol list"
  assumes next_block: "indexed h db \<Longrightarrow> h < h + 1 \<Longrightarrow> blk_Height blk = h + 1 \<Longrightarrow>
    handle_all ictx protocols blk db (db, mem) = (Inr (), (db', mem')) \<Longrightarrow> indexed (h + 1) db'"
begin

abbreviation consistent :: "('db, 'mem) indexer \<Rightarrow> bool" where
  "consistent idx \<equiv> idx_IndexProtocols idx = protocols \<and> indexed (idx_lastHeight idx) (fst (idx_world idx))"

lemma index_blocks_consistent:
  assumes "infos_ok ictx env protocols (idx_lastHeight idx + 1) infos"
    and "unat (idx_lastHeight idx) + length infos < 2 ^ 64"
    and "consistent idx" and "index_blocks ictx env infos idx = (r, idx')"
  shows "consistent idx' \<and> idx_Config idx' = idx_Config idx \<and>
    idx_lastHeight idx \<le> idx_lastHeight idx' \<and>
    unat (idx_lastHeight idx') \<le> unat (idx_lastHeight idx) + length infos \<and>
    (r = Inr () \<longrightarrow> unat (idx_lastHeight idx') = unat (idx_lastHeight idx) + length infos)"
  using assms
proof (induction infos arbitrary: idx)
  case (Cons info infos)
  let ?h = "idx_lastHeight idx"
  obtain db mem where w: "idx_world idx = (db, mem)" by (cases "idx_world idx")
  have h1: "?h < ?h + 1" "unat (?h + 1) = unat ?h + 1"
    using Cons.prems(2) unat_add_small[of ?h 1] by (simp_all add: word_less_nat_alt)
  show ?case
  proof (cases "block_of_info ictx info")
    case (Inl e)
    with Cons.prems show ?thesis by auto
  next
    case (Inr blk)
    have blk: "blk_Height blk = ?h + 1" "block_ok ictx env protocols blk"
      using Cons.prems(1) Inr by (auto simp: infos_ok_def dest!: spec[of _ 0])
    obtain r' db' mem' where build: "buildIndex ictx (env blk) protocols blk (db, mem) = (r', (db', mem'))"
      by (metis prod.collapse)
    show ?thesis
    proof (cases r')
      case (Inl e)
      then have "db' = db" using build Transact_error by (fastforce simp: buildIndex_def)
      then show ?thesis
        using Cons.prems Inl Inr build w by (auto simp: go_wrap_def wrap_def)
    next
      case (Inr u)
      let ?idx = "idx\<lparr>idx_world := (db', mem'), idx_lastHeight := ?h + 1\<rparr>"
      have "handle_all ictx protocols blk db (db, mem) = (Inr (), (db', mem'))"
        using build Inr by (intro buildIndex_ok[OF blk(2)]) simp
      moreover have "indexed ?h db" using Cons.prems(3) w by simp
      ultimately have "indexed (?h + 1) db'" by (rule next_block[rotated 3, OF _ _ h1(1) blk(1)])
      then have cons: "consistent ?idx" using Cons.prems(3) by simp
      have run: "index_blocks ictx env infos ?idx = (r, idx')"
        using Cons.prems(3,4) \<open>block_of_info ictx info = Inr blk\<close> build Inr w blk(1)
        by (simp add: go_wrap_def)
      have "infos_ok ictx env protocols (idx_lastHeight ?idx + 1) infos"
        using infos_ok_Cons[OF Cons.prems(1)] by simp
      from Cons.IH[OF this _ cons run] Cons.prems(2) h1 show ?thesis
        by (auto simp: word_le_nat_alt)
    qed
  qed
qed auto

text \<open>Catching up: the loop ends, keeps the index consistent, and reaches the tip if nothing fails.\<close>

lemma index_from_consistent:
  assumes "honest_chain ictx env protocols" "0 < cfg_RangeQueryLimit (idx_Config idx)"
    and "consistent idx" "tip < tip + 1" "idx_lastHeight idx < idx_lastHeight idx + 1"
  shows "\<exists>r idx'. index_from ictx env tip (idx_lastHeight idx + 1) idx = Some (r, idx') \<and>
    consistent idx' \<and> idx_Config idx' = idx_Config idx \<and> idx_lastHeight idx \<le> idx_lastHeight idx' \<and>
    idx_lastHeight idx' \<le> max (idx_lastHeight idx) tip \<and>
    (r = Inr () \<longrightarrow> idx_lastHeight idx' = max (idx_lastHeight idx) tip)"
  using assms
proof (induction "unat tip - unat (idx_lastHeight idx)" arbitrary: idx rule: less_induct)
  case less
  let ?h = "idx_lastHeight idx" and ?limit = "cfg_RangeQueryLimit (idx_Config idx)"
  define c where "c = (if ?limit > tip - (?h + 1) + 1 then tip - (?h + 1) + 1 else ?limit)"
  show ?case
  proof (cases "?h + 1 \<le> tip")
    case False
    then have "tip \<le> ?h" using less.prems(5) by unat_arith
    with False less.prems(3) show ?thesis
      by (subst index_from.simps) (simp add: max_def)
  next
    case True
    have rest: "tip - (?h + 1) + 1 = tip - ?h" by simp
    have ht: "unat ?h < unat tip" "unat (tip - ?h) = unat tip - unat ?h" "unat (?h + 1) = unat ?h + 1"
      using True less.prems(5) by unat_arith+
    have c: "0 < unat c" "unat c \<le> unat tip - unat ?h"
      using less.prems(2) ht unfolding c_def rest by (auto simp: word_less_nat_alt)
    have loop: "index_from ictx env tip (?h + 1) idx =
        (case wrap ''failed to get raw blocks from the chain''
                   (cc_GetRawBlocks (ChainClient ictx) (?h + 1) c) of
              Inl e \<Rightarrow> Some (Inl e, idx)
            | Inr infos \<Rightarrow>
                (case index_blocks ictx env infos idx of
                   (Inl e, idx') \<Rightarrow> Some (Inl e, idx')
                 | (Inr _, idx') \<Rightarrow> index_from ictx env tip (?h + 1 + c) idx'))"
      using True by (subst index_from.simps) (simp only: Let_def c_def[symmetric] if_True)
    show ?thesis
    proof (cases "cc_GetRawBlocks (ChainClient ictx) (?h + 1) c")
      case (Inl e)
      with less.prems(3) show ?thesis
        using True by (simp add: loop wrap_def max_def)
    next
      case (Inr infos)
      then have len: "length infos = unat c" and ok: "infos_ok ictx env protocols (?h + 1) infos"
        using less.prems(1) by (auto simp: honest_chain_def)
      obtain r idx1 where run: "index_blocks ictx env infos idx = (r, idx1)" by fastforce
      have small: "unat ?h + length infos < 2 ^ 64"
        using c(2) ht unat_u64_less[of tip] unfolding len by linarith
      note one = index_blocks_consistent[OF ok small less.prems(3) run]
      have tip1: "idx_lastHeight idx1 \<le> tip"
      proof -
        have "unat (idx_lastHeight idx1) \<le> unat ?h + length infos" using one by blast
        then show ?thesis using c(2) ht(1) unfolding word_le_nat_alt len by linarith
      qed
      show ?thesis
      proof (cases r)
        case (Inl e)
        then show ?thesis
          using one tip1 Inr run by (auto simp: loop max_def)
      next
        case (Inr u)
        then have h1: "unat (idx_lastHeight idx1) = unat ?h + unat c" using one len by simp
        then have next_start: "?h + 1 + c = idx_lastHeight idx1 + 1"
        proof -
          have "idx_lastHeight idx1 = of_nat (unat ?h + unat c)" unfolding h1[symmetric] by simp
          then show ?thesis by simp
        qed
        have fin: "idx_lastHeight idx1 < idx_lastHeight idx1 + 1"
          using tip1 less.prems(4) by unat_arith
        have "\<exists>r idx'. index_from ictx env tip (idx_lastHeight idx1 + 1) idx1 = Some (r, idx') \<and>
            consistent idx' \<and> idx_Config idx' = idx_Config idx1 \<and> idx_lastHeight idx1 \<le> idx_lastHeight idx' \<and>
            idx_lastHeight idx' \<le> max (idx_lastHeight idx1) tip \<and>
            (r = Inr () \<longrightarrow> idx_lastHeight idx' = max (idx_lastHeight idx1) tip)"
          by (rule less.hyps) (use h1 c ht less.prems one fin in auto)
        then show ?thesis
          using \<open>cc_GetRawBlocks (ChainClient ictx) (?h + 1) c = Inr infos\<close> run Inr one tip1 True
          by (auto simp: loop next_start max_def)
      qed
    qed
  qed
qed

lemma IndexInBatch_consistent:
  assumes "honest_chain ictx env protocols" "0 < cfg_RangeQueryLimit (idx_Config idx)"
    and "consistent idx" "tip < tip + 1" "idx_lastHeight idx < idx_lastHeight idx + 1"
  shows "\<exists>r idx'. IndexInBatch ictx env tip idx = Some (r, idx') \<and>
    consistent idx' \<and> idx_Config idx' = idx_Config idx \<and> idx_lastHeight idx \<le> idx_lastHeight idx' \<and>
    idx_lastHeight idx' \<le> max (idx_lastHeight idx) tip \<and>
    (r = Inr () \<longrightarrow> idx_lastHeight idx' = max (idx_lastHeight idx) tip)"
  using index_from_consistent[OF assms] by (simp add: IndexInBatch_def)

text \<open>However often the indexer polls, and whatever fails in between, it stays consistent.\<close>

lemma idx_run_consistent:
  assumes "idx_run idx idx' envs"
    and "\<forall>(ictx, env) \<in> set envs. honest_chain ictx env protocols \<and>
      (\<forall>tip. cc_GetChainMeta (ChainClient ictx) = Inr tip \<longrightarrow> tip < tip + 1)"
    and "0 < cfg_RangeQueryLimit (idx_Config idx)" "consistent idx" "idx_lastHeight idx < idx_lastHeight idx + 1"
  shows "consistent idx' \<and> idx_Config idx' = idx_Config idx \<and>
    idx_lastHeight idx \<le> idx_lastHeight idx' \<and> idx_lastHeight idx' < idx_lastHeight idx' + 1"
  using assms
proof (induction rule: idx_run.induct)
  case (run_step idx idx1 envs ictx env idx2)
  have IH: "consistent idx1" "idx_Config idx1 = idx_Config idx" "idx_lastHeight idx \<le> idx_lastHeight idx1"
      "idx_lastHeight idx1 < idx_lastHeight idx1 + 1"
    using run_step.IH run_step.prems by auto
  from run_step.hyps(2) show ?case
  proof (cases rule: idx_step.cases)
    case (tick tip r)
    then have tip: "tip < tip + 1" and honest: "honest_chain ictx env protocols"
      using run_step.prems by auto
    have "0 < cfg_RangeQueryLimit (idx_Config idx1)" using IH(2) run_step.prems by simp
    from IndexInBatch_consistent[OF honest this IH(1) tip IH(4)] tick
    have "consistent idx2" "idx_Config idx2 = idx_Config idx1" "idx_lastHeight idx1 \<le> idx_lastHeight idx2"
      "idx_lastHeight idx2 \<le> max (idx_lastHeight idx1) tip" by auto
    moreover from this have "idx_lastHeight idx2 < idx_lastHeight idx2 + 1"
      using IH(4) tip by (auto simp: max_def split: if_splits) unat_arith+
    ultimately show ?thesis using IH by auto
  next
    case no_tip
    with IH show ?thesis by simp
  qed
qed simp

end

subsection \<open>Properties\<close>

text \<open>C5: A block is indexed as a whole or not at all: if building the index reports an error, the
  tables are what they were before the block; if it reports none and the commit works, every
  protocol has handled the block, in registration order, on the tables the previous one left, or a
  protocol panicked and the tables are unchanged.\<close>

theorem buildIndex_atomic:
  assumes "buildIndex ictx env protocols blk (db, mem) = (r, (db', mem'))" and "tx_commits env"
  shows "(\<exists>e. r = Inl e \<and> db' = db) \<or>
    (r = Inr () \<and> handle_all ictx protocols blk db (db, mem) = (Inr (), (db', mem'))) \<or>
    (r = Inr () \<and> db' = db \<and> (\<exists>m. fst (handle_all ictx protocols blk db (db, mem)) = Inl (Panic m)))"
proof (cases "tx_begin_error env")
  case None
  obtain r1 db1 mem1 where h: "handle_all ictx protocols blk db (db, mem) = (r1, (db1, mem1))"
    by (metis prod.collapse)
  show ?thesis
  proof (cases r1)
    case (Inl e)
    then show ?thesis
      using assms None h by (cases e) (auto simp: buildIndex_def Transact_def)
  next
    case (Inr u)
    then show ?thesis using assms None h by (auto simp: buildIndex_def Transact_def)
  qed
next
  case (Some e)
  then show ?thesis using assms by (auto simp: buildIndex_def Transact_def)
qed

text \<open>Two small protocols for the witnesses: one counts blocks in the tables, one panics.\<close>

definition counting_protocol :: "(nat, unit) protocol" where
  "counting_protocol =
     \<lparr>prot_CreateTables = Inr (), prot_Initialize = \<lambda>_ _ _. go_ret (),
      prot_HandleBlock = \<lambda>_ _ _ (n, u). (Inr (), (n + 1, u))\<rparr>"

definition panicking_protocol :: "(nat, unit) protocol" where
  "panicking_protocol = counting_protocol
     \<lparr>prot_HandleBlock := \<lambda>_ _ _ w. (Inl (Panic ''runtime error: index out of range''), w)\<rparr>"

definition tx_ok :: tx_env where
  "tx_ok = \<lparr>tx_begin_error = None, tx_commits = True\<rparr>"

lemma buildIndex_atomic_witness:
  "(\<exists>e. Inr () = (Inl e :: go_error + unit) \<and> (2 :: nat) = 0) \<or>
    (Inr () = (Inr () :: go_error + unit) \<and>
       handle_all offline_ctx [counting_protocol, counting_protocol] (sample_block 1) 0 (0, ()) = (Inr (), (2, ()))) \<or>
    (Inr () = (Inr () :: go_error + unit) \<and> (2 :: nat) = 0 \<and>
       (\<exists>m. fst (handle_all offline_ctx [counting_protocol, counting_protocol] (sample_block 1) 0 (0, ())) = Inl (Panic m)))"
  by (rule buildIndex_atomic[of _ tx_ok])
    (simp_all add: buildIndex_def Transact_def tx_ok_def handle_all_def counting_protocol_def go_bind_def
      go_wrap_def)

text \<open>C15: A panic inside a protocol is swallowed and the block is skipped for good: the tables stay
  as they were, no error is reported, and \<open>lastHeight\<close> moves past the block. The same happens
  when the commit fails.\<close>

theorem swallowed_block_is_skipped:
  assumes conv: "block_of_info ictx info = Inr blk" and b: "tx_begin_error (env blk) = None"
    and out: "handle_all ictx (idx_IndexProtocols idx) blk db (db, mem) = (out, (db1, mem1))"
    and world: "idx_world idx = (db, mem)"
    and swallowed: "(\<exists>m. out = Inl (Panic m)) \<or> (out = Inr () \<and> \<not> tx_commits (env blk))"
  shows "index_blocks ictx env [info] idx =
    (Inr (), idx\<lparr>idx_world := (db, mem1), idx_lastHeight := blk_Height blk\<rparr>)"
  using assms by (auto simp: buildIndex_def Transact_def go_wrap_def)

definition raw_ctx :: "block \<Rightarrow> IndexCtx" where
  "raw_ctx blk = offline_ctx\<lparr>Libs := (Libs offline_ctx)\<lparr>lib_ConvertFromBlockPb := \<lambda>_. Inr blk\<rparr>\<rparr>"

definition small_config :: Config where
  "small_config =
     \<lparr>cfg_NumDelegates = 1, cfg_NumCandidateDelegates = 1, cfg_NumSubEpochs = 1,
      cfg_NumSubEpochsDardanelles = 1, cfg_DardanellesHeight = 1, cfg_DardanellesOn = True,
      cfg_FairbankHeight = 0, cfg_RangeQueryLimit = 0, cfg_Genesis = [], cfg_ReadOnly = False\<rparr>"

definition small_indexer :: "('db, 'mem) protocol list \<Rightarrow> 'db \<times> 'mem \<Rightarrow> ('db, 'mem) indexer" where
  "small_indexer protocols w =
     \<lparr>idx_Registry = [], idx_IndexProtocols = protocols, idx_Config = small_config,
      idx_epochCtx = tiny_ctx, idx_lastHeight = 0, idx_world = w\<rparr>"

lemma swallowed_block_is_skipped_witness:
  "index_blocks (raw_ctx (sample_block 1)) (\<lambda>_. tx_ok) [\<lparr>bi_Block = [], bi_Receipts = []\<rparr>]
     (small_indexer [counting_protocol, panicking_protocol] (0, ())) =
   (Inr (), (small_indexer [counting_protocol, panicking_protocol] (0, ()))
     \<lparr>idx_world := (0, ()), idx_lastHeight := blk_Height (sample_block 1)\<rparr>)"
proof (rule swallowed_block_is_skipped)
  show "handle_all (raw_ctx (sample_block 1))
      (idx_IndexProtocols (small_indexer [counting_protocol, panicking_protocol] (0, ()))) (sample_block 1)
      0 (0, ()) = (Inl (Panic ''runtime error: index out of range''), (1, ()))"
    by (simp add: handle_all_def small_indexer_def counting_protocol_def panicking_protocol_def
        go_bind_def go_wrap_def wrap_def)
qed (simp_all add: block_of_info_def raw_ctx_def tx_ok_def small_indexer_def sample_block_def)

text \<open>With a \<open>rangeQueryLimit\<close> of 0 the indexer never returns from catching up with a chain
  that is ahead of it: it asks for zero blocks at the same height again and again.\<close>

theorem zero_limit_never_returns:
  assumes "cfg_RangeQueryLimit (idx_Config idx) = 0" "idx_lastHeight idx + 1 \<le> tip"
    and "cc_GetRawBlocks (ChainClient ictx) (idx_lastHeight idx + 1) 0 = Inr []"
  shows "IndexInBatch ictx env tip idx = None"
proof (rule ccontr)
  assume "IndexInBatch ictx env tip idx \<noteq> None"
  then obtain y where "index_from ictx env tip (idx_lastHeight idx + 1) idx = Some y"
    by (auto simp: IndexInBatch_def)
  then have "\<not> (cfg_RangeQueryLimit (idx_Config idx) = 0 \<and> idx_lastHeight idx + 1 \<le> tip \<and>
      cc_GetRawBlocks (ChainClient ictx) (idx_lastHeight idx + 1) 0 = Inr [])"
    by (rule index_from.raw_induct[of "\<lambda>ictx env tip start idx y.
          \<not> (cfg_RangeQueryLimit (idx_Config idx) = 0 \<and> start \<le> tip \<and>
             cc_GetRawBlocks (ChainClient ictx) start 0 = Inr [])", rotated])
      (auto simp: Let_def)
  with assms show False by blast
qed

definition empty_chain :: IndexCtx where
  "empty_chain = offline_ctx\<lparr>ChainClient := (ChainClient offline_ctx)\<lparr>cc_GetRawBlocks := \<lambda>_ _. Inr []\<rparr>\<rparr>"

lemma zero_limit_never_returns_witness:
  "IndexInBatch empty_chain (\<lambda>_. tx_ok) 5 (small_indexer [counting_protocol] (0, ())) = None"
  by (rule zero_limit_never_returns) (simp_all add: small_indexer_def small_config_def empty_chain_def)

text \<open>After a restart the indexer resumes where it stopped: when the tables are those of an
  indexer that handled the blocks up to \<open>h\<close>, the height and the epoch it reads back from the
  block history are \<open>h\<close> and the epoch of \<open>h\<close>, and it knows nothing only when no block was handled.\<close>

theorem restart_resumes:
  assumes ok: "ctx_ok e" and inv: "blocks_indexed e h db" and reg: "Find ''blocks'' registry \<noteq> None"
  shows "GetCurrentEpochAndHeight registry db =
    (if h = 0 then Inl ErrNotExist else map_sum id (\<lambda>n. (n, h)) (GetEpochNumber e h))"
proof -
  have heights: "map bk_BlockHeight (block_history db) = heights_upto h"
    and nums: "\<And>r. r \<in> set (block_history db) \<Longrightarrow> GetEpochNumber e (bk_BlockHeight r) = Inr (bk_EpochNumber r)"
    using inv by (auto simp: blocks_indexed_def)
  show ?thesis
  proof (cases "h = 0")
    case True
    then have "block_history db = []" using heights by (simp add: heights_upto_def)
    then show ?thesis using True reg by (auto simp: GetCurrentEpochAndHeight_def)
  next
    case False
    then have pos: "0 < h" by (simp add: word_neq_0_conv)
    obtain n where n: "GetEpochNumber e h = Inr n" "unat n = epoch_spec (plan_of e) (unat h)"
      using GetEpochNumber_refines[OF ok, of h] by blast
    have hs: "set (map bk_BlockHeight (block_history db)) = {k. 0 < k \<and> k \<le> h}"
      unfolding heights by (auto simp: heights_upto_set)
    have mh: "Max (set (map bk_BlockHeight (block_history db))) = h"
      unfolding hs by (rule Max_eqI) (use pos in auto)
    have "h \<in> bk_BlockHeight ` set (block_history db)" using hs pos by auto
    then obtain r where r: "r \<in> set (block_history db)" "bk_BlockHeight r = h" by auto
    have me: "Max (set (map bk_EpochNumber (block_history db))) = n"
    proof (rule Max_eqI)
      show "n \<in> set (map bk_EpochNumber (block_history db))" using r nums[OF r(1)] n(1) by force
      fix m assume "m \<in> set (map bk_EpochNumber (block_history db))"
      then obtain q where q: "q \<in> set (block_history db)" "bk_EpochNumber q = m" by auto
      have "bk_BlockHeight q \<in> {k. 0 < k \<and> k \<le> h}" using hs q(1) by auto
      then have "epoch_spec (plan_of e) (unat (bk_BlockHeight q)) \<le> epoch_spec (plan_of e) (unat h)"
        by (intro epoch_spec_mono[OF ctx_okD(4)[OF ok]]) (simp add: word_le_nat_alt)
      then show "m \<le> n"
        using GetEpochNumber_refines[OF ok, of "bk_BlockHeight q"] nums[OF q(1)] q(2) n(2)
        by (auto simp: word_le_nat_alt)
    qed simp
    have "block_history db \<noteq> []" using r(1) by auto
    then show ?thesis using False reg mh me n(1) by (auto simp: GetCurrentEpochAndHeight_def)
  qed
qed

lemma restart_resumes_witness:
  "GetCurrentEpochAndHeight [(''blocks'', ())] blocks_2 =
    (if (2 :: u64) = 0 then Inl ErrNotExist else map_sum id (\<lambda>n. (n, 2)) (GetEpochNumber tiny_ctx 2))"
  by (rule restart_resumes[OF tiny_ok blocks_2_indexed]) (simp add: Find_def)

text \<open>Registering the default protocols on a new indexer always works, each is found under its
  own name, and they handle blocks in the order blocks, actions, rewards, votings, accounts;
  registering them a second time is refused.\<close>

theorem default_protocols_registered:
  assumes "NewIndexer world cfg = Inr idx"
  shows "\<exists>idx'. RegisterDefaultProtocols b a r v c idx = Inr idx' \<and>
    idx_IndexProtocols idx' = [b, a, r, v, c] \<and>
    map (\<lambda>i. Find i (idx_Registry idx')) [''blocks'', ''actions'', ''rewards'', ''voting'', ''accounts''] =
      map Some [b, a, r, v, c] \<and>
    (\<exists>err. RegisterDefaultProtocols b a r v c idx' = Inl err)"
proof -
  have "idx_Registry idx = []" "idx_IndexProtocols idx = []"
    using assms by (auto simp: NewIndexer_def andThen_eq_Inr)
  then show ?thesis
    by (simp add: RegisterDefaultProtocols_def RegisterProtocol_def Register_def Find_def wrap_def)
qed

lemma default_protocols_registered_witness:
  "\<exists>idx'. RegisterDefaultProtocols counting_protocol counting_protocol counting_protocol counting_protocol
      panicking_protocol (small_indexer [] (0, ())) = Inr idx' \<and>
    idx_IndexProtocols idx' = [counting_protocol, counting_protocol, counting_protocol, counting_protocol,
      panicking_protocol] \<and>
    map (\<lambda>i. Find i (idx_Registry idx')) [''blocks'', ''actions'', ''rewards'', ''voting'', ''accounts''] =
      map Some [counting_protocol, counting_protocol, counting_protocol, counting_protocol, panicking_protocol] \<and>
    (\<exists>err. RegisterDefaultProtocols counting_protocol counting_protocol counting_protocol counting_protocol
      panicking_protocol idx' = Inl err)"
proof (rule default_protocols_registered)
  show "NewIndexer (0, ()) small_config = Inr (small_indexer [] (0, ()))"
    by (simp add: NewIndexer_def NewEpochCtx_def EnableDardanellesSubEpoch_def FairbankHeight_def
        small_config_def small_indexer_def tiny_ctx_def)
qed

end
