(* ===== verification/Voting_Result.thy ===== *)
theory Voting_Result imports Names begin

text \<open>
  The \<open>voting_result\<close> table of \<open>indexprotocol/votings/protocol.go\<close>, which the votings protocol
  fills and the rewards protocol reads. A percentage is written with two decimals (\<open>"%0.2f"\<close>) into
  a column of six characters and read back as a \<open>float64\<close>.
\<close>

record VotingResult =
  vr_EpochNumber :: u64
  vr_DelegateName :: string
  vr_OperatorAddress :: string
  vr_RewardAddress :: string
  vr_TotalWeightedVotes :: int
  vr_SelfStaking :: int
  vr_BlockRewardPercentage :: f64
  vr_EpochRewardPercentage :: f64
  vr_FoundationBonusPercentage :: f64
  vr_StakingAddress :: string

text \<open>
  The text has \<open>hundredths\<close> as its digits; it fits into six characters between \<open>-99.99\<close> and
  \<open>999.99\<close>.
\<close>

definition hundredths :: "f64 \<Rightarrow> int" where
  "hundredths x = round_half_even (x * 100)"

definition percent_column :: "f64 \<Rightarrow> go_error + f64" where
  "percent_column x =
     (let h = hundredths x in
      if - 10000 < h \<and> h < 100000 then Inr (round_prec 53 (of_int h / 100))
      else Inl (ErrSQL ''Data too long for column''))"

text \<open>\<open>INSERT INTO voting_result\<close>; epoch and delegate name are unique together.\<close>

definition vr_key :: "VotingResult \<Rightarrow> u64 \<times> string" where
  "vr_key r = (vr_EpochNumber r, vr_DelegateName r)"

definition insertVotingResult ::
  "u64 \<Rightarrow> string \<Rightarrow> string \<Rightarrow> string \<Rightarrow> string \<Rightarrow> string \<Rightarrow> f64 \<Rightarrow> f64 \<Rightarrow> f64 \<Rightarrow> string \<Rightarrow> VotingResult list \<Rightarrow>
   go_error + VotingResult list"
where
  "insertVotingResult epochNumber name operator reward votes selfStaking blockPct epochPct bonusPct staking t =
     andThen (sql_decimal votes) (\<lambda>totalWeightedVotes.
     andThen (sql_decimal selfStaking) (\<lambda>selfStakingTokens.
     andThen (percent_column blockPct) (\<lambda>blockPct.
     andThen (percent_column epochPct) (\<lambda>epochPct.
     andThen (percent_column bonusPct) (\<lambda>bonusPct.
     insert_unique vr_key
       [\<lparr>vr_EpochNumber = epochNumber, vr_DelegateName = name, vr_OperatorAddress = operator,
         vr_RewardAddress = reward, vr_TotalWeightedVotes = totalWeightedVotes, vr_SelfStaking = selfStakingTokens,
         vr_BlockRewardPercentage = blockPct, vr_EpochRewardPercentage = epochPct,
         vr_FoundationBonusPercentage = bonusPct, vr_StakingAddress = staking\<rparr>] t)))))"

definition GetVotingResult :: "u64 \<Rightarrow> string \<Rightarrow> VotingResult list \<Rightarrow> go_error + VotingResult" where
  "GetVotingResult epochNumber delegateName t =
     (case filter (\<lambda>r. vr_EpochNumber r = epochNumber \<and> vr_DelegateName r = delegateName) t of
        [] \<Rightarrow> Inl ErrNotExist
      | [r] \<Rightarrow> Inr r
      | _ \<Rightarrow> Inl (ErrMsg ''only one row is expected''))"

text \<open>Rounding to \<open>p\<close> bits moves a positive number by at most half a unit in the last place.\<close>

lemma round_half_even_error: "\<bar>of_int (round_half_even q) - q\<bar> \<le> 1 / 2"
proof -
  have "of_int \<lfloor>q\<rfloor> \<le> q" "q < of_int \<lfloor>q\<rfloor> + 1" by linarith+
  then show ?thesis unfolding round_half_even_def Let_def abs_le_iff by (simp split: if_split) linarith
qed

lemma round_half_even_near: "\<bar>q - of_int k\<bar> < 1 / 2 \<Longrightarrow> round_half_even q = k"
proof -
  assume near: "\<bar>q - of_int k\<bar> < 1 / 2"
  have "\<bar>(of_int (round_half_even q) :: rat) - of_int k\<bar> < 1"
    using round_half_even_error[of q] near by linarith
  then show ?thesis by linarith
qed

lemma round_prec_error:
  assumes "0 < q"
  shows "\<bar>round_prec p q - q\<bar> \<le> q * 2 powi (- int p)"
proof -
  define u :: rat where "u = 2 powi (rat_ilog2 q + 1 - int p)"
  have u: "0 < u" by (simp add: u_def)
  have "round_prec p q - q = (of_int (round_half_even (q / u)) - q / u) * u"
    using u by (simp add: round_prec_pos_eq[OF assms] u_def[symmetric] left_diff_distrib)
  then have "\<bar>round_prec p q - q\<bar> = \<bar>of_int (round_half_even (q / u)) - q / u\<bar> * u"
    using u by (simp add: abs_mult)
  also have "\<dots> \<le> 1 / 2 * u"
    using round_half_even_error[of "q / u"] u by (intro mult_right_mono) simp_all
  also have "\<dots> = 2 powi (rat_ilog2 q) * 2 powi (- int p)"
    by (simp add: u_def power_int_add power_int_diff power_int_minus) (simp add: divide_inverse)
  also have "\<dots> \<le> q * 2 powi (- int p)"
    using rat_ilog2_le[OF assms] by (intro mult_right_mono) simp_all
  finally show ?thesis .
qed

text \<open>A percentage read from the column is written back as the same text.\<close>

lemma hundredths_stable:
  assumes "0 \<le> h" "h < 100000"
  shows "hundredths (round_prec 53 (of_int h / 100)) = h"
proof (cases "h = 0")
  case False
  with assms have q: "(0::rat) < of_int h / 100" by simp
  have "\<bar>round_prec 53 (of_int h / 100 :: rat) - of_int h / 100\<bar> \<le> of_int h / 100 * 2 powi (- 53)"
    using round_prec_error[OF q, of 53] by simp
  also have "\<dots> \<le> 1000 * 2 powi (- 53)"
    using assms(2) by (intro mult_right_mono) simp_all
  also have "\<dots> < (1 / 1000 :: rat)" by (simp add: power_int_minus)
  finally have "\<bar>round_prec 53 (of_int h / 100 :: rat) * 100 - of_int h\<bar> < 1 / 2" by (simp add: abs_if split: if_splits)
  then show ?thesis unfolding hundredths_def by (rule round_half_even_near)
qed (use round_half_even_of_int[of 0] in \<open>simp add: hundredths_def round_prec_def\<close>)

lemma percent_column_stable:
  assumes "percent_column x = Inr y" "0 \<le> x"
  shows "percent_column y = Inr y"
proof -
  have "0 \<le> hundredths x" unfolding hundredths_def using assms(2) by (intro round_half_even_ge) simp
  with assms(1) have "0 \<le> hundredths x" "hundredths x < 100000" "y = round_prec 53 (of_int (hundredths x) / 100)"
    by (auto simp: percent_column_def Let_def split: if_splits)
  then show ?thesis by (simp add: percent_column_def Let_def hundredths_stable)
qed

end
