(* ===== verification/Staking_Tables.thy ===== *)
theory Staking_Tables imports Index_Protocol begin

text \<open>
  \<open>indexprotocol/votings/bucketoperator.go\<close> and \<open>candidateoperator.go\<close>: the tables that keep each
  staking bucket and each candidate once, under its hash, and the two functions the record table
  operator of \<open>iotex-election\<close> calls with them. That operator is not in the repository: it keeps,
  per height, how often each record occurs, and hands these frequencies back by row id.
\<close>

record 'c stored_row =
  sr_id :: nat
  sr_hash :: string
  sr_cols :: 'c

text \<open>
  \<open>INSERT IGNORE\<close> into a table whose \<open>hash\<close> is unique and whose \<open>id\<close> counts up. Rows are never
  deleted, so counting the rows gives a fresh id.
\<close>

definition put_record :: "string \<Rightarrow> 'c \<Rightarrow> 'c stored_row list \<Rightarrow> 'c stored_row list" where
  "put_record h c t = insert_ignore sr_hash [\<lparr>sr_id = length t + 1, sr_hash = h, sr_cols = c\<rparr>] t"

text \<open>The loop of \<open>InsertVoteBuckets\<close> and \<open>InsertCandidates\<close>.\<close>

definition insert_records ::
  "('r \<Rightarrow> go_error + string) \<Rightarrow> ('r \<Rightarrow> 'c) \<Rightarrow> 'r list \<Rightarrow> 'c stored_row list \<Rightarrow>
   go_error + (string \<times> nat) list \<times> 'c stored_row list"
where
  "insert_records hash cols rs t =
     foldE (\<lambda>r (frequencies, t). andThen (hash r) (\<lambda>h.
       Inr (AList.map_default h 1 Suc frequencies, put_record h (cols r) t))) rs ([], t)"

text \<open>
  The rows with the given ids, each as often as its frequency says; \<open>IN ()\<close> is a syntax error.
  \<open>ord\<close> is the order in which the parsed rows are visited.
\<close>

definition query_records ::
  "('c \<Rightarrow> go_error + 'r) \<Rightarrow> ((nat \<times> 'r) list \<Rightarrow> (nat \<times> 'r) list) \<Rightarrow> (nat \<times> nat) list \<Rightarrow>
   'c stored_row list \<Rightarrow> go_error + 'r list"
where
  "query_records parse ord frequencies t =
     (let rows = filter (\<lambda>row. sr_id row \<in> keys frequencies) t in
      if frequencies = [] then Inl (ErrSQL ''syntax error'')
      else if rows = [] then Inl ErrNotExist
      else
        andThen (mapE (\<lambda>row. andThen (parse (sr_cols row)) (\<lambda>r. Inr (sr_id row, r))) rows) (\<lambda>parsed.
        Inr (concat (map (\<lambda>(i, r). replicate (get_or 0 frequencies i) r) (ord parsed)))))"

subsection \<open>Buckets\<close>

record StakingBucket =
  sb_Index :: u64
  sb_Candidate :: string
  sb_Owner :: string
  sb_StakedAmount :: string
  sb_StakedDuration :: string
  sb_CreateTime :: int
  sb_StakeStartTime :: int
  sb_UnstakeStartTime :: int
  sb_AutoStake :: int

text \<open>
  \<open>ts\<close> is what a \<open>TIMESTAMP\<close> column keeps of a time (it has no fractions of a second), \<open>proto\<close> the
  conversion of a read time to protobuf, which refuses times outside the years 1 to 9999.
\<close>

definition bucket_cols :: "(int \<Rightarrow> int) \<Rightarrow> VoteBucket \<Rightarrow> StakingBucket" where
  "bucket_cols ts b =
     \<lparr>sb_Index = vb_Index b, sb_Candidate = vb_CandidateAddress b, sb_Owner = vb_Owner b,
      sb_StakedAmount = vb_StakedAmount b, sb_StakedDuration = big_String (uint (vb_StakedDuration b)),
      sb_CreateTime = ts (vb_CreateTime b), sb_StakeStartTime = ts (vb_StakeStartTime b),
      sb_UnstakeStartTime = ts (vb_UnstakeStartTime b), sb_AutoStake = (if vb_AutoStake b then 1 else 0)\<rparr>"

definition InsertVoteBuckets ::
  "libs \<Rightarrow> (int \<Rightarrow> int) \<Rightarrow> VoteBucket list \<Rightarrow> StakingBucket stored_row list \<Rightarrow>
   go_error + (string \<times> nat) list \<times> StakingBucket stored_row list"
where
  "InsertVoteBuckets l ts = insert_records (lib_HashBucket l) (bucket_cols ts)"

definition parse_bucket :: "(int \<Rightarrow> go_error + int) \<Rightarrow> StakingBucket \<Rightarrow> go_error + VoteBucket" where
  "parse_bucket proto b =
     andThen (parse_uint 32 (sb_StakedDuration b)) (\<lambda>duration.
     andThen (proto (sb_CreateTime b)) (\<lambda>createTime.
     andThen (proto (sb_StakeStartTime b)) (\<lambda>stakeTime.
     andThen (proto (sb_UnstakeStartTime b)) (\<lambda>unstakeTime.
     Inr \<lparr>vb_Index = sb_Index b, vb_CandidateAddress = sb_Candidate b, vb_StakedAmount = sb_StakedAmount b,
          vb_StakedDuration = of_nat duration, vb_CreateTime = createTime, vb_StakeStartTime = stakeTime,
          vb_UnstakeStartTime = unstakeTime, vb_AutoStake = (sb_AutoStake b = 1), vb_Owner = sb_Owner b\<rparr>))))"

definition QueryVoteBuckets ::
  "(int \<Rightarrow> go_error + int) \<Rightarrow> ((nat \<times> VoteBucket) list \<Rightarrow> (nat \<times> VoteBucket) list) \<Rightarrow> (nat \<times> nat) list \<Rightarrow>
   StakingBucket stored_row list \<Rightarrow> go_error + VoteBucket list"
where
  "QueryVoteBuckets proto = query_records (parse_bucket proto)"

subsection \<open>Candidates\<close>

record candidateStruct =
  cs_Owner :: string
  cs_Operator :: string
  cs_Reward :: string
  cs_Name :: string
  cs_Votes :: string
  cs_SelfStakeBucketIdx :: u64
  cs_SelfStake :: string

definition candidate_cols :: "CandidateV2 \<Rightarrow> candidateStruct" where
  "candidate_cols c =
     \<lparr>cs_Owner = cand_OwnerAddress c, cs_Operator = cand_OperatorAddress c, cs_Reward = cand_RewardAddress c,
      cs_Name = cand_Name c, cs_Votes = cand_TotalWeightedVotes c,
      cs_SelfStakeBucketIdx = cand_SelfStakeBucketIdx c, cs_SelfStake = cand_SelfStakingTokens c\<rparr>"

definition InsertCandidates ::
  "libs \<Rightarrow> CandidateV2 list \<Rightarrow> candidateStruct stored_row list \<Rightarrow>
   go_error + (string \<times> nat) list \<times> candidateStruct stored_row list"
where
  "InsertCandidates l = insert_records (lib_HashCandidate l) candidate_cols"

definition parse_candidate :: "candidateStruct \<Rightarrow> go_error + CandidateV2" where
  "parse_candidate c =
     Inr \<lparr>cand_OwnerAddress = cs_Owner c, cand_OperatorAddress = cs_Operator c,
          cand_RewardAddress = cs_Reward c, cand_Name = cs_Name c, cand_TotalWeightedVotes = cs_Votes c,
          cand_SelfStakeBucketIdx = cs_SelfStakeBucketIdx c, cand_SelfStakingTokens = cs_SelfStake c\<rparr>"

definition QueryCandidates ::
  "(nat \<times> nat) list \<Rightarrow> candidateStruct stored_row list \<Rightarrow> go_error + CandidateV2 list"
where
  "QueryCandidates = query_records parse_candidate (\<lambda>parsed. parsed)"

subsection \<open>What every record table keeps\<close>

text \<open>
  Row ids and hashes are unique, and a row holds the columns of a record with its hash.
  \<open>by_id\<close> are the frequencies of an insertion, by the ids of its rows.
\<close>

definition table_ok :: "('r \<Rightarrow> go_error + string) \<Rightarrow> ('r \<Rightarrow> 'c) \<Rightarrow> 'c stored_row list \<Rightarrow> bool" where
  "table_ok hash cols t \<longleftrightarrow>
     distinct (map sr_id t) \<and> distinct (map sr_hash t) \<and> (\<forall>row \<in> set t. sr_id row \<le> length t) \<and>
     (\<forall>row \<in> set t. \<exists>r. hash r = Inr (sr_hash row) \<and> sr_cols row = cols r)"

definition by_id :: "'c stored_row list \<Rightarrow> (string \<times> nat) list \<Rightarrow> (nat \<times> nat) list" where
  "by_id t frequencies =
     map (\<lambda>row. (sr_id row, get_or 0 frequencies (sr_hash row)))
       (filter (\<lambda>row. sr_hash row \<in> keys frequencies) t)"

lemma table_ok_put:
  assumes "table_ok hash cols t" "hash r = Inr h"
  shows "table_ok hash cols (put_record h (cols r) t)"
proof (cases "h \<in> sr_hash ` set t")
  case True
  then have "put_record h (cols r) t = t" by (simp add: put_record_def insert_ignore_present)
  with assms(1) show ?thesis by simp
next
  case False
  then have put: "put_record h (cols r) t = t @ [\<lparr>sr_id = length t + 1, sr_hash = h, sr_cols = cols r\<rparr>]"
    by (simp add: put_record_def insert_ignore_new)
  have "length t + 1 \<notin> sr_id ` set t" using assms(1) by (fastforce simp: table_ok_def)
  with False assms show ?thesis unfolding put by (force simp: table_ok_def)
qed

lemma put_record_hash: "h \<in> sr_hash ` set (put_record h c t)" "sr_hash ` set t \<subseteq> sr_hash ` set (put_record h c t)"
  by (auto simp: put_record_def)

lemma insert_step:
  assumes "foldE (\<lambda>r (frequencies, t). andThen (hash r) (\<lambda>h.
      Inr (AList.map_default h 1 Suc frequencies, put_record h (cols r) t))) rs (fr, t) = Inr (fr', t')"
    and "table_ok hash cols t" "distinct_keys fr" "keys fr \<subseteq> sr_hash ` set t"
  shows "table_ok hash cols t' \<and> distinct_keys fr' \<and> keys fr' \<subseteq> sr_hash ` set t' \<and>
    keys fr' = keys fr \<union> {h. \<exists>r \<in> set rs. hash r = Inr h} \<and> (\<forall>r \<in> set rs. \<exists>h. hash r = Inr h) \<and>
    (\<forall>h. get_or 0 fr' h = get_or 0 fr h + length (filter (\<lambda>r. hash r = Inr h) rs))"
  using assms
proof (induction rs arbitrary: fr t)
  case (Cons r rs)
  obtain h where h: "hash r = Inr h"
    and more: "foldE (\<lambda>r (frequencies, t). andThen (hash r) (\<lambda>h.
      Inr (AList.map_default h 1 Suc frequencies, put_record h (cols r) t))) rs
      (AList.map_default h 1 Suc fr, put_record h (cols r) t) = Inr (fr', t')"
    using Cons.prems(1) by (auto simp: andThen_eq_Inr)
  have "keys (AList.map_default h 1 Suc fr) \<subseteq> sr_hash ` set (put_record h (cols r) t)"
    using Cons.prems(4) put_record_hash(1)[of h "cols r" t] put_record_hash(2)[of t h "cols r"] by auto
  note IH = Cons.IH[OF more table_ok_put[OF Cons.prems(2) h] distinct_map_default[OF Cons.prems(3)] this]
  have hashes: "{h'. \<exists>r' \<in> set (r # rs). hash r' = Inr h'} = insert h {h'. \<exists>r' \<in> set rs. hash r' = Inr h'}"
    using h by auto
  have count: "get_or 0 (AList.map_default h 1 Suc fr) h' + length (filter (\<lambda>r. hash r = Inr h') rs)
      = get_or 0 fr h' + length (filter (\<lambda>r. hash r = Inr h') (r # rs))" for h'
    using h by (simp add: get_or_def split: option.split)
  show ?case
  proof (intro conjI, goal_cases)
    case 4
    show ?case unfolding hashes using IH by simp
  next
    case 5
    show ?case using IH h by simp
  next
    case 6
    show ?case using IH count by simp
  qed (use IH in blast)+
qed simp

lemma insert_records_eq_Inr:
  assumes "insert_records hash cols rs t = Inr (frequencies, t')" "table_ok hash cols t"
  shows "table_ok hash cols t'" "distinct_keys frequencies" "keys frequencies \<subseteq> sr_hash ` set t'"
    "keys frequencies = {h. \<exists>r \<in> set rs. hash r = Inr h}" "r \<in> set rs \<Longrightarrow> \<exists>h. hash r = Inr h"
    "get_or 0 frequencies h = length (filter (\<lambda>r. hash r = Inr h) rs)"
proof -
  have "distinct_keys ([] :: (string \<times> nat) list)" "keys ([] :: (string \<times> nat) list) \<subseteq> sr_hash ` set t" by simp_all
  note spec = insert_step[OF assms(1)[unfolded insert_records_def] assms(2) this]
  from spec show "table_ok hash cols t'" "distinct_keys frequencies" "keys frequencies \<subseteq> sr_hash ` set t'"
    "r \<in> set rs \<Longrightarrow> \<exists>h. hash r = Inr h" by blast+
  from spec show "keys frequencies = {h. \<exists>r \<in> set rs. hash r = Inr h}" by simp
  from spec show "get_or 0 frequencies h = length (filter (\<lambda>r. hash r = Inr h) rs)"
    by (simp add: get_or_def[of _ "[]"])
qed

text \<open>A list is the sum of its parts by key.\<close>

lemma mset_by_key:
  assumes "distinct hs"
  shows "(\<Sum>h\<leftarrow>hs. mset (filter (\<lambda>r. k r = h) rs)) = mset (filter (\<lambda>r. k r \<in> set hs) rs)"
  using assms
proof (induction hs)
  case (Cons h hs)
  then have "{#r \<in># mset rs. k r = h#} + {#r \<in># mset rs. k r \<in> set hs#} = {#r \<in># mset rs. k r = h \<or> k r \<in> set hs#}"
    by (auto simp: multiset_eq_iff)
  with Cons show ?case by simp
qed simp

lemma mset_concat_order: "range_order ord \<Longrightarrow> mset (concat (map f (ord xs))) = (\<Sum>x\<leftarrow>xs. mset (f x))"
  by (simp add: mset_concat range_order_def comp_def flip: sum_mset_sum_list)

lemma image_mset_sum: "image_mset f (\<Sum>x\<leftarrow>xs. g x) = (\<Sum>x\<leftarrow>xs. image_mset f (g x))"
  by (induction xs) simp_all

lemma map_of_by_id:
  assumes "distinct (map sr_id t)" "row \<in> set t" "sr_hash row \<in> keys frequencies"
  shows "get_or 0 (by_id t frequencies) (sr_id row) = get_or 0 frequencies (sr_hash row)"
proof (rule get_or_in)
  show "distinct_keys (by_id t frequencies)"
    using distinct_map_filter[OF assms(1)] by (simp add: by_id_def comp_def)
  show "(sr_id row, get_or 0 frequencies (sr_hash row)) \<in> set (by_id t frequencies)"
    using assms(2,3) by (auto simp: by_id_def)
qed

lemma rows_by_id:
  assumes "distinct (map sr_id t)"
  shows "filter (\<lambda>row. sr_id row \<in> keys (by_id t frequencies)) t = filter (\<lambda>row. sr_hash row \<in> keys frequencies) t"
proof (rule filter_cong)
  fix row
  assume row: "row \<in> set t"
  have "sr_id row \<in> keys (by_id t frequencies) \<longleftrightarrow> (\<exists>row' \<in> set t. sr_id row' = sr_id row \<and> sr_hash row' \<in> keys frequencies)"
    by (force simp: by_id_def)
  also have "\<dots> \<longleftrightarrow> sr_hash row \<in> keys frequencies"
    using assms row by (metis distinct_map inj_onD)
  finally show "sr_id row \<in> keys (by_id t frequencies) \<longleftrightarrow> sr_hash row \<in> keys frequencies" .
qed simp

text \<open>
  The contract of a record table: reading the columns of a record gives a known version of it.
  Then, whatever the order of the rows, a query with the frequencies of an insertion returns the
  inserted records, each as often as it was inserted.
\<close>

locale record_table =
  fixes cols :: "'r \<Rightarrow> 'c" and parse :: "'c \<Rightarrow> go_error + 'r" and stored :: "'r \<Rightarrow> go_error + 'r"
  assumes parse_cols: "parse (cols r) = stored r"
begin

lemma query_insert:
  assumes ins: "insert_records hash cols rs t = Inr (frequencies, t')" and ok: "table_ok hash cols t"
    and ne: "rs \<noteq> []" and ord: "range_order ord"
    and inj: "\<And>r r' h. hash r = Inr h \<Longrightarrow> hash r' = Inr h \<Longrightarrow> r = r'"
    and stored: "\<And>r. r \<in> set rs \<Longrightarrow> stored r = Inr (s r)"
  shows "\<exists>out. query_records parse ord (by_id t' frequencies) t' = Inr out \<and> mset out = image_mset s (mset rs)"
proof -
  note facts = insert_records_eq_Inr[OF ins ok]
  let ?rows = "filter (\<lambda>row. sr_hash row \<in> keys frequencies) t'"
  have ids: "distinct (map sr_id t')" and hashes: "distinct (map sr_hash t')"
    using facts(1) by (auto simp: table_ok_def)
  have row: "\<exists>r \<in> set rs. hash r = Inr (sr_hash row) \<and> sr_cols row = cols r" if mem: "row \<in> set ?rows" for row
  proof -
    obtain r where r: "hash r = Inr (sr_hash row)" "sr_cols row = cols r"
      using mem facts(1) by (auto simp: table_ok_def)
    moreover obtain r' where "r' \<in> set rs" "hash r' = Inr (sr_hash row)" using mem facts(4) by auto
    ultimately show ?thesis using inj by blast
  qed
  have touched: "\<exists>row \<in> set ?rows. sr_hash row = h" if mem: "h \<in> keys frequencies" for h
  proof -
    obtain row where "row \<in> set t'" "h = sr_hash row" using subsetD[OF facts(3) mem] by (rule imageE)
    with mem have "row \<in> set ?rows" by (simp only: set_filter mem_Collect_eq simp_thms)
    with \<open>h = sr_hash row\<close> show ?thesis by blast
  qed
  define rec where "rec row = (SOME r. hash r = Inr (sr_hash row))" for row :: "'c stored_row"
  have rec: "rec row \<in> set rs" "hash (rec row) = Inr (sr_hash row)" "sr_cols row = cols (rec row)" if mem: "row \<in> set ?rows" for row
  proof -
    obtain r where r: "r \<in> set rs" "hash r = Inr (sr_hash row)" "sr_cols row = cols r" using row[OF mem] by blast
    then have "rec row = r" unfolding rec_def using inj by (intro some_equality) blast+
    with r show "rec row \<in> set rs" "hash (rec row) = Inr (sr_hash row)" "sr_cols row = cols (rec row)" by auto
  qed
  have parsed: "mapE (\<lambda>row. andThen (parse (sr_cols row)) (\<lambda>r. Inr (sr_id row, r))) ?rows
      = Inr (map (\<lambda>row. (sr_id row, s (rec row))) ?rows)"
  proof (rule mapE_map)
    fix row
    assume "row \<in> set ?rows"
    from rec(3)[OF this] stored[OF rec(1)[OF this]]
    show "andThen (parse (sr_cols row)) (\<lambda>r. Inr (sr_id row, r)) = Inr (sr_id row, s (rec row))"
      by (simp add: parse_cols)
  qed
  have first: "hd rs \<in> set rs" using ne by simp
  then obtain h where "hash (hd rs) = Inr h" using facts(5) by blast
  with first have h: "h \<in> keys frequencies" unfolding facts(4) by blast
  with touched have "?rows \<noteq> []" by fastforce
  then have nonempty: "?rows \<noteq> []" "by_id t' frequencies \<noteq> []" by (auto simp: by_id_def)
  let ?out = "concat (map (\<lambda>(i, r). replicate (get_or 0 (by_id t' frequencies) i) r)
    (ord (map (\<lambda>row. (sr_id row, s (rec row))) ?rows)))"
  have query: "query_records parse ord (by_id t' frequencies) t' = Inr ?out"
    using nonempty parsed by (simp add: query_records_def Let_def rows_by_id[OF ids])
  have one: "mset (replicate (get_or 0 (by_id t' frequencies) (sr_id row)) (s (rec row)))
      = image_mset s (mset (filter (\<lambda>r. hash r = Inr (sr_hash row)) rs))" if "row \<in> set ?rows" for row
  proof -
    have "filter (\<lambda>r. hash r = Inr (sr_hash row)) rs
        = replicate (length (filter (\<lambda>r. hash r = Inr (sr_hash row)) rs)) (rec row)"
      using rec(2)[OF that] inj by (intro replicate_eqI) auto
    moreover have "get_or 0 (by_id t' frequencies) (sr_id row) = length (filter (\<lambda>r. hash r = Inr (sr_hash row)) rs)"
      using that map_of_by_id[OF ids, of row frequencies] facts(6) by simp
    ultimately show ?thesis by (metis image_replicate_mset mset_replicate)
  qed
  have "mset ?out = (\<Sum>p\<leftarrow>map (\<lambda>row. (sr_id row, s (rec row))) ?rows.
      mset (case p of (i, r) \<Rightarrow> replicate (get_or 0 (by_id t' frequencies) i) r))"
    by (rule mset_concat_order[OF ord])
  also have "\<dots> = (\<Sum>row\<leftarrow>?rows. image_mset s (mset (filter (\<lambda>r. hash r = Inr (sr_hash row)) rs)))"
    unfolding map_map comp_def prod.case using one by (intro arg_cong[where f = sum_list] map_cong) blast+
  also have "\<dots> = image_mset s (\<Sum>h\<leftarrow>map (\<lambda>row. Inr (sr_hash row)) ?rows. mset (filter (\<lambda>r. hash r = h) rs))"
    by (simp add: image_mset_sum comp_def)
  also have "\<dots> = image_mset s (mset (filter (\<lambda>r. hash r \<in> set (map (\<lambda>row. Inr (sr_hash row)) ?rows)) rs))"
    by (subst mset_by_key) (use distinct_map_filter[OF hashes] in \<open>auto simp: distinct_map inj_on_def\<close>)
  also have "filter (\<lambda>r. hash r \<in> set (map (\<lambda>row. Inr (sr_hash row)) ?rows)) rs = rs"
  proof (rule filter_True, rule ballI)
    fix r
    assume r: "r \<in> set rs"
    then obtain h where h: "hash r = Inr h" using facts(5) by blast
    with r have "h \<in> keys frequencies" unfolding facts(4) by blast
    from touched[OF this] show "hash r \<in> set (map (\<lambda>row. Inr (sr_hash row)) ?rows)" unfolding h set_map by blast
  qed
  finally show ?thesis using query by blast
qed

end

text \<open>Both tables meet the contract.\<close>

definition stored_bucket :: "(int \<Rightarrow> int) \<Rightarrow> (int \<Rightarrow> go_error + int) \<Rightarrow> VoteBucket \<Rightarrow> go_error + VoteBucket" where
  "stored_bucket ts proto b =
     andThen (proto (ts (vb_CreateTime b))) (\<lambda>create.
     andThen (proto (ts (vb_StakeStartTime b))) (\<lambda>start.
     andThen (proto (ts (vb_UnstakeStartTime b))) (\<lambda>unstake.
     Inr (b\<lparr>vb_CreateTime := create, vb_StakeStartTime := start, vb_UnstakeStartTime := unstake\<rparr>))))"

lemma unat_u32_less: "unat (d :: u32) < 2 ^ 32"
  using unsigned_less[of d] by simp

lemma parse_uint32: "parse_uint 32 (big_String (uint (d :: u32))) = Inr (unat d)"
  using parse_uint_show[OF unat_u32_less, of d] by (simp add: big_String_def)

lemma parse_bucket_cols: "parse_bucket proto (bucket_cols ts b) = stored_bucket ts proto b"
  by (cases b; cases "vb_AutoStake b") (simp_all add: parse_bucket_def bucket_cols_def stored_bucket_def parse_uint32)

interpretation buckets: record_table "bucket_cols ts" "parse_bucket proto" "stored_bucket ts proto" for ts proto
  by unfold_locales (rule parse_bucket_cols)

interpretation candidates: record_table candidate_cols parse_candidate Inr
  by unfold_locales (simp add: parse_candidate_def candidate_cols_def)

subsection \<open>Properties\<close>

text \<open>C24: What is put into the staking tables for an epoch comes back from them: querying the rows
  an insertion touched, with its frequencies by row id, returns the same candidates and the same
  buckets, each as often as it was inserted, also when the tables held them before; only the
  times of a bucket are what the time columns keep of them.\<close>

theorem staking_tables_roundtrip:
  assumes "InsertVoteBuckets l ts bs bt = Inr (bf, bt')" "InsertCandidates l cs ct = Inr (cf, ct')"
    and "table_ok (lib_HashBucket l) (bucket_cols ts) bt" "table_ok (lib_HashCandidate l) candidate_cols ct"
    and "bs \<noteq> []" "cs \<noteq> []" and "range_order ord"
    and "\<And>b b' h. lib_HashBucket l b = Inr h \<Longrightarrow> lib_HashBucket l b' = Inr h \<Longrightarrow> b = b'"
    and "\<And>c c' h. lib_HashCandidate l c = Inr h \<Longrightarrow> lib_HashCandidate l c' = Inr h \<Longrightarrow> c = c'"
    and "\<And>b. b \<in> set bs \<Longrightarrow> stored_bucket ts proto b = Inr (s b)"
  shows "(\<exists>out. QueryVoteBuckets proto ord (by_id bt' bf) bt' = Inr out \<and> mset out = image_mset s (mset bs)) \<and>
    (\<exists>out. QueryCandidates (by_id ct' cf) ct' = Inr out \<and> mset out = mset cs)"
  unfolding QueryVoteBuckets_def QueryCandidates_def
  using buckets.query_insert[of "lib_HashBucket l" ts bs bt bf bt' ord proto s]
    candidates.query_insert[of "lib_HashCandidate l" cs ct cf ct' "\<lambda>parsed. parsed" "\<lambda>c. c"] assms
  unfolding InsertVoteBuckets_def InsertCandidates_def by simp

definition plain_bucket :: "u64 \<Rightarrow> string \<Rightarrow> VoteBucket" where
  "plain_bucket i owner =
     \<lparr>vb_Index = i, vb_CandidateAddress = ''io1c'', vb_StakedAmount = ''100'', vb_StakedDuration = 0,
      vb_CreateTime = 5, vb_StakeStartTime = 5, vb_UnstakeStartTime = 0, vb_AutoStake = False, vb_Owner = owner\<rparr>"

definition plain_candidate :: "string \<Rightarrow> string \<Rightarrow> CandidateV2" where
  "plain_candidate owner name =
     \<lparr>cand_OwnerAddress = owner, cand_OperatorAddress = owner, cand_RewardAddress = owner, cand_Name = name,
      cand_TotalWeightedVotes = ''100'', cand_SelfStakeBucketIdx = 0, cand_SelfStakingTokens = ''100''\<rparr>"

definition table_libs :: libs where
  "table_libs = (Libs offline_ctx)
     \<lparr>lib_HashBucket := \<lambda>b. if b = plain_bucket 1 ''io1v'' then Inr ''h'' else offline,
      lib_HashCandidate := \<lambda>c. if c = plain_candidate ''io1c'' ''bp'' then Inr ''k'' else offline\<rparr>"

lemma staking_tables_roundtrip_witness:
  "(\<exists>out. QueryVoteBuckets Inr rev (by_id [\<lparr>sr_id = 1, sr_hash = ''h'', sr_cols = bucket_cols (\<lambda>t. t) (plain_bucket 1 ''io1v'')\<rparr>] [(''h'', 2)])
      [\<lparr>sr_id = 1, sr_hash = ''h'', sr_cols = bucket_cols (\<lambda>t. t) (plain_bucket 1 ''io1v'')\<rparr>] = Inr out \<and>
      mset out = image_mset (\<lambda>b. b) (mset [plain_bucket 1 ''io1v'', plain_bucket 1 ''io1v''])) \<and>
   (\<exists>out. QueryCandidates (by_id [\<lparr>sr_id = 1, sr_hash = ''k'', sr_cols = candidate_cols (plain_candidate ''io1c'' ''bp'')\<rparr>] [(''k'', 1)])
      [\<lparr>sr_id = 1, sr_hash = ''k'', sr_cols = candidate_cols (plain_candidate ''io1c'' ''bp'')\<rparr>] = Inr out \<and>
      mset out = mset [plain_candidate ''io1c'' ''bp''])"
  by (rule staking_tables_roundtrip[where l = table_libs and bt = "[]" and ct = "[]"])
    (auto simp: InsertVoteBuckets_def InsertCandidates_def insert_records_def table_libs_def put_record_def
      table_ok_def stored_bucket_def offline_def split: if_splits)

end
