(* ===== verification/Staking.thy ===== *)
theory Staking imports Voting_Result Staking_Tables begin

text \<open>
  \<open>indexprotocol/votings/stakingprotocol.go\<close> and \<open>probation.go\<close>: the votes of an epoch after the
  Fairbank height, computed from the native staking buckets. Votes are weighted by the duration of
  the stake, delegates on probation lose a part of theirs, and the reward portions of the delegates
  are carried over from the last epoch and updated by the events of a contract.
\<close>

record VoteWeightCalConsts =
  DurationLg :: f64
  AutoStake :: f64
  SelfStake :: f64

record RewardPortionCfg =
  RewardPortionContract :: string
  RewardPortionContractDeployHeight :: u64

record ProbationList =
  pb_EpochNumber :: u64
  pb_IntensityRate :: u64
  pb_Address :: string
  pb_Count :: u64

record AggregateVoting =
  av_EpochNumber :: u64
  av_CandidateName :: string
  av_VoterAddress :: string
  av_NativeFlag :: bool
  av_AggregateVotes :: int

record VotingMeta =
  vm_EpochNumber :: u64
  vm_VotedToken :: int
  vm_DelegateCount :: nat
  vm_TotalWeighted :: int

text \<open>
  A table operator of \<open>iotex-election\<close> (\<open>committee.Operator\<close>), which keeps the records of type
  \<open>'a\<close> per height in tables of its own; \<open>'h\<close> stands for those tables. The repository gives the
  operators for buckets and candidates the functions of the theory \<open>Staking_Tables\<close>.
\<close>

record ('a, 'h) operator =
  op_Put :: "u64 \<Rightarrow> 'a \<Rightarrow> 'h \<Rightarrow> go_error + 'h"
  op_Get :: "u64 \<Rightarrow> 'h \<Rightarrow> go_error + 'a"

text \<open>The tables of the votings protocol.\<close>

record 'h votings_db =
  election_tables :: 'h
  voting_result :: "VotingResult list"
  aggregate_voting :: "AggregateVoting list"
  voting_meta :: "VotingMeta list"
  probation_list :: "ProbationList list"

subsection \<open>Probation\<close>

text \<open>\<open>INSERT IGNORE\<close>, unique by epoch and address, one statement per address.\<close>

definition pb_key :: "ProbationList \<Rightarrow> u64 \<times> string" where
  "pb_key p = (pb_EpochNumber p, pb_Address p)"

definition updateProbationListTable :: "u64 \<Rightarrow> ProbationCandidateList option \<Rightarrow> ProbationList list \<Rightarrow> ProbationList list" where
  "updateProbationListTable epochNum probationList t =
     (case probationList of
        None \<Rightarrow> t
      | Some l \<Rightarrow> insert_ignore pb_key
          (map (\<lambda>(address, count).
             \<lparr>pb_EpochNumber = epochNum, pb_IntensityRate = ucast (pl_IntensityRate l),
              pb_Address = address, pb_Count = ucast count\<rparr>) (pl_ProbationList l)) t)"

text \<open>Unmarshalling no data gives an empty list, as leaving it out does.\<close>

definition fetchProbationList :: "IndexCtx \<Rightarrow> u64 \<Rightarrow> go_error + ProbationCandidateList option" where
  "fetchProbationList ictx epochNum =
     (case cc_ReadState (ChainClient ictx)
        \<lparr>rq_ProtocolID = ''poll'', rq_MethodName = ''ProbationListByEpoch'',
         rq_Arguments = [format_uint epochNum], rq_Height = []\<rparr> of
        Inl e \<Rightarrow> if lib_IsNotFound (Libs ictx) e then Inr None else Inl e
      | Inr [] \<Rightarrow> Inr (Some \<lparr>pl_IntensityRate = 0, pl_ProbationList = []\<rparr>)
      | Inr data \<Rightarrow>
          andThen (wrap ''failed to unmarshal probationList'' (lib_UnmarshalProbationList (Libs ictx) data)) (\<lambda>l.
          Inr (Some l)))"

definition getProbationList :: "u64 \<Rightarrow> ProbationList list \<Rightarrow> ProbationList list option" where
  "getProbationList epochNumber t =
     (let rows = filter (\<lambda>p. pb_EpochNumber p = epochNumber) t in if rows = [] then None else Some rows)"

text \<open>\<open>float64(uint32(100)-rate) / float64(100)\<close>, and the same in \<open>uint64\<close>.\<close>

definition intensity32 :: "u32 \<Rightarrow> f64" where
  "intensity32 rate = f64_div (f64_of_int (uint (100 - rate))) 100"

definition intensity64 :: "u64 \<Rightarrow> f64" where
  "intensity64 rate = f64_div (f64_of_int (uint (100 - rate))) 100"

text \<open>
  One round of the loop of \<open>filterStakingCandidates\<close>: the votes of a candidate on probation are
  scaled, and both maps are keyed by the operator address, so that of candidates with the same one
  only the last remains.
\<close>

definition filter_candidate ::
  "ProbationCandidateList \<Rightarrow> CandidateV2 \<Rightarrow> (string \<times> CandidateV2) list \<times> (string \<times> int) list \<Rightarrow>
   go_error + (string \<times> CandidateV2) list \<times> (string \<times> int) list"
where
  "filter_candidate unqualified cand = (\<lambda>(candidatesMap, votingPower).
     andThen (toBigInt ''total weighted votes convert error'' (cand_TotalWeightedVotes cand)) (\<lambda>votes.
     let filterCand =
       (if cand_OperatorAddress cand \<in> keys (pl_ProbationList unqualified) then
          cand\<lparr>cand_TotalWeightedVotes :=
            big_String (bigFloat_scale votes (intensity32 (pl_IntensityRate unqualified)))\<rparr>
        else cand)
     in andThen (toBigInt ''total weighted votes convert error'' (cand_TotalWeightedVotes filterCand)) (\<lambda>totalWeightedVotes.
        Inr (AList.update (cand_OperatorAddress cand) filterCand candidatesMap,
             AList.update (cand_OperatorAddress cand) totalWeightedVotes votingPower))))"

text \<open>A name that \<open>util.Sort\<close> returns and the map does not have is a nil candidate.\<close>

definition lookup_candidate :: "(string \<times> 'c) list \<Rightarrow> string \<Rightarrow> go_error + 'c" where
  "lookup_candidate m name =
     (case map_of m name of None \<Rightarrow> Inl (Panic ''invalid memory address or nil pointer dereference'') | Some c \<Rightarrow> Inr c)"

definition filterStakingCandidates ::
  "libs \<Rightarrow> CandidateV2 list \<Rightarrow> ProbationCandidateList \<Rightarrow> u64 \<Rightarrow> go_error + CandidateV2 list"
where
  "filterStakingCandidates l candidates unqualified epochStartHeight =
     andThen (foldE (filter_candidate unqualified) candidates ([], [])) (\<lambda>(candidatesMap, votingPower).
     mapE (lookup_candidate candidatesMap) (lib_Sort l votingPower epochStartHeight))"

definition stakingProbationListToMap ::
  "CandidateV2 list \<Rightarrow> ProbationList list option \<Rightarrow> f64 \<times> (string \<times> u64) list"
where
  "stakingProbationListToMap candidates probationList =
     (case probationList of
        None \<Rightarrow> (0, [])
      | Some pbs \<Rightarrow>
          fold (\<lambda>can. fold (\<lambda>pb (rate, m).
            (intensity64 (pb_IntensityRate pb),
             if pb_Address pb = cand_OperatorAddress can
             then AList.update (cand_OwnerAddress can) (pb_Count pb) m else m)) pbs) candidates (0, []))"

definition convertProbationListToLocal :: "ProbationCandidateList option \<Rightarrow> ProbationList list option" where
  "convertProbationListToLocal probationList =
     map_option (\<lambda>l. map (\<lambda>(address, count).
       \<lparr>pb_EpochNumber = 0, pb_IntensityRate = ucast (pl_IntensityRate l), pb_Address = address,
        pb_Count = ucast count\<rparr>) (pl_ProbationList l)) probationList"

subsection \<open>The weight of a vote\<close>

text \<open>The duration in seconds is computed in \<open>uint32\<close>, where it wraps around from 49711 days on.\<close>

definition CalculateVoteWeight :: "libs \<Rightarrow> VoteWeightCalConsts \<Rightarrow> VoteBucket \<Rightarrow> bool \<Rightarrow> go_error + int" where
  "CalculateVoteWeight l cfg v selfStake =
     (let remainingTime = f64_of_int (uint (vb_StakedDuration v * 86400));
          m = (if vb_AutoStake v then AutoStake cfg else 0);
          weight =
            (if 0 < remainingTime then
               f64_add 1 (f64_div (f64_div
                 (lib_Log l (f64_mul (of_int \<lceil>f64_div remainingTime 86400\<rceil>) (f64_add 1 m)))
                 (lib_Log l (DurationLg cfg))) 100)
             else 1);
          weight = (if selfStake \<and> vb_AutoStake v \<and> 91 \<le> vb_StakedDuration v then f64_mul weight (SelfStake cfg) else weight)
      in andThen (toBigInt ''failed to convert string to big int'' (vb_StakedAmount v)) (\<lambda>amount.
         Inr (bigFloat_scale amount weight)))"

text \<open>Times and durations are nanoseconds, durations in \<open>int64\<close>.\<close>

definition CalcRemainingTime :: "int \<Rightarrow> VoteBucket \<Rightarrow> int" where
  "CalcRemainingTime now bucket =
     (let startTime = vb_StakeStartTime bucket;
          duration = sint (ucast (vb_StakedDuration bucket) * 24 * 3600000000000 :: u64) in
      if now < startTime then 0
      else if \<not> vb_AutoStake bucket then
        (let endTime = startTime + duration in if now < endTime then endTime - now else 0)
      else duration)"

definition selfStakeIndexMap :: "CandidateV2 list \<Rightarrow> u64 list" where
  "selfStakeIndexMap candidates = map cand_SelfStakeBucketIdx candidates"

definition ownerAddressToNameMap :: "CandidateV2 list \<Rightarrow> go_error + (string \<times> string) list" where
  "ownerAddressToNameMap candidates =
     foldE (\<lambda>can m. andThen (EncodeDelegateName (cand_Name can)) (\<lambda>name.
       Inr (AList.update (cand_OwnerAddress can) name m))) candidates []"

subsection \<open>Reward portions\<close>

record portions =
  pt_BlockReward :: "(string \<times> f64) list"
  pt_EpochReward :: "(string \<times> f64) list"
  pt_FoundationBonus :: "(string \<times> f64) list"

definition no_portions :: portions where
  "no_portions = \<lparr>pt_BlockReward = [], pt_EpochReward = [], pt_FoundationBonus = []\<rparr>"

definition topicProfileUpdated :: string where
  "topicProfileUpdated = ''217aa5ef0b78f028d51fd573433bdbe2daf6f8505e6a71f3af1393c8440b341b''"

text \<open>\<open>float64(big.NewInt(0).SetBytes(event.Value).Uint64()) / 100\<close>; \<open>Uint64\<close> keeps the low 64 bits.\<close>

definition event_portion :: "string \<Rightarrow> f64" where
  "event_portion value = f64_div (f64_of_int (big_SetBytes value mod 2 ^ 64)) 100"

definition profile_updated :: "libs \<Rightarrow> string \<Rightarrow> portions \<Rightarrow> portions" where
  "profile_updated l data p =
     (case lib_UnpackProfileUpdated l data of
        Inl _ \<Rightarrow> p
      | Inr (delegate, name, value) \<Rightarrow>
          let set_portion = AList.update (hex_EncodeToString delegate) (event_portion value) in
          if name = ''blockRewardPortion'' then p\<lparr>pt_BlockReward := set_portion (pt_BlockReward p)\<rparr>
          else if name = ''epochRewardPortion'' then p\<lparr>pt_EpochReward := set_portion (pt_EpochReward p)\<rparr>
          else if name = ''foundationRewardPortion'' then p\<lparr>pt_FoundationBonus := set_portion (pt_FoundationBonus p)\<rparr>
          else p)"

definition getLog :: "IndexCtx \<Rightarrow> string \<Rightarrow> u64 \<Rightarrow> u64 \<Rightarrow> go_error + portions" where
  "getLog ictx contractAddress from_block blocks =
     andThen (hex_DecodeString topicProfileUpdated) (\<lambda>tp.
     andThen (cc_GetLogs (ChainClient ictx) contractAddress tp from_block (from_block + blocks)) (\<lambda>logs.
     Inr (fold (\<lambda>l. fold (\<lambda>topic p.
       if hex_EncodeToString topic = topicProfileUpdated then profile_updated (Libs ictx) (log_Data l) p else p)
       (log_Topics l)) logs no_portions)))"

definition getLastEpochPortion :: "u64 \<Rightarrow> VotingResult list \<Rightarrow> go_error + portions" where
  "getLastEpochPortion epochNumber t =
     (let rows = filter (\<lambda>r. vr_EpochNumber r = epochNumber) t in
      if rows = [] then Inl ErrNotExist
      else Inr
        \<lparr>pt_BlockReward = fold (\<lambda>r. AList.update (vr_StakingAddress r) (vr_BlockRewardPercentage r)) rows [],
         pt_EpochReward = fold (\<lambda>r. AList.update (vr_StakingAddress r) (vr_EpochRewardPercentage r)) rows [],
         pt_FoundationBonus = fold (\<lambda>r. AList.update (vr_StakingAddress r) (vr_FoundationBonusPercentage r)) rows []\<rparr>)"

text \<open>
  \<open>for k, v := range fromLog { m[k] = v }\<close>; the keys of a Go map are distinct, so the order of the
  entries is of no effect.
\<close>

definition override :: "(string \<times> f64) list \<Rightarrow> (string \<times> f64) list \<Rightarrow> (string \<times> f64) list" where
  "override fromLog m = fold (\<lambda>(k, v). AList.update k v) fromLog m"

text \<open>
  The portions of the last epoch are read outside of the transaction: \<open>committed\<close> is the table as
  it is committed. \<open>errors.Wrap(err, ...)\<close> of a nil error is nil, so that a start height below
  the last one returns the last portions without an error.
\<close>

definition getAllStakingDelegateRewardPortions ::
  "EpochCtx \<Rightarrow> RewardPortionCfg \<Rightarrow> IndexCtx \<Rightarrow> u64 \<Rightarrow> u64 \<Rightarrow> VotingResult list \<Rightarrow> go_error + portions"
where
  "getAllStakingDelegateRewardPortions epochCtx cfg ictx epochStartHeight epochNumber committed =
     (if epochStartHeight = FairbankEffectiveHeight epochCtx then
        if RewardPortionContract cfg = [] then Inl (ErrMsg ''portion contract address is empty'')
        else if epochStartHeight \<le> RewardPortionContractDeployHeight cfg then
          Inl (ErrMsg ''portion contract deploy height should less than fairbank height'')
        else wrap ''failed to get log from chain''
          (getLog ictx (RewardPortionContract cfg) (RewardPortionContractDeployHeight cfg)
             (epochStartHeight - RewardPortionContractDeployHeight cfg))
      else
        andThen (wrap ''failed to get last epoch portion'' (getLastEpochPortion (epochNumber - 1) committed)) (\<lambda>last.
        andThen (GetEpochHeight epochCtx (epochNumber - 1)) (\<lambda>lastEpochStartHeight.
        if epochStartHeight < lastEpochStartHeight then Inr last
        else
          andThen (wrap ''failed to get log from chain''
            (getLog ictx (RewardPortionContract cfg) lastEpochStartHeight (epochStartHeight - lastEpochStartHeight))) (\<lambda>fromLog.
          Inr \<lparr>pt_BlockReward = override (pt_BlockReward fromLog) (pt_BlockReward last),
               pt_EpochReward = override (pt_EpochReward fromLog) (pt_EpochReward last),
               pt_FoundationBonus = override (pt_FoundationBonus fromLog) (pt_FoundationBonus last)\<rparr>))))"

subsection \<open>The voting tables\<close>

definition staking_result_row ::
  "libs \<Rightarrow> portions \<Rightarrow> u64 \<Rightarrow> CandidateV2 \<Rightarrow> VotingResult list \<Rightarrow> go_error + VotingResult list"
where
  "staking_result_row l p epochNumber candidate t =
     andThen (wrap ''failed to convert IoTeX address to ETH address'' (lib_IoAddrToEvmAddr l (cand_OwnerAddress candidate))) (\<lambda>stakingAddress.
     let address = hex_EncodeToString stakingAddress in
     andThen (wrap ''encode delegate name error'' (EncodeDelegateName (cand_Name candidate))) (\<lambda>encodedName.
     insertVotingResult epochNumber encodedName (cand_OperatorAddress candidate) (cand_RewardAddress candidate)
       (cand_TotalWeightedVotes candidate) (cand_SelfStakingTokens candidate)
       (get_or 0 (pt_BlockReward p) address) (get_or 0 (pt_EpochReward p) address)
       (get_or 0 (pt_FoundationBonus p) address) address t))"

text \<open>\<open>errors.Errorf\<close> makes a new error, without the cause of the old one.\<close>

definition errorf :: "string \<Rightarrow> go_error + 'a \<Rightarrow> go_error + 'a" where
  "errorf m r = (case r of Inl e \<Rightarrow> Inl (if unwinds e then e else ErrMsg m) | Inr x \<Rightarrow> Inr x)"

definition updateStakingResult ::
  "EpochCtx \<Rightarrow> RewardPortionCfg \<Rightarrow> IndexCtx \<Rightarrow> VotingResult list \<Rightarrow> CandidateV2 list \<Rightarrow> u64 \<Rightarrow> u64 \<Rightarrow>
   'h votings_db \<Rightarrow> go_error + 'h votings_db"
where
  "updateStakingResult epochCtx cfg ictx committed candidates epochNumber epochStartHeight db =
     andThen (errorf ''get delegate reward portions''
       (getAllStakingDelegateRewardPortions epochCtx cfg ictx epochStartHeight epochNumber committed)) (\<lambda>p.
     andThen (foldE (staking_result_row (Libs ictx) p epochNumber) candidates (voting_result db)) (\<lambda>t.
     Inr (db\<lparr>voting_result := t\<rparr>)))"

text \<open>
  The sums of one epoch are keyed by candidate and voter (\<open>aggregateKey\<close>, whose other two fields
  are constant). The votes of a bucket whose candidate is not among the delegates do not count.
\<close>

type_synonym vote_key = "string \<times> string"

definition count_bucket ::
  "libs \<Rightarrow> VoteWeightCalConsts \<Rightarrow> (string \<times> string) list \<Rightarrow> u64 list \<Rightarrow> VoteBucket \<Rightarrow>
   (vote_key \<times> int) list \<times> int \<Rightarrow> go_error + (vote_key \<times> int) list \<times> int"
where
  "count_bucket l voteCfg nameMap selfStakeIndex vote = (\<lambda>(sumOfWeightedVotes, totalVoted).
     if vb_CandidateAddress vote \<notin> keys nameMap then Inr (sumOfWeightedVotes, totalVoted)
     else
       andThen (wrap ''failed to calculate vote weight''
         (CalculateVoteWeight l voteCfg vote (vb_Index vote \<in> set selfStakeIndex))) (\<lambda>weightedAmount.
       andThen (toBigInt ''failed to convert string to big int'' (vb_StakedAmount vote)) (\<lambda>stakeAmount.
       Inr (AList.map_default (vb_CandidateAddress vote, vb_Owner vote) weightedAmount (\<lambda>val. val + weightedAmount)
              sumOfWeightedVotes, totalVoted + stakeAmount))))"

definition av_key :: "AggregateVoting \<Rightarrow> u64 \<times> string \<times> string \<times> bool" where
  "av_key r = (av_EpochNumber r, av_CandidateName r, av_VoterAddress r, av_NativeFlag r)"

definition staking_aggregate_row ::
  "libs \<Rightarrow> (string \<times> string) list \<Rightarrow> f64 \<Rightarrow> (string \<times> u64) list \<Rightarrow> u64 \<Rightarrow> vote_key \<times> int \<Rightarrow>
   AggregateVoting list \<Rightarrow> go_error + AggregateVoting list"
where
  "staking_aggregate_row l nameMap intensityRate probationMap epochNumber = (\<lambda>((candidate, voter), val) t.
     let val = (if candidate \<in> keys probationMap then bigFloat_scale val intensityRate else val) in
     case map_of nameMap candidate of
       None \<Rightarrow> Inl (ErrMsg ''candidate cannot find name through owner address'')
     | Some name \<Rightarrow>
         andThen (wrap ''failed to convert IoTeX address to ETH address'' (lib_IoAddrToEvmAddr l voter)) (\<lambda>voterAddress.
         Inr (insert_ignore av_key
           [\<lparr>av_EpochNumber = epochNumber, av_CandidateName = name,
             av_VoterAddress = hex_EncodeToString voterAddress, av_NativeFlag = True, av_AggregateVotes = val\<rparr>] t)))"

definition insertVotingMeta :: "u64 \<Rightarrow> int \<Rightarrow> nat \<Rightarrow> int \<Rightarrow> VotingMeta list \<Rightarrow> go_error + VotingMeta list" where
  "insertVotingMeta epochNumber votedToken delegateCount totalWeighted t =
     wrap ''failed to update voting meta table'' (insert_unique vm_EpochNumber
       [\<lparr>vm_EpochNumber = epochNumber, vm_VotedToken = votedToken, vm_DelegateCount = delegateCount,
         vm_TotalWeighted = totalWeighted\<rparr>] t)"

text \<open>\<open>ord\<close> is the order in which the sums are visited.\<close>

definition updateAggregateStaking ::
  "libs \<Rightarrow> VoteWeightCalConsts \<Rightarrow> ((vote_key \<times> int) list \<Rightarrow> (vote_key \<times> int) list) \<Rightarrow> VoteBucket list \<Rightarrow>
   CandidateV2 list \<Rightarrow> u64 \<Rightarrow> ProbationCandidateList option \<Rightarrow> 'h votings_db \<Rightarrow> go_error + 'h votings_db"
where
  "updateAggregateStaking l voteCfg ord votes delegates epochNumber probationList db =
     andThen (wrap ''owner address to name map error'' (ownerAddressToNameMap delegates)) (\<lambda>nameMap.
     let (intensityRate, probationMap) = stakingProbationListToMap delegates (convertProbationListToLocal probationList) in
     andThen (foldE (count_bucket l voteCfg nameMap (selfStakeIndexMap delegates)) votes ([], 0)) (\<lambda>(weighted_sums, totalVoted).
     andThen (foldE (staking_aggregate_row l nameMap intensityRate probationMap epochNumber) (ord weighted_sums) (aggregate_voting db)) (\<lambda>t.
     andThen (mapE (\<lambda>cand. toBigInt ''total weighted votes convert error'' (cand_TotalWeightedVotes cand)) delegates) (\<lambda>weighted.
     andThen (insertVotingMeta epochNumber totalVoted (length delegates) (sum_list weighted) (voting_meta db)) (\<lambda>m.
     Inr (db\<lparr>aggregate_voting := t, voting_meta := m\<rparr>))))))"

record 'h staking_operators =
  stakingBucketTableOperator :: "(VoteBucket list, 'h) operator"
  stakingCandidateTableOperator :: "(CandidateV2 list, 'h) operator"

definition put_table :: "('a, 'h) operator \<Rightarrow> u64 \<Rightarrow> 'a \<Rightarrow> 'h votings_db \<Rightarrow> go_error + 'h votings_db" where
  "put_table oper height records db =
     andThen (op_Put oper height records (election_tables db)) (\<lambda>h. Inr (db\<lparr>election_tables := h\<rparr>))"

definition processStaking ::
  "EpochCtx \<Rightarrow> VoteWeightCalConsts \<Rightarrow> RewardPortionCfg \<Rightarrow> 'h staking_operators \<Rightarrow>
   ((vote_key \<times> int) list \<Rightarrow> (vote_key \<times> int) list) \<Rightarrow> IndexCtx \<Rightarrow> VotingResult list \<Rightarrow>
   u64 \<Rightarrow> u64 \<Rightarrow> u64 \<Rightarrow> ProbationCandidateList option \<Rightarrow> 'h votings_db \<Rightarrow> go_error + 'h votings_db"
where
  "processStaking epochCtx voteCfg portionCfg opers ord ictx committed epochStartHeight prevEpochHeight epochNumber
     probationList db =
     andThen (wrap ''failed to get buckets count'' (returned (GetAllStakingBuckets ictx prevEpochHeight))) (\<lambda>voteBucketList.
     andThen (wrap ''failed to get buckets count'' (returned (GetAllStakingCandidates ictx prevEpochHeight))) (\<lambda>candidateList.
     andThen (put_table (stakingBucketTableOperator opers) epochStartHeight voteBucketList db) (\<lambda>db.
     andThen (put_table (stakingCandidateTableOperator opers) epochStartHeight candidateList db) (\<lambda>db.
     andThen (case probationList of
         None \<Rightarrow> Inr candidateList
       | Some pl \<Rightarrow> wrap ''failed to filter candidate with probation list''
           (filterStakingCandidates (Libs ictx) candidateList pl epochStartHeight)) (\<lambda>candidateList.
     andThen (updateStakingResult epochCtx portionCfg ictx committed candidateList epochNumber epochStartHeight db) (\<lambda>db.
     updateAggregateStaking (Libs ictx) voteCfg ord voteBucketList candidateList epochNumber probationList db))))))"

subsection \<open>The votes for a delegate\<close>

record VotingInfo =
  vi_EpochNumber :: u64
  vi_VoterAddress :: string
  vi_IsNative :: bool
  vi_Votes :: string
  vi_WeightedVotes :: string
  vi_RemainingDuration :: int
  vi_StartTime :: int
  vi_Decay :: bool

text \<open>The address of the first candidate with the name, the empty one without.\<close>

fun candidate_address :: "string \<Rightarrow> CandidateV2 list \<Rightarrow> go_error + string" where
  "candidate_address delegateName [] = Inr []"
| "candidate_address delegateName (cand # cands) =
     andThen (wrap ''error when encode delegate name'' (EncodeDelegateName (cand_Name cand))) (\<lambda>encodedName.
     if encodedName = delegateName then Inr (cand_OwnerAddress cand) else candidate_address delegateName cands)"

definition staking_vote_info ::
  "libs \<Rightarrow> VoteWeightCalConsts \<Rightarrow> int \<Rightarrow> u64 list \<Rightarrow> f64 \<Rightarrow> (string \<times> u64) list \<Rightarrow> u64 \<Rightarrow> VoteBucket \<Rightarrow> go_error + VotingInfo"
where
  "staking_vote_info l voteCfg now selfStakeIndex intensityRate probationMap epochNum vote =
     andThen (wrap ''calculate vote weight error'' (CalculateVoteWeight l voteCfg vote (vb_Index vote \<in> set selfStakeIndex))) (\<lambda>weightedVotes.
     let weightedVotes =
       (if vb_CandidateAddress vote \<in> keys probationMap then bigFloat_scale weightedVotes intensityRate else weightedVotes) in
     andThen (wrap ''failed to convert IoTeX address to ETH address'' (lib_IoAddrToEvmAddr l (vb_Owner vote))) (\<lambda>voteOwnerAddress.
     Inr \<lparr>vi_EpochNumber = epochNum, vi_VoterAddress = hex_EncodeToString voteOwnerAddress, vi_IsNative = True,
          vi_Votes = vb_StakedAmount vote, vi_WeightedVotes = big_String weightedVotes,
          vi_RemainingDuration = CalcRemainingTime now vote, vi_StartTime = vb_StakeStartTime vote,
          vi_Decay = (\<not> vb_AutoStake vote)\<rparr>))"

text \<open>
  A height the operators have no records for gives an empty list. Durations and start times are
  numbers here; the code formats them.
\<close>

definition getStakingBucketInfoByEpoch ::
  "libs \<Rightarrow> VoteWeightCalConsts \<Rightarrow> 'h staking_operators \<Rightarrow> int \<Rightarrow> u64 \<Rightarrow> u64 \<Rightarrow> string \<Rightarrow> 'h votings_db \<Rightarrow>
   go_error + VotingInfo list"
where
  "getStakingBucketInfoByEpoch l voteCfg opers now height epochNum delegateName db =
     (case op_Get (stakingBucketTableOperator opers) height (election_tables db) of
        Inl e \<Rightarrow> if cause e = db_ErrNotExist then Inr [] else wrap ''failed to get staking buckets'' (Inl e)
      | Inr bucketList \<Rightarrow>
          (case op_Get (stakingCandidateTableOperator opers) height (election_tables db) of
             Inl e \<Rightarrow> if cause e = db_ErrNotExist then Inr [] else wrap ''failed to get staking candidates'' (Inl e)
           | Inr candidateList \<Rightarrow>
               andThen (candidate_address delegateName candidateList) (\<lambda>candidateAddress.
               let (intensityRate, probationMap) =
                 stakingProbationListToMap candidateList (getProbationList epochNum (probation_list db)) in
               mapE (staking_vote_info l voteCfg now (selfStakeIndexMap candidateList) intensityRate probationMap epochNum)
                 (filter (\<lambda>vote. \<not> vb_StakeStartTime vote < vb_UnstakeStartTime vote \<and> vb_CandidateAddress vote = candidateAddress)
                   bucketList))))"

end
