(* ===== verification/Staking_Laws.thy ===== *)
theory Staking_Laws imports Staking begin

text \<open>What the staking votes promise: the lemmas and properties of the theory \<open>Staking\<close>.\<close>

subsection \<open>The weight of a vote\<close>

text \<open>The division of whole seconds by the seconds of a day, rounded up, is exact in \<open>float64\<close>.\<close>

lemma f64_of_int_exact: "0 \<le> k \<Longrightarrow> k < 2 ^ 53 \<Longrightarrow> f64_of_int k = of_int k"
  by (simp add: f64_of_int_def round_prec_of_int)

lemma days_bounds:
  fixes k d :: int
  assumes "d = (k + 86399) div 86400"
  shows "(of_int d :: rat) - 1 + 1 / 86400 \<le> of_int k / 86400" "(of_int k :: rat) / 86400 \<le> of_int d"
proof -
  have "0 \<le> (k + 86399) mod 86400" "(k + 86399) mod 86400 < 86400" by simp_all
  then have "86400 * d + 1 \<le> k + 86400" "k \<le> 86400 * d"
    using div_mult_mod_eq[of "k + 86399" 86400] unfolding assms by linarith+
  then have "(of_int (86400 * d + 1) :: rat) \<le> of_int (k + 86400)" "(of_int k :: rat) \<le> of_int (86400 * d)"
    by (simp_all only: of_int_le_iff)
  then show "(of_int d :: rat) - 1 + 1 / 86400 \<le> of_int k / 86400" "(of_int k :: rat) / 86400 \<le> of_int d"
    by simp_all
qed

lemma days_exact:
  assumes "0 \<le> k" "k < 2 ^ 32"
  shows "\<lceil>f64_div (f64_of_int k) 86400\<rceil> = (k + 86399) div 86400"
proof -
  define d where "d = (k + 86399) div 86400"
  define q :: rat where "q = of_int k / 86400"
  note dq = days_bounds[OF d_def, folded q_def]
  have div: "f64_div (f64_of_int k) 86400 = round_prec 53 q"
    using assms by (simp add: f64_of_int_exact f64_div_def q_def)
  show ?thesis
  proof (cases "k = 0")
    case False
    with assms have q: "0 < q" "q < 49711" by (simp_all add: q_def field_simps)
    have "d < 2 ^ 53" using assms unfolding d_def by simp
    then have up: "round_prec 53 q \<le> of_int d" by (rule round_prec_le_int[OF q(1) dq(2)])
    have "\<bar>round_prec 53 q - q\<bar> \<le> q * 2 powi (- 53)" using round_prec_error[OF q(1), of 53] by simp
    also have "\<dots> \<le> 49711 * 2 powi (- 53)" using q(2) by (intro mult_right_mono) simp_all
    also have "\<dots> < (1 / 86400 :: rat)" by (simp add: power_int_minus)
    finally have "of_int d - 1 < round_prec 53 q" using dq(1) by linarith
    then show ?thesis unfolding div d_def[symmetric] using up by (intro ceiling_unique) simp_all
  qed (simp add: f64_of_int_def f64_div_def round_prec_def)
qed

definition day_weight :: "libs \<Rightarrow> VoteWeightCalConsts \<Rightarrow> bool \<Rightarrow> int \<Rightarrow> f64" where
  "day_weight l cfg autoStake days =
     (if days = 0 then 1
      else f64_add 1 (f64_div (f64_div
        (lib_Log l (f64_mul (of_int days) (f64_add 1 (if autoStake then AutoStake cfg else 0))))
        (lib_Log l (DurationLg cfg))) 100))"

lemma vote_weight_general:
  fixes v :: VoteBucket and l :: libs and cfg :: VoteWeightCalConsts
  defines "k \<equiv> uint (vb_StakedDuration v) * 86400 mod 2 ^ 32"
  defines "w \<equiv> day_weight l cfg (vb_AutoStake v) ((k + 86399) div 86400)"
  shows "CalculateVoteWeight l cfg v selfStake =
    map_sum (\<lambda>e. e) (\<lambda>amount. bigFloat_scale amount
      (if selfStake \<and> vb_AutoStake v \<and> 91 \<le> vb_StakedDuration v then f64_mul w (SelfStake cfg) else w))
      (toBigInt ''failed to convert string to big int'' (vb_StakedAmount v))"
proof -
  have k: "0 \<le> k" "k < 2 ^ 32" unfolding k_def by simp_all
  have u: "uint (vb_StakedDuration v * 86400) = k" by (simp add: k_def uint_word_ariths)
  have f: "f64_of_int k = of_int k" using k by (simp add: f64_of_int_exact)
  have "0 < k \<longleftrightarrow> (k + 86399) div 86400 \<noteq> 0"
  proof (cases "k = 0")
    case False
    with k(1) have "0 < (k + 86399) div 86400" by (simp add: pos_imp_zdiv_pos_iff)
    with False k(1) show ?thesis by simp
  qed simp
  then have weight: "(if 0 < f64_of_int k then f64_add 1 (f64_div (f64_div (lib_Log l (f64_mul (of_int \<lceil>f64_div (f64_of_int k) 86400\<rceil>)
        (f64_add 1 (if vb_AutoStake v then AutoStake cfg else 0)))) (lib_Log l (DurationLg cfg))) 100) else 1) = w"
    unfolding w_def day_weight_def f days_exact[OF k, unfolded f] by simp
  then show ?thesis unfolding CalculateVoteWeight_def u Let_def weight
    by (cases "toBigInt ''failed to convert string to big int'' (vb_StakedAmount v)") simp_all
qed

text \<open>C29: A staked amount weighs by the whole days of its duration: up to 49710 days the seconds fit
  into \<open>uint32\<close>, dividing them and rounding up gives the days back exactly, and the weight is
  \<open>1 + log(days * (1 + m)) / log(DurationLg) / 100\<close> (1 for no days), times the self-stake bonus for
  an auto-staked self-stake of at least 91 days.\<close>

theorem vote_weight_days:
  assumes "big_SetString 10 (vb_StakedAmount v) = Some amount" "vb_StakedDuration v \<le> 49710"
  shows "CalculateVoteWeight l cfg v selfStake = Inr (bigFloat_scale amount
    (let w = day_weight l cfg (vb_AutoStake v) (uint (vb_StakedDuration v)) in
     if selfStake \<and> vb_AutoStake v \<and> 91 \<le> vb_StakedDuration v then f64_mul w (SelfStake cfg) else w))"
proof -
  define d where "d = uint (vb_StakedDuration v)"
  have "d \<le> 49710" "0 \<le> d" using assms(2) by (simp_all add: d_def word_le_def)
  then have "(d * 86400 mod 2 ^ 32 + 86399) div 86400 = d" by simp
  then show ?thesis
    unfolding vote_weight_general d_def[symmetric] using assms(1) by (simp add: toBigInt_def Let_def)
qed

definition week_bucket :: "u32 \<Rightarrow> VoteBucket" where
  "week_bucket days =
     \<lparr>vb_Index = 1, vb_CandidateAddress = ''io1c'', vb_StakedAmount = ''100'', vb_StakedDuration = days,
      vb_CreateTime = 5, vb_StakeStartTime = 5, vb_UnstakeStartTime = 0, vb_AutoStake = True, vb_Owner = ''io1v''\<rparr>"

definition vote_cfg :: VoteWeightCalConsts where
  "vote_cfg = \<lparr>DurationLg = 2, AutoStake = 1, SelfStake = 2\<rparr>"

text \<open>A logarithm of whole powers of two.\<close>

definition log_libs :: libs where
  "log_libs = (Libs offline_ctx)\<lparr>lib_Log := \<lambda>x. of_int (rat_ilog2 x),
     lib_IoAddrToEvmAddr := \<lambda>a. if a = ''io1c'' then Inr [CHR ''c''] else if a = ''io1v'' then Inr [CHR ''v''] else offline\<rparr>"

lemma vote_weight_days_witness:
  "CalculateVoteWeight log_libs vote_cfg (week_bucket 128) True = Inr (bigFloat_scale 100
    (f64_mul (day_weight log_libs vote_cfg True 128) 2))"
  using vote_weight_days[of "week_bucket 128" 100 log_libs vote_cfg True]
  by (simp add: week_bucket_def vote_cfg_def big_SetString_def parse_nat_def digit_val_def Let_def del: One_nat_def)


subsection \<open>Probation\<close>

definition votes_of :: "CandidateV2 \<Rightarrow> int" where
  "votes_of c = (case big_SetString 10 (cand_TotalWeightedVotes c) of None \<Rightarrow> 0 | Some n \<Rightarrow> n)"

definition probated :: "ProbationCandidateList \<Rightarrow> CandidateV2 \<Rightarrow> CandidateV2" where
  "probated pl c =
     (if cand_OperatorAddress c \<in> keys (pl_ProbationList pl)
      then c\<lparr>cand_TotalWeightedVotes := big_String (bigFloat_scale (votes_of c) (intensity32 (pl_IntensityRate pl)))\<rparr>
      else c)"

lemma probated_operator [simp]: "cand_OperatorAddress (probated pl c) = cand_OperatorAddress c"
  by (simp add: probated_def)

lemma percent_bounds:
  assumes "0 \<le> n" "n \<le> 100"
  shows "0 \<le> f64_div (f64_of_int n) 100" "f64_div (f64_of_int n) 100 \<le> 1"
proof -
  have f: "f64_div (f64_of_int n) 100 = round_prec 53 (of_int n / 100)"
    using assms by (simp add: f64_div_def f64_of_int_exact)
  show "0 \<le> f64_div (f64_of_int n) 100" unfolding f by (rule round_prec_nonneg) (use assms in simp)
  show "f64_div (f64_of_int n) 100 \<le> 1"
  proof (cases "n = 0")
    case False
    with assms have "0 < (of_int n / 100 :: rat)" "of_int n / 100 \<le> (of_int 1 :: rat)" by simp_all
    then have "round_prec 53 (of_int n / 100) \<le> (of_int 1 :: rat)" by (rule round_prec_le_int) simp
    then show ?thesis by (simp add: f)
  qed (simp add: f64_of_int_def f64_div_def round_prec_def)
qed

lemma intensity32_bounds:
  assumes "rate \<le> 100"
  shows "0 \<le> intensity32 rate" "intensity32 rate \<le> 1"
proof -
  have "uint (100 - rate) = 100 - uint rate" using assms by (simp add: uint_minus_simple_alt word_le_def)
  moreover have "0 \<le> uint rate" "0 \<le> uint (100 - rate)" by (rule unsigned_greater_eq)+
  ultimately have "0 \<le> uint (100 - rate)" "uint (100 - rate) \<le> 100" by linarith+
  from percent_bounds[OF this] show "0 \<le> intensity32 rate" "intensity32 rate \<le> 1"
    by (simp_all only: intensity32_def)
qed

lemma probated_votes:
  assumes "pl_IntensityRate pl \<le> 100" "0 \<le> votes_of c"
  shows "0 \<le> votes_of (probated pl c)" "votes_of (probated pl c) \<le> votes_of c"
  using bigFloat_scale_bounds[OF assms(2) intensity32_bounds[OF assms(1)]] assms(2)
  by (simp_all add: probated_def votes_of_def big_SetString_String)

lemma filter_candidate_eq_Inr:
  "filter_candidate pl c (m, vp) = Inr s \<Longrightarrow>
   s = (AList.update (cand_OperatorAddress c) (probated pl c) m,
        AList.update (cand_OperatorAddress c) (votes_of (probated pl c)) vp)"
  by (auto simp: filter_candidate_def andThen_eq_Inr probated_def votes_of_def toBigInt_def big_SetString_String
      Let_def split: option.splits if_splits)

lemma update_fst: "map fst (AList.update k v m) = (if k \<in> keys m then map fst m else map fst m @ [k])"
  by (induction m) auto

lemma update_fresh: "k \<notin> keys m \<Longrightarrow> AList.update k v m = m @ [(k, v)]"
  by (induction m) auto

lemma in_update: "p \<in> set (AList.update k v m) \<Longrightarrow> p = (k, v) \<or> p \<in> set m"
  by (induction m) (auto split: if_splits)

lemma foldE_eq_fold:
  assumes "\<And>x s t. f x s = Inr t \<Longrightarrow> t = g x s" "foldE f xs s = Inr t"
  shows "t = fold g xs s"
  using assms(2) by (induction xs arbitrary: s) (auto simp: andThen_eq_Inr dest: assms(1))

text \<open>
  Both probation filters, the one here and the one of the election candidates, collect the candidates
  by operator and look up the names the sort returns. The contract: a filtered candidate keeps its
  operator.
\<close>

locale probation_filter =
  fixes oper :: "'c \<Rightarrow> string" and prob :: "ProbationCandidateList \<Rightarrow> 'c \<Rightarrow> 'c" and score :: "'c \<Rightarrow> int"
  assumes prob_oper: "oper (prob pl c) = oper c"
begin

definition collect :: "ProbationCandidateList \<Rightarrow> 'c \<Rightarrow> (string \<times> 'c) list \<times> (string \<times> int) list \<Rightarrow> (string \<times> 'c) list \<times> (string \<times> int) list" where
  "collect pl c = (\<lambda>(m, vp). (AList.update (oper c) (prob pl c) m, AList.update (oper c) (score (prob pl c)) vp))"

lemma collect_apply: "collect pl c (m, vp) = (AList.update (oper c) (prob pl c) m, AList.update (oper c) (score (prob pl c)) vp)"
  by (simp add: collect_def)

text \<open>Both maps have the operators as their keys, and each entry holds a candidate with its operator.\<close>

lemma collect_fold:
  assumes "fold (collect pl) cands (m, vp) = (m', vp')"
    and "map fst vp = map fst m" "distinct_keys m" "\<forall>(k, c) \<in> set m. oper c = k"
  shows "map fst vp' = map fst m' \<and> distinct_keys m' \<and> (\<forall>(k, c) \<in> set m'. oper c = k) \<and>
    keys m' = keys m \<union> oper ` set cands"
  using assms
proof (induction cands arbitrary: m vp)
  case (Cons c cs)
  let ?m = "AList.update (oper c) (prob pl c) m"
  let ?vp = "AList.update (oper c) (score (prob pl c)) vp"
  have more: "fold (collect pl) cs (?m, ?vp) = (m', vp')" using Cons.prems(1) by (simp add: collect_apply)
  have ks: "keys vp = keys m" using Cons.prems(2) by (metis set_map)
  have "map fst ?vp = map fst ?m" using Cons.prems(2) ks by (simp add: update_fst)
  moreover have "distinct_keys ?m" using Cons.prems(3) by (simp add: distinct_update)
  moreover have "\<forall>(k, c) \<in> set ?m. oper c = k"
    using Cons.prems(4) in_update prob_oper by fastforce
  ultimately show ?case using Cons.IH[OF more] by auto
qed simp

lemma collect_fresh:
  assumes "fold (collect pl) cands (m, vp) = (m', vp')"
    and "distinct (map oper cands)" "oper ` set cands \<inter> keys m = {}"
  shows "m' = m @ map (\<lambda>c. (oper c, prob pl c)) cands"
  using assms
proof (induction cands arbitrary: m vp)
  case (Cons c cs)
  have fresh: "oper c \<notin> keys m" using Cons.prems(3) by simp
  obtain vp1 where more: "fold (collect pl) cs (m @ [(oper c, prob pl c)], vp1) = (m', vp')"
    using Cons.prems(1) update_fresh[OF fresh] by (simp add: collect_apply)
  show ?case using Cons.IH[OF more] Cons.prems(2,3) by auto
qed simp

lemma lookups:
  assumes "mapE (lookup_candidate m) names = Inr out" "mset names = mset (map fst m)" "distinct_keys m"
  shows "mset out = mset (map snd m)"
proof -
  have "out = map (\<lambda>n. the (map_of m n)) names"
    using assms(1) by (induction names arbitrary: out) (auto simp: andThen_eq_Inr lookup_candidate_def split: option.splits)
  then have "mset out = image_mset (\<lambda>n. the (map_of m n)) (mset (map fst m))" using assms(2) by simp
  also have "\<dots> = mset (map snd m)"
    using assms(3) by (simp add: multiset.map_comp) (rule image_mset_cong, auto)
  finally show ?thesis .
qed

text \<open>The result of a filter whose sort returns every key once.\<close>

lemma filtered:
  assumes "mapE (lookup_candidate (fst (fold (collect pl) cands ([], [])))) (names_of (snd (fold (collect pl) cands ([], [])))) = Inr out"
    and sort: "\<And>m. mset (names_of m) = mset (map fst m)"
  shows "mset (map oper out) = mset_set (oper ` set cands)"
    and "distinct (map oper cands) \<Longrightarrow> mset out = image_mset (prob pl) (mset cands)"
proof -
  obtain m vp where fold: "fold (collect pl) cands ([], []) = (m, vp)" by fastforce
  note facts = collect_fold[OF fold, simplified]
  have look: "mapE (lookup_candidate m) (names_of vp) = Inr out" using assms(1) by (simp add: fold)
  from facts have "map fst vp = map fst m" "distinct_keys m" by simp_all
  then have "mset (names_of vp) = mset (map fst m)" "distinct_keys m" unfolding sort by (simp_all only:)
  note out = lookups[OF look this]
  from arg_cong[OF out, of "image_mset oper"] have "mset (map oper out) = mset (map (\<lambda>p. oper (snd p)) m)"
    by (simp add: multiset.map_comp comp_def)
  also have "map (\<lambda>p. oper (snd p)) m = map fst m" using facts by auto
  also have "mset (map fst m) = mset_set (keys m)" using facts by (metis mset_set_set set_map)
  finally show "mset (map oper out) = mset_set (oper ` set cands)" using facts by simp
  assume "distinct (map oper cands)"
  with collect_fresh[OF fold] have "m = map (\<lambda>c. (oper c, prob pl c)) cands" by simp
  with out show "mset out = image_mset (prob pl) (mset cands)" by (simp add: multiset.map_comp comp_def)
qed

end

interpretation staking_filter: probation_filter cand_OperatorAddress probated votes_of
  by unfold_locales (rule probated_operator)

lemma filterStakingCandidates_fold:
  assumes "filterStakingCandidates l candidates pl epochStartHeight = Inr out"
  shows "mapE (lookup_candidate (fst (fold (staking_filter.collect pl) candidates ([], []))))
    (lib_Sort l (snd (fold (staking_filter.collect pl) candidates ([], []))) epochStartHeight) = Inr out"
proof -
  obtain s where fold: "foldE (filter_candidate pl) candidates ([], []) = Inr s"
    and look: "mapE (lookup_candidate (fst s)) (lib_Sort l (snd s) epochStartHeight) = Inr out"
    using assms by (auto simp: filterStakingCandidates_def andThen_eq_Inr)
  have "t = staking_filter.collect pl c s" if "filter_candidate pl c s = Inr t" for c s t
    using that by (cases s) (simp add: staking_filter.collect_apply filter_candidate_eq_Inr)
  from foldE_eq_fold[OF this fold] look show ?thesis by simp
qed


definition half_pl :: ProbationCandidateList where
  "half_pl = \<lparr>pl_IntensityRate = 50, pl_ProbationList = [(''io1b'', 1)]\<rparr>"

definition voted :: "string \<Rightarrow> string \<Rightarrow> string \<Rightarrow> CandidateV2" where
  "voted owner operator votes =
     \<lparr>cand_OwnerAddress = owner, cand_OperatorAddress = operator, cand_RewardAddress = owner, cand_Name = ''bp'',
      cand_TotalWeightedVotes = votes, cand_SelfStakeBucketIdx = 7, cand_SelfStakingTokens = ''10''\<rparr>"

lemma voted_text: "big_SetString 10 ''100'' = Some 100" "big_SetString 10 ''200'' = Some 200"
  by code_simp+


text \<open>The filter keys the candidates by their operator address: it returns each operator exactly once,
  so that of candidates sharing one all but the last disappear from the epoch.\<close>

theorem one_candidate_per_operator:
  assumes "filterStakingCandidates l candidates pl epochStartHeight = Inr out"
    and "\<And>m h. mset (lib_Sort l m h) = mset (map fst m)"
  shows "mset (map cand_OperatorAddress out) = mset_set (cand_OperatorAddress ` set candidates)"
  by (rule staking_filter.filtered(1)[OF filterStakingCandidates_fold[OF assms(1)] assms(2)])

lemma one_candidate_per_operator_witness:
  "mset (map cand_OperatorAddress [voted ''io1d'' ''io1a'' ''200''])
   = mset_set (cand_OperatorAddress ` set [voted ''io1c'' ''io1a'' ''100'', voted ''io1d'' ''io1a'' ''200''])"
proof -
  have "filterStakingCandidates (Libs offline_ctx) [voted ''io1c'' ''io1a'' ''100'', voted ''io1d'' ''io1a'' ''200''] half_pl 1
      = Inr [voted ''io1d'' ''io1a'' ''200'']"
    by code_simp
  then show ?thesis by (rule one_candidate_per_operator) (simp add: offline_ctx_def)
qed

subsection \<open>Aggregated votes\<close>

text \<open>
  The buckets that count, the weight and the amount of one, and the row of a sum. Where the code
  returns no error these are its values.
\<close>

definition counted :: "(string \<times> string) list \<Rightarrow> VoteBucket list \<Rightarrow> VoteBucket list" where
  "counted nameMap votes = filter (\<lambda>v. vb_CandidateAddress v \<in> keys nameMap) votes"

definition bucket_weight :: "libs \<Rightarrow> VoteWeightCalConsts \<Rightarrow> CandidateV2 list \<Rightarrow> VoteBucket \<Rightarrow> int" where
  "bucket_weight l voteCfg delegates v =
     (case CalculateVoteWeight l voteCfg v (vb_Index v \<in> set (selfStakeIndexMap delegates)) of Inl _ \<Rightarrow> 0 | Inr w \<Rightarrow> w)"

definition bucket_amount :: "VoteBucket \<Rightarrow> int" where
  "bucket_amount v = (case big_SetString 10 (vb_StakedAmount v) of None \<Rightarrow> 0 | Some n \<Rightarrow> n)"

definition vote_key_of :: "VoteBucket \<Rightarrow> vote_key" where
  "vote_key_of v = (vb_CandidateAddress v, vb_Owner v)"

definition aggregate_row ::
  "libs \<Rightarrow> (string \<times> string) list \<Rightarrow> f64 \<Rightarrow> (string \<times> u64) list \<Rightarrow> u64 \<Rightarrow> vote_key \<times> int \<Rightarrow> AggregateVoting"
where
  "aggregate_row l nameMap intensityRate probationMap epochNumber = (\<lambda>((candidate, voter), val).
     \<lparr>av_EpochNumber = epochNumber, av_CandidateName = get_or [] nameMap candidate,
      av_VoterAddress = hex_EncodeToString (case lib_IoAddrToEvmAddr l voter of Inl _ \<Rightarrow> [] | Inr a \<Rightarrow> a),
      av_NativeFlag = True,
      av_AggregateVotes = (if candidate \<in> keys probationMap then bigFloat_scale val intensityRate else val)\<rparr>)"

lemma count_buckets:
  assumes "foldE (count_bucket l voteCfg nameMap (selfStakeIndexMap delegates)) votes (m, n) = Inr (m', n')"
  shows "m' = fold (\<lambda>v m. AList.map_default (vote_key_of v) (bucket_weight l voteCfg delegates v)
      (\<lambda>x. x + bucket_weight l voteCfg delegates v) m) (counted nameMap votes) m"
    and "n' = n + sum_list (map bucket_amount (counted nameMap votes))"
proof -
  let ?add = "\<lambda>v. AList.map_default (vote_key_of v) (bucket_weight l voteCfg delegates v)
    (\<lambda>x. x + bucket_weight l voteCfg delegates v)"
  let ?step = "\<lambda>v (m, n). if vb_CandidateAddress v \<in> keys nameMap then (?add v m, n + bucket_amount v) else (m, n)"
  have "count_bucket l voteCfg nameMap (selfStakeIndexMap delegates) v s = Inr t \<Longrightarrow> t = ?step v s" for v s t
    by (cases s) (auto simp: count_bucket_def andThen_eq_Inr bucket_weight_def bucket_amount_def vote_key_of_def
      toBigInt_def split: if_splits option.splits)
  then have "(m', n') = fold ?step votes (m, n)" by (rule foldE_eq_fold[OF _ assms])
  moreover have "fold ?step votes (m, n)
      = (fold ?add (counted nameMap votes) m, n + sum_list (map bucket_amount (counted nameMap votes)))"
    by (induction votes arbitrary: m n) (simp_all add: counted_def)
  ultimately show "m' = fold ?add (counted nameMap votes) m"
    and "n' = n + sum_list (map bucket_amount (counted nameMap votes))" by simp_all
qed

lemma aggregate_rows:
  assumes "foldE (staking_aggregate_row l nameMap rate pm e) xs t = Inr t'"
  shows "t' = insert_ignore av_key (map (aggregate_row l nameMap rate pm e) xs) t"
    and "\<forall>((c, v), x) \<in> set xs. c \<in> keys nameMap \<and> (\<exists>a. lib_IoAddrToEvmAddr l v = Inr a)"
proof -
  let ?ok = "\<lambda>((c, v), x). c \<in> keys nameMap \<and> (\<exists>a. lib_IoAddrToEvmAddr l v = Inr a)"
  have step: "t' = insert_ignore av_key [aggregate_row l nameMap rate pm e p] t \<and> ?ok p"
    if row: "staking_aggregate_row l nameMap rate pm e p t = Inr t'" for p t t'
  proof -
    obtain c v x where p: "p = ((c, v), x)" by (metis prod.exhaust)
    obtain name a where found: "map_of nameMap c = Some name" "lib_IoAddrToEvmAddr l v = Inr a"
      "t' = insert_ignore av_key
        [\<lparr>av_EpochNumber = e, av_CandidateName = name, av_VoterAddress = hex_EncodeToString a, av_NativeFlag = True,
          av_AggregateVotes = (if c \<in> keys pm then bigFloat_scale x rate else x)\<rparr>] t"
      using row unfolding p staking_aggregate_row_def Let_def prod.case
      by (auto simp: andThen_eq_Inr simp del: insert_ignore.simps split: option.splits)
    have "c \<in> keys nameMap" using map_of_SomeD[OF found(1)] by (metis fst_conv image_eqI)
    with found show ?thesis by (simp add: p aggregate_row_def get_or_def)
  qed
  have "t' = insert_ignore av_key (map (aggregate_row l nameMap rate pm e) xs) t \<and> (\<forall>p \<in> set xs. ?ok p)"
    using assms
  proof (induction xs arbitrary: t)
    case (Cons p xs)
    then obtain u where u: "staking_aggregate_row l nameMap rate pm e p t = Inr u"
      "foldE (staking_aggregate_row l nameMap rate pm e) xs u = Inr t'" by (auto simp: andThen_eq_Inr)
    from step[OF u(1)] Cons.IH[OF u(2)] show ?case by simp
  qed simp
  then show "t' = insert_ignore av_key (map (aggregate_row l nameMap rate pm e) xs) t" "\<forall>p \<in> set xs. ?ok p"
    by blast+
qed

lemma aggregate_parts:
  assumes "updateAggregateStaking l voteCfg ord votes delegates e pl db = Inr db'"
  obtains nameMap rate pm where "ownerAddressToNameMap delegates = Inr nameMap"
    and "stakingProbationListToMap delegates (convertProbationListToLocal pl) = (rate, pm)"
    and "foldE (staking_aggregate_row l nameMap rate pm e)
      (ord (group_sum vote_key_of (bucket_weight l voteCfg delegates) (counted nameMap votes))) (aggregate_voting db)
      = Inr (aggregate_voting db')"
    and "voting_meta db' = voting_meta db @
      [\<lparr>vm_EpochNumber = e, vm_VotedToken = sum_list (map bucket_amount (counted nameMap votes)),
        vm_DelegateCount = length delegates, vm_TotalWeighted = sum_list (map votes_of delegates)\<rparr>]"
    and "e \<notin> vm_EpochNumber ` set (voting_meta db)"
proof -
  obtain rate pm where pm: "stakingProbationListToMap delegates (convertProbationListToLocal pl) = (rate, pm)"
    by (cases "stakingProbationListToMap delegates (convertProbationListToLocal pl)")
  obtain nameMap m n t weighted m' where parts: "ownerAddressToNameMap delegates = Inr nameMap"
    "foldE (count_bucket l voteCfg nameMap (selfStakeIndexMap delegates)) votes ([], 0) = Inr (m, n)"
    "foldE (staking_aggregate_row l nameMap rate pm e) (ord m) (aggregate_voting db) = Inr t"
    "mapE (\<lambda>cand. toBigInt ''total weighted votes convert error'' (cand_TotalWeightedVotes cand)) delegates = Inr weighted"
    "insertVotingMeta e n (length delegates) (sum_list weighted) (voting_meta db) = Inr m'"
    "db' = db\<lparr>aggregate_voting := t, voting_meta := m'\<rparr>"
    using assms pm unfolding updateAggregateStaking_def by (auto simp: andThen_eq_Inr split: prod.splits)
  have m: "m = group_sum vote_key_of (bucket_weight l voteCfg delegates) (counted nameMap votes)"
    and n: "n = sum_list (map bucket_amount (counted nameMap votes))"
    using count_buckets[OF parts(2)] by (simp_all add: group_sum_def)
  have w: "weighted = map votes_of delegates"
  proof -
    have "y = votes_of x" if "toBigInt ''total weighted votes convert error'' (cand_TotalWeightedVotes x) = Inr y" for x y
      using that by (simp add: votes_of_def toBigInt_def split: option.splits)
    from mapE_map_fst[OF parts(4), of "\<lambda>x. x" votes_of, OF this] show ?thesis by simp
  qed
  show thesis
    by (rule that[OF parts(1) pm]) (use parts m n w in \<open>auto simp: insertVotingMeta_def insert_unique_eq_Inr simp del: insert_unique.simps\<close>)
qed

text \<open>The voting meta row of an epoch totals what the tables of that epoch hold: the staked amounts of
  the buckets whose candidate is a delegate, the number of delegates, and the votes of the delegates
  after probation; a second run for the same epoch is refused.\<close>

theorem voting_meta_totals:
  assumes "updateAggregateStaking l voteCfg ord votes delegates e pl db = Inr db'"
    and "ownerAddressToNameMap delegates = Inr nameMap"
  shows "voting_meta db' = voting_meta db @
      [\<lparr>vm_EpochNumber = e, vm_VotedToken = sum_list (map bucket_amount (counted nameMap votes)),
        vm_DelegateCount = length delegates, vm_TotalWeighted = sum_list (map votes_of delegates)\<rparr>]
    \<and> e \<notin> vm_EpochNumber ` set (voting_meta db)"
  by (rule aggregate_parts[OF assms(1)]) (use assms(2) in simp)

text \<open>C16: After an epoch every voter of a delegate has a row with the sum of the weights of all of the
  voter's buckets for it, scaled once if the delegate is on probation, whatever the order in which
  the sums are visited, provided no two delegates share a name and no two voters an address.\<close>

theorem aggregate_staking_sums:
  assumes "updateAggregateStaking l voteCfg ord votes delegates e pl db = Inr db'" "range_order ord"
    and "ownerAddressToNameMap delegates = Inr nameMap" "inj_on (get_or [] nameMap) (keys nameMap)"
    and "\<And>v w a. lib_IoAddrToEvmAddr l v = Inr a \<Longrightarrow> lib_IoAddrToEvmAddr l w = Inr a \<Longrightarrow> v = w"
    and "e \<notin> av_EpochNumber ` set (aggregate_voting db)"
    and "stakingProbationListToMap delegates (convertProbationListToLocal pl) = (rate, probationMap)"
    and "b \<in> set votes" "vb_CandidateAddress b \<in> keys nameMap"
  shows "aggregate_row l nameMap rate probationMap e
      (vote_key_of b, sum_list (map (bucket_weight l voteCfg delegates)
         (filter (\<lambda>v. vote_key_of v = vote_key_of b) votes)))
    \<in> set (aggregate_voting db')"
proof -
  let ?sums = "group_sum vote_key_of (bucket_weight l voteCfg delegates) (counted nameMap votes)"
  have rows: "foldE (staking_aggregate_row l nameMap rate probationMap e) (ord ?sums) (aggregate_voting db)
      = Inr (aggregate_voting db')"
    by (rule aggregate_parts[OF assms(1)]) (use assms(3,7) in simp)
  note facts = aggregate_rows[OF rows]
  have "mset (ord ?sums) = mset ?sums" using assms(2) unfolding range_order_def by (rule spec)
  from mset_eq_setD[OF this] this have perm: "set (ord ?sums) = set ?sums" "mset (ord ?sums) = mset ?sums" .
  let ?row = "aggregate_row l nameMap rate probationMap e"
  have inj: "inj_on (\<lambda>p. av_key (?row p)) (set (ord ?sums))"
  proof (rule inj_onI)
    fix p q
    assume p: "p \<in> set (ord ?sums)" and q: "q \<in> set (ord ?sums)" and eq: "av_key (?row p) = av_key (?row q)"
    obtain c v x c' v' x' where pq: "p = ((c, v), x)" "q = ((c', v'), x')" by (metis prod.exhaust)
    have "c \<in> keys nameMap" "c' \<in> keys nameMap" using bspec[OF facts(2) p] bspec[OF facts(2) q] pq by auto
    moreover have "get_or [] nameMap c = get_or [] nameMap c'" using eq pq by (simp add: av_key_def aggregate_row_def)
    ultimately have "c = c'" using inj_onD[OF assms(4)] by blast
    have "v = v'"
    proof -
      obtain a a' where a: "lib_IoAddrToEvmAddr l v = Inr a" "lib_IoAddrToEvmAddr l v' = Inr a'"
        using bspec[OF facts(2) p] bspec[OF facts(2) q] pq by auto
      with eq pq have "a = a'" by (simp add: av_key_def aggregate_row_def)
      with a show ?thesis using assms(5)[of v a v'] by simp
    qed
    have inj: "inj_on fst (set ?sums)" using group_sum_distinct[of vote_key_of] by (simp add: distinct_map)
    have "fst p = fst q" using \<open>c = c'\<close> \<open>v = v'\<close> pq by simp
    then show "p = q" by (rule inj_onD[OF inj]) (use p q in \<open>simp_all only: perm(1)\<close>)
  qed
  have "distinct ?sums" using group_sum_distinct[of vote_key_of] by (metis distinct_map)
  then have "distinct (ord ?sums)" using perm(2) by (metis mset_eq_imp_distinct_iff)
  then have "distinct (map av_key (map ?row (ord ?sums)))" using inj by (simp add: distinct_map comp_def)
  moreover have "av_key ` set (map ?row (ord ?sums)) \<inter> av_key ` set (aggregate_voting db) = {}"
    using assms(6) by (force simp: av_key_def aggregate_row_def)
  ultimately have "aggregate_voting db' = aggregate_voting db @ map ?row (ord ?sums)"
    unfolding facts(1) by (rule insert_ignore_new)
  moreover have "filter (\<lambda>v. vote_key_of v = vote_key_of b) (counted nameMap votes) = filter (\<lambda>v. vote_key_of v = vote_key_of b) votes"
    unfolding counted_def filter_filter using assms(9) by (intro filter_cong refl) (metis vote_key_of_def prod.inject)
  moreover have "(vote_key_of b, sum_list (map (bucket_weight l voteCfg delegates)
      (filter (\<lambda>v. vote_key_of v = vote_key_of b) (counted nameMap votes)))) \<in> set ?sums"
    using assms(8,9) by (simp add: group_sum_mem counted_def)
  ultimately show ?thesis using perm(1) by simp
qed

text \<open>Two delegates, the second on probation at 100 percent; one voter with two buckets for it.\<close>

definition epoch_delegates :: "CandidateV2 list" where
  "epoch_delegates = [voted ''io1c'' ''io1a'' ''100'', (voted ''io1d'' ''io1b'' ''0'')\<lparr>cand_Name := ''bq''\<rparr>]"

definition zero_bucket :: "string \<Rightarrow> string \<Rightarrow> VoteBucket" where
  "zero_bucket candidate amount =
     \<lparr>vb_Index = 1, vb_CandidateAddress = candidate, vb_StakedAmount = amount, vb_StakedDuration = 0,
      vb_CreateTime = 5, vb_StakeStartTime = 5, vb_UnstakeStartTime = 0, vb_AutoStake = False, vb_Owner = ''io1v''\<rparr>"

definition epoch_votes :: "VoteBucket list" where
  "epoch_votes = [zero_bucket ''io1d'' ''100'', zero_bucket ''io1c'' ''200'', zero_bucket ''io1d'' ''200'', zero_bucket ''io1x'' ''100'']"

definition full_pl :: ProbationCandidateList where
  "full_pl = \<lparr>pl_IntensityRate = 100, pl_ProbationList = [(''io1b'', 1)]\<rparr>"

definition empty_votings :: "unit votings_db" where
  "empty_votings = \<lparr>election_tables = (), voting_result = [], aggregate_voting = [], voting_meta = [], probation_list = []\<rparr>"

definition epoch_names :: "(string \<times> string) list" where
  "epoch_names = (case ownerAddressToNameMap epoch_delegates of Inl _ \<Rightarrow> [] | Inr m \<Rightarrow> m)"

lemma epoch_names: "ownerAddressToNameMap epoch_delegates = Inr epoch_names"
  "map fst epoch_names = [''io1c'', ''io1d'']" "inj_on (get_or [] epoch_names) (keys epoch_names)"
  by code_simp+

lemma epoch_keys: "keys epoch_names = {''io1c'', ''io1d''}"
  using epoch_names(2) by (metis list.set_map list.simps(15) empty_set)

lemma zero_weight: "CalculateVoteWeight l cfg (zero_bucket c a) False
   = map_sum (\<lambda>e. e) (\<lambda>amount. bigFloat_scale amount 1) (toBigInt ''failed to convert string to big int'' a)"
  by (simp add: vote_weight_general zero_bucket_def day_weight_def)

lemma epoch_probation:
  "stakingProbationListToMap epoch_delegates (convertProbationListToLocal (Some full_pl)) = (0, [(''io1d'', 1)])"
  by (simp add: stakingProbationListToMap_def convertProbationListToLocal_def epoch_delegates_def full_pl_def voted_def
    intensity64_def f64_of_int_def f64_div_def round_prec_def)

definition staking_epoch :: "unit votings_db" where
  "staking_epoch = empty_votings
     \<lparr>aggregate_voting :=
        [\<lparr>av_EpochNumber = 5, av_CandidateName = get_or [] epoch_names ''io1c'', av_VoterAddress = ''76'', av_NativeFlag = True, av_AggregateVotes = 200\<rparr>,
         \<lparr>av_EpochNumber = 5, av_CandidateName = get_or [] epoch_names ''io1d'', av_VoterAddress = ''76'', av_NativeFlag = True, av_AggregateVotes = 0\<rparr>],
      voting_meta := [\<lparr>vm_EpochNumber = 5, vm_VotedToken = 500, vm_DelegateCount = 2, vm_TotalWeighted = 100\<rparr>]\<rparr>"

lemma staking_epoch:
  "updateAggregateStaking log_libs vote_cfg rev epoch_votes epoch_delegates 5 (Some full_pl) empty_votings = Inr staking_epoch"
proof -
  have found: "map_of epoch_names ''io1c'' = Some (get_or [] epoch_names ''io1c'')"
    "map_of epoch_names ''io1d'' = Some (get_or [] epoch_names ''io1d'')"
    by code_simp+
  have ne: "get_or [] epoch_names ''io1d'' \<noteq> get_or [] epoch_names ''io1c''" by code_simp
  have hex: "hex_EncodeToString ''v'' = ''76''" by code_simp
  have amounts: "big_SetString 10 ''100'' = Some 100" "big_SetString 10 ''200'' = Some 200" "big_SetString 10 ''0'' = Some 0"
    by code_simp+
  have count: "count_bucket log_libs vote_cfg epoch_names (selfStakeIndexMap epoch_delegates) (zero_bucket c a) (m, n)
      = (if c \<in> keys epoch_names then
           andThen (toBigInt ''failed to convert string to big int'' a) (\<lambda>x.
             Inr (AList.map_default (c, ''io1v'') (bigFloat_scale x 1) (\<lambda>val. val + bigFloat_scale x 1) m, n + x))
         else Inr (m, n))" if parsed: "big_SetString 10 a \<noteq> None" for c a m n
  proof -
    have "vb_Index (zero_bucket c a) \<notin> set (selfStakeIndexMap epoch_delegates)"
      by (simp add: zero_bucket_def selfStakeIndexMap_def epoch_delegates_def voted_def)
    moreover obtain x where "big_SetString 10 a = Some x" using parsed by blast
    ultimately show ?thesis
      by (simp add: count_bucket_def zero_weight toBigInt_def) (simp add: zero_bucket_def)
  qed
  show ?thesis
    unfolding updateAggregateStaking_def epoch_names(1) epoch_probation staking_epoch_def
    by (simp add: epoch_votes_def count epoch_keys amounts toBigInt_def bigFloat_scale_one)
      (simp add: staking_aggregate_row_def found ne log_libs_def empty_votings_def insertVotingMeta_def epoch_delegates_def
        voted_def amounts av_key_def hex del: hex_EncodeToString.simps)
qed

lemma voting_meta_totals_witness:
  "voting_meta staking_epoch = voting_meta empty_votings @
      [\<lparr>vm_EpochNumber = 5, vm_VotedToken = sum_list (map bucket_amount (counted epoch_names epoch_votes)),
        vm_DelegateCount = length epoch_delegates, vm_TotalWeighted = sum_list (map votes_of epoch_delegates)\<rparr>]
    \<and> 5 \<notin> vm_EpochNumber ` set (voting_meta empty_votings)"
  by (rule voting_meta_totals[OF staking_epoch epoch_names(1)])

lemma aggregate_staking_sums_witness:
  "aggregate_row log_libs epoch_names 0 [(''io1d'', 1)] 5
      (vote_key_of (zero_bucket ''io1d'' ''100''), sum_list (map (bucket_weight log_libs vote_cfg epoch_delegates)
         (filter (\<lambda>v. vote_key_of v = vote_key_of (zero_bucket ''io1d'' ''100'')) epoch_votes)))
    \<in> set (aggregate_voting staking_epoch)"
  by (rule aggregate_staking_sums[OF staking_epoch _ epoch_names(1,3) _ _ epoch_probation])
    (simp_all add: epoch_keys range_order_def log_libs_def offline_def empty_votings_def epoch_votes_def zero_bucket_def
      split: if_splits)

subsection \<open>Reward portions\<close>

definition clear_of :: "string \<Rightarrow> portions \<Rightarrow> bool" where
  "clear_of k p \<longleftrightarrow> k \<notin> keys (pt_BlockReward p) \<union> keys (pt_EpochReward p) \<union> keys (pt_FoundationBonus p)"

lemma profile_updated_clear:
  assumes clear: "clear_of (hex_EncodeToString a) p"
    and other: "\<And>d nm v. lib_UnpackProfileUpdated l data = Inr (d, nm, v) \<Longrightarrow> d \<noteq> a"
  shows "clear_of (hex_EncodeToString a) (profile_updated l data p)"
proof (cases "lib_UnpackProfileUpdated l data")
  case (Inr r)
  obtain d nm v where r: "r = (d, nm, v)" by (cases r)
  then have "keys (AList.update (hex_EncodeToString d) x m) = insert (hex_EncodeToString d) (keys m) \<and>
      hex_EncodeToString a \<noteq> hex_EncodeToString d" for x :: f64 and m
    using other Inr by (auto simp: keys_update)
  then show ?thesis using clear by (simp add: profile_updated_def Inr r Let_def clear_of_def)
qed (use clear in \<open>simp add: profile_updated_def\<close>)

lemma fold_clear:
  "P s \<Longrightarrow> (\<And>x s. x \<in> set xs \<Longrightarrow> P s \<Longrightarrow> P (f x s)) \<Longrightarrow> P (fold f xs s)"
  by (induction xs arbitrary: s) simp_all

lemma getLog_clear:
  assumes "getLog ictx c f n = Inr p"
    and clear: "\<And>c tp f t logs. cc_GetLogs (ChainClient ictx) c tp f t = Inr logs \<Longrightarrow>
      (\<forall>entry \<in> set logs. \<forall>d nm v. lib_UnpackProfileUpdated (Libs ictx) (log_Data entry) = Inr (d, nm, v) \<longrightarrow> d \<noteq> a)"
  shows "clear_of (hex_EncodeToString a) p"
proof -
  obtain tp logs where logs: "cc_GetLogs (ChainClient ictx) c tp f (f + n) = Inr logs"
    and p: "p = fold (\<lambda>l. fold (\<lambda>topic p.
       if hex_EncodeToString topic = topicProfileUpdated then profile_updated (Libs ictx) (log_Data l) p else p)
       (log_Topics l)) logs no_portions"
    using assms(1) by (auto simp: getLog_def andThen_eq_Inr)
  show ?thesis unfolding p
  proof (rule fold_clear)
    show "clear_of (hex_EncodeToString a) no_portions" by (simp add: clear_of_def no_portions_def)
    fix entry q
    assume entry: "entry \<in> set logs" and q: "clear_of (hex_EncodeToString a) q"
    have other: "d \<noteq> a" if "lib_UnpackProfileUpdated (Libs ictx) (log_Data entry) = Inr (d, nm, v)" for d nm v
      using clear[OF logs] entry that by blast
    show "clear_of (hex_EncodeToString a) (fold (\<lambda>topic p.
       if hex_EncodeToString topic = topicProfileUpdated then profile_updated (Libs ictx) (log_Data entry) p else p)
       (log_Topics entry) q)"
      by (rule fold_clear[where P = "clear_of (hex_EncodeToString a)", OF q])
        (use other in \<open>simp add: profile_updated_clear\<close>)
  qed
qed

lemma override_other: "k \<notin> keys lg \<Longrightarrow> get_or d (override lg m) k = get_or d m k"
  by (induction lg arbitrary: m) (auto simp: override_def)

lemma fold_update_get:
  "distinct (map key rs) \<Longrightarrow> r \<in> set rs \<Longrightarrow>
   get_or d (fold (\<lambda>r. AList.update (key r) (val r)) rs m) (key r) = val r"
proof (induction rs arbitrary: m)
  case (Cons q rs)
  have other: "k \<notin> key ` set rs \<Longrightarrow> get_or d (fold (\<lambda>r. AList.update (key r) (val r)) rs m) k = get_or d m k" for k m
    by (induction rs arbitrary: m) simp_all
  show ?case
  proof (cases "r = q")
    case False
    then show ?thesis using Cons by simp
  qed (use Cons.prems(1) other in simp)
qed simp

text \<open>A delegate that no event of the contract mentions keeps its reward portions: the row of an epoch after
  the first Fairbank epoch has exactly the three percentages of the last epoch's row with the same
  staking address, the two decimals they are stored with included.\<close>

theorem portions_without_events_kept:
  assumes "getAllStakingDelegateRewardPortions epochCtx cfg ictx start e committed = Inr p"
    and "start \<noteq> FairbankEffectiveHeight epochCtx"
    and "\<And>c tp f t logs. cc_GetLogs (ChainClient ictx) c tp f t = Inr logs \<Longrightarrow>
      (\<forall>entry \<in> set logs. \<forall>d nm v. lib_UnpackProfileUpdated (Libs ictx) (log_Data entry) = Inr (d, nm, v) \<longrightarrow> d \<noteq> a)"
    and "r \<in> set committed" "vr_EpochNumber r = e - 1" "vr_StakingAddress r = hex_EncodeToString a"
    and "distinct (map vr_StakingAddress (filter (\<lambda>r. vr_EpochNumber r = e - 1) committed))"
    and "percent_column (vr_BlockRewardPercentage r) = Inr (vr_BlockRewardPercentage r)"
    and "percent_column (vr_EpochRewardPercentage r) = Inr (vr_EpochRewardPercentage r)"
    and "percent_column (vr_FoundationBonusPercentage r) = Inr (vr_FoundationBonusPercentage r)"
    and "staking_result_row (Libs ictx) p e c t = Inr t'" "lib_IoAddrToEvmAddr (Libs ictx) (cand_OwnerAddress c) = Inr a"
  shows "\<exists>r'. t' = t @ [r'] \<and> vr_BlockRewardPercentage r' = vr_BlockRewardPercentage r \<and>
    vr_EpochRewardPercentage r' = vr_EpochRewardPercentage r \<and>
    vr_FoundationBonusPercentage r' = vr_FoundationBonusPercentage r"
proof -
  let ?a = "hex_EncodeToString a" and ?rows = "filter (\<lambda>r. vr_EpochNumber r = e - 1) committed"
  have r: "r \<in> set ?rows" using assms(4,5) by simp
  obtain last where last: "getLastEpochPortion (e - 1) committed = Inr last"
    and p: "p = last \<or> (\<exists>c f n lg. getLog ictx c f n = Inr lg \<and>
      p = \<lparr>pt_BlockReward = override (pt_BlockReward lg) (pt_BlockReward last),
           pt_EpochReward = override (pt_EpochReward lg) (pt_EpochReward last),
           pt_FoundationBonus = override (pt_FoundationBonus lg) (pt_FoundationBonus last)\<rparr>)"
    using assms(1,2) by (auto simp: getAllStakingDelegateRewardPortions_def andThen_eq_Inr split: if_splits)
  have "get_or 0 (pt_BlockReward last) ?a = vr_BlockRewardPercentage r \<and>
      get_or 0 (pt_EpochReward last) ?a = vr_EpochRewardPercentage r \<and>
      get_or 0 (pt_FoundationBonus last) ?a = vr_FoundationBonusPercentage r"
    using last fold_update_get[OF assms(7) r] unfolding assms(6)[symmetric]
    by (auto simp: getLastEpochPortion_def Let_def split: if_splits)
  then have "get_or 0 (pt_BlockReward p) ?a = vr_BlockRewardPercentage r"
    "get_or 0 (pt_EpochReward p) ?a = vr_EpochRewardPercentage r"
    "get_or 0 (pt_FoundationBonus p) ?a = vr_FoundationBonusPercentage r"
    using p getLog_clear[OF _ assms(3)] by (auto simp: override_other clear_of_def)
  then show ?thesis using assms(8-12)
    by (auto simp: staking_result_row_def insertVotingResult_def andThen_eq_Inr insert_unique_eq_Inr Let_def simp del: insert_unique.simps)
qed

definition quiet_ctx :: IndexCtx where
  "quiet_ctx = offline_ctx\<lparr>ChainClient := (ChainClient offline_ctx)\<lparr>cc_GetLogs := \<lambda>_ _ _ _. Inr []\<rparr>,
     Libs := log_libs\<rparr>"

definition last_row :: VotingResult where
  "last_row =
     \<lparr>vr_EpochNumber = 1, vr_DelegateName = ''bp'', vr_OperatorAddress = ''io1a'', vr_RewardAddress = ''io1c'',
      vr_TotalWeightedVotes = 100, vr_SelfStaking = 10, vr_BlockRewardPercentage = 50, vr_EpochRewardPercentage = 60,
      vr_FoundationBonusPercentage = 70, vr_StakingAddress = ''63''\<rparr>"

definition portion_cfg :: RewardPortionCfg where
  "portion_cfg = \<lparr>RewardPortionContract = ''io1p'', RewardPortionContractDeployHeight = 1\<rparr>"

lemma percent_column_whole: "0 \<le> n \<Longrightarrow> n < 1000 \<Longrightarrow> percent_column (of_int n) = Inr (of_int n)"
proof -
  assume n: "0 \<le> n" "n < 1000"
  have "hundredths (of_int n) = round_half_even (of_int (n * 100))" by (simp add: hundredths_def)
  with n show "percent_column (of_int n) = Inr (of_int n)"
    by (simp only: round_half_even_of_int) (simp add: percent_column_def round_prec_of_int)
qed

lemma last_row_percent:
  "percent_column (vr_BlockRewardPercentage last_row) = Inr (vr_BlockRewardPercentage last_row)"
  "percent_column (vr_EpochRewardPercentage last_row) = Inr (vr_EpochRewardPercentage last_row)"
  "percent_column (vr_FoundationBonusPercentage last_row) = Inr (vr_FoundationBonusPercentage last_row)"
  using percent_column_whole[of 50] percent_column_whole[of 60] percent_column_whole[of 70] by (simp_all add: last_row_def)

lemmas percent_column_numerals = last_row_percent[unfolded last_row_def VotingResult.simps]

definition last_portions :: portions where
  "last_portions = \<lparr>pt_BlockReward = [(''63'', 50)], pt_EpochReward = [(''63'', 60)], pt_FoundationBonus = [(''63'', 70)]\<rparr>"

definition next_row :: VotingResult where
  "next_row = last_row\<lparr>vr_EpochNumber := 2, vr_DelegateName := get_or [] epoch_names ''io1c''\<rparr>"

lemma portions_without_events_kept_witness:
  "\<exists>r'. [next_row] = [] @ [r'] \<and> vr_BlockRewardPercentage r' = vr_BlockRewardPercentage last_row \<and>
    vr_EpochRewardPercentage r' = vr_EpochRewardPercentage last_row \<and>
    vr_FoundationBonusPercentage r' = vr_FoundationBonusPercentage last_row"
proof (rule portions_without_events_kept[where ictx = quiet_ctx and committed = "[last_row]" and e = 2 and a = "''c''"
    and p = last_portions and c = "voted ''io1c'' ''io1a'' ''100''"])
  have "hex_DecodeString topicProfileUpdated \<noteq> Inl e" for e by code_simp
  then obtain tp where tp: "hex_DecodeString topicProfileUpdated = Inr tp" by (cases "hex_DecodeString topicProfileUpdated") auto
  have log: "getLog quiet_ctx c f n = Inr no_portions" for c f n by (simp add: getLog_def tp quiet_ctx_def)
  have "GetEpochHeight tiny_ctx 1 = Inr 1" by code_simp
  then show "getAllStakingDelegateRewardPortions tiny_ctx portion_cfg quiet_ctx 2 2 [last_row] = Inr last_portions"
    by (simp add: getAllStakingDelegateRewardPortions_def log getLastEpochPortion_def override_def no_portions_def)
      (simp add: FairbankEffectiveHeight_def tiny_ctx_def last_row_def last_portions_def)
  show "2 \<noteq> FairbankEffectiveHeight tiny_ctx" by (simp add: FairbankEffectiveHeight_def tiny_ctx_def)
  have name: "EncodeDelegateName ''bp'' = Inr (get_or [] epoch_names ''io1c'')" by code_simp
  have hex: "hex_EncodeToString ''c'' = ''63''" by code_simp
  have amounts: "big_SetString 10 ''100'' = Some 100" "big_SetString 10 ''10'' = Some 10" by code_simp+
  show "staking_result_row (Libs quiet_ctx) last_portions 2 (voted ''io1c'' ''io1a'' ''100'') [] = Inr [next_row]"
    using last_row_percent
    by (simp add: staking_result_row_def quiet_ctx_def log_libs_def voted_def name hex Let_def last_portions_def get_or_def
      insertVotingResult_def sql_decimal_def amounts last_row_def next_row_def del: hex_EncodeToString.simps)
  show "vr_StakingAddress last_row = hex_EncodeToString ''c''" by (simp add: hex last_row_def del: hex_EncodeToString.simps)
qed (simp_all add: quiet_ctx_def last_row_def log_libs_def voted_def percent_column_numerals)

end
