(* ===== verification/Votings.thy ===== *)
theory Votings imports Staking_Laws Actions Blocks begin

text \<open>
  \<open>indexprotocol/votings/protocol.go\<close>: the votings protocol. At the first block of an epoch it stores
  the probation list and, below the Fairbank height, the election buckets and registrations of the
  gravity chain together with the native buckets, computes the election result from them and writes
  the voting tables. Above the Fairbank height it hands over to the theory \<open>Staking\<close>.

  The types of \<open>iotex-election\<close> are records with the fields the code reads; the functions of that
  package are the fields of \<open>election_lib\<close>. \<open>'reg\<close> is its registration, \<open>'calc\<close> its result
  calculator, \<open>'client\<close> and \<open>'caller\<close> are the Ethereum client and the bound profile contract.
  Amounts are values: the package hands out copies.
\<close>

subsection \<open>Data\<close>

record ElectionBucket =
  eb_StartTime :: int
  eb_Duration :: int
  eb_Amount :: int
  eb_Voter :: string
  eb_Candidate :: string
  eb_Decay :: bool

record Vote =
  vt_Candidate :: string
  vt_Voter :: string
  vt_Amount :: int
  vt_WeightedAmount :: int
  vt_StartTime :: int
  vt_Decay :: bool

record Candidate =
  ca_Name :: string
  ca_Address :: string
  ca_OperatorAddress :: string
  ca_RewardAddress :: string
  ca_Score :: int
  ca_SelfStakingTokens :: int

record RawData =
  rd_Buckets :: "string list"
  rd_Registrations :: "string list"
  rd_Timestamp :: string

record NativeBucketPb =
  nb_Voter :: string
  nb_Candidate :: string
  nb_Amount :: string
  nb_StartTime :: string
  nb_Duration :: string
  nb_Decay :: bool

record ('reg, 'calc, 'client, 'caller) election_lib =
  elb_GetRawData :: "string \<Rightarrow> go_error + RawData"
  elb_GetElectionBuckets :: "u64 \<Rightarrow> go_error + NativeBucketPb list"
  elb_BucketFromProto :: "string \<Rightarrow> go_error + ElectionBucket"
  elb_RegFromProto :: "string \<Rightarrow> go_error + 'reg"
  elb_Timestamp :: "string \<Rightarrow> go_error + int"
  elb_Duration :: "string \<Rightarrow> go_error + int"
  elb_NewBucket :: "int \<Rightarrow> int \<Rightarrow> int \<Rightarrow> string \<Rightarrow> string \<Rightarrow> bool \<Rightarrow> go_error + ElectionBucket"
  elb_RemainingTime :: "ElectionBucket \<Rightarrow> int \<Rightarrow> int"
  elb_VoteRemainingTime :: "Vote \<Rightarrow> int \<Rightarrow> int"
  elb_CalcWeightedVotes :: "ElectionBucket \<Rightarrow> int \<Rightarrow> int"
  elb_NewVote :: "ElectionBucket \<Rightarrow> int \<Rightarrow> go_error + Vote"
  elb_NewResultCalculator :: "int \<Rightarrow> bool \<Rightarrow> (ElectionBucket \<Rightarrow> bool) \<Rightarrow> (ElectionBucket \<Rightarrow> int \<Rightarrow> int) \<Rightarrow> (Candidate \<Rightarrow> bool) \<Rightarrow> 'calc"
  elb_AddRegistrations :: "'reg list \<Rightarrow> 'calc \<Rightarrow> go_error + 'calc"
  elb_AddBuckets :: "ElectionBucket list \<Rightarrow> 'calc \<Rightarrow> go_error + 'calc"
  elb_Calculate :: "'calc \<Rightarrow> go_error + Vote list \<times> Candidate list"
  elb_IsAllZeros :: "string \<Rightarrow> bool"
  elb_Execute :: "string list \<Rightarrow> ('client \<Rightarrow> (f64 \<times> f64 \<times> f64, unit) go) \<Rightarrow> (f64 \<times> f64 \<times> f64, unit) go"
  elb_NewDelegateProfileCaller :: "string \<Rightarrow> 'client \<Rightarrow> go_error + 'caller"
  elb_GetProfileByField :: "'caller \<Rightarrow> u64 \<Rightarrow> string \<Rightarrow> string \<Rightarrow> go_error + string"

record ('reg, 'h) table_operators = "'h staking_operators" +
  bucketTableOperator :: "(ElectionBucket list, 'h) operator"
  registrationTableOperator :: "('reg list, 'h) operator"
  nativeBucketTableOperator :: "(ElectionBucket list, 'h) operator"
  timeTableOperator :: "(int, 'h) operator"

record Poll =
  poll_VoteThreshold :: string
  poll_ScoreThreshold :: string
  poll_SelfStakingThreshold :: string
  poll_SkipManifiedCandidate :: bool

record ('reg, 'h) votings_protocol =
  opers :: "('reg, 'h) table_operators"
  epochCtx :: EpochCtx
  GravityChainCfg :: GravityChain
  voteCfg :: VoteWeightCalConsts
  SkipManifiedCandidate :: bool
  VoteThreshold :: int
  ScoreThreshold :: int
  SelfStakingThreshold :: int
  rewardPortionCfg :: RewardPortionCfg

definition votings_NewProtocol ::
  "('reg, 'h) table_operators \<Rightarrow> EpochCtx \<Rightarrow> GravityChain \<Rightarrow> Poll \<Rightarrow> VoteWeightCalConsts \<Rightarrow> RewardPortionCfg \<Rightarrow>
   go_error + ('reg, 'h) votings_protocol"
where
  "votings_NewProtocol ops ec gravity pollCfg vc pc =
     andThen (toBigInt ''Invalid vote threshold'' (poll_VoteThreshold pollCfg)) (\<lambda>voteThreshold.
     andThen (toBigInt ''Invalid score threshold'' (poll_ScoreThreshold pollCfg)) (\<lambda>scoreThreshold.
     andThen (toBigInt ''Invalid self staking threshold'' (poll_SelfStakingThreshold pollCfg)) (\<lambda>selfStakingThreshold.
     Inr \<lparr>opers = ops, epochCtx = ec, GravityChainCfg = gravity, voteCfg = vc,
          SkipManifiedCandidate = poll_SkipManifiedCandidate pollCfg, VoteThreshold = voteThreshold,
          ScoreThreshold = scoreThreshold, SelfStakingThreshold = selfStakingThreshold, rewardPortionCfg = pc\<rparr>)))"

subsection \<open>Reading the gravity chain\<close>

definition getRawData ::
  "('reg, 'calc, 'client, 'caller) election_lib \<Rightarrow> u64 \<Rightarrow> go_error + ElectionBucket list \<times> 'reg list \<times> int"
where
  "getRawData el gravityHeight =
     andThen (wrap ''failed to get rawdata'' (elb_GetRawData el (itoa gravityHeight))) (\<lambda>response.
     andThen (mapE (elb_BucketFromProto el) (rd_Buckets response)) (\<lambda>buckets.
     andThen (mapE (elb_RegFromProto el) (rd_Registrations response)) (\<lambda>regs.
     andThen (elb_Timestamp el (rd_Timestamp response)) (\<lambda>mintTime.
     Inr (buckets, regs, mintTime)))))"

text \<open>\<open>err.Error()\<close> as far as it is compared.\<close>

primrec Error :: "go_error \<Rightarrow> string" where
  "Error ErrNotExist = ''not exist in DB''"
| "Error (ErrMsg m) = m"
| "Error (ErrExternal m) = m"
| "Error (ErrSQL m) = m"
| "Error (Fatal m) = m"
| "Error (Panic m) = m"
| "Error Hang = []"
| "Error (Wrapped m e) = m @ '': '' @ Error e"

definition native_bucket ::
  "('reg, 'calc, 'client, 'caller) election_lib \<Rightarrow> NativeBucketPb \<Rightarrow> go_error + ElectionBucket"
where
  "native_bucket el pb =
     andThen (elb_Timestamp el (nb_StartTime pb)) (\<lambda>startTime.
     andThen (elb_Duration el (nb_Duration pb)) (\<lambda>duration.
     elb_NewBucket el startTime duration (big_SetBytes (nb_Amount pb)) (nb_Voter pb) (nb_Candidate pb) (nb_Decay pb)))"

text \<open>\<open>None\<close> is the nil slice: no native buckets, also when the list the API returns is empty.\<close>

definition getNativeBucket ::
  "('reg, 'calc, 'client, 'caller) election_lib \<Rightarrow> u64 \<Rightarrow> go_error + ElectionBucket list option"
where
  "getNativeBucket el epochNumber =
     (case elb_GetElectionBuckets el epochNumber of
        Inl e \<Rightarrow>
          if \<not> unwinds e \<and> contains (Error e) (Error db_ErrNotExist) then Inr None
          else wrap ''failed to get native buckets from API'' (Inl e)
      | Inr pbs \<Rightarrow>
          andThen (mapE (native_bucket el) pbs) (\<lambda>buckets.
          Inr (if buckets = [] then None else Some buckets)))"

definition putPoll ::
  "('reg, 'h) votings_protocol \<Rightarrow> u64 \<Rightarrow> int \<Rightarrow> 'reg list \<Rightarrow> ElectionBucket list \<Rightarrow> 'h votings_db \<Rightarrow> go_error + 'h votings_db"
where
  "putPoll p height mintTime regs buckets db =
     andThen (put_table (registrationTableOperator (opers p)) height regs db) (\<lambda>db.
     andThen (put_table (bucketTableOperator (opers p)) height buckets db) (\<lambda>db.
     put_table (timeTableOperator (opers p)) height mintTime db))"

definition putNativePoll ::
  "('reg, 'h) votings_protocol \<Rightarrow> u64 \<Rightarrow> ElectionBucket list option \<Rightarrow> 'h votings_db \<Rightarrow> go_error + 'h votings_db"
where
  "putNativePoll p height nativeBuckets db =
     (case nativeBuckets of None \<Rightarrow> Inr db | Some bs \<Rightarrow> put_table (nativeBucketTableOperator (opers p)) height bs db)"

definition fetchAndStoreRawBuckets ::
  "('reg, 'h) votings_protocol \<Rightarrow> ('reg, 'calc, 'client, 'caller) election_lib \<Rightarrow> u64 \<Rightarrow> u64 \<Rightarrow> u64 \<Rightarrow> 'h votings_db \<Rightarrow>
   go_error + 'h votings_db"
where
  "fetchAndStoreRawBuckets p el epochNumber height gravityHeight db =
     andThen (wrap ''failed to get rawdata from election service'' (getRawData el gravityHeight)) (\<lambda>(buckets, regs, mintTime).
     andThen (wrap ''failed to get native buckets from chain service'' (getNativeBucket el epochNumber)) (\<lambda>nativeBuckets.
     andThen (wrap ''failed to put poll'' (putPoll p height mintTime regs buckets db)) (\<lambda>db.
     wrap ''failed to put native poll'' (putNativePoll p height nativeBuckets db))))"

subsection \<open>The election result\<close>

definition bucketFilter :: "('reg, 'h) votings_protocol \<Rightarrow> ElectionBucket \<Rightarrow> bool" where
  "bucketFilter p v \<longleftrightarrow> eb_Amount v < VoteThreshold p"

definition candidateFilter :: "('reg, 'h) votings_protocol \<Rightarrow> Candidate \<Rightarrow> bool" where
  "candidateFilter p c \<longleftrightarrow> ca_SelfStakingTokens c < SelfStakingThreshold p \<or> ca_Score c < ScoreThreshold p"

text \<open>\<open>Duration.Seconds()\<close>: the whole seconds and the nanoseconds, each cut towards zero.\<close>

definition go_quot :: "int \<Rightarrow> int \<Rightarrow> int" where
  "go_quot a b = (if a < 0 then - ((- a) div b) else a div b)"

definition Seconds :: "int \<Rightarrow> f64" where
  "Seconds d = f64_add (f64_of_int (go_quot d 1000000000)) (f64_div (f64_of_int (go_rem d 1000000000)) 1000000000)"

definition calcWeightedVotes ::
  "libs \<Rightarrow> ('reg, 'calc, 'client, 'caller) election_lib \<Rightarrow> ElectionBucket \<Rightarrow> int \<Rightarrow> int"
where
  "calcWeightedVotes l el v now =
     (if now < eb_StartTime v then 0
      else
        let remainingTime = Seconds (elb_RemainingTime el v now);
            weight =
              (if 0 < remainingTime then
                 f64_add 1 (f64_div (f64_div (lib_Log l (of_int \<lceil>f64_div remainingTime 86400\<rceil>))
                   (lib_Log l (round_prec 53 (12 / 10)))) 100)
               else 1)
        in bigFloat_scale (eb_Amount v) weight)"

definition calculateEthereumStaking ::
  "('reg, 'h) votings_protocol \<Rightarrow> libs \<Rightarrow> ('reg, 'calc, 'client, 'caller) election_lib \<Rightarrow> u64 \<Rightarrow> 'h votings_db \<Rightarrow>
   go_error + Vote list \<times> Candidate list"
where
  "calculateEthereumStaking p l el height db =
     andThen (op_Get (timeTableOperator (opers p)) height (election_tables db)) (\<lambda>timestamp.
     let calculator = elb_NewResultCalculator el timestamp (SkipManifiedCandidate p) (bucketFilter p)
       (calcWeightedVotes l el) (candidateFilter p) in
     andThen (op_Get (registrationTableOperator (opers p)) height (election_tables db)) (\<lambda>regs.
     andThen (elb_AddRegistrations el regs calculator) (\<lambda>calculator.
     andThen (op_Get (bucketTableOperator (opers p)) height (election_tables db)) (\<lambda>buckets.
     andThen (elb_AddBuckets el buckets calculator) (elb_Calculate el)))))"

text \<open>
  \<open>SELECT timestamp FROM block_history WHERE block_height = (SELECT block_height FROM action_history
  WHERE ...)\<close>: the inner query must not have more than one row; without one the comparison is with
  \<open>NULL\<close> and finds no block. The timestamps of blocks are seconds.
\<close>

definition getLatestNativeMintTime ::
  "EpochCtx \<Rightarrow> BlockHistory list \<Rightarrow> ActionHistory list \<Rightarrow> u64 \<Rightarrow> go_error + int"
where
  "getLatestNativeMintTime ec blocks actions height =
     andThen (GetEpochNumber ec height) (\<lambda>currentEpoch.
     andThen (GetEpochHeight ec (currentEpoch - 1)) (\<lambda>lastEpochStartHeight.
     case filter (\<lambda>a. ah_ActionType a = ''putPollResult'' \<and> ah_BlockHeight a < height \<and> lastEpochStartHeight \<le> ah_BlockHeight a) actions of
       [] \<Rightarrow> Inl (ErrSQL ''sql: no rows in result set'')
     | [a] \<Rightarrow>
         (case filter (\<lambda>b. bk_BlockHeight b = ah_BlockHeight a) blocks of
            [] \<Rightarrow> Inl (ErrSQL ''sql: no rows in result set'')
          | b # _ \<Rightarrow> Inr (bk_Timestamp b * 1000000000))
     | _ \<Rightarrow> Inl (ErrSQL ''Subquery returns more than 1 row'')))"

definition to12Bytes :: "string \<Rightarrow> go_error + string" where
  "to12Bytes b =
     (if length b \<noteq> 12 then Inl (Panic ''invalid CanName: abi stipulates CanName must be [12]byte'') else Inr b)"

definition native_vote ::
  "('reg, 'calc, 'client, 'caller) election_lib \<Rightarrow> int \<Rightarrow> ElectionBucket \<Rightarrow>
   Vote list \<times> (string \<times> int) list \<times> bool list \<Rightarrow> go_error + Vote list \<times> (string \<times> int) list \<times> bool list"
where
  "native_vote el nativeMintTime bucket = (\<lambda>(mergedVotes, nativeCandidateScore, bucketFlag).
     let weighted = elb_CalcWeightedVotes el bucket nativeMintTime in
     if weighted < 0 then Inl (ErrMsg ''weighted amount cannot be negative'')
     else
       andThen (elb_NewVote el bucket weighted) (\<lambda>vote.
       andThen (to12Bytes (vt_Candidate vote)) (\<lambda>k.
       Inr (mergedVotes @ [vote], AList.map_default k weighted (\<lambda>score. score + weighted) nativeCandidateScore,
            bucketFlag @ [True]))))"

definition merge_candidate ::
  "int \<Rightarrow> (string \<times> int) list \<Rightarrow> Candidate \<Rightarrow> (string \<times> Candidate) list \<times> (string \<times> int) list \<Rightarrow>
   go_error + (string \<times> Candidate) list \<times> (string \<times> int) list"
where
  "merge_candidate scoreThreshold nativeCandidateScore cand = (\<lambda>(totalCandidates, totalCandidateScores).
     andThen (to12Bytes (ca_Name cand)) (\<lambda>name.
     let clone = cand\<lparr>ca_Score := ca_Score cand + get_or 0 nativeCandidateScore name\<rparr> in
     Inr (if scoreThreshold \<le> ca_Score clone then
            (AList.update (hex_EncodeToString name) clone totalCandidates,
             AList.update (hex_EncodeToString name) (ca_Score clone) totalCandidateScores)
          else (totalCandidates, totalCandidateScores))))"

definition mergeResult ::
  "('reg, 'h) votings_protocol \<Rightarrow> libs \<Rightarrow> ('reg, 'calc, 'client, 'caller) election_lib \<Rightarrow> BlockHistory list \<Rightarrow>
   ActionHistory list \<Rightarrow> u64 \<Rightarrow> Vote list \<times> Candidate list \<Rightarrow> ElectionBucket list \<Rightarrow> bool list \<Rightarrow>
   go_error + Vote list \<times> bool list \<times> Candidate list"
where
  "mergeResult p l el blocks actions height res nativeBuckets bucketFlag =
     andThen (wrap ''failed to get latest native mint time'' (getLatestNativeMintTime (epochCtx p) blocks actions height)) (\<lambda>nativeMintTime.
     andThen (foldE (native_vote el nativeMintTime) nativeBuckets (fst res, [], bucketFlag)) (\<lambda>(mergedVotes, nativeCandidateScore, bucketFlag).
     andThen (foldE (merge_candidate (ScoreThreshold p) nativeCandidateScore) (snd res) ([], [])) (\<lambda>(totalCandidates, totalCandidateScores).
     andThen (mapE (lookup_candidate totalCandidates)
       (lib_Sort l totalCandidateScores (word_of_int (nativeMintTime div 1000000000)))) (\<lambda>mergedDelegates.
     Inr (mergedVotes, bucketFlag, mergedDelegates)))))"

definition resultByHeight ::
  "('reg, 'h) votings_protocol \<Rightarrow> libs \<Rightarrow> ('reg, 'calc, 'client, 'caller) election_lib \<Rightarrow> BlockHistory list \<Rightarrow>
   ActionHistory list \<Rightarrow> u64 \<Rightarrow> 'h votings_db \<Rightarrow> go_error + Vote list \<times> bool list \<times> Candidate list"
where
  "resultByHeight p l el blocks actions height db =
     andThen (wrap ''failed to calculate ethereum staking'' (calculateEthereumStaking p l el height db)) (\<lambda>res.
     let bucketFlag = replicate (length (fst res)) False in
     case op_Get (nativeBucketTableOperator (opers p)) height (election_tables db) of
       Inr nativeBuckets \<Rightarrow> mergeResult p l el blocks actions height res nativeBuckets bucketFlag
     | Inl e \<Rightarrow> if e = db_ErrNotExist then Inr (fst res, bucketFlag, snd res) else Inl e)"

subsection \<open>Probation and the voting tables\<close>

definition filter_election_candidate ::
  "ProbationCandidateList \<Rightarrow> Candidate \<Rightarrow> (string \<times> Candidate) list \<times> (string \<times> int) list \<Rightarrow>
   (string \<times> Candidate) list \<times> (string \<times> int) list"
where
  "filter_election_candidate unqualified cand = (\<lambda>(candidatesMap, votingPower).
     let filterCand =
       (if ca_OperatorAddress cand \<in> keys (pl_ProbationList unqualified)
        then cand\<lparr>ca_Score := bigFloat_scale (ca_Score cand) (intensity32 (pl_IntensityRate unqualified))\<rparr> else cand)
     in (AList.update (ca_OperatorAddress cand) filterCand candidatesMap,
         AList.update (ca_OperatorAddress cand) (ca_Score filterCand) votingPower))"

definition filterCandidates :: "libs \<Rightarrow> Candidate list \<Rightarrow> ProbationCandidateList \<Rightarrow> u64 \<Rightarrow> go_error + Candidate list" where
  "filterCandidates l candidates unqualified epochStartHeight =
     (let (candidatesMap, votingPower) = fold (filter_election_candidate unqualified) candidates ([], []) in
      mapE (lookup_candidate candidatesMap) (lib_Sort l votingPower epochStartHeight))"

definition probationListToMap :: "Candidate list \<Rightarrow> ProbationList list option \<Rightarrow> f64 \<times> (string \<times> u64) list" where
  "probationListToMap delegates pblist =
     (case pblist of
        None \<Rightarrow> (0, [])
      | Some pbs \<Rightarrow>
          fold (\<lambda>delegate. fold (\<lambda>pb (rate, m).
            (intensity64 (pb_IntensityRate pb),
             if pb_Address pb = ca_OperatorAddress delegate
             then AList.update (hex_EncodeToString (ca_Name delegate)) (pb_Count pb) m else m)) pbs) delegates (0, []))"

text \<open>\<open>strconv.ParseInt(hex.EncodeToString(b), 16, 64)\<close>, divided by 100 as a \<open>float64\<close>.\<close>

definition profile_portion :: "string \<Rightarrow> f64 \<Rightarrow> go_error + f64" where
  "profile_portion value unset =
     (if value = [] then Inr unset
      else
        case parse_nat 16 (hex_EncodeToString value) of
          None \<Rightarrow> Inl (ErrMsg ''strconv.ParseInt: invalid syntax'')
        | Some n \<Rightarrow>
            if n < 2 ^ 63 then Inr (f64_div (f64_of_int (int n)) 100)
            else Inl (ErrMsg ''strconv.ParseInt: value out of range''))"

text \<open>
  The function handed to \<open>clientPool.Execute\<close>: what it assigned before an error stays assigned, and
  if the contract cannot be bound it does nothing and returns no error.
\<close>

definition profile_portions ::
  "('reg, 'calc, 'client, 'caller) election_lib \<Rightarrow> GravityChain \<Rightarrow> string \<Rightarrow> u64 \<Rightarrow> 'client \<Rightarrow> (f64 \<times> f64 \<times> f64, unit) go"
where
  "profile_portions el cfg stakingAddress gravityChainHeight client = (\<lambda>(b, e, f).
     case elb_NewDelegateProfileCaller el (RegisterContractAddress cfg) client of
       Inl _ \<Rightarrow> (Inr (), (b, e, f))
     | Inr caller \<Rightarrow>
         (case andThen (elb_GetProfileByField el caller gravityChainHeight stakingAddress ''blockRewardPortion'') (\<lambda>pb.
            andThen (elb_GetProfileByField el caller gravityChainHeight stakingAddress ''epochRewardPortion'') (\<lambda>pe.
            andThen (elb_GetProfileByField el caller gravityChainHeight stakingAddress ''foundationRewardPortion'') (\<lambda>pf.
            Inr (pb, pe, pf)))) of
            Inl err \<Rightarrow> (Inl err, (b, e, f))
          | Inr (pb, pe, pf) \<Rightarrow>
              (case profile_portion pb b of
                 Inl err \<Rightarrow> (Inl err, (b, e, f))
               | Inr b \<Rightarrow>
                   (case profile_portion pe e of
                      Inl err \<Rightarrow> (Inl err, (b, e, f))
                    | Inr e \<Rightarrow>
                        (case profile_portion pf f of
                           Inl err \<Rightarrow> (Inl err, (b, e, f))
                         | Inr f \<Rightarrow> (Inr (), (b, e, f)))))))"

definition getDelegateRewardPortions ::
  "('reg, 'calc, 'client, 'caller) election_lib \<Rightarrow> GravityChain \<Rightarrow> string \<Rightarrow> u64 \<Rightarrow> go_error + f64 \<times> f64 \<times> f64"
where
  "getDelegateRewardPortions el cfg stakingAddress gravityChainHeight =
     (if GravityChainAPIs cfg = [] \<or> gravityChainHeight < RewardPercentageStartHeight cfg then Inr (100, 100, 100)
      else
        case elb_Execute el (GravityChainAPIs cfg) (profile_portions el cfg stakingAddress gravityChainHeight) (0, 0, 0) of
          (Inl e, _) \<Rightarrow> wrap ''failed to get delegate reward portions'' (Inl e)
        | (Inr _, p) \<Rightarrow> Inr p)"

definition election_result_row ::
  "libs \<Rightarrow> ('reg, 'calc, 'client, 'caller) election_lib \<Rightarrow> GravityChain \<Rightarrow> u64 \<Rightarrow> u64 \<Rightarrow> Candidate \<Rightarrow>
   VotingResult list \<Rightarrow> go_error + VotingResult list"
where
  "election_result_row l el cfg epochNumber gravityHeight candidate t =
     (let ra = (if elb_IsAllZeros el (ca_RewardAddress candidate) then [] else ca_RewardAddress candidate);
          oa = (if elb_IsAllZeros el (ca_OperatorAddress candidate) then [] else ca_OperatorAddress candidate);
          address = hex_EncodeToString (ca_Address candidate)
      in andThen (getDelegateRewardPortions el cfg (lib_HexToAddress l address) gravityHeight) (\<lambda>(b, e, f).
         insertVotingResult epochNumber (hex_EncodeToString (ca_Name candidate)) oa ra
           (big_String (ca_Score candidate)) (big_String (ca_SelfStakingTokens candidate)) b e f address t))"

definition updateVotingResultTable ::
  "libs \<Rightarrow> ('reg, 'calc, 'client, 'caller) election_lib \<Rightarrow> GravityChain \<Rightarrow> Candidate list \<Rightarrow> u64 \<Rightarrow> u64 \<Rightarrow>
   'h votings_db \<Rightarrow> go_error + 'h votings_db"
where
  "updateVotingResultTable l el cfg delegates epochNumber gravityHeight db =
     andThen (foldE (election_result_row l el cfg epochNumber gravityHeight) delegates (voting_result db)) (\<lambda>t.
     Inr (db\<lparr>voting_result := t\<rparr>))"

type_synonym election_key = "string \<times> string \<times> bool"

definition election_vote_key :: "Vote \<times> bool \<Rightarrow> election_key" where
  "election_vote_key = (\<lambda>(vote, isNative). (hex_EncodeToString (vt_Candidate vote), hex_EncodeToString (vt_Voter vote), isNative))"

definition election_aggregate_row :: "f64 \<Rightarrow> (string \<times> u64) list \<Rightarrow> u64 \<Rightarrow> election_key \<times> int \<Rightarrow> AggregateVoting" where
  "election_aggregate_row intensityRate probationMap epochNumber = (\<lambda>((candidate, voter, isNative), val).
     \<lparr>av_EpochNumber = epochNumber, av_CandidateName = candidate, av_VoterAddress = voter, av_NativeFlag = isNative,
      av_AggregateVotes = (if candidate \<in> keys probationMap then bigFloat_scale val intensityRate else val)\<rparr>)"

text \<open>\<open>voteFlag[i]\<close> with \<open>i\<close> an index of \<open>votes\<close>; both lists have the same length.\<close>

definition updateAggregateVotingandVotingMetaTable ::
  "((election_key \<times> int) list \<Rightarrow> (election_key \<times> int) list) \<Rightarrow> Vote list \<Rightarrow> bool list \<Rightarrow> Candidate list \<Rightarrow> u64 \<Rightarrow>
   ProbationCandidateList option \<Rightarrow> 'h votings_db \<Rightarrow> go_error + 'h votings_db"
where
  "updateAggregateVotingandVotingMetaTable ord votes voteFlag delegates epochNumber probationList db =
     (if length voteFlag < length votes then Inl (Panic ''runtime error: index out of range'')
      else
        let (intensityRate, probationMap) = probationListToMap delegates (convertProbationListToLocal probationList);
            weighted_sums = group_sum election_vote_key (\<lambda>(vote, _). vt_WeightedAmount vote) (zip votes voteFlag);
            rows = map (election_aggregate_row intensityRate probationMap epochNumber) (ord weighted_sums)
        in andThen (insertVotingMeta epochNumber (sum_list (map vt_Amount votes)) (length delegates)
              (sum_list (map ca_Score delegates)) (voting_meta db)) (\<lambda>m.
           Inr (db\<lparr>aggregate_voting := insert_ignore av_key rows (aggregate_voting db), voting_meta := m\<rparr>)))"

definition updateVotingTables ::
  "('reg, 'h) votings_protocol \<Rightarrow> libs \<Rightarrow> ('reg, 'calc, 'client, 'caller) election_lib \<Rightarrow>
   ((election_key \<times> int) list \<Rightarrow> (election_key \<times> int) list) \<Rightarrow> BlockHistory list \<Rightarrow> ActionHistory list \<Rightarrow>
   u64 \<Rightarrow> u64 \<Rightarrow> u64 \<Rightarrow> ProbationCandidateList option \<Rightarrow> 'h votings_db \<Rightarrow> go_error + 'h votings_db"
where
  "updateVotingTables p l el ord blocks actions epochNumber epochStartheight gravityHeight probationList db =
     andThen (wrap ''failed to get result by height'' (resultByHeight p l el blocks actions epochStartheight db)) (\<lambda>(votes, voteFlag, delegates).
     andThen (case probationList of
         None \<Rightarrow> Inr delegates
       | Some pl \<Rightarrow> wrap ''failed to filter candidate with probation list'' (filterCandidates l delegates pl epochStartheight)) (\<lambda>delegates.
     andThen (wrap ''failed to update aggregate_voting/voting meta table''
       (updateAggregateVotingandVotingMetaTable ord votes voteFlag delegates epochNumber probationList db)) (\<lambda>db.
     wrap ''failed to update voting result table''
       (updateVotingResultTable l el (GravityChainCfg p) delegates epochNumber gravityHeight db))))"

subsection \<open>Handling a block\<close>

text \<open>
  The orders of the two loops over Go maps. What the handler reads outside of its transaction is
  committed: the voting results, the blocks and the actions of the blocks before.
\<close>

record range_orders =
  staking_ord :: "(vote_key \<times> int) list \<Rightarrow> (vote_key \<times> int) list"
  election_ord :: "(election_key \<times> int) list \<Rightarrow> (election_key \<times> int) list"

record committed_tables =
  com_voting_result :: "VotingResult list"
  com_blocks :: "BlockHistory list"
  com_actions :: "ActionHistory list"

definition votings_gravityHeight :: "('reg, 'h) votings_protocol \<Rightarrow> IndexCtx \<Rightarrow> u64 \<Rightarrow> go_error + u64" where
  "votings_gravityHeight p ictx epochNumber =
     (if epochNumber = 1 then Inr (GravityChainStartHeight (GravityChainCfg p))
      else
        andThen (GetEpochHeight (epochCtx p) (epochNumber - 1)) (\<lambda>prevEpochHeight.
        wrap ''failed to get gravity height from chain service'' (GetGravityChainStartHeight ictx prevEpochHeight)))"

definition votings_epoch_start ::
  "('reg, 'h) votings_protocol \<Rightarrow> ('reg, 'calc, 'client, 'caller) election_lib \<Rightarrow> range_orders \<Rightarrow> IndexCtx \<Rightarrow>
   committed_tables \<Rightarrow> u64 \<Rightarrow> u64 \<Rightarrow> 'h votings_db \<Rightarrow> go_error + 'h votings_db"
where
  "votings_epoch_start p el ords ictx com blkheight epochNumber db =
     andThen (wrap ''failed to get probation list from chain service'' (fetchProbationList ictx epochNumber)) (\<lambda>probationList.
     let db = db\<lparr>probation_list := updateProbationListTable epochNumber probationList (probation_list db)\<rparr> in
     if FairbankEffectiveHeight (epochCtx p) \<le> blkheight then
       andThen (GetEpochHeight (epochCtx p) (epochNumber - 1)) (\<lambda>prevEpochHeight.
       processStaking (epochCtx p) (voteCfg p) (rewardPortionCfg p) (staking_operators.truncate (opers p)) (staking_ord ords)
         ictx (com_voting_result com) blkheight prevEpochHeight epochNumber probationList db)
     else
       andThen (votings_gravityHeight p ictx epochNumber) (\<lambda>gravityHeight.
       andThen (wrap ''failed to fetch and store raw bucket'' (fetchAndStoreRawBuckets p el epochNumber blkheight gravityHeight db)) (\<lambda>db.
       wrap ''failed to update voting tables''
         (updateVotingTables p (Libs ictx) el (election_ord ords) (com_blocks com) (com_actions com) epochNumber blkheight
            gravityHeight probationList db))))"

definition votings_HandleBlock ::
  "('reg, 'h) votings_protocol \<Rightarrow> ('reg, 'calc, 'client, 'caller) election_lib \<Rightarrow> range_orders \<Rightarrow> IndexCtx \<Rightarrow>
   committed_tables \<Rightarrow> block \<Rightarrow> 'h votings_db \<Rightarrow> go_error + 'h votings_db"
where
  "votings_HandleBlock p el ords ictx com blk db =
     andThen (GetEpochNumber (epochCtx p) (blk_Height blk)) (\<lambda>epochNumber.
     if ConsensusScheme ictx = ROLLDPOS then
       andThen (GetEpochHeight (epochCtx p) epochNumber) (\<lambda>epochHeight.
       if blk_Height blk = epochHeight
       then votings_epoch_start p el ords ictx com (blk_Height blk) epochNumber db else Inr db)
     else Inr db)"

subsection \<open>The votes for a delegate\<close>

definition election_vote_info ::
  "('reg, 'calc, 'client, 'caller) election_lib \<Rightarrow> int \<Rightarrow> int \<Rightarrow> f64 \<Rightarrow> (string \<times> u64) list \<Rightarrow> u64 \<Rightarrow> Vote \<times> bool \<Rightarrow> VotingInfo"
where
  "election_vote_info el ethMintTime nativeMintTime intensityRate probationMap epochNum = (\<lambda>(vote, isNative).
     let mintTime = (if \<not> isNative \<or> epochNum = 1 then ethMintTime else nativeMintTime);
         weightedVotes = (if hex_EncodeToString (vt_Candidate vote) \<in> keys probationMap
           then bigFloat_scale (vt_WeightedAmount vote) intensityRate else vt_WeightedAmount vote)
     in \<lparr>vi_EpochNumber = epochNum, vi_VoterAddress = hex_EncodeToString (vt_Voter vote), vi_IsNative = isNative,
         vi_Votes = big_String (vt_Amount vote), vi_WeightedVotes = big_String weightedVotes,
         vi_RemainingDuration = elb_VoteRemainingTime el vote mintTime, vi_StartTime = vt_StartTime vote,
         vi_Decay = vt_Decay vote\<rparr>)"

definition GetBucketInfoByEpoch ::
  "('reg, 'h) votings_protocol \<Rightarrow> ('reg, 'calc, 'client, 'caller) election_lib \<Rightarrow> libs \<Rightarrow> committed_tables \<Rightarrow> int \<Rightarrow>
   u64 \<Rightarrow> string \<Rightarrow> 'h votings_db \<Rightarrow> go_error + VotingInfo list"
where
  "GetBucketInfoByEpoch p el l com now epochNum delegateName db =
     andThen (GetEpochHeight (epochCtx p) epochNum) (\<lambda>height.
     if FairbankEffectiveHeight (epochCtx p) \<le> height then
       getStakingBucketInfoByEpoch l (voteCfg p) (staking_operators.truncate (opers p)) now height epochNum delegateName db
     else
       andThen (resultByHeight p l el (com_blocks com) (com_actions com) height db) (\<lambda>(votes, voteFlag, delegates).
       andThen (op_Get (timeTableOperator (opers p)) height (election_tables db)) (\<lambda>ethMintTime.
       andThen (if epochNum = 1 then Inr 0
         else wrap ''failed to get latest native mint time''
           (getLatestNativeMintTime (epochCtx p) (com_blocks com) (com_actions com) height)) (\<lambda>nativeMintTime.
       let (intensityRate, probationMap) = probationListToMap delegates (getProbationList epochNum (probation_list db)) in
       Inr (map (election_vote_info el ethMintTime nativeMintTime intensityRate probationMap epochNum)
         (filter (\<lambda>(vote, _). hex_EncodeToString (vt_Candidate vote) = delegateName) (zip votes voteFlag)))))))"

end
