(* ===== verification/Votings_Laws.thy ===== *)
theory Votings_Laws imports Votings begin

text \<open>What the votings protocol promises: the lemmas and properties of the theory \<open>Votings\<close>.\<close>

subsection \<open>Probation of election candidates\<close>

definition election_probated :: "ProbationCandidateList \<Rightarrow> Candidate \<Rightarrow> Candidate" where
  "election_probated pl c =
     (if ca_OperatorAddress c \<in> keys (pl_ProbationList pl)
      then c\<lparr>ca_Score := bigFloat_scale (ca_Score c) (intensity32 (pl_IntensityRate pl))\<rparr> else c)"

interpretation election_filter: probation_filter ca_OperatorAddress election_probated ca_Score
  by unfold_locales (simp add: election_probated_def)

lemma election_collect: "filter_election_candidate pl = election_filter.collect pl"
  by (simp add: fun_eq_iff filter_election_candidate_def election_filter.collect_def election_probated_def Let_def)

lemma filterCandidates_fold:
  assumes "filterCandidates l candidates pl epochStartHeight = Inr out"
  shows "mapE (lookup_candidate (fst (fold (election_filter.collect pl) candidates ([], []))))
    (lib_Sort l (snd (fold (election_filter.collect pl) candidates ([], []))) epochStartHeight) = Inr out"
  using assms by (simp add: filterCandidates_def election_collect split: prod.splits)

text \<open>Before the Fairbank height as after it, probation only lowers scores: with distinct operators and
  a rate of at most 100 percent the filter keeps every candidate, scales the scores of those on
  probation and makes none negative.\<close>

theorem election_probation_lowers_scores:
  assumes "filterCandidates l candidates pl epochStartHeight = Inr out"
    and "distinct (map ca_OperatorAddress candidates)" "pl_IntensityRate pl \<le> 100"
    and "\<And>m h. mset (lib_Sort l m h) = mset (map fst m)" "\<forall>c \<in> set candidates. 0 \<le> ca_Score c"
  shows "mset out = image_mset (election_probated pl) (mset candidates) \<and>
    (\<forall>c \<in> set candidates. 0 \<le> ca_Score (election_probated pl c) \<and> ca_Score (election_probated pl c) \<le> ca_Score c)"
proof -
  have "0 \<le> ca_Score (election_probated pl c) \<and> ca_Score (election_probated pl c) \<le> ca_Score c" if "0 \<le> ca_Score c" for c
    using bigFloat_scale_bounds[OF that intensity32_bounds[OF assms(3)]] that by (simp add: election_probated_def)
  then show ?thesis
    using election_filter.filtered(2)[OF filterCandidates_fold[OF assms(1)] assms(4,2)] assms(5) by blast
qed

definition scored :: "string \<Rightarrow> string \<Rightarrow> int \<Rightarrow> Candidate" where
  "scored name operator score =
     \<lparr>ca_Name = name, ca_Address = ''a'', ca_OperatorAddress = operator, ca_RewardAddress = operator, ca_Score = score,
      ca_SelfStakingTokens = 0\<rparr>"

lemma election_probation_lowers_scores_witness:
  "mset [scored ''n'' ''io1a'' 100, election_probated half_pl (scored ''m'' ''io1b'' 200)]
   = image_mset (election_probated half_pl) (mset [scored ''n'' ''io1a'' 100, scored ''m'' ''io1b'' 200])"
proof -
  have "filterCandidates (Libs offline_ctx) [scored ''n'' ''io1a'' 100, scored ''m'' ''io1b'' 200] half_pl 1
      = Inr [scored ''n'' ''io1a'' 100, election_probated half_pl (scored ''m'' ''io1b'' 200)]"
    by (simp add: filterCandidates_def filter_election_candidate_def half_pl_def scored_def election_probated_def
      lookup_candidate_def offline_ctx_def)
  then show ?thesis
    by (rule election_probation_lowers_scores[THEN conjunct1]) (simp_all add: offline_ctx_def half_pl_def scored_def)
qed

subsection \<open>Merging the native buckets\<close>

lemma native_vote_Inr:
  assumes "native_vote el t b (vs, sc, fl) = Inr s"
  obtains v where "0 \<le> elb_CalcWeightedVotes el b t" "elb_NewVote el b (elb_CalcWeightedVotes el b t) = Inr v"
    and "length (vt_Candidate v) = 12"
    and "s = (vs @ [v], AList.map_default (vt_Candidate v) (elb_CalcWeightedVotes el b t)
      (\<lambda>score. score + elb_CalcWeightedVotes el b t) sc, fl @ [True])"
  using assms by (auto simp: native_vote_def andThen_eq_Inr to12Bytes_def Let_def split: if_splits)

lemma native_votes:
  assumes "foldE (native_vote el t) bs (vs, sc, fl) = Inr (vs', sc', fl')"
  shows "\<exists>new. list_all2 (\<lambda>b v. elb_NewVote el b (elb_CalcWeightedVotes el b t) = Inr v) bs new \<and>
    vs' = vs @ new \<and> fl' = fl @ replicate (length bs) True \<and> (\<forall>v \<in> set new. length (vt_Candidate v) = 12) \<and>
    (\<forall>b \<in> set bs. 0 \<le> elb_CalcWeightedVotes el b t) \<and>
    (\<forall>n. get_or 0 sc' n = get_or 0 sc n +
      sum_list (map (\<lambda>(b, v). elb_CalcWeightedVotes el b t) (filter (\<lambda>(b, v). vt_Candidate v = n) (zip bs new))))"
  using assms
proof (induction bs arbitrary: vs sc fl)
  case (Cons b bs)
  let ?w = "elb_CalcWeightedVotes el b t"
  obtain v where v: "0 \<le> ?w" "elb_NewVote el b ?w = Inr v" "length (vt_Candidate v) = 12"
    and more: "foldE (native_vote el t) bs (vs @ [v], AList.map_default (vt_Candidate v) ?w (\<lambda>score. score + ?w) sc, fl @ [True])
      = Inr (vs', sc', fl')"
    using Cons.prems by (auto simp: andThen_eq_Inr elim: native_vote_Inr)
  from Cons.IH[OF more] obtain new where new:
    "list_all2 (\<lambda>b v. elb_NewVote el b (elb_CalcWeightedVotes el b t) = Inr v) bs new"
    "vs' = (vs @ [v]) @ new" "fl' = (fl @ [True]) @ replicate (length bs) True" "\<forall>v \<in> set new. length (vt_Candidate v) = 12"
    "\<forall>b \<in> set bs. 0 \<le> elb_CalcWeightedVotes el b t"
    "\<forall>n. get_or 0 sc' n = get_or 0 (AList.map_default (vt_Candidate v) ?w (\<lambda>score. score + ?w) sc) n +
      sum_list (map (\<lambda>(b, v). elb_CalcWeightedVotes el b t) (filter (\<lambda>(b, v). vt_Candidate v = n) (zip bs new)))"
    by blast
  show ?case
    by (rule exI[of _ "v # new"]) (use v new in \<open>simp add: get_or_default_sum del: get_or_map_default\<close>)
qed simp

definition merged :: "(string \<times> int) list \<Rightarrow> Candidate \<Rightarrow> Candidate" where
  "merged scores c = c\<lparr>ca_Score := ca_Score c + get_or 0 scores (ca_Name c)\<rparr>"

lemma merged_name [simp]: "ca_Name (merged scores c) = ca_Name c"
  by (simp add: merged_def)

lemma merge_candidate_Inr:
  "merge_candidate thr scores c (m, vp) = Inr s \<Longrightarrow>
   s = (if thr \<le> ca_Score (merged scores c)
        then (AList.update (hex_EncodeToString (ca_Name c)) (merged scores c) m,
              AList.update (hex_EncodeToString (ca_Name c)) (ca_Score (merged scores c)) vp)
        else (m, vp))"
  by (auto simp: merge_candidate_def andThen_eq_Inr to12Bytes_def merged_def Let_def split: if_splits)

lemma hex_image [simp]: "hex_EncodeToString x \<in> hex_EncodeToString ` A \<longleftrightarrow> x \<in> A"
  by auto

lemma merge_candidates:
  assumes "foldE (merge_candidate thr scores) cs (m, vp) = Inr (m', vp')" "map fst vp = map fst m"
    and "distinct (map ca_Name cs)" "hex_EncodeToString ` ca_Name ` set cs \<inter> keys m = {}"
  shows "m' = m @ map (\<lambda>c. (hex_EncodeToString (ca_Name c), c)) (filter (\<lambda>c. thr \<le> ca_Score c) (map (merged scores) cs)) \<and>
    map fst vp' = map fst m'"
  using assms
proof (induction cs arbitrary: m vp)
  case (Cons c cs)
  let ?k = "hex_EncodeToString (ca_Name c)"
  have fresh: "?k \<notin> keys m" using Cons.prems(4) by simp
  have ks: "keys vp = keys m" using Cons.prems(2) by (metis set_map)
  show ?case
  proof (cases "thr \<le> ca_Score (merged scores c)")
    case True
    let ?vp = "AList.update ?k (ca_Score (merged scores c)) vp"
    have vp1: "map fst ?vp = map fst (m @ [(?k, merged scores c)])" using Cons.prems(2) fresh ks by (simp add: update_fst)
    have more: "foldE (merge_candidate thr scores) cs (m @ [(?k, merged scores c)], ?vp) = Inr (m', vp')"
      unfolding update_fresh[OF fresh, symmetric]
      using Cons.prems(1) True by (auto simp: andThen_eq_Inr dest!: merge_candidate_Inr)
    show ?thesis using Cons.IH[OF more vp1] Cons.prems(3,4) True by auto
  next
    case False
    then have more: "foldE (merge_candidate thr scores) cs (m, vp) = Inr (m', vp')"
      using Cons.prems(1) by (auto simp: andThen_eq_Inr dest!: merge_candidate_Inr)
    show ?thesis using Cons.IH[OF more Cons.prems(2)] Cons.prems(3,4) False by auto
  qed
qed simp

text \<open>C18: Merging native buckets into an Ethereum result keeps all Ethereum votes in front, appends one native
  vote per bucket with the flag set, adds to each delegate's score exactly the weights of the native
  votes for its name, and keeps precisely the delegates whose new score reaches the threshold.\<close>

theorem merge_adds_native_votes:
  assumes "mergeResult p l el blocks actions height (votes, candidates) buckets flags = Inr (votes', flags', delegates)"
    and "getLatestNativeMintTime (epochCtx p) blocks actions height = Inr t"
    and "distinct (map ca_Name candidates)" "\<And>m h. mset (lib_Sort l m h) = mset (map fst m)"
  shows "\<exists>new scores. votes' = votes @ new \<and> flags' = flags @ replicate (length buckets) True \<and>
    list_all2 (\<lambda>b v. elb_NewVote el b (elb_CalcWeightedVotes el b t) = Inr v) buckets new \<and>
    (\<forall>n. get_or 0 scores n = sum_list (map (\<lambda>(b, v). elb_CalcWeightedVotes el b t)
      (filter (\<lambda>(b, v). vt_Candidate v = n) (zip buckets new)))) \<and>
    mset delegates = filter_mset (\<lambda>c. ScoreThreshold p \<le> ca_Score c) (image_mset (merged scores) (mset candidates))"
proof -
  obtain scores m vp where native: "foldE (native_vote el t) buckets (votes, [], flags) = Inr (votes', scores, flags')"
    and fold: "foldE (merge_candidate (ScoreThreshold p) scores) candidates ([], []) = Inr (m, vp)"
    and look: "mapE (lookup_candidate m) (lib_Sort l vp (word_of_int (t div 1000000000))) = Inr delegates"
    using assms(1,2) by (auto simp: mergeResult_def andThen_eq_Inr)
  note facts = merge_candidates[OF fold _ assms(3)]
  have m: "m = map (\<lambda>c. (hex_EncodeToString (ca_Name c), c)) (filter (\<lambda>c. ScoreThreshold p \<le> ca_Score c) (map (merged scores) candidates))"
    "map fst vp = map fst m" using facts by simp_all
  have "distinct (map (\<lambda>c. hex_EncodeToString (ca_Name c)) (map (merged scores) candidates))"
    using assms(3) by (auto simp: distinct_map inj_on_def)
  then have "distinct_keys m" unfolding m(1) by (simp add: distinct_map_filter comp_def)
  moreover have "mset (lib_Sort l vp (word_of_int (t div 1000000000))) = mset (map fst m)" unfolding assms(4) m(2) ..
  ultimately have "mset delegates = mset (map snd m)" using election_filter.lookups[OF look] by blast
  then have "mset delegates = filter_mset (\<lambda>c. ScoreThreshold p \<le> ca_Score c) (image_mset (merged scores) (mset candidates))"
    by (simp add: m(1) comp_def flip: mset_filter mset_map)
  then show ?thesis using native_votes[OF native] by (auto simp: get_or_def)
qed

text \<open>A package in which a bucket weighs its amount, for the witnesses.\<close>

definition sample_el :: "(unit, unit, unit, unit) election_lib" where
  "sample_el =
     \<lparr>elb_GetRawData = \<lambda>_. offline, elb_GetElectionBuckets = \<lambda>_. offline, elb_BucketFromProto = \<lambda>_. offline,
      elb_RegFromProto = \<lambda>_. offline, elb_Timestamp = \<lambda>_. offline, elb_Duration = \<lambda>_. offline,
      elb_NewBucket = \<lambda>_ _ _ _ _ _. offline, elb_RemainingTime = \<lambda>_ _. 0, elb_VoteRemainingTime = \<lambda>_ _. 0,
      elb_CalcWeightedVotes = \<lambda>b _. eb_Amount b,
      elb_NewVote = \<lambda>b w. Inr \<lparr>vt_Candidate = eb_Candidate b, vt_Voter = eb_Voter b, vt_Amount = eb_Amount b,
        vt_WeightedAmount = w, vt_StartTime = eb_StartTime b, vt_Decay = eb_Decay b\<rparr>,
      elb_NewResultCalculator = \<lambda>_ _ _ _ _. (), elb_AddRegistrations = \<lambda>_ c. Inr c, elb_AddBuckets = \<lambda>_ c. Inr c,
      elb_Calculate = \<lambda>_. Inr ([], []), elb_IsAllZeros = \<lambda>_. False, elb_Execute = \<lambda>_ _ s. (Inr (), s),
      elb_NewDelegateProfileCaller = \<lambda>_ _. offline, elb_GetProfileByField = \<lambda>_ _ _ _. offline\<rparr>"

definition no_operator :: "('a, unit) operator" where
  "no_operator = \<lparr>op_Put = \<lambda>_ _ h. Inr h, op_Get = \<lambda>_ _. Inl db_ErrNotExist\<rparr>"

definition sample_votings :: "(unit, unit) votings_protocol" where
  "sample_votings =
     \<lparr>opers = \<lparr>stakingBucketTableOperator = no_operator, stakingCandidateTableOperator = no_operator,
        bucketTableOperator = no_operator, registrationTableOperator = no_operator,
        nativeBucketTableOperator = no_operator, timeTableOperator = no_operator\<rparr>,
      epochCtx = tiny_ctx, GravityChainCfg = no_gravity, voteCfg = vote_cfg, SkipManifiedCandidate = False,
      VoteThreshold = 0, ScoreThreshold = 10, SelfStakingThreshold = 0, rewardPortionCfg = portion_cfg\<rparr>"

definition poll_action :: "u64 \<Rightarrow> ActionHistory" where
  "poll_action h =
     \<lparr>ah_ActionType = ''putPollResult'', ah_ActionHash = ''p'', ah_ReceiptHash = ''r'', ah_BlockHeight = h, ah_From = [],
      ah_To = [], ah_GasPrice = 0, ah_GasConsumed = 0, ah_Nonce = 0, ah_Amount = 0, ah_ReceiptStatus = []\<rparr>"

definition name12 :: "char \<Rightarrow> string" where
  "name12 c = replicate 12 c"

definition native :: "char \<Rightarrow> int \<Rightarrow> ElectionBucket" where
  "native c amount =
     \<lparr>eb_StartTime = 0, eb_Duration = 0, eb_Amount = amount, eb_Voter = ''v'', eb_Candidate = name12 c, eb_Decay = False\<rparr>"

definition native_votes_of :: "ElectionBucket list \<Rightarrow> Vote list" where
  "native_votes_of = map (\<lambda>b. \<lparr>vt_Candidate = eb_Candidate b, vt_Voter = eb_Voter b, vt_Amount = eb_Amount b,
     vt_WeightedAmount = eb_Amount b, vt_StartTime = eb_StartTime b, vt_Decay = eb_Decay b\<rparr>)"

lemma sample_mint_time: "getLatestNativeMintTime tiny_ctx (block_history blocks_2) [poll_action 2] 3 = Inr 0"
  by code_simp

lemma sample_merge:
  "mergeResult sample_votings (Libs offline_ctx) sample_el (block_history blocks_2) [poll_action 2] 3
     ([], [scored (name12 CHR ''a'') ''io1a'' 8, scored (name12 CHR ''b'') ''io1b'' 8])
     [native CHR ''a'' 1, native CHR ''a'' 2] []
   = Inr (native_votes_of [native CHR ''a'' 1, native CHR ''a'' 2], [True, True], [scored (name12 CHR ''a'') ''io1a'' 11])"
  unfolding mergeResult_def sample_votings_def votings_protocol.simps sample_mint_time
  by (simp add: native_vote_def merge_candidate_def to12Bytes_def sample_el_def native_def name12_def scored_def
    native_votes_of_def lookup_candidate_def offline_ctx_def get_or_def del: replicate.simps)

lemma merge_adds_native_votes_witness:
  "\<exists>new scores. native_votes_of [native CHR ''a'' 1, native CHR ''a'' 2] = [] @ new \<and> [True, True] = [] @ replicate (length [native CHR ''a'' 1, native CHR ''a'' 2]) True \<and>
    list_all2 (\<lambda>b v. elb_NewVote sample_el b (elb_CalcWeightedVotes sample_el b 0) = Inr v) [native CHR ''a'' 1, native CHR ''a'' 2] new \<and>
    (\<forall>n. get_or 0 scores n = sum_list (map (\<lambda>(b, v). elb_CalcWeightedVotes sample_el b 0)
      (filter (\<lambda>(b, v). vt_Candidate v = n) (zip [native CHR ''a'' 1, native CHR ''a'' 2] new)))) \<and>
    mset [scored (name12 CHR ''a'') ''io1a'' 11] = filter_mset (\<lambda>c. ScoreThreshold sample_votings \<le> ca_Score c)
      (image_mset (merged scores) (mset [scored (name12 CHR ''a'') ''io1a'' 8, scored (name12 CHR ''b'') ''io1b'' 8]))"
  by (rule merge_adds_native_votes[OF sample_merge])
    (simp_all add: sample_votings_def sample_mint_time scored_def name12_def offline_ctx_def)

text \<open>The native buckets of an epoch can only be merged when the last epoch has exactly one action that
  put a poll result: with none or with several the query for its time fails, and the epoch with it.\<close>

theorem merge_needs_one_poll:
  assumes "mergeResult p l el blocks actions height res buckets flags = Inr out"
    and "GetEpochNumber (epochCtx p) height = Inr n" "GetEpochHeight (epochCtx p) (n - 1) = Inr start"
  shows "length (filter (\<lambda>a. ah_ActionType a = ''putPollResult'' \<and> ah_BlockHeight a < height \<and> start \<le> ah_BlockHeight a) actions) = 1"
proof -
  obtain t where "getLatestNativeMintTime (epochCtx p) blocks actions height = Inr t"
    using assms(1) by (auto simp: mergeResult_def andThen_eq_Inr)
  then show ?thesis
    unfolding getLatestNativeMintTime_def assms(2,3) andThen_Inr by (auto split: list.splits)
qed

lemma merge_needs_one_poll_witness:
  "length (filter (\<lambda>a. ah_ActionType a = ''putPollResult'' \<and> ah_BlockHeight a < 3 \<and> 2 \<le> ah_BlockHeight a) [poll_action 2]) = 1"
proof (rule merge_needs_one_poll[OF sample_merge])
  show "GetEpochNumber (epochCtx sample_votings) 3 = Inr 3" by code_simp
  show "GetEpochHeight (epochCtx sample_votings) (3 - 1) = Inr 2" by code_simp
qed

subsection \<open>The tables keep their keys\<close>

definition votings_ok :: "'h votings_db \<Rightarrow> bool" where
  "votings_ok db \<longleftrightarrow> distinct (map vr_key (voting_result db)) \<and> distinct (map av_key (aggregate_voting db)) \<and>
     distinct (map vm_EpochNumber (voting_meta db)) \<and> distinct (map pb_key (probation_list db))"

lemma put_table_ok: "put_table oper height r db = Inr db' \<Longrightarrow> votings_ok db' = votings_ok db"
  by (auto simp: put_table_def andThen_eq_Inr votings_ok_def)

lemma insertVotingResult_distinct:
  "insertVotingResult e n oa ra v ss b ep f a t = Inr t' \<Longrightarrow> distinct (map vr_key t) \<Longrightarrow> distinct (map vr_key t')"
  by (auto simp: insertVotingResult_def andThen_eq_Inr insert_unique_eq_Inr simp del: insert_unique.simps)

lemma insertVotingMeta_distinct:
  "insertVotingMeta e a b c t = Inr t' \<Longrightarrow> distinct (map vm_EpochNumber t) \<Longrightarrow> distinct (map vm_EpochNumber t')"
  by (auto simp: insertVotingMeta_def insert_unique_eq_Inr simp del: insert_unique.simps)

lemma staking_result_rows_distinct:
  "foldE (staking_result_row l p e) cs t = Inr t' \<Longrightarrow> distinct (map vr_key t) \<Longrightarrow> distinct (map vr_key t')"
  by (erule (1) foldE_invariant)
    (auto simp: staking_result_row_def andThen_eq_Inr Let_def dest: insertVotingResult_distinct)

lemma election_result_rows_distinct:
  "foldE (election_result_row l el cfg e h) cs t = Inr t' \<Longrightarrow> distinct (map vr_key t) \<Longrightarrow> distinct (map vr_key t')"
  by (erule (1) foldE_invariant)
    (auto simp: election_result_row_def andThen_eq_Inr Let_def dest: insertVotingResult_distinct)

lemma updateAggregateStaking_ok:
  assumes "updateAggregateStaking l cfg ord votes cs e pl db = Inr db'" "votings_ok db"
  shows "votings_ok db'"
proof -
  obtain r pm where pm: "stakingProbationListToMap cs (convertProbationListToLocal pl) = (r, pm)" by fastforce
  obtain nameMap m n t weighted vm where
    "foldE (staking_aggregate_row l nameMap r pm e) (ord m) (aggregate_voting db) = Inr t"
    and "insertVotingMeta e n (length cs) (sum_list weighted) (voting_meta db) = Inr vm"
    and "db' = db\<lparr>aggregate_voting := t, voting_meta := vm\<rparr>"
    using assms(1) unfolding updateAggregateStaking_def pm by (auto simp: andThen_eq_Inr)
  then show ?thesis
    using assms(2) aggregate_rows(1) insertVotingMeta_distinct
    by (fastforce simp: votings_ok_def ignoring.ins_distinct)
qed

lemma votings_ok_updates:
  "updateStakingResult ec pc ictx com cs e h db = Inr db' \<Longrightarrow> votings_ok db \<Longrightarrow> votings_ok db'"
  "updateVotingResultTable l el cfg ds e h db = Inr db' \<Longrightarrow> votings_ok db \<Longrightarrow> votings_ok db'"
  "updateAggregateVotingandVotingMetaTable eord votes flags ds e pl db = Inr db' \<Longrightarrow> votings_ok db \<Longrightarrow> votings_ok db'"
  by (auto simp: updateStakingResult_def updateVotingResultTable_def updateAggregateVotingandVotingMetaTable_def andThen_eq_Inr
      votings_ok_def Let_def ignoring.ins_distinct
      dest: staking_result_rows_distinct election_result_rows_distinct insertVotingMeta_distinct split: prod.splits if_splits)

lemma processStaking_ok:
  assumes "processStaking ec vc pc ops ord ictx com h prev e pl db = Inr db'" "votings_ok db"
  shows "votings_ok db'"
proof -
  obtain bs cs cs' db1 db2 db3 where
    "put_table (stakingBucketTableOperator ops) h bs db = Inr db1"
    "put_table (stakingCandidateTableOperator ops) h cs db1 = Inr db2"
    "updateStakingResult ec pc ictx com cs' e h db2 = Inr db3"
    "updateAggregateStaking (Libs ictx) vc ord bs cs' e pl db3 = Inr db'"
    using assms(1) unfolding processStaking_def by (auto simp: andThen_eq_Inr)
  then show ?thesis
    using assms(2) put_table_ok votings_ok_updates(1) updateAggregateStaking_ok by metis
qed

lemma fetchAndStoreRawBuckets_ok:
  assumes "fetchAndStoreRawBuckets p el e h g db = Inr db'"
  shows "votings_ok db' = votings_ok db"
proof -
  obtain buckets regs mintTime native db1 where
    "putPoll p h mintTime regs buckets db = Inr db1" "putNativePoll p h native db1 = Inr db'"
    using assms unfolding fetchAndStoreRawBuckets_def by (auto simp: andThen_eq_Inr)
  moreover have "votings_ok db1 = votings_ok db" if "putPoll p h mintTime regs buckets db = Inr db1"
    using that unfolding putPoll_def by (auto simp: andThen_eq_Inr put_table_ok)
  moreover have "votings_ok db' = votings_ok db1" if "putNativePoll p h native db1 = Inr db'"
    using that unfolding putNativePoll_def by (auto simp: put_table_ok split: option.splits)
  ultimately show ?thesis by simp
qed

lemma updateVotingTables_ok:
  assumes "updateVotingTables p l el ord blocks actions e h g pl db = Inr db'" "votings_ok db"
  shows "votings_ok db'"
proof -
  obtain votes flags ds db1 where
    "updateAggregateVotingandVotingMetaTable ord votes flags ds e pl db = Inr db1"
    "updateVotingResultTable l el (GravityChainCfg p) ds e g db1 = Inr db'"
    using assms(1) unfolding updateVotingTables_def by (auto simp: andThen_eq_Inr)
  then show ?thesis using assms(2) votings_ok_updates by metis
qed

lemma probation_table_ok:
  "votings_ok db \<Longrightarrow> votings_ok (db\<lparr>probation_list := updateProbationListTable e pl (probation_list db)\<rparr>)"
  by (simp add: votings_ok_def updateProbationListTable_def ignoring.ins_distinct split: option.splits)

lemma votings_HandleBlock_ok:
  assumes "votings_HandleBlock p el ords ictx com blk db = Inr db'" "votings_ok db"
  shows "votings_ok db'"
proof -
  have "votings_ok db'" if start: "votings_epoch_start p el ords ictx com h e db = Inr db'" for h e
  proof -
    obtain pl where pl: "fetchProbationList ictx e = Inr pl"
      using start unfolding votings_epoch_start_def by (auto simp: andThen_eq_Inr)
    note ok = probation_table_ok[OF assms(2), of e pl]
    show ?thesis
      using start pl ok unfolding votings_epoch_start_def
      by (auto simp: andThen_eq_Inr Let_def processStaking_ok fetchAndStoreRawBuckets_ok updateVotingTables_ok split: if_splits)
  qed
  then show ?thesis
    using assms unfolding votings_HandleBlock_def by (auto simp: andThen_eq_Inr split: if_splits)
qed


definition probation_ctx :: IndexCtx where
  "probation_ctx = offline_ctx
     \<lparr>ConsensusScheme := ROLLDPOS,
      ChainClient := (ChainClient offline_ctx)\<lparr>cc_ReadState := \<lambda>rq. if rq_ProtocolID rq = ''poll'' then Inr ''pl'' else Inr [],
        cc_GetLogs := \<lambda>_ _ _ _. Inr []\<rparr>,
      Libs := (Libs offline_ctx)\<lparr>lib_UnmarshalProbationList := \<lambda>_. Inr full_pl,
        lib_MarshalStakingMethod := \<lambda>m. Inr m, lib_MarshalStakingRequest := \<lambda>_ _ _. Inr [],
        lib_UnmarshalBuckets := \<lambda>_. Inr [], lib_UnmarshalCandidates := \<lambda>_. Inr []\<rparr>\<rparr>"

definition sample_committed :: committed_tables where
  "sample_committed = \<lparr>com_voting_result = [last_row], com_blocks = [], com_actions = []\<rparr>"

definition probation_db :: "unit votings_db" where
  "probation_db = empty_votings
     \<lparr>probation_list := [\<lparr>pb_EpochNumber = 2, pb_IntensityRate = 100, pb_Address = ''io1b'', pb_Count = 1\<rparr>],
      voting_meta := [\<lparr>vm_EpochNumber = 2, vm_VotedToken = 0, vm_DelegateCount = 0, vm_TotalWeighted = 0\<rparr>]\<rparr>"

lemma probation_block:
  "votings_HandleBlock sample_votings sample_el \<lparr>staking_ord = rev, election_ord = rev\<rparr> probation_ctx sample_committed
     (sample_block 2) empty_votings = Inr probation_db"
proof -
  have "hex_DecodeString topicProfileUpdated \<noteq> Inl e" for e by code_simp
  then obtain tp where "hex_DecodeString topicProfileUpdated = Inr tp" by (cases "hex_DecodeString topicProfileUpdated") auto
  then have log: "getLog probation_ctx c f n = Inr no_portions" for c f n
    by (auto simp: getLog_def probation_ctx_def)
  have epochs: "GetEpochNumber tiny_ctx 2 = Inr 2" "GetEpochHeight tiny_ctx 2 = Inr 2" "GetEpochHeight tiny_ctx 1 = Inr 1"
    "FairbankEffectiveHeight tiny_ctx = 1"
    by code_simp+
  have pages: "GetAllStakingBuckets probation_ctx 1 = Some (Inr [])" "GetAllStakingCandidates probation_ctx 1 = Some (Inr [])"
    unfolding GetAllStakingBuckets_def GetAllStakingCandidates_def
    by (subst read_pages.simps, simp add: getStakingBuckets_def getStakingCandidates_def probation_ctx_def protocolID_def
      readBucketsLimit_def readCandidatesLimit_def)+
  have probation: "fetchProbationList probation_ctx 2 = Inr (Some full_pl)"
    by (simp add: fetchProbationList_def probation_ctx_def)
  have sort_nothing: "lib_Sort (Libs probation_ctx) [] 2 = []" by (simp add: probation_ctx_def offline_ctx_def)
  have portions: "getAllStakingDelegateRewardPortions tiny_ctx portion_cfg probation_ctx 2 2 [last_row] = Inr last_portions"
    using epochs by (simp add: getAllStakingDelegateRewardPortions_def log getLastEpochPortion_def override_def no_portions_def)
      (simp add: last_row_def last_portions_def)
  have "votings_epoch_start sample_votings sample_el \<lparr>staking_ord = rev, election_ord = rev\<rparr> probation_ctx sample_committed
     2 2 empty_votings = Inr probation_db"
    unfolding votings_epoch_start_def probation andThen_Inr
    by (simp add: sample_votings_def epochs processStaking_def pages put_table_def no_operator_def staking_operators.defs
      updateStakingResult_def sample_committed_def portions errorf_def updateAggregateStaking_def ownerAddressToNameMap_def
      stakingProbationListToMap_def convertProbationListToLocal_def insertVotingMeta_def full_pl_def
      filterStakingCandidates_def sort_nothing empty_votings_def probation_db_def
      updateProbationListTable_def pb_key_def)
  then show ?thesis
    unfolding votings_HandleBlock_def
    by (simp add: sample_votings_def sample_block_def epochs) (simp add: probation_ctx_def)
qed


end
