(* ===== verification/Rewards.thy ===== *)
theory Rewards imports Blocks Voting_Result begin

text \<open>
  \<open>indexprotocol/rewards/protocol.go\<close>: the rewards granted in each block, and per finished epoch
  the rewards of each delegate, where the rewards of an address shared by several delegates are
  broken down among them. The tables of the votings protocol it reads are an argument.
\<close>

record RewardInfo =
  ri_BlockReward :: int
  ri_EpochReward :: int
  ri_FoundationBonus :: int

record reward_history_row =
  rh_EpochNumber :: u64
  rh_ActionHash :: string
  rh_RewardAddress :: string
  rh_CandidateName :: string
  rh_BlockReward :: int
  rh_EpochReward :: int
  rh_FoundationBonus :: int

type_synonym account_reward_row = "(u64 \<times> string) \<times> RewardInfo"

record AggregateReward =
  ar_EpochNumber :: u64
  ar_RewardAddress :: string
  ar_Rewards :: RewardInfo

record Productivity =
  pr_Production :: u64
  pr_ExpectedProduction :: u64

record rewards_db =
  reward_history :: "reward_history_row list"
  account_reward :: "account_reward_row list"

record rewards_mem =
  RewardAddrToName :: "(string \<times> string list) list option"

definition zero_reward :: RewardInfo where
  "zero_reward = \<lparr>ri_BlockReward = 0, ri_EpochReward = 0, ri_FoundationBonus = 0\<rparr>"

subsection \<open>The rewards of a receipt\<close>

text \<open>An amount that is no number, and an unknown type, end the process (\<open>log.L().Fatal\<close>).\<close>

definition add_reward :: "RewardLog \<Rightarrow> (string \<times> RewardInfo) list \<Rightarrow> go_error + (string \<times> RewardInfo) list" where
  "add_reward rewardLog m =
     (let rewards = (case map_of m (rl_Addr rewardLog) of None \<Rightarrow> zero_reward | Some r \<Rightarrow> r) in
      case big_SetString 10 (rl_Amount rewardLog) of
        None \<Rightarrow> Inl (Fatal ''Failed to convert reward amount from string to big int'')
      | Some amount \<Rightarrow>
          (case rl_Type rewardLog of
             BLOCK_REWARD \<Rightarrow> Inr (AList.update (rl_Addr rewardLog)
               (rewards\<lparr>ri_BlockReward := ri_BlockReward rewards + amount\<rparr>) m)
           | EPOCH_REWARD \<Rightarrow> Inr (AList.update (rl_Addr rewardLog)
               (rewards\<lparr>ri_EpochReward := ri_EpochReward rewards + amount\<rparr>) m)
           | FOUNDATION_BONUS \<Rightarrow> Inr (AList.update (rl_Addr rewardLog)
               (rewards\<lparr>ri_FoundationBonus := ri_FoundationBonus rewards + amount\<rparr>) m)
           | OtherRewardType \<Rightarrow> Inl (Fatal ''Unknown type of reward'')))"

definition getRewardInfoFromReceipt :: "IndexCtx \<Rightarrow> receipt \<Rightarrow> go_error + (string \<times> RewardInfo) list" where
  "getRewardInfoFromReceipt ictx receipt =
     foldE (\<lambda>l m.
       andThen (wrap ''failed to unmarshal receipt data into reward log''
         (lib_UnmarshalRewardLog (Libs ictx) (log_Data l))) (\<lambda>rewardLog. add_reward rewardLog m))
       (rcp_Logs receipt) []"

text \<open>A reward address shared by several candidates is recorded under the first of them.\<close>

definition first_name :: "rewards_mem \<Rightarrow> string \<Rightarrow> string" where
  "first_name mem addr =
     (case RewardAddrToName mem of
        None \<Rightarrow> []
      | Some m \<Rightarrow> (case get_or [] m addr of [] \<Rightarrow> [] | name # _ \<Rightarrow> name))"

definition updateRewardHistory ::
  "rewards_mem \<Rightarrow> u64 \<Rightarrow> string \<Rightarrow> (string \<times> RewardInfo) list \<Rightarrow> rewards_db \<Rightarrow> go_error + rewards_db"
where
  "updateRewardHistory mem epochNumber actionHash rewardInfos db =
     (let rows = map (\<lambda>(addr, r).
            \<lparr>rh_EpochNumber = epochNumber, rh_ActionHash = actionHash, rh_RewardAddress = addr,
             rh_CandidateName = first_name mem addr, rh_BlockReward = ri_BlockReward r,
             rh_EpochReward = ri_EpochReward r, rh_FoundationBonus = ri_FoundationBonus r\<rparr>) rewardInfos
      in andThen (exec_values rows (Inr (reward_history db @ rows))) (\<lambda>h.
         Inr (db\<lparr>reward_history := h\<rparr>)))"

subsection \<open>Refreshing the reward addresses\<close>

definition add_name :: "string \<Rightarrow> string \<Rightarrow> (string \<times> string list) list \<Rightarrow> (string \<times> string list) list" where
  "add_name addr name m = AList.update addr (get_or [] m addr @ [name]) m"

fun encode_reward_names ::
  "CandidateV2 list \<Rightarrow> (string \<times> string list) list \<Rightarrow> (go_error + unit) \<times> (string \<times> string list) list"
where
  "encode_reward_names [] m = (Inr (), m)"
| "encode_reward_names (c # cs) m =
     (let m = (if map_of m (cand_RewardAddress c) = None then AList.update (cand_RewardAddress c) [] m else m) in
      case wrap ''encode delegate name error'' (EncodeDelegateName (cand_Name c)) of
        Inl e \<Rightarrow> (Inl e, m)
      | Inr name \<Rightarrow> encode_reward_names cs (add_name (cand_RewardAddress c) name m))"

definition updateStakingCandidateRewardAddress :: "IndexCtx \<Rightarrow> u64 \<Rightarrow> (rewards_mem, unit) go" where
  "updateStakingCandidateRewardAddress ictx height mem =
     (case wrap ''get candidate error'' (returned (GetAllStakingCandidates ictx height)) of
        Inl e \<Rightarrow> (Inl e, mem)
      | Inr candidates \<Rightarrow>
          (case encode_reward_names candidates [] of
             (r, m) \<Rightarrow> (r, mem\<lparr>RewardAddrToName := Some m\<rparr>)))"

definition rewards_gravityHeight :: "EpochCtx \<Rightarrow> GravityChain \<Rightarrow> IndexCtx \<Rightarrow> u64 \<Rightarrow> go_error + u64" where
  "rewards_gravityHeight epochCtx gravityChainCfg ictx epochNumber =
     (if epochNumber = 1 then Inr (GravityChainStartHeight gravityChainCfg)
      else
        andThen (GetEpochHeight epochCtx (epochNumber - 1)) (\<lambda>prevEpochHeight.
        wrap ''failed to get gravity height from chain service in epoch''
          (GetGravityChainStartHeight ictx prevEpochHeight)))"

definition updateCandidateRewardAddress ::
  "EpochCtx \<Rightarrow> GravityChain \<Rightarrow> IndexCtx \<Rightarrow> u64 \<Rightarrow> u64 \<Rightarrow> (rewards_mem, unit) go"
where
  "updateCandidateRewardAddress epochCtx gravityChainCfg ictx height epochNumber =
     (if FairbankEffectiveHeight epochCtx \<le> height then
        go_bind (go_lift (GetEpochHeight epochCtx (epochNumber - 1)))
          (updateStakingCandidateRewardAddress ictx)
      else
        go_bind (go_lift (rewards_gravityHeight epochCtx gravityChainCfg ictx epochNumber)) (\<lambda>gravityHeight.
        go_bind (go_lift (wrap ''failed to get candidates from election service''
            (el_GetCandidates (ElectionClient ictx) (itoa gravityHeight)))) (\<lambda>candidates mem.
        (Inr (), mem\<lparr>RewardAddrToName :=
           Some (fold (\<lambda>c. add_name (ec_RewardAddress c) (ec_Name c)) candidates [])\<rparr>))))"

subsection \<open>Breaking down the rewards of a shared address\<close>

text \<open>
  The query of \<open>getProductivity\<close> groups the committed block history of the epoch; a delegate that
  was expected but made no block has production 0.
\<close>

definition getProductivity :: "u64 \<Rightarrow> blocks_db \<Rightarrow> go_error + (string \<times> Productivity) list" where
  "getProductivity epochNumber committed =
     (let rows = productivity_rows epochNumber (block_history committed) in
      if rows = [] then Inl ErrNotExist
      else Inr (fold (\<lambda>((_, name), (p, x)). AList.update name
             \<lparr>pr_Production = of_int p, pr_ExpectedProduction = of_int x\<rparr>) rows []))"

text \<open>
  The candidates by decreasing votes, ranked from 1. \<open>sort.Slice\<close> is not stable and starts from
  the arbitrary order in which the map is visited: a stable sort after any order \<open>ord\<close> gives each
  of its possible results.
\<close>

definition candidate_rank ::
  "((string \<times> int) list \<Rightarrow> (string \<times> int) list) \<Rightarrow> (string \<times> int) list \<Rightarrow> (string \<times> nat) list"
where
  "candidate_rank ord weightedVotes =
     (let sorted = sort_key (\<lambda>p. - snd p) (ord weightedVotes)
      in zip (map fst sorted) [1..<length sorted + 1])"

record breakdown_sums =
  bs_productionSum :: int
  bs_qualifiedTotalVotes :: int
  bs_foundationBonusCount :: int
  bs_earnBlockReward :: "string list"
  bs_earnEpochReward :: "string list"
  bs_earnFoundationBonus :: "string list"

text \<open>
  One round of the first loop. Reading the votes of a candidate without votes is a nil pointer, and
  the productivity check divides by the expected production. A candidate without a rank has rank 0.
\<close>

definition qualify ::
  "Rewarding \<Rightarrow> (string \<times> nat) list \<Rightarrow> (string \<times> Productivity) list \<Rightarrow> (string \<times> int) list \<Rightarrow>
   string \<Rightarrow> breakdown_sums \<Rightarrow> go_error + breakdown_sums"
where
  "qualify cfg rank productivityMap weightedVotes name s =
     (let exempt = name \<in> set (ExemptCandidatesFromEpochReward cfg); r = get_or 0 rank name in
      andThen (case map_of productivityMap name of
          None \<Rightarrow> Inr (True, s)
        | Some p \<Rightarrow>
            andThen (u64_div (pr_Production p * 100) (pr_ExpectedProduction p)) (\<lambda>pct.
            Inr (\<not> pct < ProductivityThreshold cfg,
                 s\<lparr>bs_productionSum := bs_productionSum s + sint (pr_Production p),
                   bs_earnBlockReward := name # bs_earnBlockReward s\<rparr>))) (\<lambda>(productive, s).
      andThen
        (if r \<le> unat (NumDelegatesForEpochReward cfg) \<and> \<not> exempt \<and> productive then
           (case map_of weightedVotes name of
              None \<Rightarrow> Inl (Panic ''invalid memory address or nil pointer dereference'')
            | Some v \<Rightarrow> Inr (s\<lparr>bs_qualifiedTotalVotes := bs_qualifiedTotalVotes s + v,
                                bs_earnEpochReward := name # bs_earnEpochReward s\<rparr>))
         else Inr s) (\<lambda>s.
      Inr (if r \<le> unat (NumDelegatesForFoundationBonus cfg) \<and> \<not> exempt then
             s\<lparr>bs_foundationBonusCount := bs_foundationBonusCount s + 1,
               bs_earnFoundationBonus := name # bs_earnFoundationBonus s\<rparr>
           else s))))"

definition no_sums :: breakdown_sums where
  "no_sums =
     \<lparr>bs_productionSum = 0, bs_qualifiedTotalVotes = 0, bs_foundationBonusCount = 0,
      bs_earnBlockReward = [], bs_earnEpochReward = [], bs_earnFoundationBonus = []\<rparr>"

text \<open>
  One round of the second loop: the shares of one candidate. The divisors are positive where they
  are used, so \<open>big.Int.Div\<close> is \<open>div\<close>. A candidate that earned an epoch reward has votes.
\<close>

definition share_of ::
  "(string \<times> Productivity) list \<Rightarrow> (string \<times> int) list \<Rightarrow> breakdown_sums \<Rightarrow> RewardInfo \<Rightarrow> string \<Rightarrow> RewardInfo"
where
  "share_of productivityMap weightedVotes s totals name =
     \<lparr>ri_BlockReward =
        (if 0 < bs_productionSum s \<and> name \<in> set (bs_earnBlockReward s) then
           (case map_of productivityMap name of
              None \<Rightarrow> 0
            | Some p \<Rightarrow> ri_BlockReward totals * uint (pr_Production p) div bs_productionSum s)
         else 0),
      ri_EpochReward =
        (if 0 < bs_qualifiedTotalVotes s \<and> name \<in> set (bs_earnEpochReward s) then
           ri_EpochReward totals * get_or 0 weightedVotes name div bs_qualifiedTotalVotes s
         else 0),
      ri_FoundationBonus =
        (if 0 < ri_FoundationBonus totals \<and> name \<in> set (bs_earnFoundationBonus s) then
           ri_FoundationBonus totals div bs_foundationBonusCount s
         else 0)\<rparr>"

definition breakdownRewards ::
  "((string \<times> int) list \<Rightarrow> (string \<times> int) list) \<Rightarrow> Rewarding \<Rightarrow> blocks_db \<Rightarrow> u64 \<Rightarrow> string list \<Rightarrow>
   (string \<times> int) list \<Rightarrow> RewardInfo \<Rightarrow> go_error + (string \<times> RewardInfo) list"
where
  "breakdownRewards ord cfg committed epochNumber candidateNames weightedVotes totals =
     (let rank = candidate_rank ord weightedVotes in
      andThen (wrap ''failed to get productivity map'' (getProductivity epochNumber committed)) (\<lambda>productivityMap.
      andThen (foldE (qualify cfg rank productivityMap weightedVotes) candidateNames no_sums) (\<lambda>s.
      Inr (fold (\<lambda>name m.
             let share = share_of productivityMap weightedVotes s totals name
             in if share = zero_reward then m else AList.update name share m) candidateNames []))))"

subsection \<open>The rewards of a finished epoch\<close>

definition getVotingInfo ::
  "u64 \<Rightarrow> VotingResult list \<Rightarrow> go_error + (string \<times> string list) list \<times> (string \<times> int) list"
where
  "getVotingInfo lastEpoch voting_result =
     (let rows = filter (\<lambda>v. vr_EpochNumber v = lastEpoch) voting_result in
      if rows = [] then Inl ErrNotExist
      else foldE (\<lambda>v (names, votes).
             andThen (wrap ''failed to covert string to big int''
               (stringToBigInt (big_String (vr_TotalWeightedVotes v)))) (\<lambda>n.
             Inr (add_name (vr_RewardAddress v) (vr_DelegateName v) names,
                  AList.update (vr_DelegateName v) n votes))) rows ([], []))"

definition reward_sum :: "reward_history_row list \<Rightarrow> RewardInfo" where
  "reward_sum rs =
     \<lparr>ri_BlockReward = sum_list (map rh_BlockReward rs), ri_EpochReward = sum_list (map rh_EpochReward rs),
      ri_FoundationBonus = sum_list (map rh_FoundationBonus rs)\<rparr>"

text \<open>\<open>SELECT ... SUM ... WHERE epoch_number = ? GROUP BY epoch_number, reward_address\<close>.\<close>

definition aggregate_rewards :: "u64 \<Rightarrow> reward_history_row list \<Rightarrow> AggregateReward list" where
  "aggregate_rewards e hs =
     (let rs = filter (\<lambda>r. rh_EpochNumber r = e) hs in
      map (\<lambda>addr. \<lparr>ar_EpochNumber = e, ar_RewardAddress = addr,
             ar_Rewards = reward_sum (filter (\<lambda>r. rh_RewardAddress r = addr) rs)\<rparr>)
        (remdups (map rh_RewardAddress rs)))"

definition rewards_of_record ::
  "((string \<times> int) list \<Rightarrow> (string \<times> int) list) \<Rightarrow>
   ((string \<times> RewardInfo) list \<Rightarrow> (string \<times> RewardInfo) list) \<Rightarrow> Rewarding \<Rightarrow> blocks_db \<Rightarrow>
   (string \<times> string list) list \<Rightarrow> (string \<times> int) list \<Rightarrow> AggregateReward \<Rightarrow> go_error + account_reward_row list"
where
  "rewards_of_record ord ordR cfg committed names votes record =
     (let candidateNames = get_or [] names (ar_RewardAddress record); e = ar_EpochNumber record in
      case candidateNames of
        [name] \<Rightarrow> Inr [((e, name), ar_Rewards record)]
      | _ \<Rightarrow>
          andThen (wrap ''failed to get candidate rewards map''
            (breakdownRewards ord cfg committed e candidateNames votes (ar_Rewards record))) (\<lambda>m.
          Inr (map (\<lambda>(name, r). ((e, name), r)) (ordR m))))"

definition rebuildAccountRewardTable ::
  "((string \<times> int) list \<Rightarrow> (string \<times> int) list) \<Rightarrow>
   ((string \<times> RewardInfo) list \<Rightarrow> (string \<times> RewardInfo) list) \<Rightarrow> Rewarding \<Rightarrow> blocks_db \<Rightarrow>
   VotingResult list \<Rightarrow> u64 \<Rightarrow> rewards_db \<Rightarrow> go_error + rewards_db"
where
  "rebuildAccountRewardTable ord ordR cfg committed voting_result lastEpoch db =
     (if lastEpoch = 0 then Inr db
      else
        andThen (wrap ''failed to get voting info'' (getVotingInfo lastEpoch voting_result)) (\<lambda>(names, votes).
        let records = aggregate_rewards lastEpoch (reward_history db) in
        if records = [] then Inr db
        else
          andThen (mapE (rewards_of_record ord ordR cfg committed names votes) records) (\<lambda>rowss.
          andThen (exec_values (concat rowss)
            (Inr (insert_ignore fst (concat rowss) (account_reward db)))) (\<lambda>t.
          Inr (db\<lparr>account_reward := t\<rparr>)))))"

subsection \<open>Handling a block\<close>

definition grant_reward_hashes :: "block \<Rightarrow> string list" where
  "grant_reward_hashes blk =
     map selp_Hash (filter (\<lambda>selp. selp_Action selp = GrantReward) (blk_Actions blk))"

definition record_receipt ::
  "IndexCtx \<Rightarrow> rewards_mem \<Rightarrow> ((string \<times> RewardInfo) list \<Rightarrow> (string \<times> RewardInfo) list) \<Rightarrow> u64 \<Rightarrow>
   string list \<Rightarrow> receipt \<Rightarrow> rewards_db \<Rightarrow> go_error + rewards_db"
where
  "record_receipt ictx mem ordR epochNumber grants receipt db =
     (if rcp_ActionHash receipt \<in> set grants then
        andThen (wrap ''failed to get reward info from receipt'' (getRewardInfoFromReceipt ictx receipt)) (\<lambda>m.
        if m = [] then Inr db
        else wrap ''failed to update epoch number and reward address to reward history table''
               (updateRewardHistory mem epochNumber (hex_EncodeToString (rcp_ActionHash receipt)) (ordR m) db))
      else Inr db)"

definition rewards_HandleBlock ::
  "((string \<times> int) list \<Rightarrow> (string \<times> int) list) \<Rightarrow>
   ((string \<times> RewardInfo) list \<Rightarrow> (string \<times> RewardInfo) list) \<Rightarrow> EpochCtx \<Rightarrow> GravityChain \<Rightarrow> Rewarding \<Rightarrow>
   IndexCtx \<Rightarrow> blocks_db \<Rightarrow> VotingResult list \<Rightarrow> block \<Rightarrow> (rewards_db \<times> rewards_mem, unit) go"
where
  "rewards_HandleBlock ord ordR epochCtx gravityChainCfg cfg ictx committed voting_result blk = (\<lambda>(db, mem).
     let height = blk_Height blk; rolldpos = (ConsensusScheme ictx = ROLLDPOS) in
     case epoch_prologue epochCtx height of
       Inl e \<Rightarrow> (Inl e, (db, mem))
     | Inr (epochNumber, epochHeight) \<Rightarrow>
         (case (if rolldpos \<and> (height = epochHeight \<or> RewardAddrToName mem = None)
                then go_wrap ''failed to update candidates in epoch''
                       (updateCandidateRewardAddress epochCtx gravityChainCfg ictx height epochNumber) mem
                else (Inr (), mem)) of
            (Inl e, mem) \<Rightarrow> (Inl e, (db, mem))
          | (Inr _, mem) \<Rightarrow>
              (case andThen
                  (if rolldpos \<and> height = epochHeight
                   then wrap ''failed to rebuild account reward table''
                          (rebuildAccountRewardTable ord ordR cfg committed voting_result (epochNumber - 1) db)
                   else Inr db)
                  (foldE (record_receipt ictx mem ordR epochNumber (grant_reward_hashes blk)) (blk_Receipts blk)) of
                 Inl e \<Rightarrow> (Inl e, (db, mem))
               | Inr db' \<Rightarrow> (Inr (), (db', mem)))))"

text \<open>The readers of the package.\<close>

definition getRewardHistory :: "string \<Rightarrow> rewards_db \<Rightarrow> go_error + reward_history_row list" where
  "getRewardHistory actionHash db =
     (let rows = filter (\<lambda>r. rh_ActionHash r = actionHash) (reward_history db)
      in if rows = [] then Inl ErrNotExist else Inr rows)"

definition getAccountReward :: "u64 \<Rightarrow> string \<Rightarrow> rewards_db \<Rightarrow> go_error + account_reward_row" where
  "getAccountReward epochNumber candidateName db =
     (case filter (\<lambda>r. fst r = (epochNumber, candidateName)) (account_reward db) of
        [] \<Rightarrow> Inl ErrNotExist
      | [row] \<Rightarrow> Inr row
      | _ \<Rightarrow> Inl (ErrMsg ''only one row is expected''))"

subsection \<open>Breaking down never gives out more than there is\<close>

definition production_of :: "(string \<times> Productivity) list \<Rightarrow> string \<Rightarrow> int" where
  "production_of pm name = (case map_of pm name of None \<Rightarrow> 0 | Some p \<Rightarrow> uint (pr_Production p))"

text \<open>What the first loop keeps: each sum is the sum over the candidates noted as earning.\<close>

definition sums_ok :: "(string \<times> Productivity) list \<Rightarrow> (string \<times> int) list \<Rightarrow> breakdown_sums \<Rightarrow> bool" where
  "sums_ok pm votes s \<longleftrightarrow>
     bs_productionSum s = sum_list (map (production_of pm) (bs_earnBlockReward s)) \<and>
     bs_qualifiedTotalVotes s = sum_list (map (get_or 0 votes) (bs_earnEpochReward s)) \<and>
     bs_foundationBonusCount s = int (length (bs_earnFoundationBonus s))"

text \<open>Productions are counts of blocks, far below \<open>2 ^ 63\<close>, where \<open>int64\<close> is exact.\<close>

definition productions_small :: "(string \<times> Productivity) list \<Rightarrow> bool" where
  "productions_small pm \<longleftrightarrow> (\<forall>(name, p) \<in> set pm. unat (pr_Production p) < 2 ^ 63)"

lemma production_nonneg: "0 \<le> production_of pm name"
  by (simp add: production_of_def split: option.split)

lemma qualify_sums_ok:
  assumes small: "productions_small pm" and ok: "sums_ok pm votes s"
    and run: "qualify cfg rank pm votes name s = Inr t"
  shows "sums_ok pm votes t"
proof -
  have p: "sint (pr_Production p) = production_of pm name" if "map_of pm name = Some p" for p
  proof -
    have "(name, p) \<in> set pm" by (rule map_of_SomeD[OF that])
    then have "unat (pr_Production p) < 2 ^ 63" using small by (auto simp: productions_small_def)
    then show ?thesis using that by (simp add: production_of_def sint_small)
  qed
  have v: "v = get_or 0 votes name" if "map_of votes name = Some v" for v
    using that by (simp add: get_or_def)
  from run show ?thesis
    using ok
    by (auto simp: qualify_def Let_def andThen_eq_Inr sums_ok_def p v
        split: option.splits if_splits prod.splits)
qed

lemma no_sums_ok: "sums_ok pm votes no_sums"
  by (simp add: sums_ok_def no_sums_def)

lemma qualify_all_sums_ok:
  assumes "productions_small pm" "foldE (qualify cfg rank pm votes) names no_sums = Inr s"
  shows "sums_ok pm votes s"
  by (rule foldE_invariant[where I = "sums_ok pm votes", OF assms(2) no_sums_ok])
    (rule qualify_sums_ok[OF assms(1)])

text \<open>The three components of the shares of distinct candidates.\<close>

lemma block_shares_le:
  assumes ok: "sums_ok pm votes s" and d: "distinct ns" and t: "0 \<le> ri_BlockReward totals"
  shows "sum_list (map (\<lambda>n. ri_BlockReward (share_of pm votes s totals n)) ns) \<le> ri_BlockReward totals"
proof (cases "0 < bs_productionSum s")
  case True
  have eq: "ri_BlockReward (share_of pm votes s totals n) =
      (if n \<in> set (bs_earnBlockReward s)
       then ri_BlockReward totals * production_of pm n div sum_list (map (production_of pm) (bs_earnBlockReward s)) else 0)" for n
    using True ok by (auto simp: share_of_def sums_ok_def production_of_def split: option.split)
  show ?thesis
    unfolding eq using True ok d t by (intro shares_le) (simp_all add: production_nonneg sums_ok_def)
next
  case False
  then show ?thesis using t by (simp add: share_of_def)
qed

lemma epoch_shares_le:
  assumes ok: "sums_ok pm votes s" and d: "distinct ns" and t: "0 \<le> ri_EpochReward totals"
    and v: "\<And>name. 0 \<le> get_or 0 votes name"
  shows "sum_list (map (\<lambda>n. ri_EpochReward (share_of pm votes s totals n)) ns) \<le> ri_EpochReward totals"
proof (cases "0 < bs_qualifiedTotalVotes s")
  case True
  have eq: "ri_EpochReward (share_of pm votes s totals n) =
      (if n \<in> set (bs_earnEpochReward s)
       then ri_EpochReward totals * get_or 0 votes n div sum_list (map (get_or 0 votes) (bs_earnEpochReward s)) else 0)" for n
    using True ok by (simp add: share_of_def sums_ok_def)
  show ?thesis
    unfolding eq using True ok d t v by (intro shares_le) (simp_all add: sums_ok_def)
next
  case False
  then show ?thesis using t by (simp add: share_of_def)
qed

lemma foundation_shares_le:
  assumes ok: "sums_ok pm votes s" and d: "distinct ns" and t: "0 \<le> ri_FoundationBonus totals"
  shows "sum_list (map (\<lambda>n. ri_FoundationBonus (share_of pm votes s totals n)) ns) \<le> ri_FoundationBonus totals"
proof (cases "0 < ri_FoundationBonus totals \<and> bs_earnFoundationBonus s \<noteq> []")
  case True
  then have len: "sum_list (map (\<lambda>_. 1) (bs_earnFoundationBonus s)) = bs_foundationBonusCount s"
    using ok by (simp add: sums_ok_def sum_list_triv)
  have eq: "ri_FoundationBonus (share_of pm votes s totals n) =
      (if n \<in> set (bs_earnFoundationBonus s)
       then ri_FoundationBonus totals * 1 div sum_list (map (\<lambda>_. 1) (bs_earnFoundationBonus s)) else 0)" for n
    using True by (simp add: share_of_def len)
  show ?thesis
    unfolding eq using True d t by (intro shares_le) (simp_all add: sum_list_triv)
next
  case False
  then have "ri_FoundationBonus (share_of pm votes s totals n) = 0" for n
    by (auto simp: share_of_def)
  then show ?thesis using t by simp
qed

lemma share_nonneg:
  assumes ok: "sums_ok pm votes s" and v: "\<And>name. 0 \<le> get_or 0 votes name"
    and t: "0 \<le> ri_BlockReward totals" "0 \<le> ri_EpochReward totals"
  shows "0 \<le> ri_BlockReward (share_of pm votes s totals n)"
    and "0 \<le> ri_EpochReward (share_of pm votes s totals n)"
    and "0 \<le> ri_FoundationBonus (share_of pm votes s totals n)"
proof -
  show "0 \<le> ri_BlockReward (share_of pm votes s totals n)"
    using t by (auto simp: share_of_def pos_imp_zdiv_nonneg_iff split: option.split)
  show "0 \<le> ri_EpochReward (share_of pm votes s totals n)"
    using t v by (auto simp: share_of_def pos_imp_zdiv_nonneg_iff)
  show "0 \<le> ri_FoundationBonus (share_of pm votes s totals n)"
  proof (cases "bs_earnFoundationBonus s")
    case (Cons x xs)
    then have "0 < bs_foundationBonusCount s" using ok by (simp add: sums_ok_def)
    then show ?thesis by (simp add: share_of_def pos_imp_zdiv_nonneg_iff)
  qed (simp add: share_of_def)
qed

text \<open>The map that is returned holds the shares of distinct candidates.\<close>

lemma fold_shares:
  assumes "distinct_keys m" "\<And>n r. (n, r) \<in> set m \<Longrightarrow> r = f n"
  shows "distinct_keys (fold (\<lambda>name m. let share = f name
             in if share = z then m else AList.update name share m) names m)
    \<and> (\<forall>(n, r) \<in> set (fold (\<lambda>name m. let share = f name
             in if share = z then m else AList.update name share m) names m). r = f n)"
  using assms
proof (induction names arbitrary: m)
  case (Cons x names)
  let ?m = "if f x = z then m else AList.update x (f x) m"
  have d: "distinct_keys ?m" using Cons.prems(1) by (simp add: distinct_update)
  have "r = f n" if "(n, r) \<in> set ?m" for n r
  proof -
    have "map_of ?m n = Some r" using d that by (rule map_of_is_SomeI)
    then show ?thesis
      using Cons.prems(2) by (auto split: if_splits dest: map_of_SomeD)
  qed
  from Cons.IH[OF d this] show ?case by (simp add: Let_def)
qed auto

lemma breakdown_entries:
  assumes "breakdownRewards ord cfg committed e names votes totals = Inr m"
    and small: "\<And>pm. getProductivity e committed = Inr pm \<Longrightarrow> productions_small pm"
  obtains pm s where "sums_ok pm votes s" "distinct_keys m" "m = map (\<lambda>n. (n, share_of pm votes s totals n)) (map fst m)"
proof -
  obtain pm s where pm: "getProductivity e committed = Inr pm"
    and s: "foldE (qualify cfg (candidate_rank ord votes) pm votes) names no_sums = Inr s"
    and m: "m = fold (\<lambda>name m. let share = share_of pm votes s totals name
             in if share = zero_reward then m else AList.update name share m) names []"
    using assms(1) by (auto simp: breakdownRewards_def Let_def andThen_eq_Inr)
  have "sums_ok pm votes s" by (rule qualify_all_sums_ok[OF small[OF pm] s])
  moreover have "distinct_keys m" "\<forall>(n, r) \<in> set m. r = share_of pm votes s totals n"
    using fold_shares[of "[]" "share_of pm votes s totals" zero_reward names] unfolding m by simp_all
  moreover from this(2) have "m = map (\<lambda>n. (n, share_of pm votes s totals n)) (map fst m)"
    by (induction m) auto
  ultimately show ?thesis using that by blast
qed

lemma breakdown_bounds:
  assumes run: "breakdownRewards ord cfg committed e names votes totals = Inr m"
    and small: "\<And>pm. getProductivity e committed = Inr pm \<Longrightarrow> productions_small pm"
    and votes: "\<And>name. 0 \<le> get_or 0 votes name"
    and t: "0 \<le> ri_BlockReward totals" "0 \<le> ri_EpochReward totals" "0 \<le> ri_FoundationBonus totals"
  shows "sum_list (map (\<lambda>(n, r). ri_BlockReward r) m) \<le> ri_BlockReward totals"
    and "sum_list (map (\<lambda>(n, r). ri_EpochReward r) m) \<le> ri_EpochReward totals"
    and "sum_list (map (\<lambda>(n, r). ri_FoundationBonus r) m) \<le> ri_FoundationBonus totals"
    and "\<forall>(n, r) \<in> set m. 0 \<le> ri_BlockReward r \<and> 0 \<le> ri_EpochReward r \<and> 0 \<le> ri_FoundationBonus r"
proof -
  obtain pm s where ok: "sums_ok pm votes s" and d: "distinct_keys m"
    and m: "m = map (\<lambda>n. (n, share_of pm votes s totals n)) (map fst m)"
    using breakdown_entries[OF run small] by blast
  have eq: "map (\<lambda>(n, r). f r) m = map (\<lambda>n. f (share_of pm votes s totals n)) (map fst m)"
    for f :: "RewardInfo \<Rightarrow> int"
    by (subst m) (simp add: comp_def)
  show "sum_list (map (\<lambda>(n, r). ri_BlockReward r) m) \<le> ri_BlockReward totals"
    unfolding eq by (rule block_shares_le[OF ok d t(1)])
  show "sum_list (map (\<lambda>(n, r). ri_EpochReward r) m) \<le> ri_EpochReward totals"
    unfolding eq by (rule epoch_shares_le[OF ok d t(2) votes])
  show "sum_list (map (\<lambda>(n, r). ri_FoundationBonus r) m) \<le> ri_FoundationBonus totals"
    unfolding eq by (rule foundation_shares_le[OF ok d t(3)])
  show "\<forall>(n, r) \<in> set m. 0 \<le> ri_BlockReward r \<and> 0 \<le> ri_EpochReward r \<and> 0 \<le> ri_FoundationBonus r"
    by (subst m) (auto intro: share_nonneg[OF ok votes t(1,2)])
qed

subsection \<open>The tables\<close>

text \<open>The three kinds of reward of a row.\<close>

lemma aggregate_total:
  fixes f :: "RewardInfo \<Rightarrow> int"
  assumes f: "\<And>rs. f (reward_sum rs) = sum_list (map g rs)"
  shows "sum_list (map (\<lambda>r. f (ar_Rewards r)) (aggregate_rewards e hs))
    = sum_list (map g (filter (\<lambda>r. rh_EpochNumber r = e) hs))"
proof -
  have part: "sum_list (map (\<lambda>a. sum_list (map g (filter (\<lambda>r. rh_RewardAddress r = a) rs))) addrs)
      = sum_list (map g rs)" if "distinct addrs" "rh_RewardAddress ` set rs \<subseteq> set addrs" for rs addrs
    using that(2)
  proof (induction rs)
    case (Cons r rs)
    have "sum_list (map (\<lambda>a. (if rh_RewardAddress r = a then g r else 0)) addrs) = g r"
      unfolding sum_list_distinct_conv_sum_set[OF that(1)] using Cons.prems by simp
    moreover have "sum_list (map (\<lambda>a. sum_list (map g (filter (\<lambda>r. rh_RewardAddress r = a) (r # rs)))) addrs)
        = sum_list (map (\<lambda>a. (if rh_RewardAddress r = a then g r else 0)) addrs)
        + sum_list (map (\<lambda>a. sum_list (map g (filter (\<lambda>r. rh_RewardAddress r = a) rs))) addrs)"
      unfolding sum_list_addf[symmetric] by (intro arg_cong[where f = sum_list] map_cong) auto
    ultimately show ?case using Cons by simp
  qed simp
  show ?thesis
    unfolding aggregate_rewards_def Let_def map_map comp_def AggregateReward.simps f
    by (rule part) auto
qed

lemma aggregate_nonneg:
  assumes f: "\<And>rs. f (reward_sum rs) = sum_list (map g rs)"
    and nn: "\<And>r. r \<in> set hs \<Longrightarrow> (0::int) \<le> g r"
  shows "r \<in> set (aggregate_rewards e hs) \<Longrightarrow> 0 \<le> f (ar_Rewards r)"
  using nn by (auto simp: aggregate_rewards_def Let_def f intro!: sum_list_nonneg)

lemma getVotingInfo_nonneg:
  assumes "getVotingInfo e vs = Inr (names, votes)" "\<And>v. v \<in> set vs \<Longrightarrow> 0 \<le> vr_TotalWeightedVotes v"
  shows "0 \<le> get_or 0 votes name"
proof -
  let ?f = "\<lambda>v (names, votes).
             andThen (wrap ''failed to covert string to big int''
               (stringToBigInt (big_String (vr_TotalWeightedVotes v)))) (\<lambda>n.
             Inr (add_name (vr_RewardAddress v) (vr_DelegateName v) names,
                  AList.update (vr_DelegateName v) n votes))"
  let ?I = "\<lambda>(names :: (string \<times> string list) list, votes :: (string \<times> int) list). \<forall>k. 0 \<le> get_or 0 votes k"
  have run: "foldE ?f (filter (\<lambda>v. vr_EpochNumber v = e) vs) ([], []) = Inr (names, votes)"
    using assms(1) by (simp add: getVotingInfo_def Let_def split: if_splits)
  have "?I (names, votes)"
    by (rule foldE_invariant[where I = ?I, OF run])
      (auto simp: get_or_def[of 0 "[]"] assms(2) split: prod.splits)
  then show ?thesis by simp
qed

text \<open>One record gives its address's delegates at most what the address earned.\<close>

lemma record_bounds:
  assumes run: "rewards_of_record ord ordR cfg committed names votes record = Inr rows"
    and ord: "range_order ordR"
    and small: "\<And>pm. getProductivity (ar_EpochNumber record) committed = Inr pm \<Longrightarrow> productions_small pm"
    and votes: "\<And>name. 0 \<le> get_or 0 votes name"
    and t: "0 \<le> ri_BlockReward (ar_Rewards record)" "0 \<le> ri_EpochReward (ar_Rewards record)"
      "0 \<le> ri_FoundationBonus (ar_Rewards record)"
  shows "sum_list (map (\<lambda>r. ri_BlockReward (snd r)) rows) \<le> ri_BlockReward (ar_Rewards record)"
    and "sum_list (map (\<lambda>r. ri_EpochReward (snd r)) rows) \<le> ri_EpochReward (ar_Rewards record)"
    and "sum_list (map (\<lambda>r. ri_FoundationBonus (snd r)) rows) \<le> ri_FoundationBonus (ar_Rewards record)"
    and "\<forall>r \<in> set rows. fst (fst r) = ar_EpochNumber record \<and> 0 \<le> ri_BlockReward (snd r) \<and>
      0 \<le> ri_EpochReward (snd r) \<and> 0 \<le> ri_FoundationBonus (snd r)"
proof -
  let ?e = "ar_EpochNumber record" and ?ns = "get_or [] names (ar_RewardAddress record)"
  consider (single) name where "rows = [((?e, name), ar_Rewards record)]"
    | (shared) m where "breakdownRewards ord cfg committed ?e ?ns votes (ar_Rewards record) = Inr m"
        "rows = map (\<lambda>(name, r). ((?e, name), r)) (ordR m)"
    using run by (auto simp: rewards_of_record_def Let_def andThen_eq_Inr split: list.splits)
  then have "sum_list (map (\<lambda>r. ri_BlockReward (snd r)) rows) \<le> ri_BlockReward (ar_Rewards record) \<and>
      sum_list (map (\<lambda>r. ri_EpochReward (snd r)) rows) \<le> ri_EpochReward (ar_Rewards record) \<and>
      sum_list (map (\<lambda>r. ri_FoundationBonus (snd r)) rows) \<le> ri_FoundationBonus (ar_Rewards record) \<and>
      (\<forall>r \<in> set rows. fst (fst r) = ?e \<and> 0 \<le> ri_BlockReward (snd r) \<and>
        0 \<le> ri_EpochReward (snd r) \<and> 0 \<le> ri_FoundationBonus (snd r))"
  proof cases
    case single
    with t show ?thesis by simp
  next
    case shared
    note b = breakdown_bounds[OF shared(1) small votes t]
    have eq: "sum_list (map (\<lambda>r. f (snd r)) rows) = sum_list (map (\<lambda>(n, r). f r) m)" for f :: "RewardInfo \<Rightarrow> int"
      using range_order_sum[OF ord, of "\<lambda>(n, r). f r" m]
      unfolding shared(2) by (simp add: comp_def case_prod_unfold)
    have "set (ordR m) = set m" by (rule range_order_set[OF ord])
    then show ?thesis
      unfolding eq using b by (auto simp: shared(2))
  qed
  then show "sum_list (map (\<lambda>r. ri_BlockReward (snd r)) rows) \<le> ri_BlockReward (ar_Rewards record)"
    and "sum_list (map (\<lambda>r. ri_EpochReward (snd r)) rows) \<le> ri_EpochReward (ar_Rewards record)"
    and "sum_list (map (\<lambda>r. ri_FoundationBonus (snd r)) rows) \<le> ri_FoundationBonus (ar_Rewards record)"
    and "\<forall>r \<in> set rows. fst (fst r) = ?e \<and> 0 \<le> ri_BlockReward (snd r) \<and>
      0 \<le> ri_EpochReward (snd r) \<and> 0 \<le> ri_FoundationBonus (snd r)" by blast+
qed

lemma mapE_concat_sum:
  assumes "mapE f xs = Inr rss" "\<And>x rs. x \<in> set xs \<Longrightarrow> f x = Inr rs \<Longrightarrow> sum_list (map g rs) \<le> (h x :: int)"
  shows "sum_list (map g (concat rss)) \<le> sum_list (map h xs)"
  using assms by (induction xs arbitrary: rss) (fastforce simp: andThen_eq_Inr)+

lemma mapE_concat_all:
  assumes "mapE f xs = Inr rss" "\<And>x rs r. x \<in> set xs \<Longrightarrow> f x = Inr rs \<Longrightarrow> r \<in> set rs \<Longrightarrow> P r"
  shows "r \<in> set (concat rss) \<Longrightarrow> P r"
  using assms by (induction xs arbitrary: rss) (fastforce simp: andThen_eq_Inr)+

lemma insert_ignore_sum:
  assumes "\<And>r. r \<in> set rs \<Longrightarrow> (0::int) \<le> g r"
  shows "sum_list (map g (insert_ignore key rs t)) \<le> sum_list (map g t) + sum_list (map g rs)"
  using assms
proof (induction rs arbitrary: t)
  case (Cons r rs)
  have "sum_list (map g (insert_ignore key rs (if key r \<in> key ` set t then t else t @ [r])))
      \<le> sum_list (map g (if key r \<in> key ` set t then t else t @ [r])) + sum_list (map g rs)"
    using Cons by simp
  then show ?case using Cons.prems[of r] by (auto split: if_splits)
qed simp

text \<open>The new rows of a rebuilt epoch, and their sum.\<close>

lemma rebuild_cases:
  assumes "rebuildAccountRewardTable ord ordR cfg committed vs e db = Inr db'"
  obtains (unchanged) "db' = db"
    | (rebuilt) names votes rowss where "e \<noteq> 0" "getVotingInfo e vs = Inr (names, votes)"
        "mapE (rewards_of_record ord ordR cfg committed names votes) (aggregate_rewards e (reward_history db)) = Inr rowss"
        "concat rowss \<noteq> []"
        "db' = db\<lparr>account_reward := insert_ignore fst (concat rowss) (account_reward db)\<rparr>"
  using assms
  by (auto simp: rebuildAccountRewardTable_def Let_def andThen_eq_Inr exec_values_def split: if_splits)

lemma rebuilt_sum_le:
  fixes f :: "RewardInfo \<Rightarrow> int" and g :: "reward_history_row \<Rightarrow> int"
  assumes run: "rebuildAccountRewardTable ord ordR cfg committed vs e db = Inr db'"
    and f: "\<And>rs. f (reward_sum rs) = sum_list (map g rs)"
    and nn: "\<And>r. r \<in> set (reward_history db) \<Longrightarrow> 0 \<le> g r"
    and fresh: "\<forall>r \<in> set (account_reward db). fst (fst r) \<noteq> e"
    and rec: "\<And>names votes record rows. getVotingInfo e vs = Inr (names, votes) \<Longrightarrow>
      record \<in> set (aggregate_rewards e (reward_history db)) \<Longrightarrow>
      rewards_of_record ord ordR cfg committed names votes record = Inr rows \<Longrightarrow>
      sum_list (map (\<lambda>r. f (snd r)) rows) \<le> f (ar_Rewards record) \<and>
      (\<forall>r \<in> set rows. fst (fst r) = e \<and> 0 \<le> f (snd r))"
  shows "sum_list (map (\<lambda>r. f (snd r)) (filter (\<lambda>r. fst (fst r) = e) (account_reward db')))
    \<le> sum_list (map g (filter (\<lambda>r. rh_EpochNumber r = e) (reward_history db)))"
  using run
proof (cases rule: rebuild_cases)
  case unchanged
  have "filter (\<lambda>r. fst (fst r) = e) (account_reward db) = []"
    using fresh by (simp add: filter_empty_conv)
  moreover have "0 \<le> sum_list (map g (filter (\<lambda>r. rh_EpochNumber r = e) (reward_history db)))"
    by (rule sum_list_nonneg_int) (simp add: nn)
  ultimately show ?thesis by (simp add: unchanged)
next
  case (rebuilt names votes rowss)
  let ?g = "\<lambda>r :: account_reward_row. if fst (fst r) = e then f (snd r) else 0"
  have all: "fst (fst r) = e \<and> 0 \<le> f (snd r)" if "r \<in> set (concat rowss)" for r
    using that by (rule mapE_concat_all[OF rebuilt(3), rotated]) (use rec[OF rebuilt(2)] in blast)
  have "sum_list (map (\<lambda>r. f (snd r)) (filter (\<lambda>r. fst (fst r) = e) (account_reward db')))
      = sum_list (map ?g (account_reward db'))"
    by (rule sum_list_map_filter')
  also have "\<dots> \<le> sum_list (map ?g (account_reward db)) + sum_list (map ?g (concat rowss))"
    unfolding rebuilt(5) by (simp, rule insert_ignore_sum) (use all in auto)
  also have "sum_list (map ?g (account_reward db)) = 0"
    using fresh by (simp cong: map_cong)
  also have "sum_list (map ?g (concat rowss)) = sum_list (map (\<lambda>r. f (snd r)) (concat rowss))"
    using all by (intro arg_cong[where f = sum_list] map_cong) auto
  also have "\<dots> \<le> sum_list (map (\<lambda>record. f (ar_Rewards record)) (aggregate_rewards e (reward_history db)))"
    by (rule mapE_concat_sum[OF rebuilt(3)]) (use rec[OF rebuilt(2)] in blast)
  also have "\<dots> = sum_list (map g (filter (\<lambda>r. rh_EpochNumber r = e) (reward_history db)))"
    by (rule aggregate_total[OF f])
  finally show ?thesis by simp
qed

lemma reward_sum_simps:
  "ri_BlockReward (reward_sum rs) = sum_list (map rh_BlockReward rs)"
  "ri_EpochReward (reward_sum rs) = sum_list (map rh_EpochReward rs)"
  "ri_FoundationBonus (reward_sum rs) = sum_list (map rh_FoundationBonus rs)"
  by (simp_all add: reward_sum_def)

text \<open>Adding up the logs of a receipt.\<close>

definition reward_amount :: "RewardType \<Rightarrow> string \<Rightarrow> RewardLog list \<Rightarrow> int" where
  "reward_amount ty addr rls =
     sum_list (map (\<lambda>rl. case big_SetString 10 (rl_Amount rl) of None \<Rightarrow> 0 | Some n \<Rightarrow> n)
       (filter (\<lambda>rl. rl_Type rl = ty \<and> rl_Addr rl = addr) rls))"

definition plus_rewards :: "RewardInfo \<Rightarrow> string \<Rightarrow> RewardLog list \<Rightarrow> RewardInfo" where
  "plus_rewards r addr rls =
     \<lparr>ri_BlockReward = ri_BlockReward r + reward_amount BLOCK_REWARD addr rls,
      ri_EpochReward = ri_EpochReward r + reward_amount EPOCH_REWARD addr rls,
      ri_FoundationBonus = ri_FoundationBonus r + reward_amount FOUNDATION_BONUS addr rls\<rparr>"

lemma plus_rewards_Nil [simp]: "plus_rewards r addr [] = r"
  by (simp add: plus_rewards_def reward_amount_def)

lemma add_reward_update:
  "add_reward rl m = Inr m' \<Longrightarrow>
   m' = AList.update (rl_Addr rl) (plus_rewards (get_or zero_reward m (rl_Addr rl)) (rl_Addr rl) [rl]) m"
  by (auto simp: add_reward_def Let_def plus_rewards_def reward_amount_def get_or_def
      split: option.splits RewardType.splits
      intro!: arg_cong[where f = "\<lambda>v. AList.update (rl_Addr rl) v m"] RewardInfo.equality)

lemma plus_rewards_other: "rl_Addr rl \<noteq> a \<Longrightarrow> plus_rewards r a [rl] = r"
  by (simp add: plus_rewards_def reward_amount_def)

lemma add_reward_get:
  assumes "add_reward rl m = Inr m'"
  shows "get_or zero_reward m' a = plus_rewards (get_or zero_reward m a) a [rl]"
    and "keys m' = insert (rl_Addr rl) (keys m)"
  unfolding add_reward_update[OF assms] by (simp_all add: plus_rewards_other)

lemma plus_rewards_append: "plus_rewards (plus_rewards r a [rl]) a rls = plus_rewards r a (rl # rls)"
  by (simp add: plus_rewards_def reward_amount_def)

lemma receipt_rewards:
  assumes "foldE (\<lambda>l m.
       andThen (wrap ''failed to unmarshal receipt data into reward log''
         (lib_UnmarshalRewardLog (Libs ictx) (log_Data l))) (\<lambda>rewardLog. add_reward rewardLog m)) logs m = Inr m'"
    and "mapE (\<lambda>l. lib_UnmarshalRewardLog (Libs ictx) (log_Data l)) logs = Inr rls"
  shows "get_or zero_reward m' a = plus_rewards (get_or zero_reward m a) a rls \<and>
    keys m' = keys m \<union> rl_Addr ` set rls"
  using assms
proof (induction logs arbitrary: m rls)
  case (Cons l logs)
  then obtain rl rls' m1 where rl: "lib_UnmarshalRewardLog (Libs ictx) (log_Data l) = Inr rl" "rls = rl # rls'"
      "add_reward rl m = Inr m1"
    and rest: "mapE (\<lambda>l. lib_UnmarshalRewardLog (Libs ictx) (log_Data l)) logs = Inr rls'"
      "foldE (\<lambda>l m.
       andThen (wrap ''failed to unmarshal receipt data into reward log''
         (lib_UnmarshalRewardLog (Libs ictx) (log_Data l))) (\<lambda>rewardLog. add_reward rewardLog m)) logs m1 = Inr m'"
    by (auto simp: andThen_eq_Inr)
  show ?case
    using Cons.IH[OF rest(2,1)] add_reward_get[OF rl(3)] by (simp add: rl(2) plus_rewards_append)
qed simp

text \<open>The records of an epoch have distinct addresses.\<close>

lemma aggregate_record:
  assumes "rec \<in> set (aggregate_rewards e hs)"
  shows "ar_EpochNumber rec = e"
    and "ar_Rewards rec = reward_sum (filter (\<lambda>r. rh_EpochNumber r = e \<and> rh_RewardAddress r = ar_RewardAddress rec) hs)"
    and "\<exists>r \<in> set hs. rh_EpochNumber r = e \<and> rh_RewardAddress r = ar_RewardAddress rec"
  using assms by (auto simp: aggregate_rewards_def Let_def)

lemma aggregate_address:
  "r \<in> set hs \<Longrightarrow> rh_EpochNumber r = e \<Longrightarrow>
   \<exists>rec \<in> set (aggregate_rewards e hs). ar_RewardAddress rec = rh_RewardAddress r"
  by (force simp: aggregate_rewards_def Let_def)

lemma aggregate_distinct: "distinct (map ar_RewardAddress (aggregate_rewards e hs))"
  by (simp add: aggregate_rewards_def Let_def comp_def)

lemma aggregate_empty: "aggregate_rewards e hs = [] \<longleftrightarrow> (\<forall>r \<in> set hs. rh_EpochNumber r \<noteq> e)"
  by (auto simp: aggregate_rewards_def Let_def filter_empty_conv)

lemma mapE_single:
  assumes "\<And>x. x \<in> set xs \<Longrightarrow> f x = Inr [g x]"
  shows "mapE f xs = Inr (map (\<lambda>x. [g x]) xs)"
  using assms by (induction xs) simp_all

lemma rebuild_single:
  assumes info: "getVotingInfo e vs = Inr (names, votes)" and e: "e \<noteq> 0"
    and single: "\<And>r. r \<in> set (reward_history db) \<Longrightarrow> rh_EpochNumber r = e \<Longrightarrow>
      get_or [] names (rh_RewardAddress r) = [name_of (rh_RewardAddress r)]"
    and some: "\<exists>r \<in> set (reward_history db). rh_EpochNumber r = e"
  shows "rebuildAccountRewardTable ord ordR cfg committed vs e db = Inr (db\<lparr>account_reward :=
    insert_ignore fst (map (\<lambda>rec. ((e, name_of (ar_RewardAddress rec)), ar_Rewards rec))
      (aggregate_rewards e (reward_history db))) (account_reward db)\<rparr>)"
proof -
  let ?recs = "aggregate_rewards e (reward_history db)"
  have ne: "?recs \<noteq> []" using some by (auto simp: aggregate_empty)
  have "rewards_of_record ord ordR cfg committed names votes rec
      = Inr [((e, name_of (ar_RewardAddress rec)), ar_Rewards rec)]" if mem: "rec \<in> set ?recs" for rec
  proof -
    obtain r where "r \<in> set (reward_history db)" "rh_EpochNumber r = e" "rh_RewardAddress r = ar_RewardAddress rec"
      using aggregate_record(3)[OF mem] by blast
    then show ?thesis
      using single[of r] aggregate_record(1)[OF mem] by (simp add: rewards_of_record_def)
  qed
  from mapE_single[of ?recs, OF this]
  have "mapE (rewards_of_record ord ordR cfg committed names votes) ?recs
      = Inr (map (\<lambda>rec. [((e, name_of (ar_RewardAddress rec)), ar_Rewards rec)]) ?recs)" by simp
  moreover have "concat (map (\<lambda>rec. [((e, name_of (ar_RewardAddress rec)), ar_Rewards rec)]) ?recs)
      = map (\<lambda>rec. ((e, name_of (ar_RewardAddress rec)), ar_Rewards rec)) ?recs"
    by (induction ?recs) simp_all
  ultimately show ?thesis
    using e info ne by (simp add: rebuildAccountRewardTable_def Let_def exec_values_def)
qed

subsection \<open>Properties\<close>

text \<open>A reward address shared by two delegates, and the rewards it got in the first epoch.\<close>

definition shared_votes :: "VotingResult list" where
  "shared_votes = map (\<lambda>(name, v).
     \<lparr>vr_EpochNumber = 1, vr_DelegateName = name, vr_OperatorAddress = [], vr_RewardAddress = ''io1r'',
      vr_TotalWeightedVotes = v, vr_SelfStaking = 0, vr_BlockRewardPercentage = 100,
      vr_EpochRewardPercentage = 100, vr_FoundationBonusPercentage = 100, vr_StakingAddress = []\<rparr>)
     [(''alpha'', 3), (''beta'', 2)]"

definition shared_rewards :: rewards_db where
  "shared_rewards = \<lparr>reward_history =
     [\<lparr>rh_EpochNumber = 1, rh_ActionHash = ''61'', rh_RewardAddress = ''io1r'', rh_CandidateName = ''alpha'',
       rh_BlockReward = 16, rh_EpochReward = 101, rh_FoundationBonus = 7\<rparr>],
     account_reward = []\<rparr>"

definition open_rewarding :: Rewarding where
  "open_rewarding =
     \<lparr>NumDelegatesForEpochReward = 100, NumDelegatesForFoundationBonus = 36,
      ProductivityThreshold = 0, ExemptCandidatesFromEpochReward = []\<rparr>"

definition shared_result :: rewards_db where
  "shared_result = shared_rewards\<lparr>account_reward :=
     [((1, ''alpha''), \<lparr>ri_BlockReward = 0, ri_EpochReward = 60, ri_FoundationBonus = 3\<rparr>),
      ((1, ''beta''), \<lparr>ri_BlockReward = 0, ri_EpochReward = 40, ri_FoundationBonus = 3\<rparr>)]\<rparr>"

lemma shared_rebuilt:
  "rebuildAccountRewardTable (\<lambda>m. m) (\<lambda>m. m) open_rewarding blocks_2 shared_votes 1 shared_rewards = Inr shared_result"
  by code_simp

text \<open>C7: Rebuilding an epoch's account rewards never gives out more than was granted: over the
  delegates of the epoch, the block rewards, the epoch rewards and the foundation bonuses each add
  up to at most what the reward history of the epoch has of them, however addresses are shared and
  in whatever order the maps are visited.\<close>

theorem account_rewards_bounded:
  assumes run: "rebuildAccountRewardTable ord ordR cfg committed vs e db = Inr db'"
    and ord: "range_order ordR"
    and small: "\<And>pm. getProductivity e committed = Inr pm \<Longrightarrow> productions_small pm"
    and votes: "\<And>v. v \<in> set vs \<Longrightarrow> 0 \<le> vr_TotalWeightedVotes v"
    and granted: "\<And>r. r \<in> set (reward_history db) \<Longrightarrow>
      0 \<le> rh_BlockReward r \<and> 0 \<le> rh_EpochReward r \<and> 0 \<le> rh_FoundationBonus r"
    and fresh: "\<forall>r \<in> set (account_reward db). fst (fst r) \<noteq> e"
  shows "sum_list (map (\<lambda>r. ri_BlockReward (snd r)) (filter (\<lambda>r. fst (fst r) = e) (account_reward db')))
      \<le> sum_list (map rh_BlockReward (filter (\<lambda>r. rh_EpochNumber r = e) (reward_history db))) \<and>
    sum_list (map (\<lambda>r. ri_EpochReward (snd r)) (filter (\<lambda>r. fst (fst r) = e) (account_reward db')))
      \<le> sum_list (map rh_EpochReward (filter (\<lambda>r. rh_EpochNumber r = e) (reward_history db))) \<and>
    sum_list (map (\<lambda>r. ri_FoundationBonus (snd r)) (filter (\<lambda>r. fst (fst r) = e) (account_reward db')))
      \<le> sum_list (map rh_FoundationBonus (filter (\<lambda>r. rh_EpochNumber r = e) (reward_history db)))"
proof -
  have rec: "sum_list (map (\<lambda>r. ri_BlockReward (snd r)) rows) \<le> ri_BlockReward (ar_Rewards record) \<and>
      sum_list (map (\<lambda>r. ri_EpochReward (snd r)) rows) \<le> ri_EpochReward (ar_Rewards record) \<and>
      sum_list (map (\<lambda>r. ri_FoundationBonus (snd r)) rows) \<le> ri_FoundationBonus (ar_Rewards record) \<and>
      (\<forall>r \<in> set rows. fst (fst r) = e \<and> 0 \<le> ri_BlockReward (snd r) \<and>
        0 \<le> ri_EpochReward (snd r) \<and> 0 \<le> ri_FoundationBonus (snd r))"
    if "getVotingInfo e vs = Inr (names, vts)" "record \<in> set (aggregate_rewards e (reward_history db))"
      "rewards_of_record ord ordR cfg committed names vts record = Inr rows" for names vts "record" rows
  proof -
    have ep: "ar_EpochNumber record = e" using that(2) by (auto simp: aggregate_rewards_def Let_def)
    have v: "\<And>name. 0 \<le> get_or 0 vts name" using getVotingInfo_nonneg[OF that(1) votes] by blast
    have t: "0 \<le> ri_BlockReward (ar_Rewards record)" "0 \<le> ri_EpochReward (ar_Rewards record)"
        "0 \<le> ri_FoundationBonus (ar_Rewards record)"
      using aggregate_nonneg[OF reward_sum_simps(1) _ that(2)] aggregate_nonneg[OF reward_sum_simps(2) _ that(2)]
        aggregate_nonneg[OF reward_sum_simps(3) _ that(2)] granted by blast+
    show ?thesis
      using record_bounds[OF that(3) ord _ v t] small unfolding ep by blast
  qed
  show ?thesis
  proof (intro conjI, goal_cases)
    case 1
    show ?case by (rule rebuilt_sum_le[OF run reward_sum_simps(1) _ fresh]) (use granted rec in blast)+
  next
    case 2
    show ?case by (rule rebuilt_sum_le[OF run reward_sum_simps(2) _ fresh]) (use granted rec in blast)+
  next
    case 3
    show ?case by (rule rebuilt_sum_le[OF run reward_sum_simps(3) _ fresh]) (use granted rec in blast)+
  qed
qed

lemma account_rewards_bounded_witness:
  "sum_list (map (\<lambda>r. ri_EpochReward (snd r)) (filter (\<lambda>r. fst (fst r) = 1) (account_reward shared_result)))
    \<le> sum_list (map rh_EpochReward (filter (\<lambda>r. rh_EpochNumber r = 1) (reward_history shared_rewards)))"
proof (rule account_rewards_bounded[OF shared_rebuilt range_order_id, THEN conjunct2, THEN conjunct1])
  have "getProductivity 1 blocks_2 =
      Inr [(''beta'', \<lparr>pr_Production = 0, pr_ExpectedProduction = 1\<rparr>)]" by code_simp
  then show "\<And>pm. getProductivity 1 blocks_2 = Inr pm \<Longrightarrow> productions_small pm"
    by (auto simp: productions_small_def)
qed (auto simp: shared_votes_def shared_rewards_def)

text \<open>When every reward address of an epoch belongs to one delegate and no two to the same one,
  the account reward of a delegate is exactly the sum of all rewards granted to its address in the
  epoch.\<close>

theorem single_delegate_reward_exact:
  assumes info: "getVotingInfo e vs = Inr (names, votes)" and e: "e \<noteq> 0"
    and single: "\<And>r. r \<in> set (reward_history db) \<Longrightarrow> rh_EpochNumber r = e \<Longrightarrow>
      get_or [] names (rh_RewardAddress r) = [name_of (rh_RewardAddress r)]"
    and inj: "inj_on name_of {rh_RewardAddress r | r. r \<in> set (reward_history db) \<and> rh_EpochNumber r = e}"
    and fresh: "\<forall>r \<in> set (account_reward db). fst (fst r) \<noteq> e"
    and q: "q \<in> set (reward_history db)" "rh_EpochNumber q = e" "rh_RewardAddress q = addr"
  shows "andThen (rebuildAccountRewardTable ord ordR cfg committed vs e db) (getAccountReward e (name_of addr))
    = Inr ((e, name_of addr), reward_sum (filter (\<lambda>r. rh_EpochNumber r = e \<and> rh_RewardAddress r = addr) (reward_history db)))"
proof -
  let ?recs = "aggregate_rewards e (reward_history db)"
  let ?rows = "map (\<lambda>rec. ((e, name_of (ar_RewardAddress rec)), ar_Rewards rec)) ?recs"
  have addrs: "set (map ar_RewardAddress ?recs)
      \<subseteq> {rh_RewardAddress r | r. r \<in> set (reward_history db) \<and> rh_EpochNumber r = e}"
    by (auto dest!: aggregate_record(3) intro: sym)
  have "distinct (map name_of (map ar_RewardAddress ?recs))"
    using aggregate_distinct inj_on_subset[OF inj addrs] by (simp add: distinct_map comp_inj_on)
  then have d: "distinct_keys ?rows" by (simp add: comp_def distinct_map inj_on_def)
  have "insert_ignore fst ?rows (account_reward db) = account_reward db @ ?rows"
    using fresh by (intro insert_ignore_new[OF d]) auto
  then have run: "rebuildAccountRewardTable ord ordR cfg committed vs e db
      = Inr (db\<lparr>account_reward := account_reward db @ ?rows\<rparr>)"
    using rebuild_single[OF info e single, where ord = ord and ordR = ordR and cfg = cfg and committed = committed]
      bexI[of "\<lambda>r. rh_EpochNumber r = e", OF q(2) q(1)] by simp
  obtain rec where rec: "rec \<in> set ?recs" "ar_RewardAddress rec = addr"
    using aggregate_address[OF q(1,2)] q(3) by blast
  then have mem: "((e, name_of addr), ar_Rewards rec) \<in> set ?rows" by force
  then have "(e, name_of addr) \<in> keys ?rows" by force
  then have "filter (\<lambda>r. fst r = (e, name_of addr)) ?rows = [((e, name_of addr), ar_Rewards rec)]"
    using filter_key[OF d, of "(e, name_of addr)" zero_reward] get_or_in[OF d mem] by simp
  moreover have "filter (\<lambda>r. fst r = (e, name_of addr)) (account_reward db) = []"
    using fresh by (auto simp: filter_empty_conv)
  ultimately show ?thesis
    using aggregate_record(2)[OF rec(1)] rec(2) by (simp add: run getAccountReward_def)
qed

lemma single_delegate_reward_exact_witness:
  "andThen (rebuildAccountRewardTable (\<lambda>m. m) (\<lambda>m. m) open_rewarding empty_blocks [hd shared_votes] 1 shared_rewards)
     (getAccountReward 1 ''alpha'')
   = Inr ((1, ''alpha''), reward_sum (filter (\<lambda>r. rh_EpochNumber r = 1 \<and> rh_RewardAddress r = ''io1r'')
       (reward_history shared_rewards)))"
proof (rule single_delegate_reward_exact[where name_of = "\<lambda>_. ''alpha''"])
  show "getVotingInfo 1 [hd shared_votes] = Inr ([(''io1r'', [''alpha''])], [(''alpha'', 3)])" by code_simp
  show "hd (reward_history shared_rewards) \<in> set (reward_history shared_rewards)"
    "rh_EpochNumber (hd (reward_history shared_rewards)) = 1"
    "rh_RewardAddress (hd (reward_history shared_rewards)) = ''io1r''"
    by (simp_all add: shared_rewards_def)
qed (auto simp: shared_rewards_def get_or_def inj_on_def)

text \<open>The rewards read from a receipt are, for every address and every type, the sum of the
  amounts of its logs, and the addresses are exactly those of the logs.\<close>

theorem receipt_rewards_summed:
  assumes "getRewardInfoFromReceipt ictx rcpt = Inr m"
    and "mapE (\<lambda>l. lib_UnmarshalRewardLog (Libs ictx) (log_Data l)) (rcp_Logs rcpt) = Inr rls"
  shows "keys m = rl_Addr ` set rls \<and>
    ri_BlockReward (get_or zero_reward m a) = reward_amount BLOCK_REWARD a rls \<and>
    ri_EpochReward (get_or zero_reward m a) = reward_amount EPOCH_REWARD a rls \<and>
    ri_FoundationBonus (get_or zero_reward m a) = reward_amount FOUNDATION_BONUS a rls"
  using receipt_rewards[of ictx "rcp_Logs rcpt" "[]" m rls] assms
  by (simp_all add: getRewardInfoFromReceipt_def plus_rewards_def get_or_def[of _ "[]"] zero_reward_def)

definition reward_ctx :: IndexCtx where
  "reward_ctx = offline_ctx\<lparr>Libs := (Libs offline_ctx)\<lparr>lib_UnmarshalRewardLog :=
     \<lambda>data. Inr \<lparr>rl_Addr = ''io1r'', rl_Type = BLOCK_REWARD, rl_Amount = data\<rparr>\<rparr>\<rparr>"

definition reward_receipt :: receipt where
  "reward_receipt =
     \<lparr>rcp_Status = 1, rcp_ActionHash = ''a'', rcp_Hash = ''r'', rcp_GasConsumed = 0, rcp_Logs =
        map (\<lambda>amount. \<lparr>log_Address = [], log_Topics = [], log_Data = amount, log_BlockHeight = 1,
          log_ActionHash = ''a'', log_Index = 0\<rparr>) [''16'', ''20'']\<rparr>"

lemma receipt_rewards_summed_witness:
  "ri_BlockReward (get_or zero_reward [(''io1r'', zero_reward\<lparr>ri_BlockReward := 36\<rparr>)] ''io1r'')
   = reward_amount BLOCK_REWARD ''io1r''
      [\<lparr>rl_Addr = ''io1r'', rl_Type = BLOCK_REWARD, rl_Amount = ''16''\<rparr>,
       \<lparr>rl_Addr = ''io1r'', rl_Type = BLOCK_REWARD, rl_Amount = ''20''\<rparr>]"
proof (rule receipt_rewards_summed[THEN conjunct2, THEN conjunct1])
  show "getRewardInfoFromReceipt reward_ctx reward_receipt
      = Inr [(''io1r'', zero_reward\<lparr>ri_BlockReward := 36\<rparr>)]" by code_simp
  show "mapE (\<lambda>l. lib_UnmarshalRewardLog (Libs reward_ctx) (log_Data l)) (rcp_Logs reward_receipt) = Inr
      [\<lparr>rl_Addr = ''io1r'', rl_Type = BLOCK_REWARD, rl_Amount = ''16''\<rparr>,
       \<lparr>rl_Addr = ''io1r'', rl_Type = BLOCK_REWARD, rl_Amount = ''20''\<rparr>]" by code_simp
qed

text \<open>When rewards were granted in an epoch but none of their addresses belongs to a delegate of
  the epoch, the rebuild sends an \<open>INSERT\<close> without values, which the database refuses; so the
  first block of the next epoch cannot be indexed.\<close>

theorem unclaimed_rewards_block_indexing:
  assumes info: "getVotingInfo e vs = Inr (names, votes)" and e: "e \<noteq> 0"
    and prod: "getProductivity e committed = Inr pm"
    and some: "\<exists>r \<in> set (reward_history db). rh_EpochNumber r = e"
    and none: "\<And>r. r \<in> set (reward_history db) \<Longrightarrow> rh_EpochNumber r = e \<Longrightarrow>
      get_or [] names (rh_RewardAddress r) = []"
    and ord: "ordR [] = []"
  shows "rebuildAccountRewardTable ord ordR cfg committed vs e db = Inl (ErrSQL ''syntax error'')"
proof -
  let ?recs = "aggregate_rewards e (reward_history db)"
  have ne: "?recs \<noteq> []" using some by (auto simp: aggregate_empty)
  have "rewards_of_record ord ordR cfg committed names votes rec = Inr []" if mem: "rec \<in> set ?recs" for rec
  proof -
    obtain r where "r \<in> set (reward_history db)" "rh_EpochNumber r = e" "rh_RewardAddress r = ar_RewardAddress rec"
      using aggregate_record(3)[OF mem] by blast
    then show ?thesis
      using none[of r] aggregate_record(1)[OF mem] prod ord
      by (simp add: rewards_of_record_def breakdownRewards_def Let_def)
  qed
  then have "mapE (rewards_of_record ord ordR cfg committed names votes) ?recs = Inr (map (\<lambda>_. []) ?recs)"
    by (intro mapE_map) simp
  moreover have "concat (map (\<lambda>_. [] :: account_reward_row list) ?recs) = []" by simp
  ultimately show ?thesis
    using e info ne by (simp add: rebuildAccountRewardTable_def Let_def exec_values_def)
qed

lemma unclaimed_rewards_block_indexing_witness:
  "rebuildAccountRewardTable (\<lambda>m. m) (\<lambda>m. m) open_rewarding blocks_2
     (map (\<lambda>v. v\<lparr>vr_RewardAddress := ''io1x''\<rparr>) shared_votes) 1 shared_rewards = Inl (ErrSQL ''syntax error'')"
proof (rule unclaimed_rewards_block_indexing)
  show "getVotingInfo 1 (map (\<lambda>v. v\<lparr>vr_RewardAddress := ''io1x''\<rparr>) shared_votes)
      = Inr ([(''io1x'', [''alpha'', ''beta''])], [(''alpha'', 3), (''beta'', 2)])" by code_simp
  show "getProductivity 1 blocks_2 =
      Inr [(''beta'', \<lparr>pr_Production = 0, pr_ExpectedProduction = 1\<rparr>)]" by code_simp
qed (auto simp: shared_rewards_def get_or_def)

end
