(* ===== verification/System.thy ===== *)
theory System imports Votings_Laws Indexer Rewards begin

text \<open>
  The five protocols of \<open>RegisterDefaultProtocols\<close> on one set of tables, in one indexer. Each
  handler is wrapped so that it works on its own tables and its own memory; what it reads of the
  others is what the code reads: the actions protocol sees the heights of the transaction's block
  history through a foreign key, the rewards and votings protocols read committed tables.
  The interpretation \<open>iotex\<close> discharges the contract of the indexer for this composition.
\<close>

record 'h index_db =
  db_blocks :: blocks_db
  db_actions :: actions_db
  db_rewards :: rewards_db
  db_votings :: "'h votings_db"
  db_accounts :: accounts_db

record index_mem =
  mem_blocks :: blocks_mem
  mem_xrc :: xrc_mem
  mem_rewards :: rewards_mem

text \<open>The orders of all loops over Go maps.\<close>

record map_orders = range_orders +
  genesis_ord :: "(string \<times> string) list \<Rightarrow> (string \<times> string) list"
  transactions_ord :: "(string \<times> transaction list) list \<Rightarrow> (string \<times> transaction list) list"
  votes_ord :: "(string \<times> int) list \<Rightarrow> (string \<times> int) list"
  rewards_ord :: "(string \<times> RewardInfo) list \<Rightarrow> (string \<times> RewardInfo) list"

record ('reg, 'h, 'calc, 'client, 'caller) service =
  sv_epochCtx :: EpochCtx
  sv_gravity :: GravityChain
  sv_rewarding :: Rewarding
  sv_hermes :: HermesConfig
  sv_votings :: "('reg, 'h) votings_protocol"
  sv_election :: "('reg, 'calc, 'client, 'caller) election_lib"
  sv_orders :: map_orders

type_synonym 'h iotex_protocol = "('h index_db, index_mem) protocol"

definition no_init :: "IndexCtx \<Rightarrow> 'h index_db \<Rightarrow> Genesis \<Rightarrow> ('h index_db \<times> index_mem, unit) go" where
  "no_init ictx committed genesis = go_ret ()"

definition blocks_protocol :: "('reg, 'h, 'calc, 'client, 'caller) service \<Rightarrow> 'h iotex_protocol" where
  "blocks_protocol sv =
     \<lparr>prot_CreateTables = Inr (), prot_Initialize = no_init,
      prot_HandleBlock = \<lambda>ictx committed blk (db, mem).
        case blocks_HandleBlock (sv_epochCtx sv) (sv_gravity sv) ictx blk (db_blocks db, mem_blocks mem) of
          (r, (b, m)) \<Rightarrow> (r, (db\<lparr>db_blocks := b\<rparr>, mem\<lparr>mem_blocks := m\<rparr>))\<rparr>"

definition actions_protocol :: "('reg, 'h, 'calc, 'client, 'caller) service \<Rightarrow> 'h iotex_protocol" where
  "actions_protocol sv =
     \<lparr>prot_CreateTables = Inr (), prot_Initialize = no_init,
      prot_HandleBlock = \<lambda>ictx committed blk (db, mem).
        case actions_HandleBlock (sv_epochCtx sv) (sv_hermes sv) ictx
          (map bk_BlockHeight (block_history (db_blocks db))) blk (db_actions db, mem_xrc mem) of
          (r, (a, m)) \<Rightarrow> (r, (db\<lparr>db_actions := a\<rparr>, mem\<lparr>mem_xrc := m\<rparr>))\<rparr>"

definition rewards_protocol :: "('reg, 'h, 'calc, 'client, 'caller) service \<Rightarrow> 'h iotex_protocol" where
  "rewards_protocol sv =
     \<lparr>prot_CreateTables = Inr (), prot_Initialize = no_init,
      prot_HandleBlock = \<lambda>ictx committed blk (db, mem).
        case rewards_HandleBlock (votes_ord (sv_orders sv)) (rewards_ord (sv_orders sv)) (sv_epochCtx sv) (sv_gravity sv)
          (sv_rewarding sv) ictx (db_blocks committed) (voting_result (db_votings committed)) blk
          (db_rewards db, mem_rewards mem) of
          (r, (w, m)) \<Rightarrow> (r, (db\<lparr>db_rewards := w\<rparr>, mem\<lparr>mem_rewards := m\<rparr>))\<rparr>"

definition committed_of :: "'h index_db \<Rightarrow> committed_tables" where
  "committed_of db =
     \<lparr>com_voting_result = voting_result (db_votings db), com_blocks = block_history (db_blocks db),
      com_actions = action_history (db_actions db)\<rparr>"

definition votings_protocol_of :: "('reg, 'h, 'calc, 'client, 'caller) service \<Rightarrow> 'h iotex_protocol" where
  "votings_protocol_of sv =
     \<lparr>prot_CreateTables = Inr (), prot_Initialize = no_init,
      prot_HandleBlock = \<lambda>ictx committed blk (db, mem).
        case votings_HandleBlock (sv_votings sv) (sv_election sv) (range_orders.truncate (sv_orders sv)) ictx
          (committed_of committed) blk (db_votings db) of
          Inl e \<Rightarrow> (Inl e, (db, mem)) | Inr v \<Rightarrow> (Inr (), (db\<lparr>db_votings := v\<rparr>, mem))\<rparr>"

definition accounts_protocol :: "('reg, 'h, 'calc, 'client, 'caller) service \<Rightarrow> 'h iotex_protocol" where
  "accounts_protocol sv =
     \<lparr>prot_CreateTables = Inr (),
      prot_Initialize = \<lambda>ictx committed genesis (db, mem).
        (case accounts_Initialize (genesis_ord (sv_orders sv)) (db_accounts committed) genesis (db_accounts db) of
           Inl e \<Rightarrow> (Inl e, (db, mem)) | Inr a \<Rightarrow> (Inr (), (db\<lparr>db_accounts := a\<rparr>, mem))),
      prot_HandleBlock = \<lambda>ictx committed blk (db, mem).
        case accounts_HandleBlock (transactions_ord (sv_orders sv)) (sv_epochCtx sv) ictx blk (db_accounts db) of
          Inl e \<Rightarrow> (Inl e, (db, mem)) | Inr a \<Rightarrow> (Inr (), (db\<lparr>db_accounts := a\<rparr>, mem))\<rparr>"

definition default_protocols :: "('reg, 'h, 'calc, 'client, 'caller) service \<Rightarrow> 'h iotex_protocol list" where
  "default_protocols sv =
     [blocks_protocol sv, actions_protocol sv, rewards_protocol sv, votings_protocol_of sv, accounts_protocol sv]"

subsection \<open>The invariant of the index\<close>

text \<open>
  After block \<open>h\<close>: the blocks and accounts tables are exact, every action row belongs to an indexed
  block, and no voting table has two rows for a key.
\<close>

definition iotex_indexed :: "EpochCtx \<Rightarrow> u64 \<Rightarrow> 'h index_db \<Rightarrow> bool" where
  "iotex_indexed e h db \<longleftrightarrow>
     ctx_ok e \<and> blocks_indexed e h (db_blocks db) \<and> accounts_indexed e h (db_accounts db) \<and>
     (\<forall>r \<in> set (action_history (db_actions db)). ah_BlockHeight r \<in> set (map bk_BlockHeight (block_history (db_blocks db)))) \<and>
     votings_ok (db_votings db)"

lemma updateXrc_etc_keep_actions:
  "updateBucketActions ictx blk db = Inr db' \<Longrightarrow> action_history db' = action_history db"
  "updateHermesContract l rs e ts db = Inr db' \<Longrightarrow> action_history db' = action_history db"
  by (auto simp: updateBucketActions_def insert_bucket_actions_def updateHermesContract_def insertHermesContract_def
      andThen_eq_Inr Let_def split: if_splits option.splits)

lemma insert_actions_heights:
  assumes "insert_actions heights rows t = Inr t'"
  shows "set t' \<subseteq> set t \<union> {r. ah_BlockHeight r \<in> set heights}"
  using assms
  by (auto simp: insert_actions_def exec_values_def andThen_eq_Inr insert_unique_eq_Inr simp del: insert_unique.simps
      split: if_splits)

lemma actions_HandleBlock_heights:
  assumes "actions_HandleBlock e cfg ictx heights blk (db, mem) = (Inr (), (db', mem'))"
  shows "set (action_history db') \<subseteq> set (action_history db) \<union> {r. ah_BlockHeight r \<in> set heights}"
proof -
  have "\<exists>infos ris db1. updateActionHistory heights infos ris blk db = Inr db1 \<and> action_history db' = action_history db1"
    using assms
    by (auto simp: actions_HandleBlock_def andThen_eq_Inr split: sum.splits prod.splits if_splits
        dest!: updateXrc_etc_keep_actions) blast+
  then obtain infos ris db1 where upd: "updateActionHistory heights infos ris blk db = Inr db1"
    and "action_history db' = action_history db1" by blast
  moreover have "set (action_history db1) \<subseteq> set (action_history db) \<union> {r. ah_BlockHeight r \<in> set heights}"
    using upd by (auto simp: updateActionHistory_def andThen_eq_Inr dest!: insert_actions_heights)
  ultimately show ?thesis by simp
qed

text \<open>What one protocol does when it returns no error.\<close>

lemma protocol_steps:
  "prot_HandleBlock (blocks_protocol sv) ictx c blk (db, mem) = (Inr u, s) \<Longrightarrow>
   \<exists>b m. blocks_HandleBlock (sv_epochCtx sv) (sv_gravity sv) ictx blk (db_blocks db, mem_blocks mem) = (Inr (), (b, m)) \<and>
     s = (db\<lparr>db_blocks := b\<rparr>, mem\<lparr>mem_blocks := m\<rparr>)"
  "prot_HandleBlock (actions_protocol sv) ictx c blk (db, mem) = (Inr u, s) \<Longrightarrow>
   \<exists>a m. actions_HandleBlock (sv_epochCtx sv) (sv_hermes sv) ictx (map bk_BlockHeight (block_history (db_blocks db))) blk
      (db_actions db, mem_xrc mem) = (Inr (), (a, m)) \<and> s = (db\<lparr>db_actions := a\<rparr>, mem\<lparr>mem_xrc := m\<rparr>)"
  "prot_HandleBlock (rewards_protocol sv) ictx c blk (db, mem) = (Inr u, s) \<Longrightarrow>
   \<exists>w m. s = (db\<lparr>db_rewards := w\<rparr>, mem\<lparr>mem_rewards := m\<rparr>)"
  "prot_HandleBlock (votings_protocol_of sv) ictx c blk (db, mem) = (Inr u, s) \<Longrightarrow>
   \<exists>v. votings_HandleBlock (sv_votings sv) (sv_election sv) (range_orders.truncate (sv_orders sv)) ictx (committed_of c) blk
      (db_votings db) = Inr v \<and> s = (db\<lparr>db_votings := v\<rparr>, mem)"
  "prot_HandleBlock (accounts_protocol sv) ictx c blk (db, mem) = (Inr u, s) \<Longrightarrow>
   \<exists>a. accounts_HandleBlock (transactions_ord (sv_orders sv)) (sv_epochCtx sv) ictx blk (db_accounts db) = Inr a \<and>
     s = (db\<lparr>db_accounts := a\<rparr>, mem)"
  by (auto simp: blocks_protocol_def actions_protocol_def rewards_protocol_def votings_protocol_of_def accounts_protocol_def
      split: prod.splits sum.splits)

lemma handle_all_default:
  assumes "handle_all ictx (default_protocols sv) blk db (db, mem) = (Inr (), (db', mem'))"
  obtains mb mx where
    "blocks_HandleBlock (sv_epochCtx sv) (sv_gravity sv) ictx blk (db_blocks db, mem_blocks mem) = (Inr (), (db_blocks db', mb))"
    and "actions_HandleBlock (sv_epochCtx sv) (sv_hermes sv) ictx (map bk_BlockHeight (block_history (db_blocks db'))) blk
      (db_actions db, mem_xrc mem) = (Inr (), (db_actions db', mx))"
    and "votings_HandleBlock (sv_votings sv) (sv_election sv) (range_orders.truncate (sv_orders sv)) ictx (committed_of db) blk
      (db_votings db) = Inr (db_votings db')"
    and "accounts_HandleBlock (transactions_ord (sv_orders sv)) (sv_epochCtx sv) ictx blk (db_accounts db) = Inr (db_accounts db')"
proof -
  obtain s1 s2 s3 s4 where steps:
    "prot_HandleBlock (blocks_protocol sv) ictx db blk (db, mem) = (Inr (), s1)"
    "prot_HandleBlock (actions_protocol sv) ictx db blk s1 = (Inr (), s2)"
    "prot_HandleBlock (rewards_protocol sv) ictx db blk s2 = (Inr (), s3)"
    "prot_HandleBlock (votings_protocol_of sv) ictx db blk s3 = (Inr (), s4)"
    "prot_HandleBlock (accounts_protocol sv) ictx db blk s4 = (Inr (), (db', mem'))"
    using assms by (auto simp: handle_all_def default_protocols_def go_bind_Inr go_wrap_Inr)
  obtain b mb where b: "blocks_HandleBlock (sv_epochCtx sv) (sv_gravity sv) ictx blk (db_blocks db, mem_blocks mem) = (Inr (), (b, mb))"
    and s1: "s1 = (db\<lparr>db_blocks := b\<rparr>, mem\<lparr>mem_blocks := mb\<rparr>)"
    using protocol_steps(1)[OF steps(1)] by blast
  obtain a mx where a: "actions_HandleBlock (sv_epochCtx sv) (sv_hermes sv) ictx (map bk_BlockHeight (block_history b)) blk
      (db_actions db, mem_xrc mem) = (Inr (), (a, mx))"
    and s2: "s2 = (db\<lparr>db_blocks := b, db_actions := a\<rparr>, mem\<lparr>mem_blocks := mb, mem_xrc := mx\<rparr>)"
    using protocol_steps(2)[OF steps(2)[unfolded s1]] by auto
  obtain w mw where s3: "s3 = (db\<lparr>db_blocks := b, db_actions := a, db_rewards := w\<rparr>, mem\<lparr>mem_blocks := mb, mem_xrc := mx, mem_rewards := mw\<rparr>)"
    using protocol_steps(3)[OF steps(3)[unfolded s2]] by auto
  obtain v where v: "votings_HandleBlock (sv_votings sv) (sv_election sv) (range_orders.truncate (sv_orders sv)) ictx (committed_of db) blk
      (db_votings db) = Inr v"
    and s4: "s4 = (db\<lparr>db_blocks := b, db_actions := a, db_rewards := w, db_votings := v\<rparr>, mem\<lparr>mem_blocks := mb, mem_xrc := mx, mem_rewards := mw\<rparr>)"
    using protocol_steps(4)[OF steps(4)[unfolded s3]] by auto
  obtain c where c: "accounts_HandleBlock (transactions_ord (sv_orders sv)) (sv_epochCtx sv) ictx blk (db_accounts db) = Inr c"
    and db': "db' = db\<lparr>db_blocks := b, db_actions := a, db_rewards := w, db_votings := v, db_accounts := c\<rparr>"
    using protocol_steps(5)[OF steps(5)[unfolded s4]] by auto
  show thesis by (rule that[of mb mx]) (simp_all add: db' a b c v)
qed

lemma iotex_next_block:
  assumes inv: "iotex_indexed (sv_epochCtx sv) h db" and h: "h < h + 1" and height: "blk_Height blk = h + 1"
    and run: "handle_all ictx (default_protocols sv) blk db (db, mem) = (Inr (), (db', mem'))"
  shows "iotex_indexed (sv_epochCtx sv) (h + 1) db'"
proof -
  obtain mb mx where blocks: "blocks_HandleBlock (sv_epochCtx sv) (sv_gravity sv) ictx blk (db_blocks db, mem_blocks mem) = (Inr (), (db_blocks db', mb))"
    and actions: "actions_HandleBlock (sv_epochCtx sv) (sv_hermes sv) ictx (map bk_BlockHeight (block_history (db_blocks db'))) blk
      (db_actions db, mem_xrc mem) = (Inr (), (db_actions db', mx))"
    and votings: "votings_HandleBlock (sv_votings sv) (sv_election sv) (range_orders.truncate (sv_orders sv)) ictx (committed_of db) blk
      (db_votings db) = Inr (db_votings db')"
    and accounts: "accounts_HandleBlock (transactions_ord (sv_orders sv)) (sv_epochCtx sv) ictx blk (db_accounts db) = Inr (db_accounts db')"
    by (rule handle_all_default[OF run])
  have ok: "ctx_ok (sv_epochCtx sv)" using inv by (simp add: iotex_indexed_def)
  have b: "blocks_indexed (sv_epochCtx sv) (h + 1) (db_blocks db')"
    using blocks_HandleBlock_indexed[OF ok _ h height blocks] inv by (simp add: iotex_indexed_def)
  moreover have "accounts_indexed (sv_epochCtx sv) (h + 1) (db_accounts db')"
    using accounts_HandleBlock_indexed[OF ok _ h height accounts] inv by (simp add: iotex_indexed_def)
  moreover have "votings_ok (db_votings db')"
    using votings_HandleBlock_ok[OF votings] inv by (simp add: iotex_indexed_def)
  moreover have "set (map bk_BlockHeight (block_history (db_blocks db))) \<subseteq> set (map bk_BlockHeight (block_history (db_blocks db')))"
    using b inv h unfolding iotex_indexed_def blocks_indexed_def by (auto simp: heights_upto_Suc simp del: set_map)
  then have "\<forall>r \<in> set (action_history (db_actions db')). ah_BlockHeight r \<in> set (map bk_BlockHeight (block_history (db_blocks db')))"
    using actions_HandleBlock_heights[OF actions] inv unfolding iotex_indexed_def by blast
  ultimately show ?thesis using ok by (simp add: iotex_indexed_def)
qed

interpretation iotex: block_indexer "iotex_indexed (sv_epochCtx sv)" "default_protocols sv" for sv
  by unfold_locales (rule iotex_next_block)

definition new_index :: "'h \<Rightarrow> 'h index_db" where
  "new_index tables =
     \<lparr>db_blocks = empty_blocks, db_actions = new_actions_db, db_rewards = \<lparr>reward_history = [], account_reward = []\<rparr>,
      db_votings = \<lparr>election_tables = tables, voting_result = [], aggregate_voting = [], voting_meta = [], probation_list = []\<rparr>,
      db_accounts = empty_accounts\<rparr>"

lemma new_index_indexed: "ctx_ok e \<Longrightarrow> iotex_indexed e 0 (new_index tables)"
  by (simp add: iotex_indexed_def new_index_def empty_blocks_def blocks_indexed_initial empty_accounts_def
      accounts_indexed_initial new_actions_db_def votings_ok_def)

subsection \<open>Properties\<close>



text \<open>A chain of one block with one transfer.\<close>

definition first_block :: block where
  "first_block = transfer_block\<lparr>blk_Height := 1\<rparr>"

definition first_chain :: IndexCtx where
  "first_chain = actions_ctx
     \<lparr>ChainClient := (ChainClient offline_ctx)
        \<lparr>cc_GetRawBlocks := \<lambda>s c. if s = 1 \<and> c = 1 then Inr [\<lparr>bi_Block = [], bi_Receipts = []\<rparr>] else offline,
         cc_GetChainMeta := Inr 1\<rparr>,
      Libs := (Libs actions_ctx)\<lparr>lib_ConvertFromBlockPb := \<lambda>_. Inr first_block\<rparr>\<rparr>"

definition sample_service :: "(unit, unit, unit, unit, unit) service" where
  "sample_service =
     \<lparr>sv_epochCtx = tiny_ctx, sv_gravity = no_gravity, sv_rewarding = open_rewarding, sv_hermes = hermes_cfg,
      sv_votings = sample_votings, sv_election = sample_el,
      sv_orders = \<lparr>staking_ord = rev, election_ord = rev, genesis_ord = rev, transactions_ord = rev, votes_ord = rev, rewards_ord = rev\<rparr>\<rparr>"

definition sample_index :: "(unit index_db, index_mem) indexer" where
  "sample_index = (small_indexer (default_protocols sample_service)
      (new_index (), \<lparr>mem_blocks = new_blocks_mem, mem_xrc = new_xrc_mem, mem_rewards = \<lparr>RewardAddrToName = None\<rparr>\<rparr>))
     \<lparr>idx_Config := small_config\<lparr>cfg_RangeQueryLimit := 5\<rparr>\<rparr>"

lemma go_each_no_panic:
  "(\<And>p w m. p \<in> set ps \<Longrightarrow> fst (f p w) \<noteq> Inl (Panic m)) \<Longrightarrow> fst (go_each f ps w) \<noteq> Inl (Panic m)"
  by (induction ps arbitrary: w) (auto simp: go_bind_apply split: prod.splits sum.splits, metis fst_conv)

lemma go_wrap_no_panic: "fst (f w) \<noteq> Inl (Panic m) \<Longrightarrow> fst (go_wrap msg f w) \<noteq> Inl (Panic m)"
  by (auto simp: go_wrap_def wrap_def split: prod.splits sum.splits if_splits)

lemma first_chain_facts:
  "epoch_prologue tiny_ctx 1 = Inr (1, 1)" "GetEpochNumber tiny_ctx 1 = Inr 1" "blk_Height first_block = 1"
  "ConsensusScheme first_chain = []" "[] \<noteq> ROLLDPOS"
  by code_simp+

lemma insert_unique_error: "insert_unique key rs t \<noteq> Inl (Panic m)"
  by (induction rs arbitrary: t) simp_all

lemma no_panics:
  "fst (prot_HandleBlock (blocks_protocol sample_service) first_chain c first_block w) \<noteq> Inl (Panic m)"
  "fst (prot_HandleBlock (actions_protocol sample_service) first_chain c first_block w) \<noteq> Inl (Panic m)"
  "fst (prot_HandleBlock (rewards_protocol sample_service) first_chain c first_block w) \<noteq> Inl (Panic m)"
  "fst (prot_HandleBlock (votings_protocol_of sample_service) first_chain c first_block w) \<noteq> Inl (Panic m)"
  "fst (prot_HandleBlock (accounts_protocol sample_service) first_chain c first_block w) \<noteq> Inl (Panic m)"
proof -
  obtain db mem where w: "w = (db, mem)" by fastforce
  show "fst (prot_HandleBlock (blocks_protocol sample_service) first_chain c first_block w) \<noteq> Inl (Panic m)"
  proof -
    have "\<exists>a. expectedProducerAddr 1 ps = Inr a" for ps
    proof (cases "ps = []")
      case False
      then have "0 \<le> 1 mod int (length ps)" by (intro pos_mod_sign) simp
      then show ?thesis by (simp add: expectedProducerAddr_def go_rem_def Let_def)
    qed (simp add: expectedProducerAddr_def)
    then have "\<exists>row. block_row 1 first_block mb = Inr row" for mb
      by (metis (no_types, lifting) andThen_Inr block_row_def first_chain_facts(3))
    then have row: "block_row 1 first_block mb \<noteq> Inl e" for mb e by (metis Inl_Inr_False)
    then show ?thesis
      by (auto simp: w blocks_protocol_def blocks_HandleBlock_def sample_service_def first_chain_facts Let_def
        updateBlockHistory_def andThen_eq_Inl row split: prod.splits sum.splits)
  qed
  show "fst (prot_HandleBlock (actions_protocol sample_service) first_chain c first_block w) \<noteq> Inl (Panic m)"
  proof -
    define infos ris where "infos = fst (projr (join_block first_chain hermes_cfg first_block))"
      and "ris = fst (snd (projr (join_block first_chain hermes_cfg first_block)))"
    have "\<not> isl (join_block first_chain hermes_cfg first_block)" "snd (snd (projr (join_block first_chain hermes_cfg first_block))) = []"
      "\<not> isl (mapE (history_row infos ris first_block) [0..<length (blk_Actions first_block)])"
      unfolding infos_def ris_def by code_simp+
    then obtain rows where join: "join_block first_chain hermes_cfg first_block = Inr (infos, ris, [])"
      and rows: "mapE (history_row infos ris first_block) [0..<length (blk_Actions first_block)] = Inr rows"
      unfolding infos_def ris_def by (metis isl_def prod.collapse sum.collapse(2) sum.exhaust_sel)
    have "collect_xrc first_chain first_block mx = (no_xrc_rows, mx)" for mx
      by (simp add: collect_xrc_def first_block_def transfer_block_def)
    then have xrc: "updateXrc20History first_chain first_block t mx = (Inr t, mx)" for t mx
      by (simp add: updateXrc20History_def write_xrc20_def write_xrc721_def no_xrc_rows_def)
    have "bucket_rows a first_block = []" for a by (simp add: bucket_rows_def first_block_def transfer_block_def)
    then have bucket: "updateBucketActions first_chain first_block d = Inr d" for d
      by (simp add: updateBucketActions_def first_chain_def actions_ctx_def)
    have "insert_actions hs rows t \<noteq> Inl (Panic m)" for hs t
      by (auto simp: insert_actions_def exec_values_def andThen_eq_Inl insert_unique_error)
    then show ?thesis
      by (cases "insert_actions (map bk_BlockHeight (block_history (db_blocks db))) rows (action_history (db_actions db))")
        (auto simp: w actions_protocol_def actions_HandleBlock_def sample_service_def join updateActionHistory_def rows xrc bucket)
  qed
  show "fst (prot_HandleBlock (rewards_protocol sample_service) first_chain c first_block w) \<noteq> Inl (Panic m)"
  proof -
    have "grant_reward_hashes first_block = []" by code_simp
    then have "foldE (record_receipt first_chain mm (rewards_ord (sv_orders sample_service)) 1 (grant_reward_hashes first_block))
        (blk_Receipts first_block) d = Inr d" for mm d
      by (simp add: record_receipt_def first_block_def transfer_block_def)
    then show ?thesis
      by (simp add: w rewards_protocol_def rewards_HandleBlock_def sample_service_def first_chain_facts Let_def)
  qed
  show "fst (prot_HandleBlock (votings_protocol_of sample_service) first_chain c first_block w) \<noteq> Inl (Panic m)"
    by (simp add: w votings_protocol_of_def votings_HandleBlock_def sample_service_def sample_votings_def first_chain_facts)
  show "fst (prot_HandleBlock (accounts_protocol sample_service) first_chain c first_block w) \<noteq> Inl (Panic m)"
  proof -
    have "getTransactionLog 1 (ChainClient first_chain) = []"
      by (simp add: getTransactionLog_def first_chain_def offline_ctx_def offline_def)
    then show ?thesis
      by (simp add: w accounts_protocol_def accounts_HandleBlock_def sample_service_def first_chain_facts Let_def)
  qed
qed

lemma first_block_ok: "block_ok first_chain (\<lambda>_. tx_ok) (default_protocols sample_service) first_block"
proof -
  have "fst (go_wrap msg (prot_HandleBlock p first_chain c first_block) w) \<noteq> Inl (Panic m)"
    if "p \<in> set (default_protocols sample_service)" for p msg c w m
    by (rule go_wrap_no_panic) (use that in \<open>auto simp: default_protocols_def no_panics\<close>)
  then show ?thesis by (simp add: block_ok_def handle_all_def tx_ok_def go_each_no_panic)
qed

lemma first_chain_honest: "honest_chain first_chain (\<lambda>_. tx_ok) (default_protocols sample_service)"
proof -
  have "cc_GetRawBlocks (ChainClient first_chain) s c = (if s = 1 \<and> c = 1 then Inr [\<lparr>bi_Block = [], bi_Receipts = []\<rparr>] else offline)" for s c
    by (simp add: first_chain_def)
  moreover have "block_of_info first_chain \<lparr>bi_Block = [], bi_Receipts = []\<rparr> = Inr first_block"
    by (simp add: block_of_info_def first_chain_def)
  ultimately show ?thesis
    by (auto simp: honest_chain_def infos_ok_def offline_def first_block_ok first_chain_facts split: if_splits)
qed

lemma sample_index_ready:
  "idx_IndexProtocols sample_index = default_protocols sample_service" "idx_lastHeight sample_index = 0"
  "iotex_indexed (sv_epochCtx sample_service) 0 (fst (idx_world sample_index))"
  "0 < cfg_RangeQueryLimit (idx_Config sample_index)"
  by (simp_all add: sample_index_def small_indexer_def small_config_def sample_service_def new_index_indexed tiny_ok)



end
