(* ===== verification/Query_Base.thy ===== *)
theory Query_Base imports System "HOL-Library.Option_ord" "HOL-Library.Char_ord" "HOL-Library.List_Lexorder" begin

text \<open>
  What the query protocols share (\<open>queryprotocol/protocol.go\<close> and the shapes of their SQL texts).
  A query is a function of the tables it reads. A \<open>SELECT\<close> without rows is \<open>ErrNotExist\<close> where the
  code says so. \<open>ORDER BY\<close> leaves the order of equal keys open: the definitions take a permutation
  \<open>ord\<close> of the rows as an argument and sort stably after it, which gives every order the
  database may choose. \<open>NULL\<close> is the smallest key.
\<close>

definition registered :: "string \<Rightarrow> string \<Rightarrow> 'p registry \<Rightarrow> go_error + unit" where
  "registered protocol_id name registry =
     (case Find protocol_id registry of
        None \<Rightarrow> Inl (ErrMsg (name @ '' protocol is unregistered'')) | Some _ \<Rightarrow> Inr ())"

definition RowExists :: "'r list \<Rightarrow> go_error + bool" where
  "RowExists rows = Inr (rows \<noteq> [])"

definition some_rows :: "'r list \<Rightarrow> go_error + 'r list" where
  "some_rows rows = (if rows = [] then Inl ErrNotExist else Inr rows)"

text \<open>The epochs from \<open>startEpoch\<close> to \<open>endEpoch = startEpoch + epochCount - 1\<close>, in \<open>uint64\<close>.\<close>

definition in_epochs :: "u64 \<Rightarrow> u64 \<Rightarrow> u64 \<Rightarrow> bool" where
  "in_epochs startEpoch epochCount e \<longleftrightarrow> startEpoch \<le> e \<and> e \<le> startEpoch + epochCount - 1"

definition order_desc :: "('r list \<Rightarrow> 'r list) \<Rightarrow> ('r \<Rightarrow> 'k :: linorder) \<Rightarrow> 'r list \<Rightarrow> 'r list" where
  "order_desc ord key rows = rev (sort_key key (ord rows))"

definition limit :: "u64 \<Rightarrow> u64 \<Rightarrow> 'r list \<Rightarrow> 'r list" where
  "limit offset sz rows = take (unat sz) (drop (unat offset) rows)"

definition left_join :: "('a \<Rightarrow> 'b \<Rightarrow> bool) \<Rightarrow> 'a list \<Rightarrow> 'b list \<Rightarrow> ('a \<times> 'b option) list" where
  "left_join on xs ys =
     concat (map (\<lambda>x. case filter (on x) ys of [] \<Rightarrow> [(x, None)] | ms \<Rightarrow> map (\<lambda>y. (x, Some y)) ms) xs)"

definition inner_join :: "('a \<Rightarrow> 'b \<Rightarrow> bool) \<Rightarrow> 'a list \<Rightarrow> 'b list \<Rightarrow> ('a \<times> 'b) list" where
  "inner_join on xs ys = filter (\<lambda>(x, y). on x y) (List.product xs ys)"

text \<open>Scanning a column into a Go variable: a number out of range and \<open>NULL\<close> are errors.\<close>

definition scan_u64 :: "int \<Rightarrow> go_error + u64" where
  "scan_u64 n = (if 0 \<le> n \<and> n < 2 ^ 64 then Inr (word_of_int n) else Inl (ErrSQL ''value out of range''))"

definition scan_some :: "'a option \<Rightarrow> go_error + 'a" where
  "scan_some v = (case v of None \<Rightarrow> Inl (ErrSQL ''converting NULL is unsupported'') | Some x \<Rightarrow> Inr x)"

text \<open>\<open>SUM\<close> of no rows is \<open>NULL\<close>; \<open>IFNULL(SUM(..), 0)\<close> is the plain sum.\<close>

definition sql_sum :: "('r \<Rightarrow> int) \<Rightarrow> 'r list \<Rightarrow> int option" where
  "sql_sum val rows = (if rows = [] then None else Some (sum_list (map val rows)))"

text \<open>The values of a column without repetition, as \<open>DISTINCT\<close> and \<open>GROUP BY\<close> give them.\<close>

definition column :: "('r \<Rightarrow> 'a) \<Rightarrow> 'r list \<Rightarrow> 'a list" where
  "column f rows = remdups (map f rows)"

text \<open>The join with \<open>SELECT index, MAX(id) ... GROUP BY index\<close> keeps the newest row of each bucket.\<close>

definition newest :: "StakingBucket stored_row list \<Rightarrow> StakingBucket stored_row list" where
  "newest t = filter (\<lambda>r. sr_id r = Max (set (map sr_id (filter (\<lambda>s. sb_Index (sr_cols s) = sb_Index (sr_cols r)) t)))) t"

text \<open>
  \<open>for i := start; i <= end; i++\<close> over \<open>uint64\<close>. With \<open>end\<close> the largest number the loop never
  ends by itself.
\<close>

partial_function (option) for_upto :: "(u64 \<Rightarrow> 's \<Rightarrow> go_error + 's) \<Rightarrow> u64 \<Rightarrow> u64 \<Rightarrow> 's \<Rightarrow> (go_error + 's) option" where
  [code]: "for_upto body endE i st =
     (if endE < i then Some (Inr st)
      else case body i st of Inl e \<Rightarrow> Some (Inl e) | Inr st' \<Rightarrow> for_upto body endE (i + 1) st')"

subsection \<open>Facts the queries share\<close>

lemma registered_Inr [simp]: "registered i name reg = Inr u \<longleftrightarrow> Find i reg \<noteq> None"
  by (auto simp: registered_def split: option.splits)

lemma some_rows_Inr [simp]: "some_rows rows = Inr rs \<longleftrightarrow> rows \<noteq> [] \<and> rs = rows"
  by (auto simp: some_rows_def)

lemma mset_order_desc: "range_order ord \<Longrightarrow> mset (order_desc ord key rows) = mset rows"
  by (simp add: order_desc_def range_order_def)

lemma set_order_desc [simp]: "range_order ord \<Longrightarrow> set (order_desc ord key rows) = set rows"
  by (metis mset_order_desc set_mset_mset)

lemma length_order_desc [simp]: "range_order ord \<Longrightarrow> length (order_desc ord key rows) = length rows"
  by (metis mset_order_desc size_mset)

lemma sorted_order_desc: "sorted (rev (map key (order_desc ord key rows)))"
  by (simp add: order_desc_def rev_map)

lemma set_left_join_row:
  "(x, y) \<in> set (case ms of [] \<Rightarrow> [(w, None)] | ns \<Rightarrow> map (\<lambda>y. (w, Some y)) ns) \<longleftrightarrow>
   x = w \<and> (case y of None \<Rightarrow> ms = [] | Some z \<Rightarrow> z \<in> set ms)"
  by (cases ms; cases y) auto

lemma set_left_join:
  "(x, y) \<in> set (left_join on xs ys) \<longleftrightarrow>
   x \<in> set xs \<and> (case y of None \<Rightarrow> filter (on x) ys = [] | Some z \<Rightarrow> z \<in> set ys \<and> on x z)"
proof -
  have "(x, y) \<in> set (left_join on xs ys) \<longleftrightarrow>
      (\<exists>w \<in> set xs. x = w \<and> (case y of None \<Rightarrow> filter (on w) ys = [] | Some z \<Rightarrow> z \<in> set (filter (on w) ys)))"
    unfolding left_join_def by (simp add: set_left_join_row del: set_filter)
  then show ?thesis by (auto split: option.splits)
qed

lemma in_limit: "r \<in> set (limit offset sz rows) \<Longrightarrow> r \<in> set rows"
  unfolding limit_def by (blast dest: in_set_takeD in_set_dropD)

text \<open>The pages of one ordered result, one after the other, are that result.\<close>

lemma pages_append:
  "take n xs @ take m (drop n xs) = take (n + m) xs"
  by (simp add: take_add)

lemma pages_concat: "concat (map (\<lambda>i. take n (drop (i * n) rows)) [0..<k]) = take (k * n) rows"
proof (induction k)
  case (Suc k)
  then show ?case using pages_append[of "k * n" rows n] by (simp add: add.commute)
qed simp

lemma limit_page:
  assumes "i * n < 2 ^ 64" "n < 2 ^ 64"
  shows "limit (of_nat (i * n)) (of_nat n) rows = take n (drop (i * n) rows)"
proof -
  have "unat (of_nat (i * n) :: u64) = i * n" "unat (of_nat n :: u64) = n"
    using assms by (simp_all add: unsigned_of_nat take_bit_nat_eq_self del: of_nat_mult)
  then show ?thesis by (simp only: limit_def)
qed

text \<open>However the database orders the rows for each page, the pages hold as many rows as there are.\<close>

lemma pages_length:
  assumes "\<And>i. length (xs i) = len"
  shows "sum_list (map (\<lambda>i. length (take n (drop (i * n) (xs i)))) [0..<k]) = min (k * n) len"
  using assms by (induction k) (auto simp: min_def)

text \<open>
  Rows with different keys come in the same order whatever permutation the database starts
  from.
\<close>

lemma order_desc_unique:
  assumes "range_order ord" "range_order ord'" "inj_on key (set rows)"
  shows "order_desc ord key rows = order_desc ord' key rows"
proof -
  have "mset (ord rows) = mset (ord' rows)" using assms(1,2) by (simp add: range_order_def)
  moreover have "inj_on key (set (ord rows))" using assms(1,3) by simp
  ultimately have "sort_key key (ord rows) = sort_key key (ord' rows)"
    by (intro sort_key_inj_key_eq) simp_all
  then show ?thesis by (simp add: order_desc_def)
qed

lemma u64_upto_Cons:
  assumes "i \<le> endE" "endE < (- 1 :: u64)"
  shows "[unat i..<Suc (unat endE)] = unat i # [unat (i + 1)..<Suc (unat endE)]"
proof -
  have "i < - 1" using assms by (rule le_less_trans)
  moreover have "unat (- 1 :: u64) = 18446744073709551615"
    by (simp add: unsigned_minus_1_eq_mask mask_eq_exp_minus_1)
  ultimately have "unat i < 18446744073709551615" by (simp add: word_less_nat_alt)
  then have "unat (i + 1) = Suc (unat i)" by (simp add: unat_word_ariths(1))
  then show ?thesis using assms(1) by (simp add: upt_rec word_le_nat_alt)
qed

lemma for_upto_returns:
  assumes "endE < - 1"
  shows "for_upto body endE i st = Some (foldE body (map of_nat [unat i..<Suc (unat endE)]) st)"
  using assms
proof (induction "[unat i..<Suc (unat endE)]" arbitrary: i st)
  case Nil
  then have "endE < i" by (simp add: word_less_nat_alt split: if_splits)
  with Nil show ?case by (simp add: for_upto.simps)
next
  case (Cons n ns)
  then have le: "i \<le> endE" by (simp add: word_le_nat_alt split: if_splits)
  have upto: "[unat i..<Suc (unat endE)] = unat i # [unat (i + 1)..<Suc (unat endE)]"
    by (rule u64_upto_Cons[OF le Cons.prems])
  then have ns: "ns = [unat (i + 1)..<Suc (unat endE)]" using Cons.hyps(2) by simp
  show ?case
    using le Cons.hyps(1)[OF ns Cons.prems]
    by (simp only: upto for_upto.simps[of body endE i st]) (simp add: not_less[symmetric] split: sum.split)
qed

end
