(* ===== verification/Query_Chain.thy ===== *)
theory Query_Chain imports Query_Base begin

text \<open>
  \<open>queryprotocol/chainmeta/protocol.go\<close> and \<open>queryprotocol/productivity/protocol.go\<close>: the rate of
  transactions, the number of actions, the supply of tokens and the productivity of delegates, from
  the tables of the blocks and accounts protocols. A result that the code returns beside an error
  is left out.
\<close>

subsection \<open>Chain metadata\<close>

record blkInfo =
  bi_Transfer :: int
  bi_Execution :: int
  bi_DepositToRewardingFund :: int
  bi_ClaimFromRewardingFund :: int
  bi_GrantReward :: int
  bi_PutPollResult :: int
  bi_Timestamp :: int

definition blk_info :: "BlockHistory \<Rightarrow> blkInfo" where
  "blk_info b =
     \<lparr>bi_Transfer = uint (bk_Transfer b), bi_Execution = uint (bk_Execution b),
      bi_DepositToRewardingFund = uint (bk_DepositToRewaringFund b),
      bi_ClaimFromRewardingFund = uint (bk_ClaimFromRewardingFund b), bi_GrantReward = uint (bk_GrantReward b),
      bi_PutPollResult = uint (bk_PutPollResult b), bi_Timestamp = bk_Timestamp b\<rparr>"

definition tps_actions :: "blkInfo \<Rightarrow> int" where
  "tps_actions blk = bi_Transfer blk + bi_Execution blk + bi_ClaimFromRewardingFund blk
     + bi_DepositToRewardingFund blk + bi_GrantReward blk + bi_PutPollResult blk"

text \<open>
  \<open>startTime\<close> is the latest and \<open>endTime\<close> the earliest time of the blocks. Their distance plus the
  ten seconds of one block, in milliseconds, is never 0.
\<close>

definition tps_of :: "blkInfo list \<Rightarrow> f64" where
  "tps_of blks =
     (let (numActions, startTime, endTime) = fold (\<lambda>blk (n, s, e).
          (n + tps_actions blk, if s < bi_Timestamp blk then bi_Timestamp blk else s,
           if bi_Timestamp blk < e then bi_Timestamp blk else e)) blks (0, bi_Timestamp (hd blks), bi_Timestamp (hd blks));
          timeDiff = ((startTime - endTime) + 10) * 1000
      in f64_div (f64_of_int (numActions * 1000)) (f64_of_int timeDiff))"

definition MostRecentTPS :: "(BlockHistory list \<Rightarrow> BlockHistory list) \<Rightarrow> 'p registry \<Rightarrow> u64 \<Rightarrow> blocks_db \<Rightarrow> go_error + f64" where
  "MostRecentTPS ord registry ranges db =
     andThen (registered ''blocks'' ''blocks'' registry) (\<lambda>_.
     if ranges = 0 then Inl (ErrMsg ''TPS block window should be greater than 0'')
     else
       andThen (wrap ''failed to get most recent block height'' (GetCurrentEpochAndHeight registry db)) (\<lambda>(_, tipHeight).
       let blockLimit = (if tipHeight < ranges then tipHeight else ranges);
           start = tipHeight - blockLimit + 1 in
       andThen (some_rows (filter (\<lambda>b. start \<le> bk_BlockHeight b \<and> bk_BlockHeight b \<le> tipHeight) (ord (block_history db)))) (\<lambda>rows.
       Inr (tps_of (map blk_info rows)))))"

definition GetLastEpochAndHeight :: "'p registry \<Rightarrow> blocks_db \<Rightarrow> go_error + u64 \<times> u64" where
  "GetLastEpochAndHeight = GetCurrentEpochAndHeight"

definition actions_of_block :: "BlockHistory \<Rightarrow> int" where
  "actions_of_block b =
     uint (bk_Transfer b) + uint (bk_Execution b) + uint (bk_DepositToRewaringFund b) + uint (bk_ClaimFromRewardingFund b)
     + uint (bk_GrantReward b) + uint (bk_PutPollResult b) + uint (bk_StakeCreate b) + uint (bk_StakeUnstake b)
     + uint (bk_StakeWithdraw b) + uint (bk_StakeAddDeposit b) + uint (bk_StakeRestake b) + uint (bk_StakeChangeCandidate b)
     + uint (bk_StakeTransferOwnership b) + uint (bk_CandidateRegister b) + uint (bk_CandidateUpdate b)"

definition GetNumberOfActions :: "'p registry \<Rightarrow> u64 \<Rightarrow> u64 \<Rightarrow> blocks_db \<Rightarrow> go_error + u64" where
  "GetNumberOfActions registry startEpoch epochCount db =
     andThen (wrap ''failed to get current epoch'' (GetCurrentEpochAndHeight registry db)) (\<lambda>(currentEpoch, _).
     if currentEpoch < startEpoch then Inl ErrNotExist
     else wrap ''failed to execute get query''
       (andThen (scan_some (sql_sum actions_of_block
          (filter (\<lambda>b. in_epochs startEpoch epochCount (bk_EpochNumber b)) (block_history db)))) scan_u64))"

definition GetTotalTransferredTokens :: "'p registry \<Rightarrow> u64 \<Rightarrow> u64 \<Rightarrow> blocks_db \<Rightarrow> accounts_db \<Rightarrow> go_error + string" where
  "GetTotalTransferredTokens registry startEpoch epochCount db adb =
     andThen (wrap ''failed to get current epoch'' (GetCurrentEpochAndHeight registry db)) (\<lambda>(currentEpoch, _).
     if currentEpoch < startEpoch then Inl ErrNotExist
     else Inr (big_String (sum_list (map bh_Amount
       (filter (\<lambda>r. in_epochs startEpoch epochCount (bh_EpochNumber r)) (balance_history adb))))))"

subsection \<open>The supply of tokens\<close>

definition lockAddresses :: string where "lockAddresses = ''io1uqhmnttmv0pg8prugxxn7d8ex9angrvfjfthxa''"
definition totalBalance :: string where "totalBalance = ''12700000000000000000000000000''"
definition nsv1Balance :: string where "nsv1Balance = ''262281303940000000000000000''"
definition bnfxBalance :: string where "bnfxBalance = ''3414253030000000000000000''"

text \<open>\<open>strings.Split\<close> at a one-character separator.\<close>

fun strings_Split :: "string \<Rightarrow> char \<Rightarrow> string list" where
  "strings_Split [] c = [[]]"
| "strings_Split (x # xs) c =
     (if x = c then [] # strings_Split xs c
      else (case strings_Split xs c of [] \<Rightarrow> [[x]] | w # ws \<Rightarrow> (x # w) # ws))"

definition getBalanceSumByAddress :: "string \<Rightarrow> accounts_db \<Rightarrow> go_error + string" where
  "getBalanceSumByAddress address adb =
     Inr (big_String (sum_list (map snd (filter (\<lambda>((_, a), _). a = address) (account_income adb)))))"

definition to_big :: "string \<Rightarrow> go_error + int" where
  "to_big s = (case big_SetString 10 s of None \<Rightarrow> Inl (ErrMsg (''failed to format to big int:'' @ s)) | Some n \<Rightarrow> Inr n)"

definition getLockAddressesBalance :: "string list \<Rightarrow> accounts_db \<Rightarrow> go_error + int" where
  "getLockAddressesBalance addresses adb =
     foldE (\<lambda>address total.
       andThen (getBalanceSumByAddress address adb) (\<lambda>balance.
       andThen (to_big balance) (\<lambda>balanceInt. Inr (total + balanceInt)))) addresses 0"

text \<open>The constants are parsed without a check: their texts are numbers. \<open>zeroAddress\<close> is \<open>address.ZeroAddress\<close>.\<close>

definition GetTotalSupply :: "string \<Rightarrow> accounts_db \<Rightarrow> go_error + string" where
  "GetTotalSupply zeroAddress adb =
     andThen (getBalanceSumByAddress zeroAddress adb) (\<lambda>zeroAddressBalance.
     andThen (to_big zeroAddressBalance) (\<lambda>zeroAddressBalanceInt.
     case (big_SetString 10 totalBalance, big_SetString 10 nsv1Balance, big_SetString 10 bnfxBalance) of
       (Some totalBalanceInt, Some nsv1BalanceInt, Some bnfxBalanceInt) \<Rightarrow>
         Inr (big_String (totalBalanceInt - zeroAddressBalanceInt - nsv1BalanceInt - bnfxBalanceInt))
     | _ \<Rightarrow> Inl (Panic ''invalid memory address or nil pointer dereference'')))"

definition GetTotalCirculatingSupply :: "string \<Rightarrow> accounts_db \<Rightarrow> go_error + string" where
  "GetTotalCirculatingSupply supply adb =
     andThen (getLockAddressesBalance (strings_Split lockAddresses (CHR '','')) adb) (\<lambda>lockAddressesBalanceInt.
     andThen (to_big supply) (\<lambda>totalSupplyInt.
     Inr (big_String (totalSupplyInt - lockAddressesBalanceInt))))"

definition getAvailableReward :: "chain_client \<Rightarrow> go_error + int" where
  "getAvailableReward client =
     andThen (cc_ReadState client \<lparr>rq_ProtocolID = ''rewarding'', rq_MethodName = ''AvailableBalance'', rq_Arguments = [], rq_Height = []\<rparr>) to_big"

definition GetTotalCirculatingSupplyNoRewardPool :: "chain_client \<Rightarrow> string \<Rightarrow> go_error + string" where
  "GetTotalCirculatingSupplyNoRewardPool client totalCirculatingSupply =
     andThen (getAvailableReward client) (\<lambda>availableRewardInt.
     andThen (to_big totalCirculatingSupply) (\<lambda>totalCirculatingSupplyInt.
     Inr (big_String (totalCirculatingSupplyInt - availableRewardInt))))"

subsection \<open>Productivity\<close>

definition GetProductivityHistory :: "'p registry \<Rightarrow> u64 \<Rightarrow> u64 \<Rightarrow> string \<Rightarrow> blocks_db \<Rightarrow> go_error + string \<times> string" where
  "GetProductivityHistory registry startEpoch epochCount producerName db =
     andThen (registered ''blocks'' ''blocks'' registry) (\<lambda>_.
     let rows = filter (\<lambda>((e, name), _). in_epochs startEpoch epochCount e \<and> name = producerName) (productivity_history db) in
     andThen (wrap ''failed to check if the row exists'' (RowExists rows)) (\<lambda>exist.
     if \<not> exist then Inl ErrNotExist
     else Inr (big_String (sum_list (map (\<lambda>(_, p, _). p) rows)), big_String (sum_list (map (\<lambda>(_, _, x). x) rows)))))"

text \<open>
  The sum of the shares of the delegates, in the order \<open>ord\<close> the database groups them. A division
  by zero is an infinity or no number in Go, here \<open>None\<close>.
\<close>

definition productivity_shares :: "(string list \<Rightarrow> string list) \<Rightarrow> productivity_row list \<Rightarrow> f64 option" where
  "productivity_shares ord rows =
     fold (\<lambda>name acc.
       let own = filter (\<lambda>((_, n), _). n = name) rows;
           p = sum_list (map (\<lambda>(_, p, _). p) own); x = sum_list (map (\<lambda>(_, _, x). x) own)
       in case acc of None \<Rightarrow> None
          | Some s \<Rightarrow> if x = 0 then None else Some (f64_add s (f64_div (f64_of_int p) (f64_of_int x))))
       (ord (column (\<lambda>((_, n), _). n) rows)) (Some 0)"

text \<open>
  The error of \<open>GetCurrentEpochAndHeight\<close> is overwritten before any return; the current epoch is
  then 0.
\<close>

definition GetAverageProductivity ::
  "(string list \<Rightarrow> string list) \<Rightarrow> 'p registry \<Rightarrow> u64 \<Rightarrow> u64 \<Rightarrow> blocks_db \<Rightarrow> go_error + f64 option"
where
  "GetAverageProductivity ord registry startEpoch epochCount db =
     andThen (registered ''blocks'' ''blocks'' registry) (\<lambda>_.
     let currentEpoch = (case GetCurrentEpochAndHeight registry db of Inl _ \<Rightarrow> 0 | Inr (e, _) \<Rightarrow> e) in
     if currentEpoch < startEpoch then Inl (ErrMsg ''epoch number is not exist'')
     else
       andThen (some_rows (filter (\<lambda>((e, _), _). in_epochs startEpoch epochCount e) (productivity_history db))) (\<lambda>rows.
       Inr (map_option (\<lambda>s. f64_div s (f64_of_int (int (length (column (\<lambda>((_, n), _). n) rows))))) (productivity_shares ord rows))))"

end
