(* ===== verification/Query_Chain_Laws.thy ===== *)
theory Query_Chain_Laws imports Query_Chain begin

text \<open>
  What the chain queries answer: the supply of tokens as one sum, the rate of transactions as a
  formula of the blocks in the window, and the range of the average productivity.
\<close>

subsection \<open>Supply\<close>

definition balance_of :: "string \<Rightarrow> accounts_db \<Rightarrow> int" where
  "balance_of address adb = sum_list (map snd (filter (\<lambda>r. snd (fst r) = address) (account_income adb)))"

lemma to_big_String [simp]: "to_big (big_String n) = Inr n"
  by (simp add: to_big_def big_SetString_String)

lemma getBalanceSumByAddress_eq: "getBalanceSumByAddress a adb = Inr (big_String (balance_of a adb))"
  by (simp add: getBalanceSumByAddress_def balance_of_def case_prod_unfold)

lemma supply_constants:
  "big_SetString 10 totalBalance = Some 12700000000000000000000000000"
  "big_SetString 10 nsv1Balance = Some 262281303940000000000000000"
  "big_SetString 10 bnfxBalance = Some 3414253030000000000000000"
  "strings_Split lockAddresses (CHR '','') = [lockAddresses]"
  by (simp_all add: totalBalance_def nsv1Balance_def bnfxBalance_def lockAddresses_def big_SetString_def parse_nat_def digit_val_def)

text \<open>The three supply queries, chained as the resolver chains them, give 12700000000 tokens less
  the two fixed amounts that never circulated (nsv1Balance and bnfxBalance), less what the zero address
  and the lock address hold, less what the rewarding pool has available; the only error that can surface
  is the one of reading the pool.\<close>

theorem supply_without_locked_and_rewards:
  "andThen (GetTotalSupply zeroAddress adb) (\<lambda>s.
   andThen (GetTotalCirculatingSupply s adb) (GetTotalCirculatingSupplyNoRewardPool client)) =
   andThen (getAvailableReward client) (\<lambda>pool. Inr (big_String
     (12434304443030000000000000000 - balance_of zeroAddress adb - balance_of lockAddresses adb - pool)))"
proof -
  have "GetTotalSupply zeroAddress adb = Inr (big_String (12434304443030000000000000000 - balance_of zeroAddress adb))"
    by (simp add: GetTotalSupply_def getBalanceSumByAddress_eq supply_constants)
  moreover have "GetTotalCirculatingSupply (big_String n) adb = Inr (big_String (n - balance_of lockAddresses adb))" for n
    by (simp add: GetTotalCirculatingSupply_def getLockAddressesBalance_def getBalanceSumByAddress_eq supply_constants(4))
  ultimately show ?thesis by (simp add: GetTotalCirculatingSupplyNoRewardPool_def)
qed

subsection \<open>The rate of transactions\<close>

text \<open>The last \<open>ranges\<close> blocks, or all of them.\<close>

definition window :: "u64 \<Rightarrow> u64 \<Rightarrow> BlockHistory list \<Rightarrow> BlockHistory list" where
  "window tip ranges bs = filter (\<lambda>b. unat tip < unat (bk_BlockHeight b) + unat ranges \<and> 0 < bk_BlockHeight b \<and> bk_BlockHeight b \<le> tip) bs"

lemma tps_fold:
  "fold (\<lambda>blk (n, s, e).
      (n + tps_actions blk, if s < bi_Timestamp blk then bi_Timestamp blk else s,
       if bi_Timestamp blk < e then bi_Timestamp blk else e)) blks (n, s, e) =
   (n + sum_list (map tps_actions blks), fold max (map bi_Timestamp blks) s, fold min (map bi_Timestamp blks) e)"
proof (induction blks arbitrary: n s e)
  case (Cons b bs)
  have "(if s < bi_Timestamp b then bi_Timestamp b else s) = max (bi_Timestamp b) s"
    and "(if bi_Timestamp b < e then bi_Timestamp b else e) = min (bi_Timestamp b) e" by auto
  then show ?case using Cons.IH by simp
qed simp

lemma fold_max_hd: "xs \<noteq> [] \<Longrightarrow> fold max xs (hd xs) = Max (set (xs :: int list))"
  by (cases xs) (simp_all add: Max.set_eq_fold del: set_simps list.set)

lemma fold_min_hd: "xs \<noteq> [] \<Longrightarrow> fold min xs (hd xs) = Min (set (xs :: int list))"
  by (cases xs) (simp_all add: Min.set_eq_fold del: set_simps list.set)

lemma tps_of_formula:
  assumes "blks \<noteq> []"
  shows "tps_of blks = f64_div (f64_of_int (1000 * sum_list (map tps_actions blks)))
    (f64_of_int (1000 * (Max (bi_Timestamp ` set blks) - Min (bi_Timestamp ` set blks) + 10)))"
  using fold_max_hd[of "map bi_Timestamp blks"] fold_min_hd[of "map bi_Timestamp blks"] assms
  by (simp add: tps_of_def tps_fold hd_map mult.commute)

lemma window_start:
  fixes tip ranges h :: u64
  assumes "ranges \<noteq> 0"
  shows "tip - (if tip < ranges then tip else ranges) + 1 \<le> h \<and> h \<le> tip \<longleftrightarrow>
    unat tip < unat h + unat ranges \<and> 0 < h \<and> h \<le> tip"
  using assms by (cases "tip < ranges"; simp; unat_arith)

text \<open>MostRecentTPS is the number of actions it counts in the last blocks divided by the seconds
  between the first and the last of them plus the ten of one block, over at most ranges blocks and over all
  of them where there are fewer, however the database orders its rows.\<close>

theorem tps_of_recent_blocks:
  assumes "GetCurrentEpochAndHeight registry db = Inr (epoch, tip)" "ranges \<noteq> 0" "range_order ord"
    and "window tip ranges (block_history db) \<noteq> []"
  defines "bs \<equiv> window tip ranges (block_history db)"
  shows "MostRecentTPS ord registry ranges db = Inr
    (f64_div (f64_of_int (1000 * sum_list (map (tps_actions \<circ> blk_info) bs)))
      (f64_of_int (1000 * (Max (bk_Timestamp ` set bs) - Min (bk_Timestamp ` set bs) + 10))))"
proof -
  let ?start = "tip - (if tip < ranges then tip else ranges) + 1"
  let ?rows = "filter (\<lambda>b. ?start \<le> bk_BlockHeight b \<and> bk_BlockHeight b \<le> tip) (ord (block_history db))"
  have rows: "?rows = window tip ranges (ord (block_history db))"
    unfolding window_def by (simp only: window_start[OF assms(2)])
  have mset: "mset ?rows = mset bs"
    unfolding rows bs_def window_def using assms(3) by (simp only: range_order_def mset_filter)
  then have set: "set ?rows = set bs" by (rule mset_eq_setD)
  have sums: "sum_list (map (tps_actions \<circ> blk_info) ?rows) = sum_list (map (tps_actions \<circ> blk_info) bs)"
    using arg_cong[OF mset, of "\<lambda>m. sum_mset (image_mset (tps_actions \<circ> blk_info) m)"]
    by (simp only: mset_map[symmetric] sum_mset_sum_list)
  moreover have "registered ''blocks'' ''blocks'' registry = Inr ()"
    using assms(1) by (auto simp: GetCurrentEpochAndHeight_def split: option.splits)
  moreover have ne: "?rows \<noteq> []" using set assms(4) unfolding bs_def[symmetric] by (metis set_empty)
  ultimately have run: "MostRecentTPS ord registry ranges db = Inr (tps_of (map blk_info ?rows))"
    using assms(1,2) by (simp only: MostRecentTPS_def andThen_Inr wrap_Inr some_rows_def Let_def prod.case if_False)
  have "bi_Timestamp (blk_info b) = bk_Timestamp b" for b by (simp add: blk_info_def)
  then show ?thesis
    using tps_of_formula[of "map blk_info ?rows"] ne unfolding run
    by (simp only: map_map set_map image_image set sums map_is_Nil_conv not_False_eq_True)
qed

definition quiet_block :: "u64 \<Rightarrow> int \<Rightarrow> BlockHistory" where
  "quiet_block h t =
     \<lparr>bk_EpochNumber = 1, bk_BlockHeight = h, bk_BlockHash = [], bk_Transfer = 0, bk_Execution = 0,
      bk_DepositToRewaringFund = 0, bk_ClaimFromRewardingFund = 0, bk_GrantReward = 0, bk_PutPollResult = 0,
      bk_StakeCreate = 3, bk_StakeUnstake = 0, bk_StakeWithdraw = 0, bk_StakeAddDeposit = 0, bk_StakeRestake = 0,
      bk_StakeChangeCandidate = 0, bk_StakeTransferOwnership = 0, bk_CandidateRegister = 0, bk_CandidateUpdate = 0,
      bk_GasConsumed = 0, bk_ProducerAddress = [], bk_ProducerName = [], bk_ExpectedProducerAddress = [],
      bk_ExpectedProducerName = [], bk_Timestamp = t\<rparr>"

definition quiet_db :: blocks_db where
  "quiet_db = \<lparr>block_history = [quiet_block 1 10, quiet_block 2 20], expected_producer_history = [],
     producer_history = [], productivity_history = []\<rparr>"

lemma tps_of_recent_blocks_witness:
  "MostRecentTPS rev [(''blocks'', ())] 5 quiet_db = Inr (f64_div (f64_of_int 0) (f64_of_int 20000))"
proof -
  have tip: "GetCurrentEpochAndHeight [(''blocks'', ())] quiet_db = Inr (1, 2)" by code_simp
  have bs: "window 2 5 (block_history quiet_db) = [quiet_block 1 10, quiet_block 2 20]"
    by (simp add: quiet_db_def window_def quiet_block_def)
  show ?thesis
    using tps_of_recent_blocks[OF tip, of 5 rev]
    by (simp add: bs) (simp add: quiet_block_def tps_actions_def blk_info_def)
qed

text \<open>The throughput leaves the staking and candidate actions out: on blocks that hold
  nothing else it is 0, while GetNumberOfActions counts the six actions of the same blocks.\<close>

theorem tps_ignores_staking:
  "MostRecentTPS (\<lambda>bs. bs) [(''blocks'', ())] 5 quiet_db = Inr 0"
  "GetNumberOfActions [(''blocks'', ())] 1 1 quiet_db = Inr 6"
  by code_simp+

subsection \<open>Average productivity\<close>

lemma round_prec_within:
  "0 \<le> q \<Longrightarrow> q \<le> of_int k \<Longrightarrow> k < 2 ^ p \<Longrightarrow> 0 \<le> round_prec p q \<and> round_prec p q \<le> of_int k"
  using round_prec_nonneg[of q p] round_prec_le_int[of q k p] by (cases "q = 0") (auto simp: round_prec_def)

lemma f64_of_small: "0 \<le> n \<Longrightarrow> n < 2 ^ 53 \<Longrightarrow> f64_of_int n = of_int n"
  by (simp add: f64_of_int_def round_prec_of_int)

lemma share_within:
  assumes "0 \<le> p" "p \<le> x" "0 < x" "x < 2 ^ 53"
  shows "0 \<le> f64_div (f64_of_int p) (f64_of_int x)" "f64_div (f64_of_int p) (f64_of_int x) \<le> 1"
proof -
  have "f64_of_int p = of_int p" "f64_of_int x = of_int x"
    using assms by (simp_all add: f64_of_int_def round_prec_of_int)
  then show "0 \<le> f64_div (f64_of_int p) (f64_of_int x)" "f64_div (f64_of_int p) (f64_of_int x) \<le> 1"
    using round_prec_within[of "of_int p / of_int x" 1 53] assms by (simp_all add: f64_div_def)
qed

lemma shares_fold:
  assumes "\<And>n. n \<in> set ns \<Longrightarrow> \<exists>d. 0 \<le> d \<and> d \<le> 1 \<and> (\<forall>s. step n (Some s) = Some (f64_add s d))"
  shows "0 \<le> s \<Longrightarrow> s \<le> of_int k \<Longrightarrow> k + int (length ns) < 2 ^ 53 \<Longrightarrow>
    \<exists>t. fold step ns (Some s) = Some t \<and> 0 \<le> t \<and> t \<le> of_int (k + int (length ns))"
  using assms
proof (induction ns arbitrary: s k)
  case (Cons n ns)
  obtain d where d: "0 \<le> d" "d \<le> 1" "\<And>s. step n (Some s) = Some (f64_add s d)"
    using Cons.prems(4)[of n] by auto
  have "0 \<le> f64_add s d \<and> f64_add s d \<le> of_int (k + 1)"
    unfolding f64_add_def by (rule round_prec_within) (use Cons.prems(1-3) d in simp_all)
  then show ?case using Cons.IH[of "f64_add s d" "k + 1"] Cons.prems(3,4) d(3) by (simp add: ac_simps)
qed auto

lemma sum_filter_le:
  fixes f :: "'a \<Rightarrow> int"
  shows "(\<And>r. r \<in> set rs \<Longrightarrow> 0 \<le> f r) \<Longrightarrow> sum_list (map f (filter P rs)) \<le> sum_list (map f rs)"
  by (induction rs) (auto simp: add_increasing)

lemma length_le_sum:
  fixes f :: "'a \<Rightarrow> int"
  shows "(\<And>r. r \<in> set rs \<Longrightarrow> 1 \<le> f r) \<Longrightarrow> int (length rs) \<le> sum_list (map f rs)"
proof (induction rs)
  case (Cons r rs)
  then have "1 \<le> f r" "int (length rs) \<le> sum_list (map f rs)" by simp_all
  then show ?case by simp
qed simp

definition sane_row :: "productivity_row \<Rightarrow> bool" where
  "sane_row r \<longleftrightarrow> 0 \<le> fst (snd r) \<and> fst (snd r) \<le> snd (snd r) \<and> 0 < snd (snd r)"

lemma productivity_share:
  assumes sane: "\<And>r. r \<in> set rows \<Longrightarrow> sane_row r" and small: "sum_list (map (snd \<circ> snd) rows) < 2 ^ 53"
    and name: "name \<in> (snd \<circ> fst) ` set rows"
  defines "own \<equiv> filter (\<lambda>r. snd (fst r) = name) rows"
  shows "0 < sum_list (map (snd \<circ> snd) own)"
    and "0 \<le> f64_div (f64_of_int (sum_list (map (fst \<circ> snd) own))) (f64_of_int (sum_list (map (snd \<circ> snd) own)))"
    and "f64_div (f64_of_int (sum_list (map (fst \<circ> snd) own))) (f64_of_int (sum_list (map (snd \<circ> snd) own))) \<le> 1"
proof -
  have own: "r \<in> set own \<Longrightarrow> sane_row r" for r using sane by (simp add: own_def)
  have "int (length own) \<le> sum_list (map (snd \<circ> snd) own)"
    by (rule length_le_sum) (use own in \<open>force simp: sane_row_def\<close>)
  moreover have "own \<noteq> []" using name by (force simp: own_def filter_empty_conv)
  ultimately show pos: "0 < sum_list (map (snd \<circ> snd) own)" by (cases own) auto
  have "sum_list (map (snd \<circ> snd) own) \<le> sum_list (map (snd \<circ> snd) rows)"
    unfolding own_def by (rule sum_filter_le) (use sane in \<open>force simp: sane_row_def\<close>)
  then have "sum_list (map (snd \<circ> snd) own) < 2 ^ 53" using small by simp
  moreover have "sum_list (map (fst \<circ> snd) own) \<le> sum_list (map (snd \<circ> snd) own)"
    by (rule sum_list_mono) (use own in \<open>auto simp: sane_row_def\<close>)
  moreover have "0 \<le> sum_list (map (fst \<circ> snd) own)"
    by (rule sum_list_nonneg) (use own in \<open>auto simp: sane_row_def\<close>)
  ultimately show
    "0 \<le> f64_div (f64_of_int (sum_list (map (fst \<circ> snd) own))) (f64_of_int (sum_list (map (snd \<circ> snd) own)))"
    "f64_div (f64_of_int (sum_list (map (fst \<circ> snd) own))) (f64_of_int (sum_list (map (snd \<circ> snd) own))) \<le> 1"
    using share_within pos by blast+
qed

lemma productivity_shares_within:
  assumes sane: "\<And>r. r \<in> set rows \<Longrightarrow> sane_row r" and small: "sum_list (map (snd \<circ> snd) rows) < 2 ^ 53"
    and ord: "range_order ord"
  defines "n \<equiv> int (length (column (snd \<circ> fst) rows))"
  shows "n < 2 ^ 53" and "\<exists>t. productivity_shares ord rows = Some t \<and> 0 \<le> t \<and> t \<le> of_int n"
proof -
  have "int (length rows) \<le> sum_list (map (snd \<circ> snd) rows)"
    by (rule length_le_sum) (use sane in \<open>force simp: sane_row_def\<close>)
  moreover have "length (column (snd \<circ> fst) rows) \<le> length rows"
    unfolding column_def by (metis length_map length_remdups_leq)
  ultimately show n: "n < 2 ^ 53" using small by (simp add: n_def)
  let ?d = "\<lambda>name. let own = filter (\<lambda>r. snd (fst r) = name) rows in
    f64_div (f64_of_int (sum_list (map (fst \<circ> snd) own))) (f64_of_int (sum_list (map (snd \<circ> snd) own)))"
  let ?step = "\<lambda>name acc. let own = filter (\<lambda>((_, n), _). n = name) rows;
      p = sum_list (map (\<lambda>(_, p, _). p) own); x = sum_list (map (\<lambda>(_, _, x). x) own)
    in case acc of None \<Rightarrow> None | Some s \<Rightarrow> if x = 0 then None else Some (f64_add s (f64_div (f64_of_int p) (f64_of_int x)))"
  have step: "0 \<le> ?d name \<and> ?d name \<le> 1 \<and> (\<forall>s. ?step name (Some s) = Some (f64_add s (?d name)))"
    if "name \<in> (snd \<circ> fst) ` set rows" for name
    using productivity_share[OF sane small that] by (simp add: Let_def case_prod_unfold comp_def)
  have "\<exists>t. fold ?step (ord (column (snd \<circ> fst) rows)) (Some 0) = Some t \<and> 0 \<le> t \<and>
      t \<le> of_int (0 + int (length (ord (column (snd \<circ> fst) rows))))"
  proof (rule shares_fold)
    show "0 + int (length (ord (column (snd \<circ> fst) rows))) < 2 ^ 53" using n ord by (simp add: n_def)
    show "\<exists>d. 0 \<le> d \<and> d \<le> 1 \<and> (\<forall>s. ?step name (Some s) = Some (f64_add s d))"
      if "name \<in> set (ord (column (snd \<circ> fst) rows))" for name
      using step[of name] that ord by (intro exI[of _ "?d name"]) (simp add: column_def)
  qed simp_all
  then show "\<exists>t. productivity_shares ord rows = Some t \<and> 0 \<le> t \<and> t \<le> of_int n"
    using ord by (simp add: productivity_shares_def n_def case_prod_unfold comp_def)
qed

text \<open>C20: GetAverageProductivity is a number between 0 and 1 for every range with rows, when each
  row of the productivity history expects at least one block and counts no more produced than expected,
  in every order the delegates are ranged; the two roundings of the division and of the sum do not leave
  the range.\<close>

theorem average_productivity_in_range:
  assumes "GetCurrentEpochAndHeight registry db = Inr (currentEpoch, tip)" "startEpoch \<le> currentEpoch" "range_order ord"
    and rows: "\<exists>r \<in> set (productivity_history db). in_epochs startEpoch epochCount (fst (fst r))"
    and sane: "\<And>r. r \<in> set (productivity_history db) \<Longrightarrow> sane_row r"
    and small: "sum_list (map (snd \<circ> snd) (productivity_history db)) < 2 ^ 53"
  shows "\<exists>v. GetAverageProductivity ord registry startEpoch epochCount db = Inr (Some v) \<and> 0 \<le> v \<and> v \<le> 1"
proof -
  let ?rows = "filter (\<lambda>((e, _), _). in_epochs startEpoch epochCount e) (productivity_history db)"
  let ?n = "int (length (column (snd \<circ> fst) ?rows))"
  have ne: "?rows \<noteq> []" using rows by (force simp: filter_empty_conv)
  then have n: "0 < ?n" by (simp add: column_def)
  have "sum_list (map (snd \<circ> snd) ?rows) \<le> sum_list (map (snd \<circ> snd) (productivity_history db))"
    by (rule sum_filter_le) (use sane in \<open>force simp: sane_row_def\<close>)
  then have s: "sum_list (map (snd \<circ> snd) ?rows) < 2 ^ 53" using small by simp
  obtain t where t: "productivity_shares ord ?rows = Some t" "0 \<le> t" "t \<le> of_int ?n" and lt: "?n < 2 ^ 53"
    using productivity_shares_within[OF _ s assms(3)] sane by force
  have "f64_of_int ?n = of_int ?n" by (rule f64_of_small[OF _ lt]) simp
  then have "0 \<le> f64_div t (f64_of_int ?n) \<and> f64_div t (f64_of_int ?n) \<le> 1"
    using round_prec_within[of "t / of_int ?n" 1 53] t n by (simp add: f64_div_def)
  moreover obtain b where "Find ''blocks'' registry = Some b"
    using assms(1) by (auto simp: GetCurrentEpochAndHeight_def split: option.splits)
  ultimately show ?thesis
    using assms(1,2) ne t(1)
    by (simp add: GetAverageProductivity_def registered_def some_rows_def comp_def case_prod_unfold not_less)
qed

lemma average_productivity_in_range_witness:
  "\<exists>v. GetAverageProductivity rev [(''blocks'', ())] 1 1
      (quiet_db\<lparr>productivity_history := [((1, ''a''), (2, 3)), ((1, ''b''), (5, 5))]\<rparr>) = Inr (Some v) \<and> 0 \<le> v \<and> v \<le> 1"
proof (rule average_productivity_in_range)
  show "GetCurrentEpochAndHeight [(''blocks'', ())] (quiet_db\<lparr>productivity_history := [((1, ''a''), (2, 3)), ((1, ''b''), (5, 5))]\<rparr>) = Inr (1, 2)"
    by code_simp
qed (auto simp: sane_row_def in_epochs_def)

end
