(* ===== verification/Query_Hermes.thy ===== *)
theory Query_Hermes imports Query_Base begin

text \<open>
  \<open>queryprotocol/hermes2/protocol.go\<close>: the distributions of the Hermes contract, as the join of the
  balance history (payments of the multi-send contracts) with the table of distribute events, by
  action hash. Epoch numbers are GraphQL integers (32 bits) in Go's \<open>int\<close>, so integers here.
\<close>

record HermesArg =
  ha_StartEpoch :: int
  ha_EpochCount :: int
  ha_Offset :: u64
  ha_Size :: u64

record VoterInfo =
  vo_VoterAddress :: string
  vo_FromEpoch :: u64
  vo_ToEpoch :: u64
  vo_Amount :: string
  vo_ActionHash :: string
  vo_Timestamp :: string

record Ratio =
  ra_BlockRewardRatio :: f64
  ra_EpochRewardRatio :: f64
  ra_FoundationBonusRatio :: f64
  ra_EpochNumber :: int

record DelegateInfo =
  de_DelegateName :: string
  de_FromEpoch :: u64
  de_ToEpoch :: u64
  de_Amount :: string
  de_ActionHash :: string
  de_Timestamp :: string

definition in_range :: "int \<Rightarrow> int \<Rightarrow> u64 \<Rightarrow> bool" where
  "in_range startEpoch epochCount e \<longleftrightarrow> startEpoch \<le> uint e \<and> uint e \<le> startEpoch + epochCount - 1"

text \<open>\<open>fromJoinedTables\<close>; an empty list of contracts makes \<open>IN ()\<close>, a syntax error.\<close>

definition joined_tables ::
  "HermesConfig \<Rightarrow> int \<Rightarrow> int \<Rightarrow> balance_history_row list \<Rightarrow> HermesContractInfo list \<Rightarrow>
   go_error + (balance_history_row \<times> HermesContractInfo) list"
where
  "joined_tables cfg startEpoch epochCount bt ht =
     (if MultiSendContractAddressList cfg = [] then Inl (ErrSQL ''syntax error'')
      else Inr (inner_join (\<lambda>b h. bh_ActionHash b = hc_ActionHash h)
        (filter (\<lambda>b. in_range startEpoch epochCount (bh_EpochNumber b) \<and> bh_From b \<in> set (MultiSendContractAddressList cfg)) bt)
        (filter (\<lambda>h. in_range startEpoch epochCount (hc_EpochNumber h)) ht)))"

type_synonym hermes_row = "balance_history_row \<times> HermesContractInfo"

text \<open>The page of the joined rows that a filter keeps, newest first.\<close>

definition hermes_page ::
  "(hermes_row list \<Rightarrow> hermes_row list) \<Rightarrow> HermesConfig \<Rightarrow> HermesArg \<Rightarrow> (hermes_row \<Rightarrow> bool) \<Rightarrow>
   balance_history_row list \<Rightarrow> HermesContractInfo list \<Rightarrow> go_error + hermes_row list"
where
  "hermes_page ord cfg arg keep bt ht =
     andThen (wrap ''failed to prepare get query'' (joined_tables cfg (ha_StartEpoch arg) (ha_EpochCount arg) bt ht)) (\<lambda>rows.
     some_rows (limit (ha_Offset arg) (ha_Size arg) (order_desc ord (\<lambda>(_, h). hc_Timestamp h) (filter keep rows))))"

definition GetHermes2ByDelegate ::
  "(hermes_row list \<Rightarrow> hermes_row list) \<Rightarrow> HermesConfig \<Rightarrow> HermesArg \<Rightarrow> string \<Rightarrow>
   balance_history_row list \<Rightarrow> HermesContractInfo list \<Rightarrow> go_error + VoterInfo list"
where
  "GetHermes2ByDelegate ord cfg arg delegateName bt ht =
     andThen (hermes_page ord cfg arg (\<lambda>(_, h). hc_DelegateName h = delegateName) bt ht) (\<lambda>rows.
     Inr (map (\<lambda>(b, h). \<lparr>vo_VoterAddress = bh_To b, vo_FromEpoch = hc_FromEpoch h, vo_ToEpoch = hc_ToEpoch h,
       vo_Amount = big_String (bh_Amount b), vo_ActionHash = bh_ActionHash b, vo_Timestamp = hc_Timestamp h\<rparr>) rows))"

definition GetHermes2ByVoter ::
  "(hermes_row list \<Rightarrow> hermes_row list) \<Rightarrow> HermesConfig \<Rightarrow> HermesArg \<Rightarrow> string \<Rightarrow>
   balance_history_row list \<Rightarrow> HermesContractInfo list \<Rightarrow> go_error + DelegateInfo list"
where
  "GetHermes2ByVoter ord cfg arg voterAddress bt ht =
     andThen (hermes_page ord cfg arg (\<lambda>(b, _). bh_To b = voterAddress) bt ht) (\<lambda>rows.
     Inr (map (\<lambda>(b, h). \<lparr>de_DelegateName = hc_DelegateName h, de_FromEpoch = hc_FromEpoch h, de_ToEpoch = hc_ToEpoch h,
       de_Amount = big_String (bh_Amount b), de_ActionHash = bh_ActionHash b, de_Timestamp = hc_Timestamp h\<rparr>) rows))"

definition GetHermes2Ratio :: "HermesArg \<Rightarrow> string \<Rightarrow> VotingResult list \<Rightarrow> go_error + Ratio list" where
  "GetHermes2Ratio arg delegateName vt =
     andThen (some_rows (filter (\<lambda>r. vr_DelegateName r = delegateName \<and>
       in_range (ha_StartEpoch arg) (ha_EpochCount arg) (vr_EpochNumber r)) vt)) (\<lambda>rows.
     Inr (map (\<lambda>r. \<lparr>ra_BlockRewardRatio = vr_BlockRewardPercentage r, ra_EpochRewardRatio = vr_EpochRewardPercentage r,
       ra_FoundationBonusRatio = vr_FoundationBonusPercentage r, ra_EpochNumber = uint (vr_EpochNumber r)\<rparr>) rows))"

text \<open>The two texts the callers pass for \<open>selectQuery\<close>.\<close>

datatype count_query = SelectCountByDelegateName | SelectCountByVoterAddress

fun count_filter :: "count_query \<Rightarrow> string \<Rightarrow> hermes_row \<Rightarrow> bool" where
  "count_filter SelectCountByDelegateName v (b, h) = (hc_DelegateName h = v)"
| "count_filter SelectCountByVoterAddress v (b, h) = (bh_To b = v)"

definition GetHermes2Count ::
  "HermesConfig \<Rightarrow> HermesArg \<Rightarrow> count_query \<Rightarrow> string \<Rightarrow> balance_history_row list \<Rightarrow> HermesContractInfo list \<Rightarrow>
   go_error + nat \<times> string"
where
  "GetHermes2Count cfg arg selectQuery v bt ht =
     andThen (wrap ''failed to prepare get query'' (joined_tables cfg (ha_StartEpoch arg) (ha_EpochCount arg) bt ht)) (\<lambda>rows.
     let kept = filter (count_filter selectQuery v) rows in
     Inr (length kept, big_String (sum_list (map (\<lambda>(b, _). bh_Amount b) kept))))"

definition GetHermes2Meta ::
  "HermesConfig \<Rightarrow> int \<Rightarrow> int \<Rightarrow> balance_history_row list \<Rightarrow> HermesContractInfo list \<Rightarrow> go_error + nat \<times> nat \<times> string"
where
  "GetHermes2Meta cfg startEpoch epochCount bt ht =
     andThen (wrap ''failed to prepare get query'' (joined_tables cfg startEpoch epochCount bt ht)) (\<lambda>rows.
     Inr (length (column (\<lambda>(_, h). hc_DelegateName h) rows), length (column (\<lambda>(b, _). bh_To b) rows),
       big_String (sum_list (map (\<lambda>(b, _). bh_Amount b) rows))))"

end
