(* ===== verification/Query_Hermes_Laws.thy ===== *)
theory Query_Hermes_Laws imports Query_Hermes begin

text \<open>
  The Hermes queries agree with each other: the totals of all delegates, and of all voters, add up
  to the total of the meta query, and the pages of a delegate hold as many rows as its count says.
\<close>

lemma sum_by_column:
  fixes val :: "'r \<Rightarrow> int"
  assumes "distinct ks" "set (map key rows) \<subseteq> set ks"
  shows "sum_list (map (\<lambda>k. sum_list (map val (filter (\<lambda>r. key r = k) rows))) ks) = sum_list (map val rows)"
  using assms(2)
proof (induction rows)
  case (Cons r rows)
  have "sum_list (map (\<lambda>k. sum_list (map val (filter (\<lambda>r. key r = k) (r # rows)))) ks) =
      sum_list (map (\<lambda>k. (if key r = k then val r else 0) + sum_list (map val (filter (\<lambda>r. key r = k) rows))) ks)"
    by (rule arg_cong[where f = sum_list], rule map_cong) simp_all
  also have "\<dots> = sum_list (map (\<lambda>k. if key r = k then val r else 0) ks) +
      sum_list (map (\<lambda>k. sum_list (map val (filter (\<lambda>r. key r = k) rows))) ks)"
    by (rule sum_list_addf)
  also have "sum_list (map (\<lambda>k. if key r = k then val r else 0) ks) = val r"
    using Cons.prems assms(1) by (simp add: sum_list_distinct_conv_sum_set)
  finally show ?case using Cons by simp
qed simp

lemma length_by_column:
  assumes "distinct ks" "set (map key rows) \<subseteq> set ks"
  shows "sum_list (map (\<lambda>k. length (filter (\<lambda>r. key r = k) rows)) ks) = length rows"
proof -
  have "int (sum_list (map (\<lambda>k. length (filter (\<lambda>r. key r = k) rows)) ks)) =
      sum_list (map (\<lambda>k. sum_list (map (\<lambda>_. 1) (filter (\<lambda>r. key r = k) rows))) ks)"
    by (simp add: sum_list_triv comp_def flip: sum_list_of_nat)
  also have "\<dots> = int (length rows)" using sum_by_column[OF assms, of "\<lambda>_. 1"] by (simp add: sum_list_triv)
  finally show ?thesis by simp
qed

definition delegates_of :: "hermes_row list \<Rightarrow> string list" where
  "delegates_of rows = column (\<lambda>(_, h). hc_DelegateName h) rows"

definition voters_of :: "hermes_row list \<Rightarrow> string list" where
  "voters_of rows = column (\<lambda>(b, _). bh_To b) rows"

lemma count_value:
  assumes "joined_tables cfg (ha_StartEpoch arg) (ha_EpochCount arg) bt ht = Inr rows"
  shows "GetHermes2Count cfg arg q v bt ht = Inr (length (filter (count_filter q v) rows),
    big_String (sum_list (map (\<lambda>(b, _). bh_Amount b) (filter (count_filter q v) rows))))"
  using assms by (simp add: GetHermes2Count_def Let_def)

definition count_total :: "go_error + nat \<times> string \<Rightarrow> int" where
  "count_total r = (case r of Inl _ \<Rightarrow> 0 | Inr (_, s) \<Rightarrow> (case big_SetString 10 s of None \<Rightarrow> 0 | Some n \<Rightarrow> n))"

definition count_rows :: "go_error + nat \<times> string \<Rightarrow> nat" where
  "count_rows r = (case r of Inl _ \<Rightarrow> 0 | Inr (n, _) \<Rightarrow> n)"

lemma hermes_counts_add_up_parts:
  assumes "joined_tables cfg (ha_StartEpoch arg) (ha_EpochCount arg) bt ht = Inr rows"
  shows "GetHermes2Meta cfg (ha_StartEpoch arg) (ha_EpochCount arg) bt ht =
      Inr (length (delegates_of rows), length (voters_of rows),
        big_String (sum_list (map (\<lambda>d. count_total (GetHermes2Count cfg arg SelectCountByDelegateName d bt ht)) (delegates_of rows))))"
    and "sum_list (map (\<lambda>v. count_total (GetHermes2Count cfg arg SelectCountByVoterAddress v bt ht)) (voters_of rows)) =
      sum_list (map (\<lambda>d. count_total (GetHermes2Count cfg arg SelectCountByDelegateName d bt ht)) (delegates_of rows))"
    and "sum_list (map (\<lambda>d. count_rows (GetHermes2Count cfg arg SelectCountByDelegateName d bt ht)) (delegates_of rows)) = length rows"
proof -
  let ?val = "\<lambda>(b :: balance_history_row, _ :: HermesContractInfo). bh_Amount b"
  have by_delegate: "count_filter SelectCountByDelegateName d = (\<lambda>r. (case r of (_, h) \<Rightarrow> hc_DelegateName h) = d)" for d
    by (auto simp: fun_eq_iff)
  have by_voter: "count_filter SelectCountByVoterAddress v = (\<lambda>r. (case r of (b, _) \<Rightarrow> bh_To b) = v)" for v
    by (auto simp: fun_eq_iff)
  have d: "sum_list (map (\<lambda>d. count_total (GetHermes2Count cfg arg SelectCountByDelegateName d bt ht)) (delegates_of rows)) =
      sum_list (map ?val rows)"
    unfolding count_value[OF assms] count_total_def by_delegate
    by (simp add: big_SetString_String) (rule sum_by_column, simp_all add: delegates_of_def column_def)
  have v: "sum_list (map (\<lambda>v. count_total (GetHermes2Count cfg arg SelectCountByVoterAddress v bt ht)) (voters_of rows)) =
      sum_list (map ?val rows)"
    unfolding count_value[OF assms] count_total_def by_voter
    by (simp add: big_SetString_String) (rule sum_by_column, simp_all add: voters_of_def column_def)
  show "GetHermes2Meta cfg (ha_StartEpoch arg) (ha_EpochCount arg) bt ht =
      Inr (length (delegates_of rows), length (voters_of rows),
        big_String (sum_list (map (\<lambda>d. count_total (GetHermes2Count cfg arg SelectCountByDelegateName d bt ht)) (delegates_of rows))))"
    unfolding d using assms by (simp add: GetHermes2Meta_def delegates_of_def voters_of_def)
  show "sum_list (map (\<lambda>v. count_total (GetHermes2Count cfg arg SelectCountByVoterAddress v bt ht)) (voters_of rows)) =
      sum_list (map (\<lambda>d. count_total (GetHermes2Count cfg arg SelectCountByDelegateName d bt ht)) (delegates_of rows))"
    using d v by simp
  show "sum_list (map (\<lambda>d. count_rows (GetHermes2Count cfg arg SelectCountByDelegateName d bt ht)) (delegates_of rows)) = length rows"
    unfolding count_value[OF assms] count_rows_def by_delegate
    by simp (rule length_by_column, simp_all add: delegates_of_def column_def)
qed

text \<open>C35: The Hermes totals agree: the meta query counts the delegates and the voters of the range and its
  amount is the sum of the totals the count query gives for each of its delegates, which is also the sum
  over each of its voters; the rows counted for the delegates are all joined rows.\<close>

theorem hermes_counts_add_up:
  assumes "joined_tables cfg (ha_StartEpoch arg) (ha_EpochCount arg) bt ht = Inr rows"
  shows "(GetHermes2Meta cfg (ha_StartEpoch arg) (ha_EpochCount arg) bt ht =
      Inr (length (delegates_of rows), length (voters_of rows),
        big_String (sum_list (map (\<lambda>d. count_total (GetHermes2Count cfg arg SelectCountByDelegateName d bt ht)) (delegates_of rows))))) \<and>
     (sum_list (map (\<lambda>v. count_total (GetHermes2Count cfg arg SelectCountByVoterAddress v bt ht)) (voters_of rows)) =
      sum_list (map (\<lambda>d. count_total (GetHermes2Count cfg arg SelectCountByDelegateName d bt ht)) (delegates_of rows))) \<and>
     (sum_list (map (\<lambda>d. count_rows (GetHermes2Count cfg arg SelectCountByDelegateName d bt ht)) (delegates_of rows)) = length rows)"
  by (intro conjI hermes_counts_add_up_parts[OF assms])


definition page_rows :: "go_error + 'r list \<Rightarrow> 'r list" where
  "page_rows r = (case r of Inl _ \<Rightarrow> [] | Inr rows \<Rightarrow> rows)"

lemma page_rows_some: "page_rows (andThen (some_rows rows) (\<lambda>rs. Inr (map f rs))) = map f rows"
  by (simp add: page_rows_def some_rows_def)

lemma delegate_page:
  assumes "joined_tables cfg s c bt ht = Inr rows" "i * n < 2 ^ 64" "n < 2 ^ 64"
  shows "\<exists>f. page_rows (GetHermes2ByDelegate ord cfg \<lparr>ha_StartEpoch = s, ha_EpochCount = c, ha_Offset = of_nat (i * n), ha_Size = of_nat n\<rparr> d bt ht) =
    map f (take n (drop (i * n) (order_desc ord (\<lambda>(_, h). hc_Timestamp h) (filter (\<lambda>(_, h). hc_DelegateName h = d) rows))))"
  using assms(1)
  by (simp add: GetHermes2ByDelegate_def hermes_page_def limit_page[OF assms(2,3)] page_rows_some del: of_nat_mult) blast

text \<open>The pages of GetHermes2ByDelegate hold together as many payments as GetHermes2Count
  says, however the database orders the rows for each page.\<close>

theorem hermes_pages_hold_count:
  assumes "joined_tables cfg startEpoch epochCount bt ht = Inr rows" "\<And>i. range_order (ords i)" "k * n < 2 ^ 64" "0 < n"
    and count: "GetHermes2Count cfg \<lparr>ha_StartEpoch = startEpoch, ha_EpochCount = epochCount, ha_Offset = 0, ha_Size = 0\<rparr>
      SelectCountByDelegateName d bt ht = Inr (c, amount)" "c \<le> k * n"
  shows "sum_list (map (\<lambda>i. length (page_rows (GetHermes2ByDelegate (ords i) cfg
      \<lparr>ha_StartEpoch = startEpoch, ha_EpochCount = epochCount, ha_Offset = of_nat (i * n), ha_Size = of_nat n\<rparr> d bt ht))) [0..<k]) = c"
proof -
  let ?rows = "filter (\<lambda>(_, h). hc_DelegateName h = d) rows"
  have "count_filter SelectCountByDelegateName d = (\<lambda>(_, h). hc_DelegateName h = d)" by (auto simp: fun_eq_iff)
  then have c: "c = length ?rows" using count(1) assms(1) by (simp add: GetHermes2Count_def Let_def)
  have len: "length (page_rows (GetHermes2ByDelegate (ords i) cfg
      \<lparr>ha_StartEpoch = startEpoch, ha_EpochCount = epochCount, ha_Offset = of_nat (i * n), ha_Size = of_nat n\<rparr> d bt ht)) =
      length (take n (drop (i * n) (order_desc (ords i) (\<lambda>(_, h). hc_Timestamp h) ?rows)))" if "i < k" for i
  proof -
    have "i * n < k * n" "n \<le> k * n" using that assms(4) by (simp_all add: Suc_le_eq)
    then have "i * n < 2 ^ 64" "n < 2 ^ 64" using assms(3) by linarith+
    from delegate_page[OF assms(1) this, of "ords i" d] show ?thesis by (metis length_map)
  qed
  have "sum_list (map (\<lambda>i. length (page_rows (GetHermes2ByDelegate (ords i) cfg
      \<lparr>ha_StartEpoch = startEpoch, ha_EpochCount = epochCount, ha_Offset = of_nat (i * n), ha_Size = of_nat n\<rparr> d bt ht))) [0..<k])
    = sum_list (map (\<lambda>i. length (take n (drop (i * n) (order_desc (ords i) (\<lambda>(_, h). hc_Timestamp h) ?rows)))) [0..<k])"
    by (rule arg_cong[where f = sum_list], rule map_cong[OF refl]) (simp add: len del: of_nat_mult)
  also have "\<dots> = min (k * n) (length ?rows)"
    by (rule pages_length) (simp add: assms(2))
  finally show ?thesis using count(2) c by simp
qed

subsection \<open>A small history\<close>

definition paid :: "string \<Rightarrow> string \<Rightarrow> int \<Rightarrow> balance_history_row" where
  "paid hash to n = \<lparr>bh_EpochNumber = 5, bh_BlockHeight = 9, bh_ActionHash = hash, bh_ActionType = ''execution'', bh_From = ''multi'',
     bh_To = to, bh_Amount = n\<rparr>"

definition distributed :: "string \<Rightarrow> string \<Rightarrow> HermesContractInfo" where
  "distributed hash name = \<lparr>hc_EpochNumber = 5, hc_ActionHash = hash, hc_FromEpoch = 1, hc_ToEpoch = 4, hc_DelegateName = name,
     hc_Timestamp = ''2020''\<rparr>"

definition sample_payments :: "balance_history_row list" where
  "sample_payments = [paid ''h1'' ''v1'' 10, paid ''h1'' ''v2'' 20, paid ''h2'' ''v1'' 5]"

definition sample_distributions :: "HermesContractInfo list" where
  "sample_distributions = [distributed ''h1'' ''d1'', distributed ''h2'' ''d2'']"

definition sample_config :: HermesConfig where
  "sample_config = \<lparr>HermesContractAddress = ''hermes'', MultiSendContractAddressList = [''multi'']\<rparr>"

definition sample_rows :: "hermes_row list" where
  "sample_rows = [(paid ''h1'' ''v1'' 10, distributed ''h1'' ''d1''), (paid ''h1'' ''v2'' 20, distributed ''h1'' ''d1''),
     (paid ''h2'' ''v1'' 5, distributed ''h2'' ''d2'')]"

lemma sample_joined: "joined_tables sample_config 5 1 sample_payments sample_distributions = Inr sample_rows"
  by (simp add: joined_tables_def sample_config_def sample_payments_def sample_distributions_def sample_rows_def inner_join_def
    in_range_def paid_def distributed_def)

lemma hermes_counts_add_up_witness:
  "GetHermes2Meta sample_config 5 1 sample_payments sample_distributions =
     Inr (length (delegates_of sample_rows), length (voters_of sample_rows), big_String (sum_list (map (\<lambda>d. count_total
       (GetHermes2Count sample_config \<lparr>ha_StartEpoch = 5, ha_EpochCount = 1, ha_Offset = 0, ha_Size = 9\<rparr> SelectCountByDelegateName d
         sample_payments sample_distributions)) (delegates_of sample_rows))))"
  using hermes_counts_add_up[of sample_config "\<lparr>ha_StartEpoch = 5, ha_EpochCount = 1, ha_Offset = 0, ha_Size = 9\<rparr>"]
  by (simp add: sample_joined)

lemma hermes_pages_hold_count_witness:
  "sum_list (map (\<lambda>i. length (page_rows (GetHermes2ByDelegate rev sample_config
      \<lparr>ha_StartEpoch = 5, ha_EpochCount = 1, ha_Offset = of_nat (i * 1), ha_Size = of_nat 1\<rparr> ''d1'' sample_payments sample_distributions))) [0..<2]) = 2"
proof (rule hermes_pages_hold_count[OF sample_joined])
  show "GetHermes2Count sample_config \<lparr>ha_StartEpoch = 5, ha_EpochCount = 1, ha_Offset = 0, ha_Size = 0\<rparr> SelectCountByDelegateName ''d1''
      sample_payments sample_distributions = Inr (2, big_String 30)"
    by (simp add: GetHermes2Count_def sample_joined sample_rows_def paid_def distributed_def)
qed simp_all

end
