(* ===== verification/Query_Rewards.thy ===== *)
theory Query_Rewards imports Query_Base begin

text \<open>
  \<open>queryprotocol/rewards/protocol.go\<close>: the questions about rewards. The rewards of an account, and
  the bookkeeping of the distribution contract Hermes: how much of the rewards of a delegate goes to
  each of its voters, computed from the tables of the rewards and votings protocols.

  Amounts of the tables are integers here, so the conversions of their texts (\<open>stringToBigInt\<close>)
  always succeed. A \<open>SELECT\<close> returns its rows in the order of the table. Maps of maps are association
  lists of association lists; a definition that ranges over maps takes the orders as arguments.
\<close>

text \<open>\<open>big.Int.Div\<close> is Euclidean division.\<close>

definition big_Div :: "int \<Rightarrow> int \<Rightarrow> go_error + int" where
  "big_Div a b =
     (if b = 0 then Inl (Panic ''division by zero'') else Inr (if 0 < b then a div b else - (a div (- b))))"

definition put2 :: "'a \<Rightarrow> 'b \<Rightarrow> 'v \<Rightarrow> ('a \<times> ('b \<times> 'v) list) list \<Rightarrow> ('a \<times> ('b \<times> 'v) list) list" where
  "put2 a b v m = AList.map_default a [(b, v)] (AList.update b v) m"

subsection \<open>Data\<close>

record RewardDistribution =
  rd_VoterEthAddress :: string
  rd_VoterIotexAddress :: string
  rd_Amount :: string

record DelegateHermesDistribution =
  dh_DelegateName :: string
  dh_Distributions :: "RewardDistribution list"
  dh_StakingIotexAddress :: string
  dh_VoterCount :: nat
  dh_WaiveServiceFee :: bool
  dh_Refund :: string

record DelegateHermesAverage =
  da_DelegateName :: string
  da_RewardDistribution :: string
  da_TotalWeightedVotes :: string

record DelegateAmount =
  dm_DelegateName :: string
  dm_Amount :: string

record HermesDistributionPlan =
  hp_TotalWeightedVotes :: int
  hp_StakingAddress :: string
  hp_BlockRewardPercentage :: f64
  hp_EpochRewardPercentage :: f64
  hp_FoundationBonusPercentage :: f64

record HermesDistributionSource =
  hs_BlockReward :: int
  hs_EpochReward :: int
  hs_FoundationBonus :: int

type_synonym 'v by_delegate = "(string \<times> (u64 \<times> 'v) list) list"

subsection \<open>The rewards of an account\<close>

definition GetAccountReward ::
  "'p registry \<Rightarrow> u64 \<Rightarrow> u64 \<Rightarrow> string \<Rightarrow> account_reward_row list \<Rightarrow> go_error + string \<times> string \<times> string"
where
  "GetAccountReward registry startEpoch epochCount candidateName t =
     andThen (registered ''rewards'' ''rewards'' registry) (\<lambda>_.
     let rows = filter (\<lambda>((e, name), _). in_epochs startEpoch epochCount e \<and> name = candidateName) t in
     if rows = [] then Inl ErrNotExist
     else Inr (big_String (sum_list (map (\<lambda>(_, r). ri_BlockReward r) rows)),
               big_String (sum_list (map (\<lambda>(_, r). ri_EpochReward r) rows)),
               big_String (sum_list (map (\<lambda>(_, r). ri_FoundationBonus r) rows))))"

subsection \<open>Reading the tables\<close>

definition totalWeightedVotes :: "u64 \<Rightarrow> u64 \<Rightarrow> string \<Rightarrow> VotingResult list \<Rightarrow> go_error + (u64 \<times> int) list" where
  "totalWeightedVotes startEpoch epochCount delegateName t =
     (let rows = filter (\<lambda>r. in_epochs startEpoch epochCount (vr_EpochNumber r) \<and> vr_DelegateName r = delegateName) t in
      if rows = [] then Inl ErrNotExist
      else Inr (fold (\<lambda>r. AList.update (vr_EpochNumber r) (vr_TotalWeightedVotes r)) rows []))"

definition reward_to_split :: "int \<Rightarrow> bool \<Rightarrow> bool \<Rightarrow> RewardInfo \<Rightarrow> int" where
  "reward_to_split percentage includeBlockReward includeFoundationBonus r =
     (ri_EpochReward r + (if includeFoundationBonus then ri_FoundationBonus r else 0)
        + (if includeBlockReward then ri_BlockReward r else 0)) * percentage div 100"

definition rewardsToSplit ::
  "'p registry \<Rightarrow> u64 \<Rightarrow> u64 \<Rightarrow> string \<Rightarrow> int \<Rightarrow> bool \<Rightarrow> bool \<Rightarrow> account_reward_row list \<Rightarrow> go_error + (u64 \<times> int) list"
where
  "rewardsToSplit registry startEpoch epochCount delegateName percentage includeBlockReward includeFoundationBonus t =
     andThen (registered ''rewards'' ''rewards'' registry) (\<lambda>_.
     let rows = filter (\<lambda>((e, name), _). in_epochs startEpoch epochCount e \<and> name = delegateName) t in
     if rows = [] then Inl ErrNotExist
     else Inr (fold (\<lambda>((e, _), r). AList.update e (reward_to_split percentage includeBlockReward includeFoundationBonus r)) rows []))"

definition add_vote :: "AggregateVoting \<Rightarrow> (u64 \<times> (string \<times> int) list) list \<Rightarrow> (u64 \<times> (string \<times> int) list) list" where
  "add_vote r = AList.map_default (av_EpochNumber r) [(av_VoterAddress r, av_AggregateVotes r)]
     (AList.map_default (av_VoterAddress r) (av_AggregateVotes r) (\<lambda>v. v + av_AggregateVotes r))"

definition voterVotes :: "u64 \<Rightarrow> u64 \<Rightarrow> string \<Rightarrow> AggregateVoting list \<Rightarrow> go_error + (u64 \<times> (string \<times> int) list) list" where
  "voterVotes startEpoch epochCount delegateName t =
     (let rows = filter (\<lambda>r. in_epochs startEpoch epochCount (av_EpochNumber r) \<and> av_CandidateName r = delegateName) t in
      if rows = [] then Inl ErrNotExist else Inr (fold add_vote rows []))"

text \<open>\<open>WHERE (epoch_number, candidate_name) IN (...)\<close>; an empty list of pairs is a syntax error.\<close>

definition select_in :: "('r \<Rightarrow> u64 \<times> string) \<Rightarrow> (u64 \<times> string) list \<Rightarrow> 'r list \<Rightarrow> go_error + 'r list" where
  "select_in key searchPairs t =
     (if searchPairs = [] then Inl (ErrSQL ''syntax error'')
      else some_rows (filter (\<lambda>r. key r \<in> set searchPairs) t))"

definition accountRewards ::
  "'p registry \<Rightarrow> (u64 \<times> string) list \<Rightarrow> account_reward_row list \<Rightarrow> go_error + HermesDistributionSource by_delegate"
where
  "accountRewards registry searchPairs t =
     andThen (registered ''rewards'' ''rewards'' registry) (\<lambda>_.
     andThen (select_in fst searchPairs t) (\<lambda>rows.
     Inr (fold (\<lambda>((e, name), r). put2 name e
       \<lparr>hs_BlockReward = ri_BlockReward r, hs_EpochReward = ri_EpochReward r, hs_FoundationBonus = ri_FoundationBonus r\<rparr>) rows [])))"

definition plan_of_result :: "VotingResult \<Rightarrow> HermesDistributionPlan" where
  "plan_of_result r =
     \<lparr>hp_TotalWeightedVotes = vr_TotalWeightedVotes r, hp_StakingAddress = vr_StakingAddress r,
      hp_BlockRewardPercentage = vr_BlockRewardPercentage r, hp_EpochRewardPercentage = vr_EpochRewardPercentage r,
      hp_FoundationBonusPercentage = vr_FoundationBonusPercentage r\<rparr>"

definition parseDistributionPlanFromVotingResult :: "VotingResult list \<Rightarrow> go_error + HermesDistributionPlan by_delegate" where
  "parseDistributionPlanFromVotingResult rows =
     (if rows = [] then Inl ErrNotExist
      else Inr (fold (\<lambda>r. put2 (vr_DelegateName r) (vr_EpochNumber r) (plan_of_result r)) rows []))"

text \<open>Without the votings protocol the error names the rewards protocol.\<close>

definition distributionPlanByRewardAddress ::
  "'p registry \<Rightarrow> u64 \<Rightarrow> u64 \<Rightarrow> string \<Rightarrow> VotingResult list \<Rightarrow> go_error + HermesDistributionPlan by_delegate"
where
  "distributionPlanByRewardAddress registry startEpoch epochCount rewardAddress t =
     andThen (registered ''voting'' ''rewards'' registry) (\<lambda>_.
     parseDistributionPlanFromVotingResult
       (filter (\<lambda>r. in_epochs startEpoch epochCount (vr_EpochNumber r) \<and> vr_RewardAddress r = rewardAddress) t))"

definition distributionPlanBySearchPairs ::
  "(u64 \<times> string) list \<Rightarrow> VotingResult list \<Rightarrow> go_error + HermesDistributionPlan by_delegate"
where
  "distributionPlanBySearchPairs searchPairs t = andThen (select_in vr_key searchPairs t) parseDistributionPlanFromVotingResult"

definition put_votes ::
  "AggregateVoting \<Rightarrow> (string \<times> int) list by_delegate \<Rightarrow> (string \<times> int) list by_delegate"
where
  "put_votes r = AList.map_default (av_CandidateName r) [(av_EpochNumber r, [(av_VoterAddress r, av_AggregateVotes r)])] (add_vote r)"

definition weightedVotesBySearchPairs ::
  "(u64 \<times> string) list \<Rightarrow> AggregateVoting list \<Rightarrow> go_error + (string \<times> int) list by_delegate"
where
  "weightedVotesBySearchPairs searchPairs t =
     andThen (select_in (\<lambda>r. (av_EpochNumber r, av_CandidateName r)) searchPairs t) (\<lambda>rows. Inr (fold put_votes rows []))"

definition weightedVotesByVoterAddress ::
  "'p registry \<Rightarrow> u64 \<Rightarrow> u64 \<Rightarrow> string \<Rightarrow> AggregateVoting list \<Rightarrow> go_error + int by_delegate"
where
  "weightedVotesByVoterAddress registry startEpoch epochCount voterEthAddress t =
     andThen (registered ''voting'' ''rewards'' registry) (\<lambda>_.
     let rows = filter (\<lambda>r. in_epochs startEpoch epochCount (av_EpochNumber r) \<and> av_VoterAddress r = voterEthAddress) t in
     if rows = [] then Inl ErrNotExist
     else Inr (fold (\<lambda>r. AList.map_default (av_CandidateName r) [(av_EpochNumber r, av_AggregateVotes r)]
       (AList.map_default (av_EpochNumber r) (av_AggregateVotes r) (\<lambda>v. v + av_AggregateVotes r))) rows []))"

subsection \<open>Distributing rewards\<close>

text \<open>\<open>reward * int64(percentage * 100) / 10000\<close>, the product in \<open>float64\<close> and cut towards zero.\<close>

definition percent_of :: "f64 \<Rightarrow> int \<Rightarrow> int" where
  "percent_of percentage reward = (if 0 < percentage then reward * trunc (f64_mul percentage 100) div 10000 else 0)"

definition calculatedDistributedReward :: "HermesDistributionPlan \<Rightarrow> HermesDistributionSource \<Rightarrow> int" where
  "calculatedDistributedReward plan rewards =
     percent_of (hp_BlockRewardPercentage plan) (hs_BlockReward rewards)
     + percent_of (hp_EpochRewardPercentage plan) (hs_EpochReward rewards)
     + percent_of (hp_FoundationBonusPercentage plan) (hs_FoundationBonus rewards)"

definition convertVoterDistributionMapToList ::
  "libs \<Rightarrow> ((string \<times> int) list \<Rightarrow> (string \<times> int) list) \<Rightarrow> (string \<times> int) list \<Rightarrow> go_error + RewardDistribution list"
where
  "convertVoterDistributionMapToList l ord m =
     mapE (\<lambda>(voterAddr, rewardAmount).
       andThen (errorf ''failed to form IoTeX address from ETH address''
         (lib_AddressFromBytes l (lib_HexToAddress l voterAddr))) (\<lambda>ioAddress.
       Inr \<lparr>rd_VoterEthAddress = voterAddr, rd_VoterIotexAddress = ioAddress, rd_Amount = big_String rewardAmount\<rparr>)) (ord m)"

text \<open>One epoch of \<open>GetBookkeeping\<close>.\<close>

definition split_epoch ::
  "((string \<times> int) list \<Rightarrow> (string \<times> int) list) \<Rightarrow> (u64 \<times> int) list \<Rightarrow> (u64 \<times> (string \<times> int) list) list \<Rightarrow> u64 \<times> int \<Rightarrow>
   (string \<times> int) list \<Rightarrow> go_error + (string \<times> int) list"
where
  "split_epoch ord totals epochToVotersMap = (\<lambda>(epoch, distrReward) voterAddrToReward.
     case map_of totals epoch of
       None \<Rightarrow> Inl (ErrMsg (''Missing delegate total weighted votes information on epoch '' @ format_uint epoch))
     | Some tw \<Rightarrow>
         if tw = 0 then Inr voterAddrToReward
         else
           (case map_of epochToVotersMap epoch of
              None \<Rightarrow> Inl (ErrMsg (''Missing voters' weighted votes information on epoch '' @ format_uint epoch))
            | Some votersInfo \<Rightarrow>
                foldE (\<lambda>(voterAddr, weightedVotes) m. andThen (big_Div (distrReward * weightedVotes) tw) (\<lambda>amount.
                  Inr (AList.map_default voterAddr amount (\<lambda>x. x + amount) m))) (ord votersInfo) voterAddrToReward))"

definition GetBookkeeping ::
  "libs \<Rightarrow> ((u64 \<times> int) list \<Rightarrow> (u64 \<times> int) list) \<Rightarrow> ((string \<times> int) list \<Rightarrow> (string \<times> int) list) \<Rightarrow> 'p registry \<Rightarrow>
   u64 \<Rightarrow> u64 \<Rightarrow> string \<Rightarrow> int \<Rightarrow> bool \<Rightarrow> bool \<Rightarrow> account_reward_row list \<Rightarrow> VotingResult list \<Rightarrow> AggregateVoting list \<Rightarrow>
   go_error + RewardDistribution list"
where
  "GetBookkeeping l ordE ord registry startEpoch epochCount delegateName percentage includeBlockReward includeFoundationBonus rt vt agt =
     andThen (wrap ''failed to get reward distribution map''
       (rewardsToSplit registry startEpoch epochCount delegateName percentage includeBlockReward includeFoundationBonus rt)) (\<lambda>distrRewardMap.
     andThen (wrap ''failed to get delegate total weighted votes'' (totalWeightedVotes startEpoch epochCount delegateName vt)) (\<lambda>totals.
     andThen (wrap ''failed to get voters map'' (voterVotes startEpoch epochCount delegateName agt)) (\<lambda>epochToVotersMap.
     andThen (foldE (split_epoch ord totals epochToVotersMap) (ordE distrRewardMap) []) (\<lambda>voterAddrToReward.
     convertVoterDistributionMapToList l ord voterAddrToReward))))"

subsection \<open>Hermes\<close>

definition search_pairs :: "'v by_delegate \<Rightarrow> (u64 \<times> string) list" where
  "search_pairs m = concat (map (\<lambda>(name, epochs). map (\<lambda>(e, _). (e, name)) epochs) m)"

text \<open>The state of the loop over the epochs of a delegate.\<close>

record hermes_state =
  ht_rewards :: "(string \<times> int) list"
  ht_balance :: int
  ht_feeWaiver :: bool
  ht_stakingAddress :: string

text \<open>
  A missing plan is a nil pointer; a missing map of voters is empty. \<open>voterCountMap\<close> has the same
  keys as \<open>voterAddrToReward\<close>. \<open>waiverThreshold\<close> is converted to \<open>float64\<close>.
\<close>

definition pay_voter :: "int \<Rightarrow> int \<Rightarrow> string \<times> int \<Rightarrow> hermes_state \<Rightarrow> go_error + hermes_state" where
  "pay_voter distrReward tw = (\<lambda>(voterAddr, weightedVotes) st.
     andThen (big_Div (distrReward * weightedVotes) tw) (\<lambda>amount.
     Inr (st\<lparr>ht_rewards := AList.map_default voterAddr amount (\<lambda>x. x + amount) (ht_rewards st),
             ht_balance := ht_balance st - amount\<rparr>)))"

definition hermes_epoch ::
  "libs \<Rightarrow> ((string \<times> int) list \<Rightarrow> (string \<times> int) list) \<Rightarrow> u64 \<Rightarrow> (u64 \<times> HermesDistributionPlan) list \<Rightarrow>
   (u64 \<times> (string \<times> int) list) list \<Rightarrow> u64 \<times> HermesDistributionSource \<Rightarrow> hermes_state \<Rightarrow> go_error + hermes_state"
where
  "hermes_epoch l ord waiverThreshold planMap epochVoterMap = (\<lambda>(epoch, rewards) st.
     case map_of planMap epoch of
       None \<Rightarrow> Inl (Panic ''invalid memory address or nil pointer dereference'')
     | Some plan \<Rightarrow>
         andThen (if ht_stakingAddress st = []
           then errorf ''failed to form IoTeX address from ETH address''
             (lib_AddressFromBytes l (lib_HexToAddress l (hp_StakingAddress plan)))
           else Inr (ht_stakingAddress st)) (\<lambda>stakingAddress.
         let totalRewards = hs_BlockReward rewards + hs_EpochReward rewards + hs_FoundationBonus rewards;
             threshold = f64_of_int (uint waiverThreshold);
             feeWaiver = (ht_feeWaiver st \<and> \<not> (hp_BlockRewardPercentage plan < threshold \<or>
               hp_EpochRewardPercentage plan < threshold \<or> hp_FoundationBonusPercentage plan < threshold))
         in foldE (pay_voter (calculatedDistributedReward plan rewards) (hp_TotalWeightedVotes plan))
              (ord (get_or [] epochVoterMap epoch))
              (st\<lparr>ht_stakingAddress := stakingAddress, ht_balance := ht_balance st + totalRewards, ht_feeWaiver := feeWaiver\<rparr>)))"

definition hermes_delegate ::
  "libs \<Rightarrow> ((u64 \<times> HermesDistributionSource) list \<Rightarrow> (u64 \<times> HermesDistributionSource) list) \<Rightarrow>
   ((string \<times> int) list \<Rightarrow> (string \<times> int) list) \<Rightarrow> u64 \<Rightarrow> HermesDistributionPlan by_delegate \<Rightarrow>
   (string \<times> int) list by_delegate \<Rightarrow> string \<times> (u64 \<times> HermesDistributionSource) list \<Rightarrow> go_error + DelegateHermesDistribution"
where
  "hermes_delegate l ordE ord waiverThreshold planMap voterVotesMap = (\<lambda>(delegate, rewardsMap).
     andThen (foldE (hermes_epoch l ord waiverThreshold (get_or [] planMap delegate) (get_or [] voterVotesMap delegate)) (ordE rewardsMap)
       \<lparr>ht_rewards = [], ht_balance = 0, ht_feeWaiver = True, ht_stakingAddress = []\<rparr>) (\<lambda>st.
     andThen (wrap ''failed to convert voter distribution map to list'' (convertVoterDistributionMapToList l ord (ht_rewards st))) (\<lambda>ds.
     Inr \<lparr>dh_DelegateName = delegate, dh_Distributions = ds, dh_StakingIotexAddress = ht_stakingAddress st,
          dh_VoterCount = length (ht_rewards st), dh_WaiveServiceFee = ht_feeWaiver st,
          dh_Refund = big_String (ht_balance st)\<rparr>)))"

text \<open>The orders of the loops over maps; \<open>order_delegates\<close> is the one over the delegates.\<close>

record query_orders =
  order_epochs :: "(u64 \<times> HermesDistributionSource) list \<Rightarrow> (u64 \<times> HermesDistributionSource) list"
  order_voters :: "(string \<times> int) list \<Rightarrow> (string \<times> int) list"
  order_delegates :: "HermesDistributionSource by_delegate \<Rightarrow> HermesDistributionSource by_delegate"

definition GetHermesBookkeeping ::
  "libs \<Rightarrow> query_orders \<Rightarrow> 'p registry \<Rightarrow> u64 \<Rightarrow> u64 \<Rightarrow> string \<Rightarrow> u64 \<Rightarrow> account_reward_row list \<Rightarrow> VotingResult list \<Rightarrow>
   AggregateVoting list \<Rightarrow> go_error + DelegateHermesDistribution list"
where
  "GetHermesBookkeeping l ords registry startEpoch epochCount rewardAddress waiverThreshold rt vt agt =
     andThen (wrap ''failed to get reward distribution plan''
       (distributionPlanByRewardAddress registry startEpoch epochCount rewardAddress vt)) (\<lambda>planMap.
     andThen (wrap ''failed to get account rewards'' (accountRewards registry (search_pairs planMap) rt)) (\<lambda>accountRewardsMap.
     andThen (wrap ''failed to get voter votes'' (weightedVotesBySearchPairs (search_pairs planMap) agt)) (\<lambda>voterVotesMap.
     mapE (hermes_delegate l (order_epochs ords) (order_voters ords) waiverThreshold planMap voterVotesMap)
       (order_delegates ords accountRewardsMap))))"

definition hermes_average ::
  "HermesDistributionPlan by_delegate \<Rightarrow> string \<times> (u64 \<times> HermesDistributionSource) list \<Rightarrow> go_error + DelegateHermesAverage"
where
  "hermes_average planMap = (\<lambda>(delegate, rewardsMap).
     andThen (foldE (\<lambda>(epoch, rewards) (d, w).
       case map_of (get_or [] planMap delegate) epoch of
         None \<Rightarrow> Inl (Panic ''invalid memory address or nil pointer dereference'')
       | Some plan \<Rightarrow> Inr (d + calculatedDistributedReward plan rewards, w + hp_TotalWeightedVotes plan)) rewardsMap (0, 0)) (\<lambda>(d, w).
     andThen (big_Div d (int (length rewardsMap))) (\<lambda>avgRewardDistribution.
     andThen (big_Div w (int (length rewardsMap))) (\<lambda>avgTotalWeightedVotes.
     Inr \<lparr>da_DelegateName = delegate, da_RewardDistribution = big_String avgRewardDistribution,
          da_TotalWeightedVotes = big_String avgTotalWeightedVotes\<rparr>))))"

definition GetAverageHermesStats ::
  "query_orders \<Rightarrow> 'p registry \<Rightarrow> u64 \<Rightarrow> u64 \<Rightarrow> string \<Rightarrow> account_reward_row list \<Rightarrow> VotingResult list \<Rightarrow>
   go_error + DelegateHermesAverage list"
where
  "GetAverageHermesStats ords registry startEpoch epochCount rewardAddress rt vt =
     andThen (wrap ''failed to get reward distribution plan''
       (distributionPlanByRewardAddress registry startEpoch epochCount rewardAddress vt)) (\<lambda>planMap.
     andThen (wrap ''failed to get account rewards'' (accountRewards registry (search_pairs planMap) rt)) (\<lambda>accountRewardsMap.
     mapE (hermes_average planMap) (order_delegates ords accountRewardsMap)))"

text \<open>The amount a voter gets from one delegate; missing votes are a nil pointer too.\<close>

definition source_amount ::
  "HermesDistributionPlan by_delegate \<Rightarrow> int by_delegate \<Rightarrow> string \<times> (u64 \<times> HermesDistributionSource) list \<Rightarrow> go_error + string \<times> int"
where
  "source_amount planMap weightedVotesMap = (\<lambda>(delegate, rewardsMap).
     andThen (foldE (\<lambda>(epoch, rewards) sum.
       case (map_of (get_or [] planMap delegate) epoch, map_of (get_or [] weightedVotesMap delegate) epoch) of
         (Some plan, Some weightedVotes) \<Rightarrow>
           andThen (big_Div (calculatedDistributedReward plan rewards * weightedVotes) (hp_TotalWeightedVotes plan)) (\<lambda>amount.
           Inr (sum + amount))
       | _ \<Rightarrow> Inl (Panic ''invalid memory address or nil pointer dereference'')) rewardsMap 0) (\<lambda>sum.
     Inr (delegate, sum)))"

text \<open>\<open>hexAddress[2:]\<close> is the checksummed hex text of the address without its \<open>0x\<close>.\<close>

definition GetRewardSources ::
  "libs \<Rightarrow> (string \<Rightarrow> string) \<Rightarrow> query_orders \<Rightarrow> 'p registry \<Rightarrow> u64 \<Rightarrow> u64 \<Rightarrow> string \<Rightarrow> account_reward_row list \<Rightarrow>
   VotingResult list \<Rightarrow> AggregateVoting list \<Rightarrow> go_error + DelegateAmount list"
where
  "GetRewardSources l checksum ords registry startEpoch epochCount voterIotexAddress rt vt agt =
     andThen (wrap ''failed to convert IoTeX address to ETH address'' (lib_IoAddrToEvmAddr l voterIotexAddress)) (\<lambda>voterEthAddress.
     andThen (wrap ''failed to get voter's weighted votes''
       (weightedVotesByVoterAddress registry startEpoch epochCount (drop 2 (checksum voterEthAddress)) agt)) (\<lambda>weightedVotesMap.
     andThen (wrap ''failed to get account rewards'' (accountRewards registry (search_pairs weightedVotesMap) rt)) (\<lambda>accountRewardsMap.
     andThen (wrap ''failed to get reward distribution plan'' (distributionPlanBySearchPairs (search_pairs weightedVotesMap) vt)) (\<lambda>planMap.
     andThen (mapE (source_amount planMap weightedVotesMap) (order_delegates ords accountRewardsMap)) (\<lambda>amounts.
     Inr (map (\<lambda>(name, amount). \<lparr>dm_DelegateName = name, dm_Amount = big_String amount\<rparr>) amounts))))))"

end
