(* ===== verification/Query_Rewards_Laws.thy ===== *)
theory Query_Rewards_Laws imports Query_Rewards begin

text \<open>
  What the distribution of rewards promises: no reward is lost or made (what the voters get and what
  is refunded to the delegate is what the delegate earned), shares never exceed what is to be split,
  and the two ways the code computes the amount of one voter agree.
\<close>

subsection \<open>Maps of maps\<close>

lemma get_or_Nil [simp]: "get_or d [] k = d"
  by (simp add: get_or_def)

lemma mapE_result: "mapE f xs = Inr ys \<Longrightarrow> y \<in> set ys \<Longrightarrow> \<exists>x\<in>set xs. f x = Inr y"
  by (induction xs arbitrary: ys) (auto simp: andThen_eq_Inr)

lemma map_default_other: "k \<noteq> j \<Longrightarrow> (j, w) \<in> set (AList.map_default k v f m) \<longleftrightarrow> (j, w) \<in> set m"
  by (induction m) auto

lemma map_default_here:
  "distinct_keys m \<Longrightarrow> (k, w) \<in> set (AList.map_default k v f m) \<longleftrightarrow>
   w = (case map_of m k of None \<Rightarrow> v | Some x \<Rightarrow> f x)"
proof -
  assume m: "distinct_keys m"
  have "(k, w) \<in> set (AList.map_default k v f m) \<longleftrightarrow> map_of (AList.map_default k v f m) k = Some w"
    by (rule map_of_eq_Some_iff[OF distinct_map_default[OF m], symmetric])
  then show ?thesis by auto
qed

text \<open>The rows with distinct keys \<open>(epoch, name)\<close>, put in a map of maps.\<close>

lemma fold_put2:
  fixes rows :: "(('b \<times> 'a) \<times> 'v) list" and g :: "'v \<Rightarrow> 'w"
  assumes "distinct_keys rows"
  defines "m \<equiv> fold (\<lambda>((e, n), r). put2 n e (g r)) rows []"
  shows "distinct_keys m"
    and "(n, es) \<in> set m \<Longrightarrow> es = map (\<lambda>((e, _), r). (e, g r)) (filter (\<lambda>((_, n'), _). n' = n) rows)"
    and "keys m = snd ` keys rows"
proof -
  let ?es = "\<lambda>rows n. map (\<lambda>((e, _), r). (e, g r)) (filter (\<lambda>((_, n'), _). n' = n) rows)"
  have "distinct_keys m \<and> (\<forall>n es. (n, es) \<in> set m \<longrightarrow> es = ?es rows n) \<and> keys m = snd ` keys rows"
    using assms(1) unfolding m_def
  proof (induction rows rule: rev_induct)
    case (snoc x rows)
    obtain e n r where x: "x = ((e, n), r)" by (metis surj_pair)
    let ?m = "fold (\<lambda>((e, n), r). put2 n e (g r)) rows []"
    have IH: "distinct_keys ?m" "\<And>n es. (n, es) \<in> set ?m \<Longrightarrow> es = ?es rows n" "keys ?m = snd ` keys rows"
      using snoc by simp_all
    have new: "e \<notin> keys (?es rows n)" using snoc.prems by (force simp: x)
    have "es = ?es (rows @ [x]) k" if mem: "(k, es) \<in> set (put2 n e (g r) ?m)" for k es
    proof (cases "k = n")
      case False
      then show ?thesis using mem IH(2)[of k es] by (simp add: put2_def map_default_other x)
    next
      case True
      show ?thesis
      proof (cases "map_of ?m n")
        case None
        then have "n \<notin> snd ` keys rows" using IH(3) by (simp add: map_of_eq_None_iff)
        then have "?es rows n = []" by (force simp: filter_empty_conv)
        then show ?thesis using True None mem by (simp add: put2_def map_default_here[OF IH(1)] x)
      next
        case (Some fs)
        then have fs: "fs = ?es rows n" using IH(2) by (blast dest: map_of_SomeD)
        have "es = AList.update e (g r) fs"
          using True Some mem by (simp add: put2_def map_default_here[OF IH(1)])
        then show ?thesis using True new fs by (simp add: update_fresh x)
      qed
    qed
    moreover have "distinct_keys (put2 n e (g r) ?m)" using IH(1) by (simp add: put2_def)
    moreover have "keys (put2 n e (g r) ?m) = snd ` keys (rows @ [x])" using IH(3) by (auto simp: put2_def x)
    ultimately show ?case by (simp add: x)
  qed simp
  then show "distinct_keys m" "(n, es) \<in> set m \<Longrightarrow> es = ?es rows n" "keys m = snd ` keys rows"
    by blast+
qed

subsection \<open>Hermes keeps what it distributes\<close>

definition source_total :: "HermesDistributionSource \<Rightarrow> int" where
  "source_total r = hs_BlockReward r + hs_EpochReward r + hs_FoundationBonus r"

definition hermes_total :: "hermes_state \<Rightarrow> int" where
  "hermes_total st = sum_list (map snd (ht_rewards st)) + ht_balance st"

lemma pay_voter_total: "pay_voter d tw p st = Inr st' \<Longrightarrow> hermes_total st' = hermes_total st"
  by (cases p) (auto simp: pay_voter_def andThen_eq_Inr hermes_total_def sum_map_default)

lemma hermes_epoch_total:
  assumes "hermes_epoch l ord w planMap voters (e, r) st = Inr st'"
  shows "hermes_total st' = hermes_total st + source_total r"
proof -
  obtain plan sa fw where
    f: "foldE (pay_voter (calculatedDistributedReward plan r) (hp_TotalWeightedVotes plan)) (ord (get_or [] voters e))
      (st\<lparr>ht_stakingAddress := sa, ht_balance := ht_balance st + source_total r, ht_feeWaiver := fw\<rparr>) = Inr st'"
    using assms unfolding hermes_epoch_def source_total_def Let_def
    by (auto simp: andThen_eq_Inr split: option.splits)
  have "hermes_total st' = hermes_total st + source_total r"
    by (rule foldE_invariant[OF f, where I = "\<lambda>t. hermes_total t = hermes_total st + source_total r"])
      (simp add: hermes_total_def, simp add: pay_voter_total)
  then show ?thesis .
qed

lemma hermes_fold_total:
  "foldE (hermes_epoch l ord w planMap voters) rs st = Inr st' \<Longrightarrow>
   hermes_total st' = hermes_total st + sum_list (map (source_total \<circ> snd) rs)"
  by (induction rs arbitrary: st) (auto simp: andThen_eq_Inr dest!: hermes_epoch_total)

text \<open>The number a decimal text stands for.\<close>

definition amount_of :: "string \<Rightarrow> int" where
  "amount_of s = (case big_SetString 10 s of None \<Rightarrow> 0 | Some n \<Rightarrow> n)"

lemma amount_of_String [simp]: "amount_of (big_String n) = n"
  by (simp add: amount_of_def big_SetString_String)

lemma convert_amounts:
  assumes "convertVoterDistributionMapToList l ord m = Inr ds"
  shows "map (\<lambda>d. (rd_VoterEthAddress d, amount_of (rd_Amount d))) ds = ord m"
proof -
  have "map (\<lambda>d. (rd_VoterEthAddress d, amount_of (rd_Amount d))) ds = map (\<lambda>p. p) (ord m)"
    using assms unfolding convertVoterDistributionMapToList_def
    by (rule mapE_map_fst) (auto simp: andThen_eq_Inr)
  then show ?thesis by simp
qed

text \<open>All that a delegate's distribution hands out: the amounts of the voters and the refund.\<close>

definition handed_out :: "DelegateHermesDistribution \<Rightarrow> int" where
  "handed_out d = sum_list (map (\<lambda>x. amount_of (rd_Amount x)) (dh_Distributions d)) + amount_of (dh_Refund d)"

lemma hermes_delegate_total:
  assumes "range_order ordE" "range_order ord" "hermes_delegate l ordE ord w planMap voters (delegate, rs) = Inr d"
  shows "dh_DelegateName d = delegate" and "handed_out d = sum_list (map (source_total \<circ> snd) rs)"
proof -
  obtain st ds where
    f: "foldE (hermes_epoch l ord w (get_or [] planMap delegate) (get_or [] voters delegate)) (ordE rs)
      \<lparr>ht_rewards = [], ht_balance = 0, ht_feeWaiver = True, ht_stakingAddress = []\<rparr> = Inr st"
    and ds: "convertVoterDistributionMapToList l ord (ht_rewards st) = Inr ds"
    and d: "dh_DelegateName d = delegate" "dh_Distributions d = ds" "dh_Refund d = big_String (ht_balance st)"
    using assms(3) by (auto simp: hermes_delegate_def andThen_eq_Inr)
  show "dh_DelegateName d = delegate" by (rule d)
  have "sum_list (map (\<lambda>x. amount_of (rd_Amount x)) ds) = sum_list (map snd (ord (ht_rewards st)))"
    by (simp flip: convert_amounts[OF ds] add: comp_def)
  then show "handed_out d = sum_list (map (source_total \<circ> snd) rs)"
    using hermes_fold_total[OF f] assms(1,2)
    by (simp add: handed_out_def d hermes_total_def range_order_sum)
qed

lemma search_pairs_put2: "set (search_pairs (put2 n e v m)) = insert (e, n) (set (search_pairs m))"
proof -
  have upd: "(\<lambda>(e, _). (e, k)) ` set (AList.update e v es) = insert (e, k) ((\<lambda>(e, _). (e, k)) ` set es)" for k es
    by (induction es) auto
  show ?thesis
    by (induction m) (auto simp: put2_def search_pairs_def upd)
qed

lemma search_pairs_Nil [simp]: "search_pairs [] = []"
  by (simp add: search_pairs_def)

lemma search_pairs_plans:
  "set (search_pairs (fold (\<lambda>r. put2 (vr_DelegateName r) (vr_EpochNumber r) (plan_of_result r)) rows m)) =
   vr_key ` set rows \<union> set (search_pairs m)"
  by (induction rows arbitrary: m) (auto simp: search_pairs_put2 vr_key_def)

text \<open>What a row of \<open>account_rewards\<close> is worth.\<close>

definition row_total :: "RewardInfo \<Rightarrow> int" where
  "row_total r = ri_BlockReward r + ri_EpochReward r + ri_FoundationBonus r"

definition in_plan :: "u64 \<Rightarrow> u64 \<Rightarrow> string \<Rightarrow> VotingResult list \<Rightarrow> u64 \<times> string \<Rightarrow> bool" where
  "in_plan startEpoch epochCount rewardAddress vt k \<longleftrightarrow>
     (\<exists>v\<in>set vt. vr_key v = k \<and> in_epochs startEpoch epochCount (vr_EpochNumber v) \<and> vr_RewardAddress v = rewardAddress)"

lemma accountRewards_rows:
  assumes "accountRewards registry pairs rt = Inr m" "distinct_keys rt" "(n, es) \<in> set m"
  shows "sum_list (map (source_total \<circ> snd) es) =
    sum_list (map (row_total \<circ> snd) (filter (\<lambda>(k, _). snd k = n \<and> k \<in> set pairs) rt))"
proof -
  let ?src = "\<lambda>r. \<lparr>hs_BlockReward = ri_BlockReward r, hs_EpochReward = ri_EpochReward r, hs_FoundationBonus = ri_FoundationBonus r\<rparr>"
  let ?rows = "filter (\<lambda>r. fst r \<in> set pairs) rt"
  have m: "m = fold (\<lambda>((e, n), r). put2 n e (?src r)) ?rows []"
    using assms(1) by (auto simp: accountRewards_def select_in_def andThen_eq_Inr Let_def split: if_splits)
  have "distinct_keys ?rows" using assms(2) by (rule distinct_map_filter)
  from fold_put2(2)[OF this, of n es ?src] assms(3) m
  have "es = map (\<lambda>((e, _), r). (e, ?src r)) (filter (\<lambda>((_, n'), _). n' = n) ?rows)" by simp
  then show ?thesis
    by (simp add: comp_def case_prod_unfold source_total_def row_total_def conj_commute)
qed

text \<open>C9: GetHermesBookkeeping loses nothing: for each delegate in its answer, what the voters
  get and the refund of the delegate add up to exactly the block, epoch
  and foundation rewards that account_rewards holds for the delegate in the epochs of the range in
  which it used the Hermes reward address, whatever orders the maps are ranged in.\<close>

theorem hermes_keeps_rewards:
  assumes "GetHermesBookkeeping l ords registry startEpoch epochCount rewardAddress waiverThreshold rt vt agt = Inr ds"
    and "range_order (order_epochs ords)" "range_order (order_voters ords)" "range_order (order_delegates ords)"
    and "distinct_keys rt" "d \<in> set ds"
  shows "handed_out d = sum_list (map (row_total \<circ> snd)
    (filter (\<lambda>(k, _). snd k = dh_DelegateName d \<and> in_plan startEpoch epochCount rewardAddress vt k) rt))"
proof -
  let ?vr = "filter (\<lambda>r. in_epochs startEpoch epochCount (vr_EpochNumber r) \<and> vr_RewardAddress r = rewardAddress) vt"
  let ?plan = "fold (\<lambda>r. put2 (vr_DelegateName r) (vr_EpochNumber r) (plan_of_result r)) ?vr []"
  obtain am votes where am: "accountRewards registry (search_pairs ?plan) rt = Inr am"
    and ds: "mapE (hermes_delegate l (order_epochs ords) (order_voters ords) waiverThreshold ?plan votes)
      (order_delegates ords am) = Inr ds"
    using assms(1)
    by (auto simp: GetHermesBookkeeping_def distributionPlanByRewardAddress_def
      parseDistributionPlanFromVotingResult_def andThen_eq_Inr split: if_splits)
  obtain p where p: "p \<in> set am" and
    hd: "hermes_delegate l (order_epochs ords) (order_voters ords) waiverThreshold ?plan votes p = Inr d"
    using mapE_result[OF ds assms(6)] assms(4) by auto
  obtain n es where ne: "p = (n, es)" by (cases p)
  have pairs: "k \<in> set (search_pairs ?plan) \<longleftrightarrow> in_plan startEpoch epochCount rewardAddress vt k" for k
    by (auto simp: search_pairs_plans in_plan_def)
  show ?thesis
    using hermes_delegate_total[OF assms(2,3) hd[unfolded ne]] accountRewards_rows[OF am assms(5) p[unfolded ne]]
    by (simp add: pairs)
qed

text \<open>A delegate with one epoch: 70 of 110 go to the voters in the ratio 2:1, the rest is refunded.\<close>

definition sample_result :: VotingResult where
  "sample_result = \<lparr>vr_EpochNumber = 7, vr_DelegateName = ''d'', vr_OperatorAddress = ''op'', vr_RewardAddress = ''hermes'',
     vr_TotalWeightedVotes = 30, vr_SelfStaking = 0, vr_BlockRewardPercentage = 50, vr_EpochRewardPercentage = 80,
     vr_FoundationBonusPercentage = 0, vr_StakingAddress = ''aa''\<rparr>"

definition sample_orders :: query_orders where
  "sample_orders = \<lparr>order_epochs = (\<lambda>xs. xs), order_voters = rev, order_delegates = (\<lambda>xs. xs)\<rparr>"

lemma hermes_keeps_rewards_witness:
  "handed_out \<lparr>dh_DelegateName = ''d'', dh_Distributions =
      [\<lparr>rd_VoterEthAddress = ''v1'', rd_VoterIotexAddress = ''v1'', rd_Amount = ''86''\<rparr>,
       \<lparr>rd_VoterEthAddress = ''v2'', rd_VoterIotexAddress = ''v2'', rd_Amount = ''43''\<rparr>],
      dh_StakingIotexAddress = ''aa'', dh_VoterCount = 2, dh_WaiveServiceFee = False, dh_Refund = ''81''\<rparr> = 210"
proof -
  let ?l = "(Libs offline_ctx)\<lparr>lib_HexToAddress := (\<lambda>a. a), lib_AddressFromBytes := Inr\<rparr>"
  have run: "GetHermesBookkeeping ?l sample_orders [(''rewards'', ()), (''voting'', ())] 7 1 ''hermes'' 60
      [((7, ''d''), \<lparr>ri_BlockReward = 100, ri_EpochReward = 100, ri_FoundationBonus = 10\<rparr>)] [sample_result]
      [\<lparr>av_EpochNumber = 7, av_CandidateName = ''d'', av_VoterAddress = ''v1'', av_NativeFlag = False, av_AggregateVotes = 20\<rparr>,
       \<lparr>av_EpochNumber = 7, av_CandidateName = ''d'', av_VoterAddress = ''v2'', av_NativeFlag = False, av_AggregateVotes = 10\<rparr>]
    = Inr [\<lparr>dh_DelegateName = ''d'', dh_Distributions =
      [\<lparr>rd_VoterEthAddress = ''v1'', rd_VoterIotexAddress = ''v1'', rd_Amount = ''86''\<rparr>,
       \<lparr>rd_VoterEthAddress = ''v2'', rd_VoterIotexAddress = ''v2'', rd_Amount = ''43''\<rparr>],
      dh_StakingIotexAddress = ''aa'', dh_VoterCount = 2, dh_WaiveServiceFee = False, dh_Refund = ''81''\<rparr>]"
    by code_simp
  show ?thesis
    by (rule hermes_keeps_rewards[OF run, THEN trans])
      (simp_all add: sample_orders_def sample_result_def in_plan_def in_epochs_def vr_key_def row_total_def)
qed

subsection \<open>Shares never exceed what is split\<close>

lemma shares_within:
  fixes w :: "'a \<Rightarrow> int"
  assumes "0 < T" "sum_list (map w xs) \<le> T" "0 \<le> D"
  shows "sum_list (map (\<lambda>x. D * w x div T) xs) \<le> D"
proof -
  have "sum_list (map (\<lambda>x. D * w x div T) xs) \<le> sum_list (map (\<lambda>x. D * w x) xs) div T"
    by (rule sum_list_div_le[OF assms(1)])
  also have "\<dots> = D * sum_list (map w xs) div T" by (simp add: sum_list_const_mult)
  also have "\<dots> \<le> D * T div T" using assms by (intro zdiv_mono1 mult_left_mono) simp_all
  finally show ?thesis using assms(1) by simp
qed

lemma percent_of_bounds:
  assumes "0 \<le> p" "p \<le> 100" "0 \<le> r"
  shows "0 \<le> percent_of p r" and "percent_of p r \<le> r"
proof -
  have nonneg: "0 \<le> f64_mul p 100" using assms(1) by (simp add: f64_mul_def round_prec_nonneg)
  have "f64_mul p 100 \<le> of_int 10000" if "0 < p"
    unfolding f64_mul_def by (rule round_prec_le_int) (use that assms(2) in simp_all)
  then have le: "0 < p \<Longrightarrow> trunc (f64_mul p 100) \<le> 10000" by (rule trunc_bounds(2)[OF nonneg])
  have "0 \<le> trunc (f64_mul p 100)" by (rule trunc_bounds(1)[OF nonneg])
  then show "0 \<le> percent_of p r" using assms(3) by (simp add: percent_of_def pos_imp_zdiv_nonneg_iff)
  have "r * trunc (f64_mul p 100) div 10000 \<le> r * 10000 div 10000" if "0 < p"
    using le[OF that] assms(3) by (intro zdiv_mono1 mult_left_mono) simp_all
  then show "percent_of p r \<le> r" using assms(3) by (simp add: percent_of_def)
qed

definition plan_within :: "HermesDistributionPlan \<Rightarrow> bool" where
  "plan_within plan \<longleftrightarrow>
     0 \<le> hp_BlockRewardPercentage plan \<and> hp_BlockRewardPercentage plan \<le> 100 \<and>
     0 \<le> hp_EpochRewardPercentage plan \<and> hp_EpochRewardPercentage plan \<le> 100 \<and>
     0 \<le> hp_FoundationBonusPercentage plan \<and> hp_FoundationBonusPercentage plan \<le> 100"

definition source_nonneg :: "HermesDistributionSource \<Rightarrow> bool" where
  "source_nonneg r \<longleftrightarrow> 0 \<le> hs_BlockReward r \<and> 0 \<le> hs_EpochReward r \<and> 0 \<le> hs_FoundationBonus r"

lemma distributed_bounds:
  assumes "plan_within plan" "source_nonneg r"
  shows "0 \<le> calculatedDistributedReward plan r" and "calculatedDistributedReward plan r \<le> source_total r"
  using percent_of_bounds[of "hp_BlockRewardPercentage plan" "hs_BlockReward r"]
    percent_of_bounds[of "hp_EpochRewardPercentage plan" "hs_EpochReward r"]
    percent_of_bounds[of "hp_FoundationBonusPercentage plan" "hs_FoundationBonus r"] assms
  by (simp_all add: plan_within_def source_nonneg_def calculatedDistributedReward_def source_total_def)

lemma pay_voters_balance:
  "0 < T \<Longrightarrow> foldE (pay_voter D T) ps st = Inr st' \<Longrightarrow>
   ht_balance st' = ht_balance st - sum_list (map (\<lambda>p. D * snd p div T) ps)"
  by (induction ps arbitrary: st) (auto simp: andThen_eq_Inr pay_voter_def big_Div_def)

lemma hermes_epoch_balance:
  assumes run: "hermes_epoch l ord w planMap voters (e, r) st = Inr st'" and ord: "range_order ord"
    and r: "source_nonneg r"
    and plan: "\<And>plan. map_of planMap e = Some plan \<Longrightarrow> plan_within plan \<and> 0 < hp_TotalWeightedVotes plan \<and>
      sum_list (map snd (get_or [] voters e)) \<le> hp_TotalWeightedVotes plan"
  shows "ht_balance st \<le> ht_balance st'"
proof -
  obtain plan sa fw where p: "map_of planMap e = Some plan" and
    f: "foldE (pay_voter (calculatedDistributedReward plan r) (hp_TotalWeightedVotes plan)) (ord (get_or [] voters e))
      (st\<lparr>ht_stakingAddress := sa, ht_balance := ht_balance st + source_total r, ht_feeWaiver := fw\<rparr>) = Inr st'"
    using run unfolding hermes_epoch_def source_total_def Let_def
    by (auto simp: andThen_eq_Inr split: option.splits)
  let ?D = "calculatedDistributedReward plan r" and ?T = "hp_TotalWeightedVotes plan"
  note ok = plan[OF p]
  have "sum_list (map (\<lambda>q. ?D * snd q div ?T) (get_or [] voters e)) \<le> ?D"
    by (rule shares_within) (use ok distributed_bounds(1)[of plan r] r in simp_all)
  then show ?thesis
    using pay_voters_balance[OF _ f] ok distributed_bounds(2)[of plan r] r
    by (simp add: range_order_sum[OF ord])
qed

text \<open>A delegate's refund is never negative when the percentages of its plan are between 0
  and 100, its rewards are not negative and the votes of its voters are covered by the total that the plan
  divides by: the shares never add up to more than the rewards.\<close>

theorem hermes_refund_nonneg:
  assumes run: "hermes_delegate l ordE ord waiverThreshold planMap voterVotesMap (delegate, rewardsMap) = Inr d"
    and ords: "range_order ordE" "range_order ord"
    and rewards: "\<And>e r. (e, r) \<in> set rewardsMap \<Longrightarrow> source_nonneg r"
    and plans: "\<And>e plan. map_of (get_or [] planMap delegate) e = Some plan \<Longrightarrow>
      plan_within plan \<and> 0 < hp_TotalWeightedVotes plan \<and>
      sum_list (map snd (get_or [] (get_or [] voterVotesMap delegate) e)) \<le> hp_TotalWeightedVotes plan"
  shows "0 \<le> amount_of (dh_Refund d)"
proof -
  obtain st where
    f: "foldE (hermes_epoch l ord waiverThreshold (get_or [] planMap delegate) (get_or [] voterVotesMap delegate)) (ordE rewardsMap)
      \<lparr>ht_rewards = [], ht_balance = 0, ht_feeWaiver = True, ht_stakingAddress = []\<rparr> = Inr st"
    and d: "dh_Refund d = big_String (ht_balance st)"
    using run by (auto simp: hermes_delegate_def andThen_eq_Inr)
  have "0 \<le> ht_balance st"
  proof (rule foldE_invariant[OF f])
    fix x s t
    assume x: "x \<in> set (ordE rewardsMap)" and s: "0 \<le> ht_balance s"
      and step: "hermes_epoch l ord waiverThreshold (get_or [] planMap delegate) (get_or [] voterVotesMap delegate) x s = Inr t"
    obtain e r where er: "x = (e, r)" by (cases x)
    have "ht_balance s \<le> ht_balance t"
      by (rule hermes_epoch_balance[OF step[unfolded er] ords(2)])
        (use rewards[of e r] x er ords(1) plans in simp_all)
    then show "0 \<le> ht_balance t" using s by simp
  qed simp
  then show ?thesis by (simp add: d)
qed

definition sample_plan :: HermesDistributionPlan where
  "sample_plan = plan_of_result sample_result"

lemma hermes_refund_nonneg_witness:
  "\<exists>d. hermes_delegate address_libs (\<lambda>xs. xs) rev 60 [(''d'', [(7, sample_plan)])] [(''d'', [(7, [(''v1'', 20), (''v2'', 10)])])]
     (''d'', [(7, \<lparr>hs_BlockReward = 100, hs_EpochReward = 100, hs_FoundationBonus = 10\<rparr>)]) = Inr d \<and> 0 \<le> amount_of (dh_Refund d)"
proof -
  let ?run = "hermes_delegate address_libs (\<lambda>xs. xs) rev 60 [(''d'', [(7, sample_plan)])] [(''d'', [(7, [(''v1'', 20), (''v2'', 10)])])]
     (''d'', [(7, \<lparr>hs_BlockReward = 100, hs_EpochReward = 100, hs_FoundationBonus = 10\<rparr>)])"
  have "\<not> isl ?run" by code_simp
  from sum.collapse(2)[OF this] obtain d where run: "?run = Inr d" by metis
  have "0 \<le> amount_of (dh_Refund d)"
    by (rule hermes_refund_nonneg[OF run])
      (auto simp: source_nonneg_def get_or_def plan_within_def sample_plan_def sample_result_def plan_of_result_def split: if_splits)
  with run show ?thesis by blast
qed

lemma zero_votes_epoch_parts:
  assumes "map_of totals e = Some 0" "map_of planMap e = Some plan" "hp_TotalWeightedVotes plan = 0"
    and "get_or [] voters e \<noteq> []" "range_order ord" "ht_stakingAddress st \<noteq> []"
  shows "split_epoch ord totals voters (e, reward) m = Inr m"
    and "hermes_epoch l ord waiverThreshold planMap voters (e, r) st = Inl (Panic ''division by zero'')"
proof -
  show "split_epoch ord totals voters (e, reward) m = Inr m" using assms(1) by (simp add: split_epoch_def)
  have "ord (get_or [] voters e) \<noteq> []" using range_order_length[OF assms(5), of "get_or [] voters e"] assms(4) by force
  then obtain p ps where "ord (get_or [] voters e) = p # ps" by (cases "ord (get_or [] voters e)") auto
  then show "hermes_epoch l ord waiverThreshold planMap voters (e, r) st = Inl (Panic ''division by zero'')"
    using assms by (cases p) (simp add: hermes_epoch_def Let_def pay_voter_def big_Div_def)
qed

text \<open>An epoch whose total of weighted votes is zero is skipped by GetBookkeeping, but
  GetHermesBookkeeping panics on it with a division by zero, although both split the same rewards over the
  same votes.\<close>

theorem zero_votes_epoch:
  assumes "map_of totals e = Some 0" "map_of planMap e = Some plan" "hp_TotalWeightedVotes plan = 0"
    and "get_or [] voters e \<noteq> []" "range_order ord" "ht_stakingAddress st \<noteq> []"
  shows "(split_epoch ord totals voters (e, reward) m = Inr m) \<and>
     (hermes_epoch l ord waiverThreshold planMap voters (e, r) st = Inl (Panic ''division by zero''))"
  by (intro conjI zero_votes_epoch_parts[OF assms])


lemma zero_votes_epoch_witness:
  "split_epoch rev [(7, 0)] [(7, [(''v1'', 0)])] (7, 100) [] = Inr [] \<and>
   hermes_epoch address_libs rev 60 [(7, sample_plan\<lparr>hp_TotalWeightedVotes := 0\<rparr>)] [(7, [(''v1'', 0)])]
     (7, \<lparr>hs_BlockReward = 100, hs_EpochReward = 0, hs_FoundationBonus = 0\<rparr>)
     \<lparr>ht_rewards = [], ht_balance = 0, ht_feeWaiver = True, ht_stakingAddress = ''io1''\<rparr> = Inl (Panic ''division by zero'')"
  using zero_votes_epoch[of "[(7, 0)]" 7 "[(7, sample_plan\<lparr>hp_TotalWeightedVotes := 0\<rparr>)]" "sample_plan\<lparr>hp_TotalWeightedVotes := 0\<rparr>"
    "[(7, [(''v1'', 0)])]" rev "\<lparr>ht_rewards = [], ht_balance = 0, ht_feeWaiver = True, ht_stakingAddress = ''io1''\<rparr>"]
  by (simp add: get_or_def)

text \<open>A percentage with two decimals may lose one hundredth: the code multiplies the float by 100 and
  truncates, so that 8.2, 0.29 and 9.99 percent of ten million come out as 819000, 28000 and 999000.\<close>

theorem percent_is_cut:
  "percent_of (round_prec 53 (8 + 2 / 10)) 10000000 = 819000" "percent_of (round_prec 53 (29 / 100)) 10000000 = 28000"
  "percent_of (round_prec 53 (9 + 99 / 100)) 10000000 = 999000"
  by code_simp+

subsection \<open>Two computations of what a voter gets\<close>

lemma pay_voters_reward:
  "0 < T \<Longrightarrow> foldE (pay_voter D T) ps st = Inr st' \<Longrightarrow>
   get_or 0 (ht_rewards st') v = get_or 0 (ht_rewards st) v + sum_list (map (\<lambda>p. if fst p = v then D * snd p div T else 0) ps)"
  by (induction ps arbitrary: st) (auto simp: andThen_eq_Inr pay_voter_def big_Div_def get_or_default_sum simp del: get_or_map_default)

lemma sum_only_key:
  fixes f :: "int \<Rightarrow> int"
  assumes "distinct_keys m" "map_of m v = Some x"
  shows "sum_list (map (\<lambda>p. if fst p = v then f (snd p) else 0) m) = f x"
proof -
  have "sum_list (map (\<lambda>p. if fst p = v then f (snd p) else 0) m) = sum_list (map (\<lambda>p. f (snd p)) (filter (\<lambda>p. fst p = v) m))"
    by (simp add: sum_list_map_filter')
  also have "filter (\<lambda>p. fst p = v) m = [(v, x)]"
    using filter_key[OF assms(1), of v 0] assms(2) by (force simp: get_or_def dest: map_of_SomeD)
  finally show ?thesis by simp
qed

lemma sum_pick: "distinct_keys m \<Longrightarrow> sum_list (map (\<lambda>p. if fst p = v then snd p else 0) m) = get_or (0 :: int) m v"
proof (induction m)
  case (Cons p m)
  then show ?case using get_or_notin[of v m 0] by (cases p) (auto simp: get_or_Cons)
qed (simp add: get_or_def)

lemma hermes_epoch_reward:
  assumes run: "hermes_epoch l ord w planMap voters (e, r) st = Inr st'" and ord: "range_order ord"
    and plan: "map_of planMap e = Some plan" "0 < hp_TotalWeightedVotes plan"
    and votes: "distinct_keys (get_or [] voters e)" "map_of (get_or [] voters e) v = Some x"
  shows "get_or 0 (ht_rewards st') v = get_or 0 (ht_rewards st) v + calculatedDistributedReward plan r * x div hp_TotalWeightedVotes plan"
proof -
  let ?D = "calculatedDistributedReward plan r" and ?T = "hp_TotalWeightedVotes plan"
  obtain sa fw where
    f: "foldE (pay_voter ?D ?T) (ord (get_or [] voters e))
      (st\<lparr>ht_stakingAddress := sa, ht_balance := ht_balance st + source_total r, ht_feeWaiver := fw\<rparr>) = Inr st'"
    using run plan unfolding hermes_epoch_def source_total_def Let_def by (auto simp: andThen_eq_Inr)
  have "sum_list (map (\<lambda>p. if fst p = v then ?D * snd p div ?T else 0) (ord (get_or [] voters e))) = ?D * x div ?T"
    using sum_only_key[OF votes, of "\<lambda>y. ?D * y div ?T"] by (simp add: range_order_sum[OF ord])
  then show ?thesis using pay_voters_reward[OF plan(2) f, of v] by simp
qed

lemma hermes_epoch_distinct:
  assumes "hermes_epoch l ord w planMap voters p st = Inr st'" "distinct_keys (ht_rewards st)"
  shows "distinct_keys (ht_rewards st')"
proof -
  obtain D T ps st1 where f: "foldE (pay_voter D T) ps st1 = Inr st'" and "ht_rewards st1 = ht_rewards st"
    using assms(1) unfolding hermes_epoch_def Let_def
    by (cases p) (fastforce simp: andThen_eq_Inr split: option.splits)
  then show ?thesis
    using assms(2) by (intro foldE_invariant[OF f, where I = "\<lambda>t. distinct_keys (ht_rewards t)"])
      (auto simp: pay_voter_def andThen_eq_Inr)
qed

text \<open>The share of a voter in one epoch.\<close>

definition voter_share :: "(u64 \<times> HermesDistributionPlan) list \<Rightarrow> (u64 \<times> int) list \<Rightarrow> u64 \<times> HermesDistributionSource \<Rightarrow> int" where
  "voter_share planMap weights p =
     (case map_of planMap (fst p) of None \<Rightarrow> 0
      | Some plan \<Rightarrow> calculatedDistributedReward plan (snd p) * get_or 0 weights (fst p) div hp_TotalWeightedVotes plan)"

definition fair_epoch ::
  "(u64 \<times> HermesDistributionPlan) list \<Rightarrow> (u64 \<times> (string \<times> int) list) list \<Rightarrow> (u64 \<times> int) list \<Rightarrow> string \<Rightarrow> u64 \<Rightarrow> bool"
where
  "fair_epoch planMap voters weights v e \<longleftrightarrow>
     (\<exists>plan x. map_of planMap e = Some plan \<and> 0 < hp_TotalWeightedVotes plan \<and> distinct_keys (get_or [] voters e) \<and>
       map_of (get_or [] voters e) v = Some x \<and> map_of weights e = Some x)"

lemma hermes_fold_reward:
  assumes "range_order ord"
  shows "foldE (hermes_epoch l ord w planMap voters) rs st = Inr st' \<Longrightarrow> (\<And>p. p \<in> set rs \<Longrightarrow> fair_epoch planMap voters weights v (fst p)) \<Longrightarrow>
   get_or 0 (ht_rewards st') v = get_or 0 (ht_rewards st) v + sum_list (map (voter_share planMap weights) rs)"
proof (induction rs arbitrary: st)
  case (Cons p rs)
  obtain e r where p: "p = (e, r)" by (cases p)
  obtain st1 where st1: "hermes_epoch l ord w planMap voters (e, r) st = Inr st1"
    "foldE (hermes_epoch l ord w planMap voters) rs st1 = Inr st'"
    using Cons.prems(1) p by (auto simp: andThen_eq_Inr)
  have fair: "fair_epoch planMap voters weights v e" using Cons.prems(2)[of p] p by simp
  then have "get_or 0 (ht_rewards st1) v = get_or 0 (ht_rewards st) v + voter_share planMap weights (e, r)"
    using hermes_epoch_reward[OF st1(1) assms] by (auto simp: fair_epoch_def voter_share_def get_or_def)
  with Cons.IH[OF st1(2)] Cons.prems(2) p show ?case by simp
qed simp

lemma source_fold:
  assumes "\<And>p. p \<in> set rs \<Longrightarrow> fair_epoch (get_or [] planMap delegate) voters (get_or [] weights delegate) v (fst p)"
  shows "source_amount planMap weights (delegate, rs) =
    Inr (delegate, sum_list (map (voter_share (get_or [] planMap delegate) (get_or [] weights delegate)) rs))"
proof -
  let ?f = "\<lambda>p s. s + voter_share (get_or [] planMap delegate) (get_or [] weights delegate) p"
  have "source_amount planMap weights (delegate, rs) = Inr (delegate, fold ?f rs 0)"
    unfolding source_amount_def prod.case
    by (subst foldE_pure[where g = ?f])
      (use assms in \<open>force simp: fair_epoch_def voter_share_def get_or_def big_Div_def\<close>)+
  moreover have "fold ?f rs a = a + sum_list (map (voter_share (get_or [] planMap delegate) (get_or [] weights delegate)) rs)" for a
    by (induction rs arbitrary: a) simp_all
  ultimately show ?thesis by simp
qed



subsection \<open>Bookkeeping of one delegate\<close>

text \<open>The votes a delegate's rows hold in an epoch.\<close>

definition votes_in :: "AggregateVoting list \<Rightarrow> u64 \<times> string \<Rightarrow> int" where
  "votes_in agt k = sum_list (map av_AggregateVotes (filter (\<lambda>r. (av_EpochNumber r, av_CandidateName r) = k) agt))"

lemma add_vote_epoch:
  "get_or [] (add_vote r m) e =
    (if e = av_EpochNumber r then AList.map_default (av_VoterAddress r) (av_AggregateVotes r) (\<lambda>v. v + av_AggregateVotes r) (get_or [] m e)
     else get_or [] m e)"
  by (simp add: add_vote_def get_or_def split: option.splits)

lemma map_default_nonneg:
  "(\<forall>p\<in>set m. (0::int) \<le> snd p) \<Longrightarrow> 0 \<le> v \<Longrightarrow> \<forall>p\<in>set (AList.map_default k v (\<lambda>x. x + v) m). 0 \<le> snd p"
  by (induction m) auto

lemma fold_add_vote:
  assumes "\<forall>r\<in>set rows. 0 \<le> av_AggregateVotes r" "\<forall>p\<in>set (get_or [] m e). 0 \<le> snd p"
  shows "sum_list (map snd (get_or [] (fold add_vote rows m) e)) =
      sum_list (map snd (get_or [] m e)) + sum_list (map av_AggregateVotes (filter (\<lambda>r. av_EpochNumber r = e) rows))
    \<and> (\<forall>p\<in>set (get_or [] (fold add_vote rows m) e). 0 \<le> snd p)"
  using assms
proof (induction rows arbitrary: m)
  case (Cons r rows)
  have "\<forall>p\<in>set (get_or [] (add_vote r m) e). 0 \<le> snd p"
    using Cons.prems map_default_nonneg[of "get_or [] m e" "av_AggregateVotes r" "av_VoterAddress r"]
    by (simp add: add_vote_epoch)
  moreover have "sum_list (map snd (get_or [] (add_vote r m) e)) =
      sum_list (map snd (get_or [] m e)) + (if av_EpochNumber r = e then av_AggregateVotes r else 0)"
    by (simp add: add_vote_epoch sum_map_default)
  ultimately show ?case using Cons.IH[of "add_vote r m"] Cons.prems by simp
qed simp

lemma voterVotes_sum:
  assumes "voterVotes s n name agt = Inr ev" "\<forall>r\<in>set agt. 0 \<le> av_AggregateVotes r" "in_epochs s n e"
  shows "sum_list (map snd (get_or [] ev e)) = votes_in agt (e, name)"
    and "p \<in> set (get_or [] ev e) \<Longrightarrow> 0 \<le> snd p"
proof -
  let ?rows = "filter (\<lambda>r. in_epochs s n (av_EpochNumber r) \<and> av_CandidateName r = name) agt"
  have ev: "ev = fold add_vote ?rows []"
    using assms(1) by (auto simp: voterVotes_def Let_def split: if_splits)
  have "filter (\<lambda>r. av_EpochNumber r = e) ?rows = filter (\<lambda>r. (av_EpochNumber r, av_CandidateName r) = (e, name)) agt"
    using assms(3) by (auto intro!: filter_cong)
  then show "sum_list (map snd (get_or [] ev e)) = votes_in agt (e, name)"
    and "p \<in> set (get_or [] ev e) \<Longrightarrow> 0 \<le> snd p"
    using fold_add_vote[of ?rows "[]" e] assms(2) by (auto simp: ev votes_in_def)
qed

lemma map_of_fold_update:
  "map_of (fold (\<lambda>r. AList.update (k r) (v r)) rows m) e = Some T \<Longrightarrow>
   map_of m e = Some T \<or> (\<exists>r\<in>set rows. k r = e \<and> v r = T)"
proof (induction rows arbitrary: m)
  case (Cons r rows)
  have "map_of (AList.update (k r) (v r) m) e = Some T \<or> (\<exists>r\<in>set rows. k r = e \<and> v r = T)"
    by (rule Cons.IH) (use Cons.prems in simp)
  then show ?case by (auto split: if_splits)
qed simp

lemma totals_of_epoch:
  assumes "totalWeightedVotes s n name vt = Inr totals" "map_of totals e = Some T"
  shows "\<exists>v\<in>set vt. vr_key v = (e, name) \<and> in_epochs s n e \<and> vr_TotalWeightedVotes v = T"
proof -
  let ?rows = "filter (\<lambda>r. in_epochs s n (vr_EpochNumber r) \<and> vr_DelegateName r = name) vt"
  have "totals = fold (\<lambda>r. AList.update (vr_EpochNumber r) (vr_TotalWeightedVotes r)) ?rows []"
    using assms(1) by (simp add: totalWeightedVotes_def Let_def split: if_splits)
  then have "\<exists>r\<in>set ?rows. vr_EpochNumber r = e \<and> vr_TotalWeightedVotes r = T"
    using map_of_fold_update[of vr_EpochNumber vr_TotalWeightedVotes ?rows "[]" e T] assms(2) by simp
  then show ?thesis by (auto simp: vr_key_def)
qed

text \<open>The votes of every row of the result cover the votes of its voters.\<close>

definition votes_covered :: "VotingResult list \<Rightarrow> AggregateVoting list \<Rightarrow> bool" where
  "votes_covered vt agt \<longleftrightarrow> (\<forall>r\<in>set agt. 0 \<le> av_AggregateVotes r) \<and> (\<forall>v\<in>set vt. votes_in agt (vr_key v) \<le> vr_TotalWeightedVotes v)"

lemma split_shares_sum:
  assumes "0 < T"
  shows "foldE (\<lambda>(v, x) m. andThen (big_Div (D * x) T) (\<lambda>amount. Inr (AList.map_default v amount (\<lambda>y. y + amount) m))) ps m = Inr m' \<Longrightarrow>
    sum_list (map snd m') = sum_list (map snd m) + sum_list (map (\<lambda>p. D * snd p div T) ps)"
  using assms by (induction ps arbitrary: m) (auto simp: andThen_eq_Inr big_Div_def sum_map_default)

lemma split_epoch_sum:
  assumes run: "split_epoch ord totals ev (e, D) m = Inr m'" and ord: "range_order ord" and D: "0 \<le> D"
    and totals: "totalWeightedVotes s n name vt = Inr totals" and ev: "voterVotes s n name agt = Inr ev"
    and cov: "votes_covered vt agt"
  shows "sum_list (map snd m') \<le> sum_list (map snd m) + D"
proof -
  obtain T where T: "map_of totals e = Some T" using run by (auto simp: split_epoch_def split: option.splits)
  show ?thesis
  proof (cases "T = 0")
    case True
    then show ?thesis using run T D by (simp add: split_epoch_def)
  next
    case False
    with run T obtain info where info: "map_of ev e = Some info" and
      f: "foldE (\<lambda>(v, x) m. andThen (big_Div (D * x) T) (\<lambda>amount. Inr (AList.map_default v amount (\<lambda>y. y + amount) m))) (ord info) m = Inr m'"
      by (auto simp: split_epoch_def split: option.splits)
    obtain v where v: "v \<in> set vt" "vr_key v = (e, name)" "in_epochs s n e" "vr_TotalWeightedVotes v = T"
      using totals_of_epoch[OF totals T] by blast
    have nonneg: "\<forall>r\<in>set agt. 0 \<le> av_AggregateVotes r" and le: "votes_in agt (e, name) \<le> T"
      using cov v by (auto simp: votes_covered_def)
    have sum: "sum_list (map snd info) = votes_in agt (e, name)"
      using voterVotes_sum(1)[OF ev nonneg v(3)] info by (simp add: get_or_def)
    have "0 \<le> votes_in agt (e, name)"
      unfolding votes_in_def by (rule sum_list_nonneg_int) (use nonneg in auto)
    then have pos: "0 < T" using le False by linarith
    have "sum_list (map (\<lambda>p. D * snd p div T) info) \<le> D"
      by (rule shares_within[OF pos _ D]) (use sum le in simp)
    then show ?thesis using split_shares_sum[OF pos f] by (simp add: range_order_sum[OF ord])
  qed
qed

lemma split_epochs_sum:
  assumes "range_order ord" "totalWeightedVotes s n name vt = Inr totals" "voterVotes s n name agt = Inr ev" "votes_covered vt agt"
  shows "foldE (split_epoch ord totals ev) ps m = Inr m' \<Longrightarrow> \<forall>p\<in>set ps. 0 \<le> snd p \<Longrightarrow>
    sum_list (map snd m') \<le> sum_list (map snd m) + sum_list (map snd ps)"
proof (induction ps arbitrary: m)
  case (Cons p ps)
  obtain e D where p: "p = (e, D)" by (cases p)
  obtain m1 where m1: "split_epoch ord totals ev (e, D) m = Inr m1" "foldE (split_epoch ord totals ev) ps m1 = Inr m'"
    using Cons.prems(1) p by (auto simp: andThen_eq_Inr)
  show ?case
    using split_epoch_sum[OF m1(1) assms(1) _ assms(2-4)] Cons.IH[OF m1(2)] Cons.prems(2) p by simp
qed simp

lemma fold_update_rows:
  assumes "distinct (map k rows)"
  shows "fold (\<lambda>r. AList.update (k r) (v r)) rows [] = map (\<lambda>r. (k r, v r)) rows"
  using assms
proof (induction rows rule: rev_induct)
  case (snoc r rows)
  then have "k r \<notin> keys (map (\<lambda>r. (k r, v r)) rows)" by auto
  with snoc show ?case by (simp add: update_fresh)
qed simp

text \<open>C10: GetBookkeeping never hands out more than the rewards to split: when the totals of the voting
  results cover the votes of the aggregated rows, the sum of what all voters get is at most the
  delegate's rewards of the epochs in the range, scaled by the percentage.\<close>

theorem bookkeeping_never_overpays:
  assumes run: "GetBookkeeping l ordE ord registry startEpoch epochCount delegateName percentage includeBlockReward includeFoundationBonus rt vt agt = Inr ds"
    and ords: "range_order ordE" "range_order ord"
    and rt: "distinct_keys rt" "\<And>k r. (k, r) \<in> set rt \<Longrightarrow> 0 \<le> reward_to_split percentage includeBlockReward includeFoundationBonus r"
    and cov: "votes_covered vt agt"
  shows "sum_list (map (\<lambda>d. amount_of (rd_Amount d)) ds) \<le>
    sum_list (map (\<lambda>(_, r). reward_to_split percentage includeBlockReward includeFoundationBonus r)
      (filter (\<lambda>((e, name), _). in_epochs startEpoch epochCount e \<and> name = delegateName) rt))"
proof -
  let ?split = "reward_to_split percentage includeBlockReward includeFoundationBonus"
  let ?rows = "filter (\<lambda>((e, name), _). in_epochs startEpoch epochCount e \<and> name = delegateName) rt"
  let ?dm = "map (\<lambda>x. (fst (fst x), ?split (snd x))) ?rows"
  obtain totals ev m where totals: "totalWeightedVotes startEpoch epochCount delegateName vt = Inr totals"
    and ev: "voterVotes startEpoch epochCount delegateName agt = Inr ev"
    and m: "foldE (split_epoch ord totals ev) (ordE (fold (\<lambda>x. AList.update (fst (fst x)) (?split (snd x))) ?rows [])) [] = Inr m"
    and ds: "convertVoterDistributionMapToList l ord m = Inr ds"
    using run by (auto simp: GetBookkeeping_def rewardsToSplit_def andThen_eq_Inr Let_def case_prod_unfold split: if_splits)
  have "distinct (map (\<lambda>x. fst (fst x)) ?rows)"
    using rt(1) by (auto simp: distinct_map inj_on_def prod_eq_iff)
  from fold_update_rows[OF this, of "\<lambda>x. ?split (snd x)"] m
  have m: "foldE (split_epoch ord totals ev) (ordE ?dm) [] = Inr m" by simp
  have "sum_list (map (\<lambda>d. amount_of (rd_Amount d)) ds) = sum_list (map snd (ord m))"
    by (simp flip: convert_amounts[OF ds] add: comp_def)
  also have "\<dots> = sum_list (map snd m)" by (rule range_order_sum[OF ords(2)])
  also have "\<dots> \<le> sum_list (map snd ?dm)"
    using split_epochs_sum[OF ords(2) totals ev cov m] rt(2) ords(1) by (force simp: range_order_sum)
  finally show ?thesis by (simp add: comp_def case_prod_unfold)
qed

lemma bookkeeping_never_overpays_witness:
  "\<exists>ds. GetBookkeeping address_libs (\<lambda>xs. xs) rev [(''rewards'', ())] 7 1 ''d'' 80 True False
      [((7, ''d''), \<lparr>ri_BlockReward = 100, ri_EpochReward = 100, ri_FoundationBonus = 10\<rparr>)] [sample_result]
      [\<lparr>av_EpochNumber = 7, av_CandidateName = ''d'', av_VoterAddress = ''v1'', av_NativeFlag = False, av_AggregateVotes = 20\<rparr>] = Inr ds
    \<and> sum_list (map (\<lambda>d. amount_of (rd_Amount d)) ds) \<le> 160"
proof -
  let ?run = "GetBookkeeping address_libs (\<lambda>xs. xs) rev [(''rewards'', ())] 7 1 ''d'' 80 True False
      [((7, ''d''), \<lparr>ri_BlockReward = 100, ri_EpochReward = 100, ri_FoundationBonus = 10\<rparr>)] [sample_result]
      [\<lparr>av_EpochNumber = 7, av_CandidateName = ''d'', av_VoterAddress = ''v1'', av_NativeFlag = False, av_AggregateVotes = 20\<rparr>]"
  have "\<not> isl ?run" by code_simp
  from sum.collapse(2)[OF this] obtain ds where run: "?run = Inr ds" by metis
  have "sum_list (map (\<lambda>d. amount_of (rd_Amount d)) ds) \<le> 160"
    by (rule bookkeeping_never_overpays[OF run, THEN order_trans])
      (auto simp: votes_covered_def votes_in_def vr_key_def sample_result_def reward_to_split_def in_epochs_def)
  with run show ?thesis by blast
qed

end
