(* ===== verification/Query_Votings.thy ===== *)
theory Query_Votings imports Query_Base begin

text \<open>
  \<open>queryprotocol/votings/protocol.go\<close>: buckets by voter and by candidate, the votes of a delegate,
  candidates per epoch, staking, names and the rate of probation. The epochs of the probation rate
  are GraphQL integers (32 bits) in Go's 64-bit \<open>int\<close>, so they are integers here.
\<close>

subsection \<open>Data\<close>

record CandidateMeta =
  cm_EpochNumber :: u64
  cm_VotedTokens :: string
  cm_NumberOfCandidates :: u64
  cm_TotalWeightedVotes :: string

record StakingInfo =
  si_EpochNumber :: u64
  si_TotalStaking :: string
  si_SelfStaking :: string

record CandidateInfo =
  ci_Name :: string
  ci_Address :: string
  ci_TotalWeightedVotes :: string
  ci_SelfStakingTokens :: string
  ci_OperatorAddress :: string
  ci_RewardAddress :: string

subsection \<open>Buckets\<close>

text \<open>
  The newest row of each bucket, sorted by \<open>ORDER BY id\<close>, the primary key.
  \<open>votings.ParseBuckets\<close> gives the buckets by row id.
\<close>

definition ParseBuckets :: "(int \<Rightarrow> go_error + int) \<Rightarrow> StakingBucket stored_row list \<Rightarrow> go_error + (nat \<times> VoteBucket) list" where
  "ParseBuckets proto rows =
     andThen (some_rows rows) (\<lambda>rows.
     mapE (\<lambda>row. andThen (parse_bucket proto (sr_cols row)) (\<lambda>b. Inr (sr_id row, b))) rows)"

definition BucketsByVoter ::
  "(int \<Rightarrow> go_error + int) \<Rightarrow> 'p registry \<Rightarrow> string \<Rightarrow> u64 \<Rightarrow> u64 \<Rightarrow> StakingBucket stored_row list \<Rightarrow>
   go_error + (nat \<times> VoteBucket) list"
where
  "BucketsByVoter proto registry voter offset sz t =
     andThen (registered ''voting'' ''votings'' registry) (\<lambda>_.
     ParseBuckets proto (limit offset sz (sort_key sr_id (filter (\<lambda>r. sb_Owner (sr_cols r) = voter) (newest t)))))"

text \<open>The owner is read from any row of the candidate's name. Unstaked buckets are dropped from the page.\<close>

definition BucketsByCandidate ::
  "(int \<Rightarrow> go_error + int) \<Rightarrow> (candidateStruct stored_row list \<Rightarrow> candidateStruct stored_row list) \<Rightarrow> 'p registry \<Rightarrow>
   string \<Rightarrow> u64 \<Rightarrow> u64 \<Rightarrow> candidateStruct stored_row list \<Rightarrow> StakingBucket stored_row list \<Rightarrow> go_error + (nat \<times> VoteBucket) list"
where
  "BucketsByCandidate proto ord registry candidate offset sz ct t =
     andThen (registered ''voting'' ''votings'' registry) (\<lambda>_.
     andThen (wrap ''failed to query candidate address''
       (case ord (filter (\<lambda>c. cs_Name (sr_cols c) = candidate) ct) of
          [] \<Rightarrow> Inl (ErrSQL ''no rows in result set'') | c # _ \<Rightarrow> Inr (cs_Owner (sr_cols c)))) (\<lambda>candidateAddr.
     andThen (ParseBuckets proto
       (limit offset sz (sort_key sr_id (filter (\<lambda>r. sb_Candidate (sr_cols r) = candidateAddr) (newest t))))) (\<lambda>buckets.
     Inr (filter (\<lambda>(_, b). vb_UnstakeStartTime b \<le> vb_StakeStartTime b) buckets))))"

subsection \<open>Votes and candidates per epoch\<close>

definition last_epoch :: "u64 \<Rightarrow> u64 \<Rightarrow> u64 \<Rightarrow> u64" where
  "last_epoch startEpoch epochCount currentEpoch =
     (let endEpoch = startEpoch + epochCount - 1 in if currentEpoch < endEpoch then currentEpoch else endEpoch)"

text \<open>
  \<open>None\<close>: the loop over the epochs does not end. \<open>infos\<close> is \<open>GetBucketInfoByEpoch\<close> of the registered
  votings protocol, with its tables.
\<close>

definition GetBucketInformation ::
  "(u64 \<Rightarrow> string \<Rightarrow> go_error + VotingInfo list) \<Rightarrow> 'p registry \<Rightarrow> u64 \<Rightarrow> u64 \<Rightarrow> string \<Rightarrow> blocks_db \<Rightarrow>
   (go_error + (u64 \<times> VotingInfo list) list) option"
where
  "GetBucketInformation infos registry startEpoch epochCount delegateName db =
     (case registered ''voting'' ''votings'' registry of Inl e \<Rightarrow> Some (Inl e) | Inr _ \<Rightarrow>
      case GetCurrentEpochAndHeight registry db of Inl _ \<Rightarrow> Some (Inl (ErrMsg ''failed to get most recent epoch''))
      | Inr (currentEpoch, _) \<Rightarrow>
          for_upto (\<lambda>i m. andThen (infos i delegateName) (\<lambda>voteInfoList. Inr (AList.update i voteInfoList m)))
            (last_epoch startEpoch epochCount currentEpoch) startEpoch [])"

definition GetStaking :: "'p registry \<Rightarrow> u64 \<Rightarrow> u64 \<Rightarrow> string \<Rightarrow> VotingResult list \<Rightarrow> go_error + StakingInfo list" where
  "GetStaking registry startEpoch epochCount delegateName vt =
     andThen (registered ''voting'' ''votings'' registry) (\<lambda>_.
     andThen (some_rows (filter (\<lambda>r. in_epochs startEpoch epochCount (vr_EpochNumber r) \<and> vr_DelegateName r = delegateName) vt)) (\<lambda>rows.
     Inr (map (\<lambda>r. \<lparr>si_EpochNumber = vr_EpochNumber r, si_TotalStaking = big_String (vr_TotalWeightedVotes r),
       si_SelfStaking = big_String (vr_SelfStaking r)\<rparr>) rows)))"

definition GetCandidateMeta :: "Config \<Rightarrow> 'p registry \<Rightarrow> u64 \<Rightarrow> u64 \<Rightarrow> VotingMeta list \<Rightarrow> go_error + CandidateMeta list \<times> u64" where
  "GetCandidateMeta cfg registry startEpoch epochCount mt =
     andThen (registered ''voting'' ''votings'' registry) (\<lambda>_.
     andThen (some_rows (filter (\<lambda>r. in_epochs startEpoch epochCount (vm_EpochNumber r)) mt)) (\<lambda>rows.
     Inr (map (\<lambda>r. \<lparr>cm_EpochNumber = vm_EpochNumber r, cm_VotedTokens = big_String (vm_VotedToken r),
       cm_NumberOfCandidates = of_nat (vm_DelegateCount r), cm_TotalWeightedVotes = big_String (vm_TotalWeighted r)\<rparr>) rows,
       cfg_NumCandidateDelegates cfg)))"

definition getCandidateInfoByEpoch :: "u64 \<Rightarrow> VotingResult list \<Rightarrow> go_error + CandidateInfo list" where
  "getCandidateInfoByEpoch epochNumber vt =
     andThen (some_rows (filter (\<lambda>r. vr_EpochNumber r = epochNumber) vt)) (\<lambda>rows.
     Inr (map (\<lambda>r. \<lparr>ci_Name = vr_DelegateName r, ci_Address = vr_StakingAddress r,
       ci_TotalWeightedVotes = big_String (vr_TotalWeightedVotes r), ci_SelfStakingTokens = big_String (vr_SelfStaking r),
       ci_OperatorAddress = vr_OperatorAddress r, ci_RewardAddress = vr_RewardAddress r\<rparr>) rows))"

definition GetCandidates ::
  "'p registry \<Rightarrow> u64 \<Rightarrow> u64 \<Rightarrow> blocks_db \<Rightarrow> VotingResult list \<Rightarrow> (go_error + (u64 \<times> CandidateInfo list) list) option"
where
  "GetCandidates registry startEpoch epochCount db vt =
     (case registered ''voting'' ''votings'' registry of Inl e \<Rightarrow> Some (Inl e) | Inr _ \<Rightarrow>
      case GetCurrentEpochAndHeight registry db of Inl _ \<Rightarrow> Some (Inl (ErrMsg ''failed to get most recent epoch''))
      | Inr (currentEpoch, _) \<Rightarrow>
          for_upto (\<lambda>i m. andThen (getCandidateInfoByEpoch i vt) (\<lambda>voteInfoList. Inr (AList.update i voteInfoList m)))
            (last_epoch startEpoch epochCount currentEpoch) startEpoch [])"

subsection \<open>Names\<close>

text \<open>\<open>ORDER BY epoch_number DESC LIMIT 1\<close>; \<open>sql.ErrNoRows\<close> becomes \<open>ErrNotExist\<close>.\<close>

definition latest_result ::
  "(VotingResult list \<Rightarrow> VotingResult list) \<Rightarrow> (VotingResult \<Rightarrow> bool) \<Rightarrow> VotingResult list \<Rightarrow> go_error + VotingResult"
where
  "latest_result ord P vt =
     (case order_desc ord vr_EpochNumber (filter P vt) of [] \<Rightarrow> Inl ErrNotExist | r # _ \<Rightarrow> Inr r)"

definition GetAlias :: "(VotingResult list \<Rightarrow> VotingResult list) \<Rightarrow> 'p registry \<Rightarrow> string \<Rightarrow> VotingResult list \<Rightarrow> go_error + string" where
  "GetAlias ord registry operatorAddress vt =
     andThen (registered ''voting'' ''votings'' registry) (\<lambda>_.
     andThen (latest_result ord (\<lambda>r. vr_OperatorAddress r = operatorAddress) vt) (\<lambda>r. Inr (vr_DelegateName r)))"

definition GetOperatorAddress :: "(VotingResult list \<Rightarrow> VotingResult list) \<Rightarrow> 'p registry \<Rightarrow> string \<Rightarrow> VotingResult list \<Rightarrow> go_error + string" where
  "GetOperatorAddress ord registry aliasName vt =
     andThen (registered ''voting'' ''votings'' registry) (\<lambda>_.
     andThen (latest_result ord (\<lambda>r. vr_DelegateName r = aliasName) vt) (\<lambda>r. Inr (vr_OperatorAddress r)))"

subsection \<open>The rate of probation\<close>

definition getAppearingCount :: "int \<Rightarrow> int \<Rightarrow> string \<Rightarrow> VotingResult list \<Rightarrow> go_error + u64" where
  "getAppearingCount startEpoch epochCount delegateName vt =
     Inr (of_nat (length (filter (\<lambda>r. startEpoch \<le> uint (vr_EpochNumber r) \<and> uint (vr_EpochNumber r) < startEpoch + epochCount
       \<and> vr_DelegateName r = delegateName) vt)))"

definition getOperatorAddress ::
  "(VotingResult list \<Rightarrow> VotingResult list) \<Rightarrow> 'p registry \<Rightarrow> string \<Rightarrow> int \<Rightarrow> VotingResult list \<Rightarrow> go_error + string"
where
  "getOperatorAddress ord registry delegateName epoch vt =
     andThen (registered ''voting'' ''votings'' registry) (\<lambda>_.
     andThen (latest_result ord (\<lambda>r. vr_DelegateName r = delegateName \<and> uint (vr_EpochNumber r) \<le> epoch) vt) (\<lambda>r.
     Inr (vr_OperatorAddress r)))"

text \<open>\<open>fmt.Sprintf("%0.2f", rate)\<close> of a rate that is not negative.\<close>

definition fmt_2f :: "f64 \<Rightarrow> string" where
  "fmt_2f q =
     (let n = nat (round_half_even (q * 100))
      in show_nat (n div 100) @ ''.'' @ [digit_char (n mod 100 div 10), digit_char (n mod 10)])"

definition probation_step ::
  "(VotingResult list \<Rightarrow> VotingResult list) \<Rightarrow> 'p registry \<Rightarrow> string \<Rightarrow> VotingResult list \<Rightarrow> ProbationList list \<Rightarrow>
   int \<Rightarrow> u64 \<Rightarrow> go_error + u64"
where
  "probation_step ord registry delegateName vt pt i probationCount =
     (case getOperatorAddress ord registry delegateName i vt of
        Inl e \<Rightarrow> if cause e = ErrNotExist then Inr probationCount else Inl e
      | Inr address \<Rightarrow>
          (case RowExists (filter (\<lambda>p. uint (pb_EpochNumber p) = i \<and> pb_Address p = address) pt) of
             Inr True \<Rightarrow> Inr (probationCount + 1) | _ \<Rightarrow> Inr probationCount))"

definition GetProbationHistoricalRate ::
  "(VotingResult list \<Rightarrow> VotingResult list) \<Rightarrow> 'p registry \<Rightarrow> int \<Rightarrow> int \<Rightarrow> string \<Rightarrow> VotingResult list \<Rightarrow>
   ProbationList list \<Rightarrow> go_error + string"
where
  "GetProbationHistoricalRate ord registry startEpoch epochCount delegateName vt pt =
     andThen (registered ''voting'' ''votings'' registry) (\<lambda>_.
     case getAppearingCount startEpoch epochCount delegateName vt of
       Inl _ \<Rightarrow> Inl (ErrMsg ''get Appearing Count error'')
     | Inr appearingCount \<Rightarrow>
         if appearingCount = 0 then Inr ''0''
         else
           andThen (foldE (probation_step ord registry delegateName vt pt) [startEpoch..startEpoch + epochCount - 1] 0) (\<lambda>probationCount.
           Inr (fmt_2f (f64_div (f64_of_int (uint probationCount)) (f64_of_int (uint appearingCount))))))"

end
