(* ===== verification/Query_Votings_Laws.thy ===== *)
theory Query_Votings_Laws imports Query_Votings begin

text \<open>
  What the votings queries answer: the loops over epochs end and list every epoch, names come from
  the latest epoch, pages of buckets put together are all newest buckets, and what the probation
  rate counts.
\<close>

subsection \<open>Epoch by epoch\<close>

lemma fold_epochs_map:
  assumes "foldE (\<lambda>i m. andThen (f i) (\<lambda>v. Inr (AList.update i v m))) is m = Inr m'"
  shows "map_of m' e = (if e \<in> set is then (case f e of Inl _ \<Rightarrow> None | Inr v \<Rightarrow> Some v) else map_of m e)"
    and "i \<in> set is \<Longrightarrow> \<exists>v. f i = Inr v"
proof -
  have "map_of m' e = (if e \<in> set is then (case f e of Inl _ \<Rightarrow> None | Inr v \<Rightarrow> Some v) else map_of m e)
    \<and> (\<forall>i \<in> set is. \<exists>v. f i = Inr v)"
    using assms
  proof (induction "is" arbitrary: m)
    case (Cons j js)
    obtain v where v: "f j = Inr v" "foldE (\<lambda>i m. andThen (f i) (\<lambda>v. Inr (AList.update i v m))) js (AList.update j v m) = Inr m'"
      using Cons.prems by (auto simp: andThen_eq_Inr)
    show ?case using Cons.IH[OF v(2)] v(1) by auto
  qed simp
  then show "map_of m' e = (if e \<in> set is then (case f e of Inl _ \<Rightarrow> None | Inr v \<Rightarrow> Some v) else map_of m e)"
    and "i \<in> set is \<Longrightarrow> \<exists>v. f i = Inr v" by auto
qed

lemma set_upto_u64:
  "(e :: u64) \<in> of_nat ` set [unat i..<Suc (unat endE)] \<longleftrightarrow> i \<le> e \<and> e \<le> endE"
proof
  assume "e \<in> of_nat ` set [unat i..<Suc (unat endE)]"
  then obtain n where "e = of_nat n" "unat i \<le> n" "n \<le> unat endE" by auto
  moreover from this have "n < 2 ^ 64" using unat_u64_less[of endE] by linarith
  with \<open>e = of_nat n\<close> have "unat e = n" by (simp add: unsigned_of_nat take_bit_nat_eq_self)
  ultimately show "i \<le> e \<and> e \<le> endE" by (simp add: word_le_nat_alt)
next
  assume "i \<le> e \<and> e \<le> endE"
  then show "e \<in> of_nat ` set [unat i..<Suc (unat endE)]"
    by (intro image_eqI[of _ _ "unat e"]) (auto simp: word_le_nat_alt)
qed

lemma for_upto_map:
  assumes "endE < - 1"
  shows "\<exists>r. for_upto (\<lambda>i m. andThen (f i) (\<lambda>v. Inr (AList.update i v m))) endE start [] = Some r \<and>
    (\<forall>m. r = Inr m \<longrightarrow> (\<forall>e. map_of m e = (if start \<le> e \<and> e \<le> endE then Some (projr (f e)) else None) \<and>
       (start \<le> e \<and> e \<le> endE \<longrightarrow> (\<exists>v. f e = Inr v))))"
proof -
  define ns where "ns = (map of_nat [unat start..<Suc (unat endE)] :: u64 list)"
  have ns: "e \<in> set ns \<longleftrightarrow> start \<le> e \<and> e \<le> endE" for e
    unfolding ns_def by (simp only: set_map set_upto_u64)
  have "map_of m e = (if start \<le> e \<and> e \<le> endE then Some (projr (f e)) else None) \<and>
      (start \<le> e \<and> e \<le> endE \<longrightarrow> (\<exists>v. f e = Inr v))"
    if m: "foldE (\<lambda>i m. andThen (f i) (\<lambda>v. Inr (AList.update i v m))) ns [] = Inr m" for m e
    using fold_epochs_map(1)[OF m, of e] fold_epochs_map(2)[OF m, of e] by (cases "f e") (auto simp: ns)
  note all = this
  show ?thesis
    by (intro exI conjI, rule for_upto_returns[OF assms, of _ start, folded ns_def]) (use all in blast)
qed

lemma last_epoch_le: "last_epoch s n c \<le> c"
  by (simp add: last_epoch_def Let_def not_less)

text \<open>C32: GetCandidates returns for every range, and where it returns no error the map has
  exactly the epochs from the start up to the last epoch asked for or reached, each with the delegates of
  its voting result in their order, none of them without delegates; below the largest uint64 the loop
  over the epochs ends.\<close>

theorem candidates_of_every_epoch:
  assumes "Find ''voting'' registry \<noteq> None" "GetCurrentEpochAndHeight registry db = Inr (currentEpoch, tip)" "currentEpoch < - 1"
  shows "\<exists>r. GetCandidates registry startEpoch epochCount db vt = Some r \<and>
    (\<forall>m. r = Inr m \<longrightarrow> (\<forall>e. if startEpoch \<le> e \<and> e \<le> last_epoch startEpoch epochCount currentEpoch
       then map_of m e \<noteq> None \<and> map ci_Name (the (map_of m e)) = map vr_DelegateName (filter (\<lambda>r. vr_EpochNumber r = e) vt)
         \<and> the (map_of m e) \<noteq> []
       else map_of m e = None))"
proof -
  have le: "last_epoch startEpoch epochCount currentEpoch < - 1"
    using last_epoch_le assms(3) by (rule le_less_trans)
  have info: "getCandidateInfoByEpoch e vt = Inr v \<Longrightarrow>
      map ci_Name v = map vr_DelegateName (filter (\<lambda>r. vr_EpochNumber r = e) vt) \<and> v \<noteq> []" for e v
    by (auto simp: getCandidateInfoByEpoch_def andThen_eq_Inr)
  obtain r where r: "for_upto (\<lambda>i m. andThen (getCandidateInfoByEpoch i vt) (\<lambda>v. Inr (AList.update i v m)))
      (last_epoch startEpoch epochCount currentEpoch) startEpoch [] = Some r"
    and m: "\<And>m e. r = Inr m \<Longrightarrow> map_of m e = (if startEpoch \<le> e \<and> e \<le> last_epoch startEpoch epochCount currentEpoch
        then Some (projr (getCandidateInfoByEpoch e vt)) else None) \<and>
      (startEpoch \<le> e \<and> e \<le> last_epoch startEpoch epochCount currentEpoch \<longrightarrow> (\<exists>v. getCandidateInfoByEpoch e vt = Inr v))"
    using for_upto_map[OF le, of "\<lambda>e. getCandidateInfoByEpoch e vt" startEpoch] by blast
  have "GetCandidates registry startEpoch epochCount db vt = Some r"
    using assms(1,2) r by (auto simp: GetCandidates_def registered_def)
  then show ?thesis using m info by (fastforce intro!: exI[of _ r])
qed

subsection \<open>The latest epoch\<close>

lemma order_desc_hd:
  assumes "range_order ord" "order_desc ord key rows = r # rs"
  shows "r \<in> set rows" and "x \<in> set rows \<Longrightarrow> key x \<le> key r"
proof -
  have set: "set (r # rs) = set rows" using assms by (metis set_order_desc)
  then show "r \<in> set rows" by auto
  have "sorted (rev (map key (r # rs)))" using sorted_order_desc[of key ord rows] assms(2) by simp
  then have "\<forall>x \<in> set rs. key x \<le> key r" by (simp add: sorted_append)
  then show "x \<in> set rows \<Longrightarrow> key x \<le> key r" using set by auto
qed

lemma latest_result_Inr:
  assumes "range_order ord" "latest_result ord P vt = Inr r"
  shows "r \<in> set vt" "P r" "x \<in> set vt \<Longrightarrow> P x \<Longrightarrow> vr_EpochNumber x \<le> vr_EpochNumber r"
  using order_desc_hd[of ord vr_EpochNumber "filter P vt" r] assms
  by (auto simp: latest_result_def split: list.splits)

lemma latest_result_none:
  "range_order ord \<Longrightarrow> latest_result ord P vt = Inl e \<longleftrightarrow> e = ErrNotExist \<and> (\<forall>r \<in> set vt. \<not> P r)"
proof -
  assume "range_order ord"
  then have "order_desc ord vr_EpochNumber (filter P vt) = [] \<longleftrightarrow> filter P vt = []"
    by (metis length_0_conv length_order_desc)
  then show ?thesis by (auto simp: latest_result_def filter_empty_conv split: list.splits)
qed

text \<open>GetAlias answers with the name under which the operator address stands in its latest
  epoch, and ErrNotExist exactly when it stands nowhere in the voting results.\<close>

theorem alias_is_latest_name:
  assumes "range_order ord" "Find ''voting'' registry \<noteq> None"
  shows "case GetAlias ord registry operatorAddress vt of
      Inl e \<Rightarrow> e = ErrNotExist \<and> operatorAddress \<notin> vr_OperatorAddress ` set vt
    | Inr name \<Rightarrow> \<exists>r \<in> set vt. vr_OperatorAddress r = operatorAddress \<and> vr_DelegateName r = name \<and>
        (\<forall>x \<in> set vt. vr_OperatorAddress x = operatorAddress \<longrightarrow> vr_EpochNumber x \<le> vr_EpochNumber r)"
proof (cases "latest_result ord (\<lambda>r. vr_OperatorAddress r = operatorAddress) vt")
  case (Inl e)
  have "e = ErrNotExist" "operatorAddress \<notin> vr_OperatorAddress ` set vt"
    using iffD1[OF latest_result_none[OF assms(1)] Inl] by auto
  with Inl show ?thesis using assms(2) by (auto simp: GetAlias_def registered_def)
next
  case (Inr r)
  then have "GetAlias ord registry operatorAddress vt = Inr (vr_DelegateName r)"
    using assms(2) by (auto simp: GetAlias_def registered_def)
  moreover note l = latest_result_Inr[OF assms(1) Inr]
  ultimately show ?thesis by (auto intro!: bexI[OF _ l(1)] simp: l(2) dest: l(3))
qed

definition result_at :: "u64 \<Rightarrow> string \<Rightarrow> string \<Rightarrow> VotingResult" where
  "result_at e name operator = \<lparr>vr_EpochNumber = e, vr_DelegateName = name, vr_OperatorAddress = operator, vr_RewardAddress = ''r'',
     vr_TotalWeightedVotes = 30, vr_SelfStaking = 0, vr_BlockRewardPercentage = 50, vr_EpochRewardPercentage = 80,
     vr_FoundationBonusPercentage = 0, vr_StakingAddress = ''aa''\<rparr>"

definition tip_block :: BlockHistory where
  "tip_block =
     \<lparr>bk_EpochNumber = 4, bk_BlockHeight = 9, bk_BlockHash = [], bk_Transfer = 0, bk_Execution = 0,
      bk_DepositToRewaringFund = 0, bk_ClaimFromRewardingFund = 0, bk_GrantReward = 0, bk_PutPollResult = 0,
      bk_StakeCreate = 0, bk_StakeUnstake = 0, bk_StakeWithdraw = 0, bk_StakeAddDeposit = 0, bk_StakeRestake = 0,
      bk_StakeChangeCandidate = 0, bk_StakeTransferOwnership = 0, bk_CandidateRegister = 0, bk_CandidateUpdate = 0,
      bk_GasConsumed = 0, bk_ProducerAddress = [], bk_ProducerName = [], bk_ExpectedProducerAddress = [],
      bk_ExpectedProducerName = [], bk_Timestamp = 0\<rparr>"

definition tip_db :: blocks_db where
  "tip_db = \<lparr>block_history = [tip_block], expected_producer_history = [], producer_history = [], productivity_history = []\<rparr>"

lemma candidates_of_every_epoch_witness:
  "\<exists>r. GetCandidates [(''voting'', ()), (''blocks'', ())] 3 9 tip_db [result_at 3 ''a'' ''p'', result_at 4 ''b'' ''q''] = Some r \<and>
    (\<forall>m. r = Inr m \<longrightarrow> map ci_Name (the (map_of m 4)) = [''b''])"
proof -
  have tip: "GetCurrentEpochAndHeight [(''voting'', ()), (''blocks'', ())] tip_db = Inr (4, 9)" by code_simp
  have last: "last_epoch 3 9 4 = 4" by code_simp
  show ?thesis
    using candidates_of_every_epoch[OF _ tip, of 3 9 "[result_at 3 ''a'' ''p'', result_at 4 ''b'' ''q'']"]
    by (fastforce simp: last Find_def result_at_def dest: spec[of _ 4])
qed

lemma alias_is_latest_name_witness:
  "case GetAlias rev [(''voting'', ())] ''p'' [result_at 3 ''a'' ''p'', result_at 4 ''b'' ''p''] of
      Inl e \<Rightarrow> e = ErrNotExist \<and> ''p'' \<notin> vr_OperatorAddress ` set [result_at 3 ''a'' ''p'', result_at 4 ''b'' ''p'']
    | Inr name \<Rightarrow> \<exists>r \<in> set [result_at 3 ''a'' ''p'', result_at 4 ''b'' ''p'']. vr_OperatorAddress r = ''p'' \<and> vr_DelegateName r = name \<and>
        (\<forall>x \<in> set [result_at 3 ''a'' ''p'', result_at 4 ''b'' ''p'']. vr_OperatorAddress x = ''p'' \<longrightarrow> vr_EpochNumber x \<le> vr_EpochNumber r)"
  by (rule alias_is_latest_name) (simp_all add: Find_def)

subsection \<open>Buckets\<close>

text \<open>All newest buckets of a voter, in the order of their ids.\<close>

definition voter_rows :: "string \<Rightarrow> StakingBucket stored_row list \<Rightarrow> StakingBucket stored_row list" where
  "voter_rows voter t = sort_key sr_id (filter (\<lambda>r. sb_Owner (sr_cols r) = voter) (newest t))"

lemma newest_iff:
  "r \<in> set (newest t) \<longleftrightarrow> r \<in> set t \<and> (\<forall>s \<in> set t. sb_Index (sr_cols s) = sb_Index (sr_cols r) \<longrightarrow> sr_id s \<le> sr_id r)"
proof -
  let ?ids = "\<lambda>r. set (map sr_id (filter (\<lambda>s. sb_Index (sr_cols s) = sb_Index (sr_cols r)) t))"
  have "sr_id r = Max (?ids r) \<longleftrightarrow> (\<forall>i \<in> ?ids r. i \<le> sr_id r)" if "r \<in> set t"
  proof -
    have "sr_id r \<in> ?ids r" using that by auto
    then show ?thesis by (metis Max.coboundedI Max_in List.finite_set antisym empty_iff)
  qed
  then show ?thesis by (auto simp: newest_def)
qed

lemma newest_once:
  assumes "distinct (map sr_id t)" "r \<in> set (newest t)" "s \<in> set (newest t)" "sb_Index (sr_cols r) = sb_Index (sr_cols s)"
  shows "r = s"
proof -
  have "sr_id r = sr_id s" "r \<in> set t" "s \<in> set t" using assms(2-4) by (auto simp: newest_iff intro: antisym)
  then show ?thesis using assms(1) by (metis distinct_map inj_onD)
qed

lemma voter_rows_set [simp]: "set (voter_rows voter t) = {r \<in> set (newest t). sb_Owner (sr_cols r) = voter}"
  by (simp add: voter_rows_def)

lemma distinct_newest: "distinct (map sr_id t) \<Longrightarrow> distinct (newest t)"
  by (simp add: newest_def distinct_map)

lemma ParseBuckets_page:
  assumes "\<And>r. r \<in> set rows \<Longrightarrow> parse_bucket proto (sr_cols r) = Inr (bucket r)"
  shows "(case ParseBuckets proto rows of Inl _ \<Rightarrow> [] | Inr m \<Rightarrow> m) = map (\<lambda>r. (sr_id r, bucket r)) rows"
proof (cases "rows = []")
  case False
  then have "ParseBuckets proto rows = Inr (map (\<lambda>r. (sr_id r, bucket r)) rows)"
    using assms by (simp add: ParseBuckets_def some_rows_def mapE_map)
  then show ?thesis by simp
qed (simp add: ParseBuckets_def some_rows_def)

lemma voter_pages_list_each_bucket_once_parts:
  assumes "Find ''voting'' registry \<noteq> None" "distinct (map sr_id t)"
    and parse: "\<And>r. r \<in> set t \<Longrightarrow> parse_bucket proto (sr_cols r) = Inr (bucket r)"
    and size: "k * n < 2 ^ 64" "0 < n" "length (voter_rows voter t) \<le> k * n"
  shows "concat (map (\<lambda>i. case BucketsByVoter proto registry voter (of_nat (i * n)) (of_nat n) t of Inl _ \<Rightarrow> [] | Inr m \<Rightarrow> m) [0..<k]) =
      map (\<lambda>r. (sr_id r, bucket r)) (voter_rows voter t)"
    and "distinct (map (sb_Index \<circ> sr_cols) (voter_rows voter t))"
proof -
  let ?rows = "voter_rows voter t"
  have page: "(case BucketsByVoter proto registry voter (of_nat (i * n)) (of_nat n) t of Inl _ \<Rightarrow> [] | Inr m \<Rightarrow> m) =
      map (\<lambda>r. (sr_id r, bucket r)) (take n (drop (i * n) ?rows))" if "i < k" for i
  proof -
    have "i * n < k * n" "n \<le> k * n" using that size(2) by (simp_all add: Suc_le_eq)
    then have "i * n < 2 ^ 64" "n < 2 ^ 64" using size(1) by linarith+
    note lim = limit_page[OF this, of ?rows]
    have "r \<in> set (take n (drop (i * n) ?rows)) \<Longrightarrow> r \<in> set t" for r
      using in_set_takeD[of r n "drop (i * n) ?rows"] in_set_dropD[of r "i * n" ?rows]
      by (auto simp: newest_iff)
    then have "(case ParseBuckets proto (take n (drop (i * n) ?rows)) of Inl _ \<Rightarrow> [] | Inr m \<Rightarrow> m) =
        map (\<lambda>r. (sr_id r, bucket r)) (take n (drop (i * n) ?rows))"
      by (intro ParseBuckets_page) (simp add: parse)
    moreover have "BucketsByVoter proto registry voter (of_nat (i * n)) (of_nat n) t =
        ParseBuckets proto (take n (drop (i * n) ?rows))"
      using assms(1) lim by (auto simp: BucketsByVoter_def registered_def voter_rows_def simp del: of_nat_mult)
    ultimately show ?thesis by simp
  qed
  have "concat (map (\<lambda>i. case BucketsByVoter proto registry voter (of_nat (i * n)) (of_nat n) t of Inl _ \<Rightarrow> [] | Inr m \<Rightarrow> m) [0..<k])
      = concat (map (\<lambda>i. map (\<lambda>r. (sr_id r, bucket r)) (take n (drop (i * n) ?rows))) [0..<k])"
    by (rule arg_cong[where f = concat], rule map_cong[OF refl]) (simp add: page del: of_nat_mult)
  also have "\<dots> = map (\<lambda>r. (sr_id r, bucket r)) (concat (map (\<lambda>i. take n (drop (i * n) ?rows)) [0..<k]))"
    by (simp add: map_concat comp_def)
  also have "\<dots> = map (\<lambda>r. (sr_id r, bucket r)) ?rows"
    using size(3) by (simp add: pages_concat)
  finally show "concat (map (\<lambda>i. case BucketsByVoter proto registry voter (of_nat (i * n)) (of_nat n) t of Inl _ \<Rightarrow> [] | Inr m \<Rightarrow> m) [0..<k]) =
      map (\<lambda>r. (sr_id r, bucket r)) ?rows" .
  have "distinct ?rows" using distinct_newest[OF assms(2)] by (simp add: voter_rows_def)
  then show "distinct (map (sb_Index \<circ> sr_cols) ?rows)"
    using newest_once[OF assms(2)] by (auto simp: distinct_map inj_on_def)
qed

text \<open>C21: The pages of BucketsByVoter, one after the other, list all buckets of the voter in
  the order of their record ids, each bucket index once with its newest record; no row is lost or
  repeated between pages.\<close>

theorem voter_pages_list_each_bucket_once:
  assumes "Find ''voting'' registry \<noteq> None" "distinct (map sr_id t)"
    and parse: "\<And>r. r \<in> set t \<Longrightarrow> parse_bucket proto (sr_cols r) = Inr (bucket r)"
    and size: "k * n < 2 ^ 64" "0 < n" "length (voter_rows voter t) \<le> k * n"
  shows "(concat (map (\<lambda>i. case BucketsByVoter proto registry voter (of_nat (i * n)) (of_nat n) t of Inl _ \<Rightarrow> [] | Inr m \<Rightarrow> m) [0..<k]) =
      map (\<lambda>r. (sr_id r, bucket r)) (voter_rows voter t)) \<and>
     (distinct (map (sb_Index \<circ> sr_cols) (voter_rows voter t)))"
  by (intro conjI voter_pages_list_each_bucket_once_parts[OF assms])


definition bucket_row :: "nat \<Rightarrow> u64 \<Rightarrow> string \<Rightarrow> int \<Rightarrow> StakingBucket stored_row" where
  "bucket_row i index owner unstake = \<lparr>sr_id = i, sr_hash = [], sr_cols =
     \<lparr>sb_Index = index, sb_Candidate = ''c'', sb_Owner = owner, sb_StakedAmount = ''1'', sb_StakedDuration = ''7'',
      sb_CreateTime = 0, sb_StakeStartTime = 0, sb_UnstakeStartTime = unstake, sb_AutoStake = 0\<rparr>\<rparr>"

definition bucket_of :: "StakingBucket stored_row \<Rightarrow> VoteBucket" where
  "bucket_of r = projr (parse_bucket Inr (sr_cols r))"

lemma bucket_of_row:
  "parse_bucket Inr (sr_cols (bucket_row i x v u)) = Inr (bucket_of (bucket_row i x v u))"
  "bucket_of (bucket_row i x v u) =
     \<lparr>vb_Index = x, vb_CandidateAddress = ''c'', vb_StakedAmount = ''1'', vb_StakedDuration = 7, vb_CreateTime = 0,
      vb_StakeStartTime = 0, vb_UnstakeStartTime = u, vb_AutoStake = False, vb_Owner = v\<rparr>"
proof -
  have "show_nat 7 = ''7''" by code_simp
  then have "parse_uint 32 ''7'' = Inr 7" using parse_uint_show[of 7 32] by simp
  then show "parse_bucket Inr (sr_cols (bucket_row i x v u)) = Inr (bucket_of (bucket_row i x v u))"
    and "bucket_of (bucket_row i x v u) =
     \<lparr>vb_Index = x, vb_CandidateAddress = ''c'', vb_StakedAmount = ''1'', vb_StakedDuration = 7, vb_CreateTime = 0,
      vb_StakeStartTime = 0, vb_UnstakeStartTime = u, vb_AutoStake = False, vb_Owner = v\<rparr>"
    by (simp_all add: bucket_row_def bucket_of_def parse_bucket_def)
qed

lemma voter_pages_list_each_bucket_once_witness:
  "concat (map (\<lambda>i. case BucketsByVoter Inr [(''voting'', ())] ''v'' (of_nat (i * 1)) (of_nat 1)
      [bucket_row 1 8 ''v'' 0, bucket_row 2 9 ''v'' 0, bucket_row 3 8 ''v'' 5] of Inl _ \<Rightarrow> [] | Inr m \<Rightarrow> m) [0..<2])
   = map (\<lambda>r. (sr_id r, bucket_of r)) (voter_rows ''v'' [bucket_row 1 8 ''v'' 0, bucket_row 2 9 ''v'' 0, bucket_row 3 8 ''v'' 5])"
proof (rule voter_pages_list_each_bucket_once[THEN conjunct1])
  show "parse_bucket Inr (sr_cols r) = Inr (bucket_of r)"
    if "r \<in> set [bucket_row 1 8 ''v'' 0, bucket_row 2 9 ''v'' 0, bucket_row 3 8 ''v'' 5]" for r
    using that by (auto simp: bucket_of_row)
  show "length (voter_rows ''v'' [bucket_row 1 8 ''v'' 0, bucket_row 2 9 ''v'' 0, bucket_row 3 8 ''v'' 5]) \<le> 2 * 1"
    by code_simp
qed (simp_all add: Find_def bucket_row_def)

text \<open>BucketsByCandidate filters the unstaked buckets after the page was cut: a page can be
  empty although the next one holds a bucket, so an empty page is not the end of the list.\<close>

theorem candidate_page_may_be_empty:
  "let t = [bucket_row 2 8 ''v'' 5, bucket_row 3 9 ''v'' 0];
       ct = [\<lparr>sr_id = 1, sr_hash = [], sr_cols = \<lparr>cs_Owner = ''c'', cs_Operator = [], cs_Reward = [], cs_Name = ''n'', cs_Votes = [],
         cs_SelfStakeBucketIdx = 0, cs_SelfStake = []\<rparr>\<rparr>]
   in BucketsByCandidate Inr (\<lambda>cs. cs) [(''voting'', ())] ''n'' 0 1 ct t = Inr [] \<and>
      BucketsByCandidate Inr (\<lambda>cs. cs) [(''voting'', ())] ''n'' 1 1 ct t = Inr [(3, bucket_of (bucket_row 3 9 ''v'' 0))]"
proof -
  have rows: "sort_key sr_id (filter (\<lambda>r. sb_Candidate (sr_cols r) = ''c'') (newest [bucket_row 2 8 ''v'' 5, bucket_row 3 9 ''v'' 0])) =
      [bucket_row 2 8 ''v'' 5, bucket_row 3 9 ''v'' 0]"
    by (simp add: newest_def bucket_row_def)
  have "sr_id (bucket_row i x v u) = i" for i x v u by (simp add: bucket_row_def)
  moreover have "length (filter (\<lambda>r. sb_Candidate (sr_cols r) = ''c'') (newest [bucket_row 2 8 ''v'' 5, bucket_row 3 9 ''v'' 0])) = 2"
    using arg_cong[OF rows, of length] by (simp only: length_sort) simp
  ultimately show ?thesis
    by (simp add: Let_def BucketsByCandidate_def registered_def Find_def rows limit_def ParseBuckets_def some_rows_def bucket_of_row)
qed

subsection \<open>Probation\<close>

text \<open>For a delegate that was never elected in the later epochs of the range, the historical probation rate
  counts the epochs its last operator address is on the list and divides by the epochs it was present: it can
  be 3.00.\<close>

theorem probation_rate_above_one:
  "GetProbationHistoricalRate (\<lambda>rs. rs) [(''voting'', ())] 3 3 ''a'' [result_at 3 ''a'' ''p'']
     (map (\<lambda>e. \<lparr>pb_EpochNumber = e, pb_IntensityRate = 90, pb_Address = ''p'', pb_Count = 1\<rparr>) [3, 4, 5]) = Inr ''3.00''"
proof -
  have "foldE (probation_step (\<lambda>rs. rs) [(''voting'', ())] ''a'' [result_at 3 ''a'' ''p'']
      (map (\<lambda>e. \<lparr>pb_EpochNumber = e, pb_IntensityRate = 90, pb_Address = ''p'', pb_Count = 1\<rparr>) [3, 4, 5])) [3..3 + 3 - 1] 0 = Inr 3"
    and "getAppearingCount 3 3 ''a'' [result_at 3 ''a'' ''p''] = Inr 1"
    and "fmt_2f (f64_div (f64_of_int 3) (f64_of_int 1)) = ''3.00''"
    by code_simp+
  then show ?thesis by (simp add: GetProbationHistoricalRate_def registered_def Find_def)
qed

text \<open>The epochs in which the delegate's operator of that epoch is on the list.\<close>

definition on_probation :: "string \<Rightarrow> VotingResult list \<Rightarrow> ProbationList list \<Rightarrow> int \<Rightarrow> bool" where
  "on_probation delegateName vt pt i \<longleftrightarrow>
     (\<exists>r \<in> set vt. \<exists>p \<in> set pt. vr_DelegateName r = delegateName \<and> uint (vr_EpochNumber r) = i \<and>
        uint (pb_EpochNumber p) = i \<and> pb_Address p = vr_OperatorAddress r)"

lemma latest_of_epoch:
  assumes "range_order ord" "distinct (map vr_key vt)" "r \<in> set vt" "vr_DelegateName r = name" "uint (vr_EpochNumber r) = i"
  shows "latest_result ord (\<lambda>r. vr_DelegateName r = name \<and> uint (vr_EpochNumber r) \<le> i) vt = Inr r"
proof -
  let ?P = "\<lambda>r. vr_DelegateName r = name \<and> uint (vr_EpochNumber r) \<le> i"
  obtain s where s: "latest_result ord ?P vt = Inr s"
    using latest_result_none[OF assms(1), of ?P vt] assms(3-5) by (cases "latest_result ord ?P vt") auto
  note l = latest_result_Inr[OF assms(1) s]
  have "vr_EpochNumber r \<le> vr_EpochNumber s" using l(3)[OF assms(3)] assms(4,5) by simp
  moreover have "vr_EpochNumber s \<le> vr_EpochNumber r" using l(2) assms(5) by (simp add: word_le_def)
  ultimately have "vr_key s = vr_key r" using l(2) assms(4) by (simp add: vr_key_def)
  then have "s = r" using assms(2,3) l(1) by (metis distinct_map inj_onD)
  then show ?thesis using s by simp
qed

lemma probation_step_present:
  assumes "range_order ord" "Find ''voting'' registry \<noteq> None" "distinct (map vr_key vt)"
    and "r \<in> set vt" "vr_DelegateName r = name" "uint (vr_EpochNumber r) = i"
  shows "probation_step ord registry name vt pt i c = Inr (c + of_bool (on_probation name vt pt i))"
proof -
  have "getOperatorAddress ord registry name i vt = Inr (vr_OperatorAddress r)"
    using latest_of_epoch[OF assms(1,3-6)] assms(2) by (auto simp: getOperatorAddress_def registered_def)
  moreover have "on_probation name vt pt i \<longleftrightarrow> filter (\<lambda>p. uint (pb_EpochNumber p) = i \<and> pb_Address p = vr_OperatorAddress r) pt \<noteq> []"
  proof -
    have "s = r" if "s \<in> set vt" "vr_DelegateName s = name" "uint (vr_EpochNumber s) = i" for s
    proof -
      have "vr_key s = vr_key r" using that assms(5,6) by (auto simp: vr_key_def intro: word_uint_eqI)
      then show ?thesis using assms(3,4) that(1) by (metis distinct_map inj_onD)
    qed
    then show ?thesis unfolding on_probation_def filter_empty_conv using assms(4-6) by blast
  qed
  ultimately show ?thesis by (simp add: probation_step_def RowExists_def)
qed

lemma probation_fold:
  assumes "range_order ord" "Find ''voting'' registry \<noteq> None" "distinct (map vr_key vt)"
    and present: "\<And>i. i \<in> set is \<Longrightarrow> \<exists>r \<in> set vt. vr_DelegateName r = name \<and> uint (vr_EpochNumber r) = i"
  shows "foldE (probation_step ord registry name vt pt) is c = Inr (c + of_nat (length (filter (on_probation name vt pt) is)))"
  using present
proof (induction "is" arbitrary: c)
  case (Cons i js)
  obtain r where "r \<in> set vt" "vr_DelegateName r = name" "uint (vr_EpochNumber r) = i"
    using Cons.prems[of i] by auto
  from probation_step_present[OF assms(1-3) this] Cons show ?case by simp
qed simp

lemma appearing_count:
  assumes "distinct (map vr_key vt)" "0 \<le> epochCount"
    and present: "\<And>i. startEpoch \<le> i \<Longrightarrow> i < startEpoch + epochCount \<Longrightarrow>
      \<exists>r \<in> set vt. vr_DelegateName r = delegateName \<and> uint (vr_EpochNumber r) = i"
  shows "int (length (filter (\<lambda>r. startEpoch \<le> uint (vr_EpochNumber r) \<and> uint (vr_EpochNumber r) < startEpoch + epochCount
    \<and> vr_DelegateName r = delegateName) vt)) = epochCount"
proof -
  let ?rows = "filter (\<lambda>r. startEpoch \<le> uint (vr_EpochNumber r) \<and> uint (vr_EpochNumber r) < startEpoch + epochCount
    \<and> vr_DelegateName r = delegateName) vt"
  let ?f = "\<lambda>r. uint (vr_EpochNumber r)"
  have inj: "inj_on ?f (set ?rows)"
  proof (rule inj_onI)
    fix r s assume rs: "r \<in> set ?rows" "s \<in> set ?rows" "?f r = ?f s"
    then have "vr_key r = vr_key s" by (auto simp: vr_key_def intro: word_uint_eqI)
    then show "r = s" using rs assms(1) by (auto simp: distinct_map dest: inj_onD)
  qed
  have "?f ` set ?rows = {startEpoch..<startEpoch + epochCount}"
  proof (intro equalityI subsetI)
    fix i assume "i \<in> {startEpoch..<startEpoch + epochCount}"
    then show "i \<in> ?f ` set ?rows" using present[of i] by (auto intro!: rev_image_eqI)
  qed auto
  moreover have "card (?f ` set ?rows) = length ?rows"
    using card_image[OF inj] distinct_card[of ?rows] assms(1) by (simp add: distinct_map)
  ultimately have "length ?rows = card {startEpoch..<startEpoch + epochCount}" by (simp only:)
  then show ?thesis using assms(2) by simp
qed

lemma probation_rate_of_present_delegate_parts:
  assumes "range_order ord" "Find ''voting'' registry \<noteq> None" "distinct (map vr_key vt)"
    and n: "0 < epochCount" "epochCount < 2 ^ 53"
    and present: "\<And>i. startEpoch \<le> i \<Longrightarrow> i < startEpoch + epochCount \<Longrightarrow>
      \<exists>r \<in> set vt. vr_DelegateName r = delegateName \<and> uint (vr_EpochNumber r) = i"
    and k: "k = int (length (filter (on_probation delegateName vt pt) [startEpoch..startEpoch + epochCount - 1]))"
  shows "GetProbationHistoricalRate ord registry startEpoch epochCount delegateName vt pt =
      Inr (fmt_2f (f64_div (of_int k) (of_int epochCount)))"
    and "f64_div (of_int k) (of_int epochCount) \<le> 1"
proof -
  have "length (filter (on_probation delegateName vt pt) [startEpoch..startEpoch + epochCount - 1]) \<le> nat epochCount"
    using length_filter_le[of "on_probation delegateName vt pt" "[startEpoch..startEpoch + epochCount - 1]"] by simp
  then have kn: "0 \<le> k" "k \<le> epochCount" using k n by simp_all
  have u64: "uint (word_of_int m :: u64) = m" "f64_of_int m = of_int m" if "0 \<le> m" "m < 2 ^ 53" for m
    using that by (simp_all add: uint_word_of_int f64_of_int_def round_prec_of_int)
  define c where "c = length (filter (\<lambda>r. startEpoch \<le> uint (vr_EpochNumber r) \<and> uint (vr_EpochNumber r) < startEpoch + epochCount
    \<and> vr_DelegateName r = delegateName) vt)"
  have c: "int c = epochCount"
    unfolding c_def by (rule appearing_count[OF assms(3) _ present]) (use n in simp_all)
  have ew: "(of_nat c :: u64) = word_of_int epochCount" by (simp flip: c)
  have "(word_of_int epochCount :: u64) \<noteq> 0" using u64(1)[of epochCount] n by (metis less_irrefl less_imp_le uint_0_eq)
  moreover have "foldE (probation_step ord registry delegateName vt pt) [startEpoch..startEpoch + epochCount - 1] 0 = Inr (word_of_int k)"
    using probation_fold[OF assms(1-3), of "[startEpoch..startEpoch + epochCount - 1]" delegateName pt 0] present k by simp
  ultimately show "GetProbationHistoricalRate ord registry startEpoch epochCount delegateName vt pt =
      Inr (fmt_2f (f64_div (of_int k) (of_int epochCount)))"
    using assms(2) u64[of k] u64[of epochCount] kn n
    by (auto simp: GetProbationHistoricalRate_def getAppearingCount_def registered_def ew simp flip: c_def)
  have "of_int k / of_int epochCount \<le> (of_int 1 :: rat)" "0 \<le> of_int k / (of_int epochCount :: rat)"
    using kn n by simp_all
  then show "f64_div (of_int k) (of_int epochCount) \<le> 1"
    using round_prec_le_int[of "of_int k / of_int epochCount" 1 53]
    by (cases "of_int k / (of_int epochCount :: rat) = 0") (simp_all add: f64_div_def round_prec_def)
qed

text \<open>C34: For a delegate that has a voting result in every epoch of the range, the historical
  probation rate is the number of epochs in which its operator of that epoch is on the probation list
  over the number of epochs, printed with two decimals, and at most 1.\<close>

theorem probation_rate_of_present_delegate:
  assumes "range_order ord" "Find ''voting'' registry \<noteq> None" "distinct (map vr_key vt)"
    and n: "0 < epochCount" "epochCount < 2 ^ 53"
    and present: "\<And>i. startEpoch \<le> i \<Longrightarrow> i < startEpoch + epochCount \<Longrightarrow>
      \<exists>r \<in> set vt. vr_DelegateName r = delegateName \<and> uint (vr_EpochNumber r) = i"
    and k: "k = int (length (filter (on_probation delegateName vt pt) [startEpoch..startEpoch + epochCount - 1]))"
  shows "(GetProbationHistoricalRate ord registry startEpoch epochCount delegateName vt pt =
      Inr (fmt_2f (f64_div (of_int k) (of_int epochCount)))) \<and>
     (f64_div (of_int k) (of_int epochCount) \<le> 1)"
  by (intro conjI probation_rate_of_present_delegate_parts[OF assms])


lemma probation_rate_of_present_delegate_witness:
  "GetProbationHistoricalRate rev [(''voting'', ())] 3 2 ''a'' [result_at 3 ''a'' ''p'', result_at 4 ''a'' ''q'']
     [\<lparr>pb_EpochNumber = 4, pb_IntensityRate = 90, pb_Address = ''q'', pb_Count = 1\<rparr>] = Inr (fmt_2f (f64_div (of_int 1) (of_int 2)))"
proof (rule probation_rate_of_present_delegate[THEN conjunct1])
  fix i :: int
  assume "3 \<le> i" "i < 3 + 2"
  then have "i = 3 \<or> i = 4" by arith
  then show "\<exists>r \<in> set [result_at 3 ''a'' ''p'', result_at 4 ''a'' ''q'']. vr_DelegateName r = ''a'' \<and> uint (vr_EpochNumber r) = i"
    by (auto simp: result_at_def)
next
  have "[3..3 + 2 - 1] = [3, 4 :: int]" by code_simp
  then show "1 = int (length (filter (on_probation ''a'' [result_at 3 ''a'' ''p'', result_at 4 ''a'' ''q'']
      [\<lparr>pb_EpochNumber = 4, pb_IntensityRate = 90, pb_Address = ''q'', pb_Count = 1\<rparr>]) [3..3 + 2 - 1]))"
    by (simp add: on_probation_def result_at_def)
qed (simp_all add: Find_def vr_key_def result_at_def)

end
