(* ===== verification/Query_Actions.thy ===== *)
theory Query_Actions imports Query_Base begin

text \<open>
  \<open>queryprotocol/actions/protocol.go\<close>: lists and counts of actions, of the value transfers of
  contracts, of XRC20 and XRC721 events and of holders. \<open>LIKE\<close> compares as the default collations
  of MySQL do, without case; the patterns here hold no wildcard of their own.
\<close>

subsection \<open>Data\<close>

record activeAccount =
  aa_From :: string
  aa_BlockHeight :: u64

record ActionInfo_q =
  aq_ActHash :: string
  aq_BlkHash :: string
  aq_TimeStamp :: u64
  aq_ActType :: string
  aq_Sender :: string
  aq_Recipient :: string
  aq_Amount :: string
  aq_GasFee :: string

record EvmTransfer =
  et_From :: string
  et_To :: string
  et_Quantity :: string

record ActionDetail =
  ad_ActionInfo :: ActionInfo_q
  ad_EvmTransfers :: "EvmTransfer list"

record EvmTransferDetail =
  ed_From :: string
  ed_To :: string
  ed_Quantity :: string
  ed_ActHash :: string
  ed_BlkHash :: string
  ed_TimeStamp :: "int option"

record Xrc20Info =
  xi_Hash :: string
  xi_From :: string
  xi_To :: string
  xi_Quantity :: string
  xi_Timestamp :: string
  xi_Contract :: string

record TopHolder =
  th_Address :: string
  th_Balance :: string

text \<open>
  \<open>address.FromString\<close>, \<open>String\<close> of its result, and the checksummed hex text without \<open>0x\<close> of its
  bytes (\<open>common.BytesToAddress(a.Bytes()).String()[2:]\<close>).
\<close>

record 'a address_lib =
  al_FromString :: "string \<Rightarrow> go_error + 'a"
  al_String :: "'a \<Rightarrow> string"
  al_Hex :: "'a \<Rightarrow> string"

subsection \<open>Lists of actions\<close>

type_synonym action_row = "ActionHistory \<times> BlockHistory option"

definition with_block :: "ActionHistory list \<Rightarrow> BlockHistory list \<Rightarrow> action_row list" where
  "with_block = left_join (\<lambda>a b. ah_BlockHeight a = bk_BlockHeight b)"

definition row_time :: "action_row \<Rightarrow> int option" where
  "row_time r = map_option bk_Timestamp (snd r)"

text \<open>Scanning the columns every list of actions selects.\<close>

definition action_info :: "action_row \<Rightarrow> go_error + ActionInfo_q" where
  "action_info = (\<lambda>(a, b).
     andThen (scan_some b) (\<lambda>b.
     andThen (scan_u64 (bk_Timestamp b)) (\<lambda>timestamp.
     Inr \<lparr>aq_ActHash = ah_ActionHash a, aq_BlkHash = bk_BlockHash b, aq_TimeStamp = timestamp,
          aq_ActType = ah_ActionType a, aq_Sender = ah_From a, aq_Recipient = ah_To a,
          aq_Amount = big_String (ah_Amount a), aq_GasFee = big_String (ah_GasPrice a * uint (ah_GasConsumed a))\<rparr>)))"

definition action_list :: "action_row list \<Rightarrow> go_error + ActionInfo_q list" where
  "action_list rows = andThen (wrap ''failed to parse results'' (mapE action_info rows)) some_rows"

type_synonym row_order = "action_row list \<Rightarrow> action_row list"

definition GetActionsByAddressAndType ::
  "row_order \<Rightarrow> 'p registry \<Rightarrow> string \<Rightarrow> string \<Rightarrow> u64 \<Rightarrow> u64 \<Rightarrow> ActionHistory list \<Rightarrow> BlockHistory list \<Rightarrow> go_error + ActionInfo_q list"
where
  "GetActionsByAddressAndType ord registry address actionType offset sz acts bt =
     andThen (registered ''actions'' ''actions'' registry) (\<lambda>_.
     action_list (limit offset sz (order_desc ord row_time
       (filter (\<lambda>(a, _). (ah_From a = address \<or> ah_To a = address) \<and> ah_ActionType a = actionType) (with_block acts bt)))))"

definition GetActionsByDates ::
  "row_order \<Rightarrow> 'p registry \<Rightarrow> u64 \<Rightarrow> u64 \<Rightarrow> u64 \<Rightarrow> u64 \<Rightarrow> ActionHistory list \<Rightarrow> BlockHistory list \<Rightarrow> go_error + ActionInfo_q list"
where
  "GetActionsByDates ord registry startDate endDate offset sz acts bt =
     andThen (registered ''actions'' ''actions'' registry) (\<lambda>_.
     action_list (limit offset sz (order_desc ord row_time
       (filter (\<lambda>(_, b). case b of None \<Rightarrow> False | Some b \<Rightarrow> uint startDate \<le> bk_Timestamp b \<and> bk_Timestamp b \<le> uint endDate)
         (with_block acts bt)))))"

definition GetActionsByType ::
  "row_order \<Rightarrow> 'p registry \<Rightarrow> string \<Rightarrow> u64 \<Rightarrow> u64 \<Rightarrow> ActionHistory list \<Rightarrow> BlockHistory list \<Rightarrow> go_error + ActionInfo_q list"
where
  "GetActionsByType ord registry actionType offset sz acts bt =
     andThen (registered ''actions'' ''actions'' registry) (\<lambda>_.
     action_list (limit offset sz (order_desc ord (\<lambda>(a, _). ah_BlockHeight a)
       (filter (\<lambda>(a, _). ah_ActionType a = actionType) (with_block acts bt)))))"

definition evm_transfer :: "balance_history_row \<Rightarrow> EvmTransfer" where
  "evm_transfer r = \<lparr>et_From = bh_From r, et_To = bh_To r, et_Quantity = big_String (bh_Amount r)\<rparr>"

definition GetActionDetailByHash ::
  "'p registry \<Rightarrow> string \<Rightarrow> ActionHistory list \<Rightarrow> BlockHistory list \<Rightarrow> balance_history_row list \<Rightarrow> go_error + ActionDetail"
where
  "GetActionDetailByHash registry actHash acts bt ht =
     andThen (registered ''actions'' ''actions'' registry) (\<lambda>_.
     andThen (registered ''accounts'' ''accounts'' registry) (\<lambda>_.
     andThen (action_list (filter (\<lambda>(a, _). ah_ActionHash a = actHash) (with_block acts bt))) (\<lambda>infos.
     Inr \<lparr>ad_ActionInfo = hd infos,
          ad_EvmTransfers = map evm_transfer (filter (\<lambda>r. bh_ActionType r = ''execution'' \<and> bh_ActionHash r = actHash) ht)\<rparr>)))"

definition GetActionsByAddress ::
  "row_order \<Rightarrow> 'p registry \<Rightarrow> string \<Rightarrow> u64 \<Rightarrow> u64 \<Rightarrow> ActionHistory list \<Rightarrow> BlockHistory list \<Rightarrow> go_error + ActionInfo_q list"
where
  "GetActionsByAddress ord registry address offset sz acts bt =
     andThen (registered ''actions'' ''actions'' registry) (\<lambda>_.
     andThen (registered ''accounts'' ''accounts'' registry) (\<lambda>_.
     action_list (limit offset sz (order_desc ord row_time
       (filter (\<lambda>(a, _). ah_From a = address \<or> ah_To a = address) (with_block acts bt))))))"

subsection \<open>Actions of buckets\<close>

text \<open>The indexes of the buckets whose newest row has the owner; \<open>None\<close> is the missing table of bucket actions.\<close>

definition owned_buckets :: "string \<Rightarrow> StakingBucket stored_row list \<Rightarrow> int list" where
  "owned_buckets voter t = map (\<lambda>r. uint (sb_Index (sr_cols r))) (filter (\<lambda>r. sb_Owner (sr_cols r) = voter) (newest t))"

definition bucket_table :: "(string \<times> int) list option \<Rightarrow> go_error + (string \<times> int) list" where
  "bucket_table t = wrap ''failed to prepare get query''
     (case t of None \<Rightarrow> Inl (ErrSQL ''Table bucket_actions does not exist'') | Some rows \<Rightarrow> Inr rows)"

definition GetBucketActionsByVoter ::
  "row_order \<Rightarrow> 'p registry \<Rightarrow> string \<Rightarrow> u64 \<Rightarrow> u64 \<Rightarrow> ActionHistory list \<Rightarrow> BlockHistory list \<Rightarrow>
   (string \<times> int) list option \<Rightarrow> StakingBucket stored_row list \<Rightarrow> go_error + ActionInfo_q list"
where
  "GetBucketActionsByVoter ord registry voter offset sz acts bt ba t =
     andThen (registered ''actions'' ''actions'' registry) (\<lambda>_.
     andThen (registered ''voting'' ''accounts'' registry) (\<lambda>_.
     andThen (bucket_table ba) (\<lambda>ba.
     let hashes = map fst (filter (\<lambda>(_, bucket). bucket \<in> set (owned_buckets voter t)) ba) in
     action_list (limit offset sz (order_desc ord row_time
       (filter (\<lambda>(a, _). ah_ActionHash a \<in> set hashes) (with_block acts bt)))))))"

text \<open>The joins with \<open>action_history\<close> and \<open>block_history\<close>; a missing row scans as \<open>NULL\<close>.\<close>

definition GetActionsByBucketIndex ::
  "((((string \<times> int) \<times> ActionHistory option) \<times> BlockHistory option) list \<Rightarrow> (((string \<times> int) \<times> ActionHistory option) \<times> BlockHistory option) list) \<Rightarrow>
   u64 \<Rightarrow> u64 \<Rightarrow> u64 \<Rightarrow> ActionHistory list \<Rightarrow> BlockHistory list \<Rightarrow> (string \<times> int) list option \<Rightarrow> go_error + ActionInfo_q list"
where
  "GetActionsByBucketIndex ord bucketIndex offset sz acts bt ba =
     andThen (wrap ''failed to prepare actions for bucket''
       (case ba of None \<Rightarrow> Inl (ErrSQL ''Table bucket_actions does not exist'') | Some rows \<Rightarrow> Inr rows)) (\<lambda>ba.
     let rows = left_join (\<lambda>(_, a) b. case a of None \<Rightarrow> False | Some a \<Rightarrow> ah_BlockHeight a = bk_BlockHeight b)
           (left_join (\<lambda>(hash, _) a. hash = ah_ActionHash a) (filter (\<lambda>(_, bucket). bucket = uint bucketIndex) ba) acts) bt in
     andThen (wrap ''failed to parse results''
       (mapE (\<lambda>((_, a), b). andThen (scan_some a) (\<lambda>a. action_info (a, b)))
         (limit offset sz (order_desc ord (\<lambda>(_, b). map_option bk_Timestamp b) rows)))) some_rows)"

subsection \<open>Transfers of contracts\<close>

text \<open>The fifth column is the block height, which lands in \<open>BlkHash\<close>.\<close>

definition evm_detail :: "balance_history_row \<times> BlockHistory option \<Rightarrow> EvmTransferDetail" where
  "evm_detail = (\<lambda>(r, b).
     \<lparr>ed_From = bh_From r, ed_To = bh_To r, ed_Quantity = big_String (bh_Amount r), ed_ActHash = bh_ActionHash r,
      ed_BlkHash = big_String (uint (bh_BlockHeight r)), ed_TimeStamp = map_option bk_Timestamp b\<rparr>)"

definition GetEvmTransferDetailListByAddress ::
  "((balance_history_row \<times> BlockHistory option) list \<Rightarrow> (balance_history_row \<times> BlockHistory option) list) \<Rightarrow> 'p registry \<Rightarrow>
   string \<Rightarrow> u64 \<Rightarrow> u64 \<Rightarrow> balance_history_row list \<Rightarrow> BlockHistory list \<Rightarrow> go_error + EvmTransferDetail list"
where
  "GetEvmTransferDetailListByAddress ord registry address offset sz ht bt =
     andThen (registered ''accounts'' ''accounts'' registry) (\<lambda>_.
     andThen (some_rows (limit offset sz (order_desc ord (\<lambda>(_, b). map_option bk_Timestamp b)
       (filter (\<lambda>(r, _). bh_ActionType r = ''execution'' \<and> (bh_From r = address \<or> bh_To r = address))
         (left_join (\<lambda>r b. bh_BlockHeight r = bk_BlockHeight b) ht bt))))) (\<lambda>rows.
     Inr (map evm_detail rows)))"

text \<open>\<open>SELECT DISTINCT from, block_height\<close>; a negative limit is a syntax error.\<close>

definition GetActiveAccount ::
  "(activeAccount list \<Rightarrow> activeAccount list) \<Rightarrow> 'p registry \<Rightarrow> int \<Rightarrow> ActionHistory list \<Rightarrow> go_error + string list"
where
  "GetActiveAccount ord registry n acts =
     andThen (registered ''actions'' ''actions'' registry) (\<lambda>_.
     if n < 0 then wrap ''failed to prepare get query'' (Inl (ErrSQL ''syntax error''))
     else
       andThen (some_rows (take (nat n) (order_desc ord aa_BlockHeight
         (column (\<lambda>a. \<lparr>aa_From = ah_From a, aa_BlockHeight = ah_BlockHeight a\<rparr>) acts)))) (\<lambda>rows.
       Inr (map aa_From rows)))"

end
