(* ===== verification/Query_Xrc.thy ===== *)
theory Query_Xrc imports Query_Actions begin

text \<open>
  The rest of \<open>queryprotocol/actions/protocol.go\<close>: XRC20 and XRC721 events and holders, the counts, and
  the holders of the native token.
\<close>

subsection \<open>XRC20 and XRC721 events\<close>

definition xrc_info :: "libs \<Rightarrow> Xrc20History \<Rightarrow> go_error + Xrc20Info" where
  "xrc_info l r =
     andThen (ParseContractData l (xh_Topics r) (xh_Data r)) (\<lambda>(from, to, quantity).
     Inr \<lparr>xi_Hash = xh_ActionHash r, xi_From = from, xi_To = to, xi_Quantity = quantity,
          xi_Timestamp = big_String (xh_Timestamp r), xi_Contract = xh_Address r\<rparr>)"

type_synonym xrc_order = "Xrc20History list \<Rightarrow> Xrc20History list"

text \<open>The page of events that all four lists of events end with.\<close>

definition xrc_page ::
  "libs \<Rightarrow> xrc_order \<Rightarrow> u64 \<Rightarrow> u64 \<Rightarrow> Xrc20History list \<Rightarrow> go_error + Xrc20Info list"
where
  "xrc_page l ord offset sz rows =
     andThen (some_rows (limit offset sz (order_desc ord xh_Timestamp rows))) (mapE (xrc_info l))"

definition page_offset :: "u64 \<Rightarrow> u64 \<Rightarrow> u64" where
  "page_offset numPerPage page = ((if page < 1 then 1 else page) - 1) * numPerPage"

definition getXrc ::
  "libs \<Rightarrow> xrc_order \<Rightarrow> 'p registry \<Rightarrow> string \<Rightarrow> u64 \<Rightarrow> u64 \<Rightarrow> Xrc20History list \<Rightarrow> go_error + Xrc20Info list"
where
  "getXrc l ord registry address numPerPage page t =
     andThen (registered ''actions'' ''actions'' registry) (\<lambda>_.
     xrc_page l ord (page_offset numPerPage page) numPerPage (filter (\<lambda>r. xh_Address r = address) t))"

definition GetXrc20 :: "libs \<Rightarrow> xrc_order \<Rightarrow> 'p registry \<Rightarrow> string \<Rightarrow> u64 \<Rightarrow> u64 \<Rightarrow> xrc_db \<Rightarrow> go_error + Xrc20Info list" where
  "GetXrc20 l ord registry address numPerPage page db = getXrc l ord registry address numPerPage page (xrc20_history db)"

definition GetXrc721 :: "libs \<Rightarrow> xrc_order \<Rightarrow> 'p registry \<Rightarrow> string \<Rightarrow> u64 \<Rightarrow> u64 \<Rightarrow> xrc_db \<Rightarrow> go_error + Xrc20Info list" where
  "GetXrc721 l ord registry address numPerPage page db = getXrc l ord registry address numPerPage page (xrc721_history db)"

text \<open>\<open>topics LIKE '%p%'\<close>, without case.\<close>

definition lower :: "string \<Rightarrow> string" where
  "lower s = map (\<lambda>c. if 65 \<le> (of_char c :: nat) \<and> of_char c \<le> (90 :: nat) then char_of ((of_char c :: nat) + 32) else c) s"

fun has_infix :: "string \<Rightarrow> string \<Rightarrow> bool" where
  "has_infix p [] = (p = [])"
| "has_infix p (c # cs) = (take (length p) (c # cs) = p \<or> has_infix p cs)"

definition topics_like :: "string \<Rightarrow> Xrc20History \<Rightarrow> bool" where
  "topics_like p r \<longleftrightarrow> has_infix (lower p) (lower (xh_Topics r))"

definition FromString :: "'a address_lib \<Rightarrow> string \<Rightarrow> go_error + 'a" where
  "FromString al addr = (case al_FromString al addr of Inl _ \<Rightarrow> Inl (ErrMsg ''address is invalid'') | Inr a \<Rightarrow> Inr a)"

definition getXrcByAddress ::
  "libs \<Rightarrow> 'a address_lib \<Rightarrow> xrc_order \<Rightarrow> 'p registry \<Rightarrow> string \<Rightarrow> u64 \<Rightarrow> u64 \<Rightarrow> Xrc20History list \<Rightarrow> go_error + Xrc20Info list"
where
  "getXrcByAddress l al ord registry addr numPerPage page t =
     andThen (registered ''actions'' ''actions'' registry) (\<lambda>_.
     andThen (FromString al addr) (\<lambda>a.
     xrc_page l ord (page_offset numPerPage page) numPerPage (filter (topics_like (al_Hex al a)) t)))"

definition GetXrc20ByAddress ::
  "libs \<Rightarrow> 'a address_lib \<Rightarrow> xrc_order \<Rightarrow> 'p registry \<Rightarrow> string \<Rightarrow> u64 \<Rightarrow> u64 \<Rightarrow> xrc_db \<Rightarrow> go_error + Xrc20Info list"
where
  "GetXrc20ByAddress l al ord registry addr numPerPage page db =
     getXrcByAddress l al ord registry addr numPerPage page (xrc20_history db)"

definition GetXrc721ByAddress ::
  "libs \<Rightarrow> 'a address_lib \<Rightarrow> xrc_order \<Rightarrow> 'p registry \<Rightarrow> string \<Rightarrow> u64 \<Rightarrow> u64 \<Rightarrow> xrc_db \<Rightarrow> go_error + Xrc20Info list"
where
  "GetXrc721ByAddress l al ord registry addr numPerPage page db =
     getXrcByAddress l al ord registry addr numPerPage page (xrc721_history db)"

definition GetXrc20ByContractAndAddress ::
  "libs \<Rightarrow> 'a address_lib \<Rightarrow> xrc_order \<Rightarrow> 'p registry \<Rightarrow> string \<Rightarrow> string \<Rightarrow> u64 \<Rightarrow> u64 \<Rightarrow> xrc_db \<Rightarrow> go_error + Xrc20Info list"
where
  "GetXrc20ByContractAndAddress l al ord registry contract addr numPerPage page db =
     andThen (registered ''actions'' ''actions'' registry) (\<lambda>_.
     andThen (FromString al addr) (\<lambda>a.
     xrc_page l ord (page_offset numPerPage page) numPerPage
       (filter (\<lambda>r. xh_Address r = contract \<and> topics_like (al_Hex al a) r) (xrc20_history db))))"

definition getXrcByPage ::
  "libs \<Rightarrow> xrc_order \<Rightarrow> 'p registry \<Rightarrow> u64 \<Rightarrow> u64 \<Rightarrow> Xrc20History list \<Rightarrow> go_error + Xrc20Info list"
where
  "getXrcByPage l ord registry offset n t =
     andThen (registered ''actions'' ''actions'' registry) (\<lambda>_. xrc_page l ord offset n t)"

definition GetXrc20ByPage :: "libs \<Rightarrow> xrc_order \<Rightarrow> 'p registry \<Rightarrow> u64 \<Rightarrow> u64 \<Rightarrow> xrc_db \<Rightarrow> go_error + Xrc20Info list" where
  "GetXrc20ByPage l ord registry offset n db = getXrcByPage l ord registry offset n (xrc20_history db)"

definition GetXrc721ByPage :: "libs \<Rightarrow> xrc_order \<Rightarrow> 'p registry \<Rightarrow> u64 \<Rightarrow> u64 \<Rightarrow> xrc_db \<Rightarrow> go_error + Xrc20Info list" where
  "GetXrc721ByPage l ord registry offset n db = getXrcByPage l ord registry offset n (xrc721_history db)"

text \<open>\<open>GROUP BY address\<close> with the time of the newest event; no rows are no error here.\<close>

definition newest_events :: "Xrc20History list \<Rightarrow> (string \<times> int) list" where
  "newest_events t = map (\<lambda>a. (a, Max (set (map xh_Timestamp (filter (\<lambda>r. xh_Address r = a) t))))) (column xh_Address t)"

definition getXrcAddresses ::
  "((string \<times> int) list \<Rightarrow> (string \<times> int) list) \<Rightarrow> 'p registry \<Rightarrow> u64 \<Rightarrow> u64 \<Rightarrow> Xrc20History list \<Rightarrow> go_error + string list"
where
  "getXrcAddresses ord registry offset n t =
     andThen (registered ''actions'' ''actions'' registry) (\<lambda>_.
     Inr (map fst (limit offset n (order_desc ord snd (newest_events t)))))"

definition GetXrc20Addresses ::
  "((string \<times> int) list \<Rightarrow> (string \<times> int) list) \<Rightarrow> 'p registry \<Rightarrow> u64 \<Rightarrow> u64 \<Rightarrow> xrc_db \<Rightarrow> go_error + string list"
where
  "GetXrc20Addresses ord registry offset n db = getXrcAddresses ord registry offset n (xrc20_history db)"

definition GetXrc721Addresses ::
  "((string \<times> int) list \<Rightarrow> (string \<times> int) list) \<Rightarrow> 'p registry \<Rightarrow> u64 \<Rightarrow> u64 \<Rightarrow> xrc_db \<Rightarrow> go_error + string list"
where
  "GetXrc721Addresses ord registry offset n db = getXrcAddresses ord registry offset n (xrc721_history db)"

subsection \<open>Holders of XRC tokens\<close>

type_synonym holder_row = "(string \<times> string) \<times> int"

definition getXrcHolders ::
  "'a address_lib \<Rightarrow> (holder_row list \<Rightarrow> holder_row list) \<Rightarrow> 'p registry \<Rightarrow> string \<Rightarrow> u64 \<Rightarrow> u64 \<Rightarrow> holder_row list \<Rightarrow> go_error + string list"
where
  "getXrcHolders al ord registry addr offset sz t =
     andThen (registered ''actions'' ''actions'' registry) (\<lambda>_.
     andThen (FromString al addr) (\<lambda>a.
     andThen (some_rows (limit offset (if sz < 1 then 1 else sz)
       (order_desc ord snd (filter (\<lambda>((contract, _), _). contract = al_String al a) t)))) (\<lambda>rows.
     Inr (map (\<lambda>((_, holder), _). holder) rows))))"

definition GetXrc20Holders ::
  "'a address_lib \<Rightarrow> (holder_row list \<Rightarrow> holder_row list) \<Rightarrow> 'p registry \<Rightarrow> string \<Rightarrow> u64 \<Rightarrow> u64 \<Rightarrow> xrc_db \<Rightarrow> go_error + string list"
where
  "GetXrc20Holders al ord registry addr offset sz db = getXrcHolders al ord registry addr offset sz (xrc20_holders db)"

definition GetXrc721Holders ::
  "'a address_lib \<Rightarrow> (holder_row list \<Rightarrow> holder_row list) \<Rightarrow> 'p registry \<Rightarrow> string \<Rightarrow> u64 \<Rightarrow> u64 \<Rightarrow> xrc_db \<Rightarrow> go_error + string list"
where
  "GetXrc721Holders al ord registry addr offset sz db = getXrcHolders al ord registry addr offset sz (xrc721_holders db)"

subsection \<open>Counts\<close>

text \<open>\<open>getCount\<close> with the rows its text counts, or the error of preparing that text.\<close>

definition getCount :: "'p registry \<Rightarrow> go_error + 'r list \<Rightarrow> go_error + nat" where
  "getCount registry rows =
     andThen (registered ''actions'' ''actions'' registry) (\<lambda>_.
     andThen (wrap ''failed to prepare get query'' rows) (\<lambda>rows. Inr (length rows)))"

definition GetActionCountByDates :: "'p registry \<Rightarrow> u64 \<Rightarrow> u64 \<Rightarrow> BlockHistory list \<Rightarrow> go_error + nat" where
  "GetActionCountByDates registry startDate endDate bt =
     getCount registry (Inr (filter (\<lambda>b. uint startDate \<le> bk_Timestamp b \<and> bk_Timestamp b \<le> uint endDate) bt))"

definition GetActionCountByAddressAndType :: "'p registry \<Rightarrow> string \<Rightarrow> string \<Rightarrow> ActionHistory list \<Rightarrow> go_error + nat" where
  "GetActionCountByAddressAndType registry addr actionType acts =
     getCount registry (Inr (filter (\<lambda>a. (ah_From a = addr \<or> ah_To a = addr) \<and> ah_ActionType a = actionType) acts))"

definition GetActionCountByType :: "'p registry \<Rightarrow> string \<Rightarrow> ActionHistory list \<Rightarrow> go_error + nat" where
  "GetActionCountByType registry actionType acts = getCount registry (Inr (filter (\<lambda>a. ah_ActionType a = actionType) acts))"

definition GetActionCountByAddress :: "'p registry \<Rightarrow> string \<Rightarrow> ActionHistory list \<Rightarrow> go_error + nat" where
  "GetActionCountByAddress registry addr acts = getCount registry (Inr (filter (\<lambda>a. ah_From a = addr \<or> ah_To a = addr) acts))"

definition GetBucketActionCountByVoter ::
  "'p registry \<Rightarrow> string \<Rightarrow> (string \<times> int) list option \<Rightarrow> StakingBucket stored_row list \<Rightarrow> go_error + nat"
where
  "GetBucketActionCountByVoter registry voter ba t =
     getCount registry (case ba of None \<Rightarrow> Inl (ErrSQL ''Table bucket_actions does not exist'')
       | Some rows \<Rightarrow> Inr (filter (\<lambda>(_, bucket). bucket \<in> set (owned_buckets voter t)) rows))"

definition GetActionCountByBucketIndex :: "'p registry \<Rightarrow> u64 \<Rightarrow> (string \<times> int) list option \<Rightarrow> go_error + nat" where
  "GetActionCountByBucketIndex registry bucketIndex ba =
     getCount registry (case ba of None \<Rightarrow> Inl (ErrSQL ''Table bucket_actions does not exist'')
       | Some rows \<Rightarrow> Inr (filter (\<lambda>(_, bucket). bucket = uint bucketIndex) rows))"

definition GetXrc20TransactionCount :: "'p registry \<Rightarrow> string \<Rightarrow> xrc_db \<Rightarrow> go_error + nat" where
  "GetXrc20TransactionCount registry address db = getCount registry (Inr (filter (\<lambda>r. xh_Address r = address) (xrc20_history db)))"

definition GetXrc721TransactionCount :: "'p registry \<Rightarrow> string \<Rightarrow> xrc_db \<Rightarrow> go_error + nat" where
  "GetXrc721TransactionCount registry address db = getCount registry (Inr (filter (\<lambda>r. xh_Address r = address) (xrc721_history db)))"

text \<open>For an invalid address the pattern is empty, and \<open>LIKE\<close> without a pattern is a syntax error.\<close>

definition addrToLike :: "'a address_lib \<Rightarrow> string \<Rightarrow> string option" where
  "addrToLike al addr = (case al_FromString al addr of Inl _ \<Rightarrow> None | Inr a \<Rightarrow> Some (lower (al_Hex al a)))"

definition history_like :: "string option \<Rightarrow> Xrc20History list \<Rightarrow> go_error + Xrc20History list" where
  "history_like pat t = (case pat of None \<Rightarrow> Inl (ErrSQL ''syntax error'') | Some p \<Rightarrow> Inr (filter (topics_like p) t))"

definition GetXrc20HistoryCount :: "'a address_lib \<Rightarrow> 'p registry \<Rightarrow> string \<Rightarrow> xrc_db \<Rightarrow> go_error + nat" where
  "GetXrc20HistoryCount al registry addr db = getCount registry (history_like (addrToLike al addr) (xrc20_history db))"

definition GetXrc721HistoryCount :: "'a address_lib \<Rightarrow> 'p registry \<Rightarrow> string \<Rightarrow> xrc_db \<Rightarrow> go_error + nat" where
  "GetXrc721HistoryCount al registry addr db = getCount registry (history_like (addrToLike al addr) (xrc721_history db))"

definition GetXrc20HistoryByContractCount :: "'a address_lib \<Rightarrow> 'p registry \<Rightarrow> string \<Rightarrow> string \<Rightarrow> xrc_db \<Rightarrow> go_error + nat" where
  "GetXrc20HistoryByContractCount al registry contract addr db =
     andThen (registered ''actions'' ''actions'' registry) (\<lambda>_.
     andThen (FromString al addr) (\<lambda>a.
     Inr (length (filter (\<lambda>r. xh_Address r = contract \<and> topics_like (al_Hex al a) r) (xrc20_history db)))))"

definition GetXrc721Count :: "'p registry \<Rightarrow> string \<Rightarrow> xrc_db \<Rightarrow> go_error + nat" where
  "GetXrc721Count registry address db = getCount registry (Inr (xrc721_history db))"

definition GetXrc20Count :: "'p registry \<Rightarrow> string \<Rightarrow> xrc_db \<Rightarrow> go_error + nat" where
  "GetXrc20Count registry address db = getCount registry (Inr (xrc20_history db))"

definition GetXrc20HolderCount :: "'p registry \<Rightarrow> string \<Rightarrow> xrc_db \<Rightarrow> go_error + nat" where
  "GetXrc20HolderCount registry addr db = getCount registry (Inr (filter (\<lambda>((contract, _), _). contract = addr) (xrc20_holders db)))"

definition GetXrc721HolderCount :: "'p registry \<Rightarrow> string \<Rightarrow> xrc_db \<Rightarrow> go_error + nat" where
  "GetXrc721HolderCount registry addr db = getCount registry (Inr (filter (\<lambda>((contract, _), _). contract = addr) (xrc721_holders db)))"

definition GetXrc20AddressesCount :: "'p registry \<Rightarrow> string \<Rightarrow> xrc_db \<Rightarrow> go_error + nat" where
  "GetXrc20AddressesCount registry addr db = getCount registry (Inr (column xh_Address (filter (\<lambda>r. xh_Address r \<noteq> []) (xrc20_history db))))"

definition GetXrc721AddressesCount :: "'p registry \<Rightarrow> string \<Rightarrow> xrc_db \<Rightarrow> go_error + nat" where
  "GetXrc721AddressesCount registry addr db = getCount registry (Inr (column xh_Address (filter (\<lambda>r. xh_Address r \<noteq> []) (xrc721_history db))))"

definition GetEvmTransferCount :: "'p registry \<Rightarrow> string \<Rightarrow> balance_history_row list \<Rightarrow> go_error + nat" where
  "GetEvmTransferCount registry addr ht =
     getCount registry (Inr (filter (\<lambda>r. bh_ActionType r = ''execution'' \<and> (bh_From r = addr \<or> bh_To r = addr)) ht))"

subsection \<open>Holders of the native token\<close>

definition GetTopHolders ::
  "string \<Rightarrow> ((string \<times> int) list \<Rightarrow> (string \<times> int) list) \<Rightarrow> 'p registry \<Rightarrow> u64 \<Rightarrow> u64 \<Rightarrow> u64 \<Rightarrow> accounts_db \<Rightarrow> go_error + TopHolder list"
where
  "GetTopHolders zeroAddress ord registry endEpochNumber skip first adb =
     andThen (registered ''actions'' ''actions'' registry) (\<lambda>_.
     andThen (some_rows (limit skip first (order_desc ord snd (group_sum (\<lambda>((_, a), _). a) snd
       (filter (\<lambda>((e, a), _). e \<le> endEpochNumber \<and> a \<noteq> [] \<and> a \<noteq> zeroAddress) (account_income adb)))))) (\<lambda>rows.
     Inr (map (\<lambda>(a, balance). \<lparr>th_Address = a, th_Balance = big_String balance\<rparr>) rows)))"

definition GetTotalNumberOfHolders :: "'p registry \<Rightarrow> accounts_db \<Rightarrow> go_error + nat" where
  "GetTotalNumberOfHolders registry adb =
     andThen (registered ''actions'' ''actions'' registry) (\<lambda>_.
     Inr (length (column (\<lambda>((_, a), _). a) (filter (\<lambda>((_, a), _). a \<noteq> []) (account_income adb)))))"

definition GetTotalAccountSupply :: "'p registry \<Rightarrow> accounts_db \<Rightarrow> go_error + string" where
  "GetTotalAccountSupply registry adb =
     andThen (registered ''actions'' ''actions'' registry) (\<lambda>_.
     andThen (wrap ''failed to execute get query''
       (scan_some (sql_sum snd (filter (\<lambda>((e, a), _). e \<noteq> 0 \<and> a = []) (account_income adb))))) (\<lambda>n.
     let shown = big_String n in
     case big_SetString 10 shown of
       None \<Rightarrow> Inl (ErrMsg (''failed to format to big int:'' @ shown))
     | Some ret \<Rightarrow> Inr (if ret < 0 then big_String \<bar>ret\<bar> else shown)))"

end
