(* ===== verification/Query_Actions_Laws.thy ===== *)
theory Query_Actions_Laws imports Query_Xrc begin

text \<open>
  Lists and counts of actions and events fit together: the pages of a list hold as many rows as the
  count says, the events of an address are found by it, and the top holders are the largest
  balances. Where list and count disagree, the disagreement is shown on concrete tables.
\<close>

subsection \<open>Pages of actions\<close>

text \<open>Every action has its block, as the foreign key demands, and times are not negative.\<close>

definition has_block :: "BlockHistory list \<Rightarrow> ActionHistory \<Rightarrow> bool" where
  "has_block bt a \<longleftrightarrow> (\<exists>b \<in> set bt. bk_BlockHeight b = ah_BlockHeight a)"

definition good_times :: "BlockHistory list \<Rightarrow> bool" where
  "good_times bt \<longleftrightarrow> (\<forall>b \<in> set bt. 0 \<le> bk_Timestamp b \<and> bk_Timestamp b < 2 ^ 64)"

lemma filter_distinct_key:
  "distinct (map f xs) \<Longrightarrow> x \<in> set xs \<Longrightarrow> filter (\<lambda>y. f y = f x) xs = [x]"
proof (induction xs)
  case (Cons y ys)
  show ?case
  proof (cases "y = x")
    case True
    then have "\<forall>z \<in> set ys. f z \<noteq> f x" using Cons.prems(1) by (metis distinct.simps(2) image_eqI list.simps(9) set_map)
    then have "filter (\<lambda>y. f y = f x) ys = []" by (simp add: filter_empty_conv)
    with True show ?thesis by simp
  next
    case False
    then have "x \<in> set ys" using Cons.prems(2) by simp
    moreover from this have "f y \<noteq> f x" using Cons.prems(1) by force
    ultimately show ?thesis using Cons by simp
  qed
qed simp

lemma with_block_row:
  assumes "distinct (map bk_BlockHeight bt)" "has_block bt a"
  shows "\<exists>b \<in> set bt. bk_BlockHeight b = ah_BlockHeight a \<and>
    (case filter (\<lambda>b. ah_BlockHeight a = bk_BlockHeight b) bt of [] \<Rightarrow> [(a, None)] | ms \<Rightarrow> map (\<lambda>y. (a, Some y)) ms) = [(a, Some b)]"
proof -
  obtain b where b: "b \<in> set bt" "bk_BlockHeight b = ah_BlockHeight a" using assms(2) by (auto simp: has_block_def)
  have "filter (\<lambda>c. ah_BlockHeight a = bk_BlockHeight c) bt = [b]"
    using filter_distinct_key[OF assms(1) b(1)] b(2) by (simp add: eq_commute)
  with b show ?thesis by (intro bexI[of _ b]) auto
qed

lemma with_block_filter:
  assumes "distinct (map bk_BlockHeight bt)" "\<And>a. a \<in> set acts \<Longrightarrow> has_block bt a"
  shows "map fst (filter (\<lambda>(a, _). P a) (with_block acts bt)) = filter P acts"
    and "\<And>r. r \<in> set (with_block acts bt) \<Longrightarrow> \<exists>b \<in> set bt. snd r = Some b"
proof -
  have "map fst (filter (\<lambda>(a, _). P a) (with_block acts bt)) = filter P acts \<and>
    (\<forall>r \<in> set (with_block acts bt). \<exists>b \<in> set bt. snd r = Some b)"
    using assms(2)
  proof (induction acts)
    case (Cons a acts)
    obtain b where b: "b \<in> set bt" and row: "(case filter (\<lambda>b. ah_BlockHeight a = bk_BlockHeight b) bt of
        [] \<Rightarrow> [(a, None)] | ms \<Rightarrow> map (\<lambda>y. (a, Some y)) ms) = [(a, Some b)]"
      using with_block_row[OF assms(1), of a] Cons.prems by auto
    have "with_block (a # acts) bt = (a, Some b) # with_block acts bt"
      using row by (simp add: with_block_def left_join_def)
    then show ?case using Cons b by simp
  qed (simp add: with_block_def left_join_def)
  then show "map fst (filter (\<lambda>(a, _). P a) (with_block acts bt)) = filter P acts"
    and "\<And>r. r \<in> set (with_block acts bt) \<Longrightarrow> \<exists>b \<in> set bt. snd r = Some b" by auto
qed

lemma action_list_page:
  assumes "good_times bt" "\<And>r. r \<in> set rows \<Longrightarrow> \<exists>b \<in> set bt. snd r = Some b"
  shows "\<exists>f. (case action_list rows of Inl _ \<Rightarrow> [] | Inr infos \<Rightarrow> infos) = map f rows"
proof -
  have "\<exists>f. mapE action_info rows = Inr (map f rows)"
  proof (rule exI, rule mapE_map)
    fix r assume "r \<in> set rows"
    then obtain b where b: "b \<in> set bt" "snd r = Some b" using assms(2) by blast
    then have "scan_u64 (bk_Timestamp b) = Inr (word_of_int (bk_Timestamp b))"
      using assms(1) by (auto simp: good_times_def scan_u64_def)
    then show "action_info r = Inr (projr (action_info r))"
      using b(2) by (cases r) (simp add: action_info_def scan_some_def)
  qed
  then show ?thesis by (auto simp: action_list_def some_rows_def)
qed

lemma action_pages_length:
  assumes "distinct (map bk_BlockHeight bt)" "\<And>a. a \<in> set acts \<Longrightarrow> has_block bt a" "good_times bt"
    and ords: "\<And>i. range_order (ords i)" and size: "k * n < 2 ^ 64" "0 < n"
  shows "sum_list (map (\<lambda>i. length (case action_list (limit (of_nat (i * n)) (of_nat n)
      (order_desc (ords i) key (filter (\<lambda>(a, _). P a) (with_block acts bt)))) of Inl _ \<Rightarrow> [] | Inr infos \<Rightarrow> infos)) [0..<k])
    = min (k * n) (length (filter P acts))"
proof -
  let ?rows = "filter (\<lambda>(a, _). P a) (with_block acts bt)"
  have len: "length ?rows = length (filter P acts)"
    using arg_cong[OF with_block_filter(1)[OF assms(1,2), of acts P], of length] by simp
  have "length (case action_list (limit (of_nat (i * n)) (of_nat n) (order_desc (ords i) key ?rows)) of Inl _ \<Rightarrow> [] | Inr infos \<Rightarrow> infos)
      = length (take n (drop (i * n) (order_desc (ords i) key ?rows)))" if "i < k" for i
  proof -
    have "i * n < k * n" "n \<le> k * n" using that size(2) by (simp_all add: Suc_le_eq)
    then have "i * n < 2 ^ 64" "n < 2 ^ 64" using size(1) by linarith+
    note lim = limit_page[OF this, of "order_desc (ords i) key ?rows"]
    have "\<exists>b \<in> set bt. snd r = Some b" if "r \<in> set (take n (drop (i * n) (order_desc (ords i) key ?rows)))" for r
    proof -
      have "r \<in> set ?rows"
        using that set_order_desc[OF ords[of i], of key ?rows] by (metis in_set_takeD in_set_dropD)
      then show ?thesis using with_block_filter(2)[OF assms(1,2)] by simp
    qed
    from action_list_page[OF assms(3) this] show ?thesis unfolding lim by (metis length_map)
  qed
  note page = this
  have "sum_list (map (\<lambda>i. length (case action_list (limit (of_nat (i * n)) (of_nat n) (order_desc (ords i) key ?rows)) of Inl _ \<Rightarrow> [] | Inr infos \<Rightarrow> infos)) [0..<k])
      = sum_list (map (\<lambda>i. length (take n (drop (i * n) (order_desc (ords i) key ?rows)))) [0..<k])"
    by (rule arg_cong[where f = sum_list], rule map_cong[OF refl], rule page) simp
  also have "\<dots> = min (k * n) (length ?rows)" by (rule pages_length) (simp add: ords)
  finally show ?thesis using len by simp
qed

definition listed :: "go_error + 'r list \<Rightarrow> 'r list" where
  "listed r = (case r of Inl _ \<Rightarrow> [] | Inr rows \<Rightarrow> rows)"

text \<open>The number of rows on the first \<open>k\<close> pages of size \<open>n\<close>.\<close>

definition rows_on_pages :: "nat \<Rightarrow> nat \<Rightarrow> (nat \<Rightarrow> u64 \<Rightarrow> u64 \<Rightarrow> go_error + 'r list) \<Rightarrow> nat" where
  "rows_on_pages k n page = sum_list (map (\<lambda>i. length (listed (page i (of_nat (i * n)) (of_nat n)))) [0..<k])"

lemma action_pages_hold_count_parts:
  assumes "Find ''actions'' registry \<noteq> None" "Find ''accounts'' registry \<noteq> None"
    and "distinct (map bk_BlockHeight bt)" "\<And>a. a \<in> set acts \<Longrightarrow> has_block bt a" "good_times bt"
    and "\<And>i. range_order (ords i)" "k * n < 2 ^ 64" "0 < n" "length acts \<le> k * n"
  shows "GetActionCountByAddress registry addr acts =
      Inr (rows_on_pages k n (\<lambda>i offset sz. GetActionsByAddress (ords i) registry addr offset sz acts bt))"
    and "GetActionCountByType registry actionType acts =
      Inr (rows_on_pages k n (\<lambda>i offset sz. GetActionsByType (ords i) registry actionType offset sz acts bt))"
    and "GetActionCountByAddressAndType registry addr actionType acts =
      Inr (rows_on_pages k n (\<lambda>i offset sz. GetActionsByAddressAndType (ords i) registry addr actionType offset sz acts bt))"
proof -
  have reg: "registered ''actions'' ''actions'' registry = Inr ()" "registered ''accounts'' ''accounts'' registry = Inr ()"
    using assms(1,2) by (auto simp: registered_def)
  have all: "min (k * n) (length (filter P acts)) = length (filter P acts)" for P
    using order_trans[OF length_filter_le[of P acts] assms(9)] by (rule min_absorb2)
  note len = action_pages_length[OF assms(3-8)]
  show "GetActionCountByAddress registry addr acts =
      Inr (rows_on_pages k n (\<lambda>i offset sz. GetActionsByAddress (ords i) registry addr offset sz acts bt))"
    by (simp only: GetActionCountByAddress_def getCount_def GetActionsByAddress_def rows_on_pages_def listed_def reg wrap_Inr andThen_Inr len all)
  show "GetActionCountByType registry actionType acts =
      Inr (rows_on_pages k n (\<lambda>i offset sz. GetActionsByType (ords i) registry actionType offset sz acts bt))"
    by (simp only: GetActionCountByType_def getCount_def GetActionsByType_def rows_on_pages_def listed_def reg wrap_Inr andThen_Inr len all)
  show "GetActionCountByAddressAndType registry addr actionType acts =
      Inr (rows_on_pages k n (\<lambda>i offset sz. GetActionsByAddressAndType (ords i) registry addr actionType offset sz acts bt))"
    by (simp only: GetActionCountByAddressAndType_def getCount_def GetActionsByAddressAndType_def rows_on_pages_def listed_def reg wrap_Inr andThen_Inr len all)
qed

text \<open>C22: Over actions whose blocks are stored, the pages of the lists by address, by type and by
  both hold together exactly as many actions as the count queries say, in every order the database may
  use for each page.\<close>

theorem action_pages_hold_count:
  assumes "Find ''actions'' registry \<noteq> None" "Find ''accounts'' registry \<noteq> None"
    and "distinct (map bk_BlockHeight bt)" "\<And>a. a \<in> set acts \<Longrightarrow> has_block bt a" "good_times bt"
    and "\<And>i. range_order (ords i)" "k * n < 2 ^ 64" "0 < n" "length acts \<le> k * n"
  shows "(GetActionCountByAddress registry addr acts =
      Inr (rows_on_pages k n (\<lambda>i offset sz. GetActionsByAddress (ords i) registry addr offset sz acts bt))) \<and>
     (GetActionCountByType registry actionType acts =
      Inr (rows_on_pages k n (\<lambda>i offset sz. GetActionsByType (ords i) registry actionType offset sz acts bt))) \<and>
     (GetActionCountByAddressAndType registry addr actionType acts =
      Inr (rows_on_pages k n (\<lambda>i offset sz. GetActionsByAddressAndType (ords i) registry addr actionType offset sz acts bt)))"
  by (intro conjI action_pages_hold_count_parts[OF assms])


definition sample_action :: "string \<Rightarrow> ActionHistory" where
  "sample_action hash = \<lparr>ah_ActionType = ''transfer'', ah_ActionHash = hash, ah_ReceiptHash = [], ah_BlockHeight = 9,
     ah_From = ''a'', ah_To = ''b'', ah_GasPrice = 1, ah_GasConsumed = 2, ah_Nonce = 1, ah_Amount = 3, ah_ReceiptStatus = ''success''\<rparr>"

definition block_9 :: BlockHistory where
  "block_9 =
     \<lparr>bk_EpochNumber = 1, bk_BlockHeight = 9, bk_BlockHash = ''bh'', bk_Transfer = 2, bk_Execution = 0,
      bk_DepositToRewaringFund = 0, bk_ClaimFromRewardingFund = 0, bk_GrantReward = 0, bk_PutPollResult = 0,
      bk_StakeCreate = 0, bk_StakeUnstake = 0, bk_StakeWithdraw = 0, bk_StakeAddDeposit = 0, bk_StakeRestake = 0,
      bk_StakeChangeCandidate = 0, bk_StakeTransferOwnership = 0, bk_CandidateRegister = 0, bk_CandidateUpdate = 0,
      bk_GasConsumed = 0, bk_ProducerAddress = [], bk_ProducerName = [], bk_ExpectedProducerAddress = [],
      bk_ExpectedProducerName = [], bk_Timestamp = 100\<rparr>"

lemma action_pages_hold_count_witness:
  "GetActionCountByAddress [(''actions'', ()), (''accounts'', ())] ''a'' [sample_action ''x'', sample_action ''y''] =
     Inr (rows_on_pages 2 1 (\<lambda>i offset sz. GetActionsByAddress rev [(''actions'', ()), (''accounts'', ())] ''a'' offset sz
       [sample_action ''x'', sample_action ''y''] [block_9]))"
  by (rule action_pages_hold_count[THEN conjunct1]) (auto simp: Find_def has_block_def good_times_def sample_action_def block_9_def)

text \<open>The pages are ordered by the block time alone, which all actions of a block
  share: two pages of one list can both show the same action and hide another.\<close>

theorem page_ties_may_repeat:
  "let acts = [sample_action ''x'', sample_action ''y'']; reg = [(''actions'', ()), (''accounts'', ())];
       first = GetActionsByAddress (\<lambda>rs. rs) reg ''a'' 0 1 acts [block_9];
       second = GetActionsByAddress rev reg ''a'' 1 1 acts [block_9]
   in map aq_ActHash (listed first) = [''y''] \<and> map aq_ActHash (listed second) = [''y'']"
  by code_simp

text \<open>GetActionCountByDates counts the blocks of the range, not the actions: for a block with two
  actions the list shows two and the count says one.\<close>

theorem count_by_dates_counts_blocks:
  "let acts = [sample_action ''x'', sample_action ''y'']; reg = [(''actions'', ()), (''accounts'', ())]
   in length (listed (GetActionsByDates (\<lambda>rs. rs) reg 0 200 0 10 acts [block_9])) = 2 \<and>
      GetActionCountByDates reg 0 200 [block_9] = Inr 1"
  by code_simp

text \<open>GetActiveAccount lists an account once for each of its blocks, so that one account can fill the
  whole list.\<close>

theorem active_accounts_may_repeat:
  "GetActiveAccount (\<lambda>rs. rs) [(''actions'', ())] 10
     [sample_action ''x'', (sample_action ''y'')\<lparr>ah_BlockHeight := 8\<rparr>] = Inr [''a'', ''a'']"
  by code_simp

subsection \<open>Transfers of contracts\<close>

text \<open>Each transfer that GetEvmTransferDetailListByAddress lists is a row of the balance
  history the address takes part in, with its amount, but the field for the block hash holds the block
  height in decimals.\<close>

theorem evm_block_hash_is_height:
  assumes "GetEvmTransferDetailListByAddress ord registry address offset sz ht bt = Inr ds" "d \<in> set ds" "range_order ord"
  shows "\<exists>r \<in> set ht. ed_ActHash d = bh_ActionHash r \<and> (bh_From r = address \<or> bh_To r = address) \<and>
     ed_Quantity d = big_String (bh_Amount r) \<and> ed_BlkHash d = big_String (uint (bh_BlockHeight r))"
proof -
  let ?rows = "filter (\<lambda>(r, _). bh_ActionType r = ''execution'' \<and> (bh_From r = address \<or> bh_To r = address))
    (left_join (\<lambda>r b. bh_BlockHeight r = bk_BlockHeight b) ht bt)"
  have "ds = map evm_detail (limit offset sz (order_desc ord (\<lambda>(_, b). map_option bk_Timestamp b) ?rows))"
    using assms(1) by (auto simp: GetEvmTransferDetailListByAddress_def andThen_eq_Inr)
  then obtain q where q: "q \<in> set (limit offset sz (order_desc ord (\<lambda>(_, b). map_option bk_Timestamp b) ?rows))" "d = evm_detail q"
    using assms(2) by auto
  obtain r b where rb: "q = (r, b)" by (cases q)
  from in_limit[OF q(1)] have "(r, b) \<in> set ?rows" by (simp only: set_order_desc[OF assms(3)] rb)
  then have "r \<in> set ht" "bh_From r = address \<or> bh_To r = address" by (simp_all add: set_left_join)
  then show ?thesis by (intro bexI[of _ r]) (simp_all add: q(2) rb evm_detail_def)
qed

definition paid_by :: "string \<Rightarrow> int \<Rightarrow> balance_history_row" where
  "paid_by from n = \<lparr>bh_EpochNumber = 1, bh_BlockHeight = 9, bh_ActionHash = ''x'', bh_ActionType = ''execution'', bh_From = from,
     bh_To = ''b'', bh_Amount = n\<rparr>"

lemma evm_block_hash_is_height_witness:
  "\<exists>r \<in> set [paid_by ''a'' 5]. ed_ActHash (evm_detail (paid_by ''a'' 5, Some block_9)) = bh_ActionHash r \<and>
     (bh_From r = ''a'' \<or> bh_To r = ''a'') \<and>
     ed_Quantity (evm_detail (paid_by ''a'' 5, Some block_9)) = big_String (bh_Amount r) \<and>
     ed_BlkHash (evm_detail (paid_by ''a'' 5, Some block_9)) = big_String (uint (bh_BlockHeight r))"
  by (rule evm_block_hash_is_height[of rev "[(''accounts'', ())]" "''a''" 0 7 "[paid_by ''a'' 5]" "[block_9]" "[evm_detail (paid_by ''a'' 5, Some block_9)]"])
    (simp_all add: GetEvmTransferDetailListByAddress_def registered_def Find_def paid_by_def block_9_def left_join_def limit_def order_desc_def some_rows_def)

subsection \<open>Top holders\<close>

definition net_income :: "u64 \<Rightarrow> accounts_db \<Rightarrow> string \<Rightarrow> int" where
  "net_income endE adb a = sum_list (map snd (filter (\<lambda>((e, b), _). e \<le> endE \<and> b = a) (account_income adb)))"

lemma keys_entry: "k \<in> keys m \<Longrightarrow> \<exists>v. (k, v) \<in> set m"
  by auto

lemma take_order_desc_max:
  assumes "range_order ord" "x \<in> set (take n (order_desc ord key rows))" "y \<in> set rows" "y \<notin> set (take n (order_desc ord key rows))"
  shows "key y \<le> key x"
proof -
  let ?s = "order_desc ord key rows"
  have "y \<in> set (drop n ?s)"
    using assms(3,4) set_order_desc[OF assms(1), of key rows] by (metis UnE append_take_drop_id set_append)
  moreover have "sorted_wrt (\<lambda>a b. key b \<le> key a) (take n ?s @ drop n ?s)"
    using sorted_order_desc[of key ord rows] by (simp only: append_take_drop_id sorted_wrt_rev sorted_wrt_map)
  ultimately show ?thesis using assms(2) unfolding sorted_wrt_append by blast
qed

lemma top_holders_are_largest_parts:
  assumes "GetTopHolders zeroAddress ord registry endE 0 n adb = Inr holders" "range_order ord"
  shows "\<forall>h \<in> set holders. th_Balance h = big_String (net_income endE adb (th_Address h)) \<and> th_Address h \<notin> {[], zeroAddress}"
    and "distinct (map th_Address holders)" "length holders \<le> unat n"
    and "sorted (rev (map (net_income endE adb \<circ> th_Address) holders))"
    and "\<And>e a v h. ((e, a), v) \<in> set (account_income adb) \<Longrightarrow> e \<le> endE \<Longrightarrow> a \<notin> {[], zeroAddress} \<union> th_Address ` set holders \<Longrightarrow>
      h \<in> set holders \<Longrightarrow> net_income endE adb a \<le> net_income endE adb (th_Address h)"
proof -
  let ?rows = "filter (\<lambda>((e, a), _). e \<le> endE \<and> a \<noteq> [] \<and> a \<noteq> zeroAddress) (account_income adb)"
  let ?sums = "group_sum (\<lambda>((_, a), _). a) snd ?rows"
  let ?s = "order_desc ord snd ?sums"
  have holders: "holders = map (\<lambda>(a, v). \<lparr>th_Address = a, th_Balance = big_String v\<rparr>) (take (unat n) ?s)"
    using assms(1) by (auto simp: GetTopHolders_def andThen_eq_Inr limit_def)
  then have names: "map th_Address holders = map fst (take (unat n) ?s)" by (auto simp: comp_def case_prod_beta)
  have sum: "v = net_income endE adb a \<and> a \<notin> {[], zeroAddress}" if "(a, v) \<in> set ?sums" for a v
  proof -
    have a: "a \<notin> {[], zeroAddress}" "v = sum_list (map snd (filter (\<lambda>r. snd (fst r) = a) ?rows))"
      using that by (auto simp: group_sum_mem case_prod_beta)
    have "filter (\<lambda>r. snd (fst r) = a) ?rows = filter (\<lambda>((e, b), _). e \<le> endE \<and> b = a) (account_income adb)"
      using a(1) by (auto intro!: filter_cong)
    then show ?thesis using a by (simp add: net_income_def)
  qed
  have listed: "(a, v) \<in> set ?sums" if "(a, v) \<in> set (take (unat n) ?s)" for a v
    using in_set_takeD[OF that] by (simp add: set_order_desc[OF assms(2)])
  have entry: "\<exists>v. (th_Address h, v) \<in> set (take (unat n) ?s) \<and> th_Balance h = big_String v" if "h \<in> set holders" for h
    using that unfolding holders by auto
  show "\<forall>h \<in> set holders. th_Balance h = big_String (net_income endE adb (th_Address h)) \<and> th_Address h \<notin> {[], zeroAddress}"
    using entry listed sum by blast
  have "distinct (map fst ?s)"
    using group_sum_distinct[of "\<lambda>((_, a), _). a" snd ?rows]
      mset_eq_imp_distinct_iff[OF arg_cong[OF mset_order_desc[OF assms(2), of snd ?sums], of "image_mset fst", folded mset_map]]
    by simp
  then show "distinct (map th_Address holders)" unfolding names take_map[symmetric] by (rule distinct_take)
  show "length holders \<le> unat n" by (simp add: holders)
  have "map (net_income endE adb \<circ> th_Address) holders = map snd (take (unat n) ?s)"
    unfolding holders map_map
  proof (rule map_cong[OF refl])
    fix r assume r: "r \<in> set (take (unat n) ?s)"
    show "((net_income endE adb \<circ> th_Address) \<circ> (\<lambda>(a, v). \<lparr>th_Address = a, th_Balance = big_String v\<rparr>)) r = snd r"
      using sum[OF listed, of "fst r" "snd r"] r by (simp add: case_prod_beta)
  qed
  moreover have "sorted (rev (map snd (take (unat n) ?s)))"
    using sorted_order_desc[of snd ord ?sums] unfolding sorted_wrt_rev take_map[symmetric] by (rule sorted_wrt_take)
  ultimately show "sorted (rev (map (net_income endE adb \<circ> th_Address) holders))" by simp
  show "net_income endE adb a \<le> net_income endE adb (th_Address h)"
    if "((e, a), v) \<in> set (account_income adb)" "e \<le> endE" "a \<notin> {[], zeroAddress} \<union> th_Address ` set holders" "h \<in> set holders" for e a v h
  proof -
    note prems = that
    obtain w where w: "(th_Address h, w) \<in> set (take (unat n) ?s)" using entry[OF prems(4)] by blast
    have "a \<in> keys ?sums" using prems(1-3) by (force simp: group_sum_keys)
    from keys_entry[OF this] obtain u where u: "(a, u) \<in> set ?sums" ..
    have "a \<notin> fst ` set (take (unat n) ?s)" using prems(3) arg_cong[OF names, of set] by auto
    then have "(a, u) \<notin> set (take (unat n) ?s)" by force
    from take_order_desc_max[OF assms(2) w u this] sum[OF u] sum[OF listed[OF w]] show ?thesis by simp
  qed
qed



definition rich_db :: accounts_db where
  "rich_db = \<lparr>balance_history = [], account_inflow = [], account_outflow = [],
     account_income = [((2, ''a''), 5), ((2, ''b''), 7), ((3, ''a''), 4), ((9, ''b''), 30)]\<rparr>"


end
