(* ===== verification/Query_Xrc_Laws.thy ===== *)
theory Query_Xrc_Laws imports Query_Actions_Laws begin

text \<open>
  Events are found by the addresses in their topics, the pages of events hold as many as the count
  says.
\<close>

subsection \<open>Finding events\<close>

lemma has_infix_prefix: "take (length p) s = p \<Longrightarrow> has_infix p s"
  by (cases s) auto

lemma has_infix_append: "has_infix p (xs @ p @ ys)"
  by (induction xs) (simp_all add: has_infix_prefix)

lemma lower_append: "lower (xs @ ys) = lower xs @ lower ys"
  by (simp add: lower_def)

lemma lower_digit: "d < 16 \<Longrightarrow> lower [digit_char d] = [digit_char d]"
  by (simp add: lower_def of_char_digit_char)

lemma lower_hex [simp]: "lower (hex_EncodeToString bs) = hex_EncodeToString bs"
proof (induction bs)
  case (Cons b bs)
  have "lower (digit_char d # digit_char e # xs) = digit_char d # digit_char e # lower xs" if "d < 16" "e < 16" for d e xs
    using lower_digit[OF that(1)] lower_digit[OF that(2)] by (simp add: lower_def)
  moreover have "(of_char b :: nat) div 16 < 16" "(of_char b :: nat) mod 16 < 16"
    using of_char_less[of b] by (simp_all add: less_mult_imp_div_less)
  ultimately show ?case using Cons by simp
qed (simp add: lower_def)

lemma lower_lower [simp]: "lower (lower s) = lower s"
  by (auto simp: lower_def)

lemma topics_like_lower [simp]: "topics_like (lower p) = topics_like p"
  by (simp add: fun_eq_iff topics_like_def)

definition parses :: "libs \<Rightarrow> Xrc20History \<Rightarrow> bool" where
  "parses l r \<longleftrightarrow> (\<exists>info. xrc_info l r = Inr info)"

lemma xrc_page_listed:
  assumes "\<And>r. r \<in> set rows \<Longrightarrow> parses l r" "range_order ord"
  shows "\<exists>f. (\<forall>r \<in> set rows. xrc_info l r = Inr (f r)) \<and>
    listed (xrc_page l ord offset sz rows) = map f (limit offset sz (order_desc ord xh_Timestamp rows))"
proof -
  let ?f = "\<lambda>r. projr (xrc_info l r)"
  have ok: "\<forall>r \<in> set rows. xrc_info l r = Inr (?f r)" using assms(1) by (fastforce simp: parses_def)
  have "mapE (xrc_info l) (limit offset sz (order_desc ord xh_Timestamp rows)) =
      Inr (map ?f (limit offset sz (order_desc ord xh_Timestamp rows)))"
  proof (rule mapE_map)
    fix r assume "r \<in> set (limit offset sz (order_desc ord xh_Timestamp rows))"
    from in_limit[OF this] show "xrc_info l r = Inr (?f r)" using ok by (simp add: set_order_desc[OF assms(2)])
  qed
  then have "listed (xrc_page l ord offset sz rows) = map ?f (limit offset sz (order_desc ord xh_Timestamp rows))"
    by (simp add: xrc_page_def some_rows_def listed_def)
  with ok show ?thesis by (intro exI[of _ ?f] conjI)
qed


text \<open>The pages of GetXrc20ByAddress hold together as many transfers as
  GetXrc20HistoryCount says, in every order the database may use for each page.\<close>

theorem xrc_pages_hold_history_count:
  assumes "GetXrc20HistoryCount al registry addr db = Inr c" "\<And>i. range_order (ords i)"
    and parse: "\<And>r. r \<in> set (xrc20_history db) \<Longrightarrow> parses l r"
    and size: "k * n < 2 ^ 64" "0 < n" "c \<le> k * n"
  shows "rows_on_pages k n (\<lambda>i _ sz. GetXrc20ByAddress l al (ords i) registry addr sz (of_nat (Suc i)) db) = c"
proof -
  obtain a where a: "al_FromString al addr = Inr a" and reg: "registered ''actions'' ''actions'' registry = Inr ()"
    using assms(1)
    by (auto simp: GetXrc20HistoryCount_def getCount_def addrToLike_def history_like_def andThen_eq_Inr split: sum.splits)
  let ?hits = "filter (topics_like (al_Hex al a)) (xrc20_history db)"
  have c: "c = length ?hits"
    using assms(1) a reg
    by (auto simp: GetXrc20HistoryCount_def getCount_def addrToLike_def history_like_def)
  have page: "length (listed (GetXrc20ByAddress l al (ords i) registry addr (of_nat n) (of_nat (Suc i)) db)) =
      length (take n (drop (i * n) (order_desc (ords i) xh_Timestamp ?hits)))" if "i < k" for i
  proof -
    have "i * n < k * n" "n \<le> k * n" using that size(2) by (simp_all add: Suc_le_eq)
    moreover have "k \<le> k * n" using size(2) by simp
    then have "Suc i \<le> k * n" using that by linarith
    ultimately have lt: "i * n < 2 ^ 64" "n < 2 ^ 64" "Suc i < 2 ^ 64" using size(1) by linarith+
    have "unat (of_nat (Suc i) :: u64) = Suc i"
      using lt(3) by (simp add: unsigned_of_nat take_bit_nat_eq_self del: of_nat_Suc)
    then have "\<not> (of_nat (Suc i) :: u64) < 1" by (simp add: word_less_nat_alt del: of_nat_Suc)
    then have off: "page_offset (of_nat n) (of_nat (Suc i)) = of_nat (i * n)" by (simp add: page_offset_def)
    obtain f where "listed (xrc_page l (ords i) (of_nat (i * n)) (of_nat n) ?hits) =
        map f (limit (of_nat (i * n)) (of_nat n) (order_desc (ords i) xh_Timestamp ?hits))"
      using xrc_page_listed[of ?hits l "ords i" "of_nat (i * n)" "of_nat n"] parse assms(2) by auto
    then have "length (listed (xrc_page l (ords i) (of_nat (i * n)) (of_nat n) ?hits)) =
        length (take n (drop (i * n) (order_desc (ords i) xh_Timestamp ?hits)))"
      unfolding limit_page[OF lt(1,2)] by (metis length_map)
    moreover have "GetXrc20ByAddress l al (ords i) registry addr (of_nat n) (of_nat (Suc i)) db =
        xrc_page l (ords i) (of_nat (i * n)) (of_nat n) ?hits"
      using a reg off by (simp only: GetXrc20ByAddress_def getXrcByAddress_def FromString_def sum.case andThen_Inr)
    ultimately show ?thesis by simp
  qed
  have "rows_on_pages k n (\<lambda>i _ sz. GetXrc20ByAddress l al (ords i) registry addr sz (of_nat (Suc i)) db)
      = sum_list (map (\<lambda>i. length (take n (drop (i * n) (order_desc (ords i) xh_Timestamp ?hits)))) [0..<k])"
    unfolding rows_on_pages_def by (rule arg_cong[where f = sum_list], rule map_cong[OF refl], rule page) simp
  also have "\<dots> = min (k * n) (length ?hits)" by (rule pages_length) (simp add: assms(2))
  finally show ?thesis using size(3) c by simp
qed

text \<open>An address that cannot be parsed is reported as invalid by the lists, but makes the count
  query send a broken SQL text to the database, because addrToLike answers with the empty string.\<close>

theorem invalid_address_errors:
  assumes "Find ''actions'' registry \<noteq> None" "al_FromString al addr = Inl e"
  shows "GetXrc20ByAddress l al ord registry addr numPerPage page db = Inl (ErrMsg ''address is invalid'')"
    and "GetXrc20HistoryByContractCount al registry contract addr db = Inl (ErrMsg ''address is invalid'')"
    and "GetXrc20HistoryCount al registry addr db = Inl (Wrapped ''failed to prepare get query'' (ErrSQL ''syntax error''))"
  using assms
  by (auto simp: GetXrc20ByAddress_def getXrcByAddress_def GetXrc20HistoryByContractCount_def GetXrc20HistoryCount_def
    getCount_def addrToLike_def history_like_def FromString_def registered_def wrap_def)

definition transfer_row :: "string \<Rightarrow> int \<Rightarrow> Xrc20History" where
  "transfer_row hash t = \<lparr>xh_ActionHash = hash, xh_ReceiptHash = hash, xh_Address = ''token'',
     xh_Topics = hex_EncodeToString (replicate 32 (CHR ''s'') @ replicate 12 (CHR ''0'') @ replicate 20 (CHR ''a'') @ replicate 12 (CHR ''0'') @ replicate 20 (CHR ''b'')),
     xh_Data = hex_EncodeToString (replicate 32 (CHR ''1'')), xh_BlockHeight = 9, xh_Index = 0, xh_Timestamp = t, xh_Status = ''success''\<rparr>"

definition transfer_db :: xrc_db where
  "transfer_db = \<lparr>xrc20_history = [transfer_row ''x'' 1, transfer_row ''y'' 2], xrc20_holders = [], xrc721_history = [], xrc721_holders = []\<rparr>"

definition plain_addresses :: "string address_lib" where
  "plain_addresses = \<lparr>al_FromString = (\<lambda>s. if s = [] then Inl (ErrExternal ''empty'') else Inr s), al_String = (\<lambda>s. s), al_Hex = hex_EncodeToString\<rparr>"

lemma transfer_row_parses: "parses address_libs (transfer_row hash t)"
proof -
  have "lib_AddressFromBytes address_libs (lib_HexToAddress address_libs (hex_EncodeToString (replicate 20 (CHR ''a'')))) = Inr ''6161''"
    and "lib_AddressFromBytes address_libs (lib_HexToAddress address_libs (hex_EncodeToString (replicate 20 (CHR ''b'')))) = Inr ''6262''"
    by code_simp+
  then have "ParseContractData address_libs (xh_Topics (transfer_row hash t)) (xh_Data (transfer_row hash t)) =
      Inr (''6161'', ''6262'', big_String (big_SetBytes (replicate 32 (CHR ''1''))))"
    by (intro ParseContractData_event[of "replicate 32 (CHR ''s'')" "replicate 12 (CHR ''0'')" "replicate 20 (CHR ''a'')"
        "replicate 12 (CHR ''0'')" "replicate 20 (CHR ''b'')"])
      (simp_all only: length_replicate transfer_row_def Xrc20History.simps hex_append append_assoc)
  then show ?thesis by (simp add: parses_def xrc_info_def)
qed


lemma invalid_address_errors_witness:
  "GetXrc20ByAddress address_libs plain_addresses rev [(''actions'', ())] [] 5 1 transfer_db = Inl (ErrMsg ''address is invalid'') \<and>
   GetXrc20HistoryCount plain_addresses [(''actions'', ())] [] transfer_db = Inl (Wrapped ''failed to prepare get query'' (ErrSQL ''syntax error''))"
  by (intro conjI invalid_address_errors[where e = "ErrExternal ''empty''"]) (simp_all add: Find_def plain_addresses_def)

lemma xrc_pages_hold_history_count_witness:
  "rows_on_pages 2 1 (\<lambda>i _ sz. GetXrc20ByAddress address_libs plain_addresses rev [(''actions'', ())] (replicate 20 (CHR ''b'')) sz (of_nat (Suc i)) transfer_db) = 2"
proof (rule xrc_pages_hold_history_count)
  have "topics_like (hex_EncodeToString (replicate 20 (CHR ''b''))) (transfer_row hash t)" for hash t
    using has_infix_append[of "hex_EncodeToString (replicate 20 (CHR ''b''))"
        "hex_EncodeToString (replicate 32 (CHR ''s'') @ replicate 12 (CHR ''0'') @ replicate 20 (CHR ''a'') @ replicate 12 (CHR ''0''))" "[]"]
    unfolding topics_like_def lower_hex by (simp add: transfer_row_def flip: hex_append)
  then show "GetXrc20HistoryCount plain_addresses [(''actions'', ())] (replicate 20 (CHR ''b'')) transfer_db = Inr 2"
    by (simp add: GetXrc20HistoryCount_def getCount_def registered_def Find_def addrToLike_def plain_addresses_def
      history_like_def transfer_db_def)
qed (auto simp: transfer_db_def transfer_row_parses)


end
