(* ===== verification/Resolver_Args.thy ===== *)
theory Resolver_Args imports Query_Base begin

text \<open>
  How the resolver reads the arguments of a request (\<open>graphql/resolver.go\<close>: \<open>parseFieldArguments\<close>,
  \<open>parseVariables\<close> and the getters). A request is what gqlgen hands over: the collected fields of
  the query with their arguments and selections, and the variables. Go's \<open>int\<close> has 64 bits: the
  parsers reject what does not fit, and the conversions to \<open>uint64\<close> are \<open>word_of_int\<close>.
\<close>

subsection \<open>Requests\<close>

text \<open>\<open>ast.Value\<close>: the text, the name of the expected type and the named children of an input object.\<close>

datatype ast_value = Value (val_Raw: string) (val_Type: string) (val_Children: "(string \<times> ast_value) list")

datatype field = Field (fld_Name: string) (fld_Arguments: "(string \<times> ast_value) list") (fld_Selections: "field list")

datatype json = JString string | JNumber string | JBool bool | JObject "(string \<times> json) list" | JOther

record request =
  rq_fields :: "field list"
  rq_variables :: "(string \<times> json) list"

type_synonym args_map = "(string \<times> ast_value) list"

subsection \<open>Numbers and truth values\<close>

definition Atoi :: "string \<Rightarrow> int option" where
  "Atoi s = (case big_SetString 10 s of None \<Rightarrow> None | Some n \<Rightarrow> if - (2 ^ 63) \<le> n \<and> n < 2 ^ 63 then Some n else None)"

definition ParseBool :: "string \<Rightarrow> bool option" where
  "ParseBool s =
     (if s \<in> {''1'', ''t'', ''T'', ''true'', ''TRUE'', ''True''} then Some True
      else if s \<in> {''0'', ''f'', ''F'', ''false'', ''FALSE'', ''False''} then Some False else None)"

text \<open>\<open>int(n)\<close> of an unsigned number.\<close>

definition int_of_u64 :: "u64 \<Rightarrow> int" where
  "int_of_u64 n = sint n"

definition u64_of_int :: "int \<Rightarrow> u64" where
  "u64_of_int n = word_of_int n"

subsection \<open>Fields and their arguments\<close>

definition containField :: "string list \<Rightarrow> string \<Rightarrow> bool" where
  "containField requestedFields f \<longleftrightarrow> f \<in> set requestedFields"

text \<open>\<open>graphql.CollectAllFields\<close>: the names of the collected fields.\<close>

definition CollectAllFields :: "request \<Rightarrow> string list" where
  "CollectAllFields q = remdups (map fld_Name (rq_fields q))"

definition haveField :: "request \<Rightarrow> string \<Rightarrow> string \<Rightarrow> bool" where
  "haveField q parent subfield \<longleftrightarrow>
     (\<exists>f \<in> set (rq_fields q). fld_Name f = parent \<and> (\<exists>s \<in> set (fld_Selections f). fld_Name s = subfield))"

subsection \<open>Variables\<close>

text \<open>The children that hold a 64-bit number, printed again.\<close>

definition int64_child :: "string \<Rightarrow> json option \<Rightarrow> (string \<times> ast_value) list" where
  "int64_child name v =
     (case v of Some (JNumber t) \<Rightarrow> (case Atoi t of None \<Rightarrow> [] | Some n \<Rightarrow> [(name, Value (big_String n) [] [])]) | _ \<Rightarrow> [])"

text \<open>
  One argument of the loop: \<open>Some\<close> goes on with the new map, \<open>None\<close> returns from the function.
  The key of a variable is the text of the value, so that a literal with the text of a variable's
  name is replaced too; and the literal children of a pagination are dropped.
\<close>

definition substitute :: "(string \<times> json) list \<Rightarrow> string \<times> ast_value \<Rightarrow> args_map \<Rightarrow> args_map option" where
  "substitute vars = (\<lambda>(name, v) m.
     let value = map_of vars (val_Raw v) in
     if val_Type v = ''String'' then
       Some (case value of Some (JString s) \<Rightarrow> AList.update name (Value s [] []) m | _ \<Rightarrow> m)
     else if val_Type v = ''Int'' then
       (case value of
          Some (JNumber t) \<Rightarrow> (case Atoi t of None \<Rightarrow> None | Some n \<Rightarrow> Some (AList.update name (Value (big_String n) [] []) m))
        | _ \<Rightarrow> Some m)
     else if val_Type v = ''Boolean'' then
       Some (case value of Some (JBool b) \<Rightarrow> AList.update name (Value (if b then ''true'' else ''false'') [] []) m | _ \<Rightarrow> m)
     else if val_Type v = ''Pagination'' then
       Some (AList.update name (Value [] []
         (case value of
            Some (JObject kvs) \<Rightarrow> concat (map (\<lambda>(k, x). int64_child k (Some x)) kvs)
          | _ \<Rightarrow> concat (map (\<lambda>(k, c). int64_child k (map_of vars (val_Raw c))) (val_Children v)))) m)
     else None)"

fun substitute_all :: "(string \<times> json) list \<Rightarrow> (string \<times> ast_value) list \<Rightarrow> args_map \<Rightarrow> args_map" where
  "substitute_all vars [] m = m"
| "substitute_all vars (a # as) m = (case substitute vars a m of None \<Rightarrow> m | Some m' \<Rightarrow> substitute_all vars as m')"

definition parseVariables :: "(string \<times> json) list \<Rightarrow> (string \<times> ast_value) list \<Rightarrow> args_map \<Rightarrow> args_map" where
  "parseVariables vars arguments argsMap = (if vars = [] then argsMap else substitute_all vars arguments argsMap)"

text \<open>
  The first field of the name; the arguments of the last selected field of the other name come
  after its own, or its own once more where there is none. Without a field the pointer is \<open>nil\<close>.
\<close>

definition parseFieldArguments :: "request \<Rightarrow> string \<Rightarrow> string \<Rightarrow> go_error + args_map" where
  "parseFieldArguments q fieldName selectedFieldName =
     (case filter (\<lambda>f. fld_Name f = fieldName) (rq_fields q) of
        [] \<Rightarrow> Inl (Panic ''invalid memory address or nil pointer dereference'')
      | f # _ \<Rightarrow>
          let subs = rev (filter (\<lambda>s. fld_Name s = selectedFieldName) (fld_Selections f));
              arguments = fld_Arguments f @
                (if selectedFieldName = [] then [] else fld_Arguments (case subs of [] \<Rightarrow> f | s # _ \<Rightarrow> s));
              argsMap = fold (\<lambda>(name, v). AList.update name v) arguments []
          in Inr (parseVariables (rq_variables q) arguments argsMap))"

subsection \<open>Getters\<close>

definition getStringArg :: "args_map \<Rightarrow> string \<Rightarrow> go_error + string" where
  "getStringArg m argName =
     (case map_of m argName of None \<Rightarrow> Inl (ErrMsg (argName @ '' is required'')) | Some v \<Rightarrow> Inr (val_Raw v))"

definition getIntArg :: "args_map \<Rightarrow> string \<Rightarrow> go_error + int" where
  "getIntArg m argName =
     andThen (getStringArg m argName) (\<lambda>s.
     case Atoi s of None \<Rightarrow> Inl (ErrMsg (argName @ '' must be an integer'')) | Some n \<Rightarrow> Inr n)"

definition getBoolArg :: "args_map \<Rightarrow> string \<Rightarrow> go_error + bool" where
  "getBoolArg m argName =
     andThen (getStringArg m argName) (\<lambda>s.
     case ParseBool s of None \<Rightarrow> Inl (ErrMsg (argName @ '' must be a boolean value'')) | Some b \<Rightarrow> Inr b)"

definition DefaultPageSize :: int where "DefaultPageSize = 200"
definition MaximumPageSize :: int where "MaximumPageSize = 500"

definition ErrPaginationNotFound :: go_error where "ErrPaginationNotFound = ErrMsg ''pagination information is not found''"
definition ErrPaginationInvalidOffset :: go_error where "ErrPaginationInvalidOffset = ErrMsg ''invalid pagination offset number''"
definition ErrPaginationInvalidSize :: go_error where "ErrPaginationInvalidSize = ErrMsg ''invalid pagination size number''"
definition ErrInvalidParameter :: go_error where "ErrInvalidParameter = ErrMsg ''invalid parameter number''"
definition ErrActionTypeNotSupported :: go_error where "ErrActionTypeNotSupported = ErrMsg ''action type is not supported''"

definition page_size_error :: go_error where
  "page_size_error = Wrapped ''maximum page size 500'' ErrPaginationInvalidSize"

definition getPaginationArgs :: "args_map \<Rightarrow> go_error + (string \<times> u64) list" where
  "getPaginationArgs m =
     (case map_of m ''pagination'' of
        None \<Rightarrow> Inl ErrPaginationNotFound
      | Some pagination \<Rightarrow>
          andThen (foldE (\<lambda>(k, v) acc.
            case Atoi (val_Raw v) of
              None \<Rightarrow> Inl (Wrapped ''pagination value must be an integer'' (ErrMsg ''strconv.Atoi''))
            | Some n \<Rightarrow> Inr (AList.update k n acc)) (val_Children pagination) []) (\<lambda>paginationMap.
          if (case map_of paginationMap ''skip'' of None \<Rightarrow> False | Some offset \<Rightarrow> offset < 0) then Inl ErrPaginationInvalidOffset
          else if (case map_of paginationMap ''first'' of None \<Rightarrow> False | Some sz \<Rightarrow> sz \<le> 0 \<or> MaximumPageSize < sz)
          then Inl page_size_error
          else if \<exists>(k, v) \<in> set paginationMap. v < 0 then Inl ErrInvalidParameter
          else Inr (map (\<lambda>(k, v). (k, u64_of_int v)) paginationMap)))"

text \<open>The \<open>switch\<close> after it: without a pagination the first two hundred rows, a missing number is zero.\<close>

definition page_of_args :: "string \<Rightarrow> args_map \<Rightarrow> go_error + u64 \<times> u64" where
  "page_of_args msg m =
     (case getPaginationArgs m of
        Inr p \<Rightarrow> Inr (get_or 0 p ''skip'', get_or 0 p ''first'')
      | Inl e \<Rightarrow> if e = ErrPaginationNotFound then Inr (0, u64_of_int DefaultPageSize) else wrap msg (Inl e))"

definition ethAddrToIoAddr :: "libs \<Rightarrow> string \<Rightarrow> go_error + string" where
  "ethAddrToIoAddr l ethAddr = lib_AddressFromBytes l (lib_HexToAddress l ethAddr)"

subsection \<open>Groups of handlers\<close>

text \<open>
  Each requested field is answered by a goroutine of an \<open>errgroup\<close>. A handler gives an error or the
  fields it writes into the response. \<open>ord\<close> is the order in which the handlers end: the group waits
  for all of them, its error is the first one, and with an error there is no response.
\<close>

type_synonym 'r handler = "go_error + ('r \<Rightarrow> 'r)"

definition errgroup :: "('r handler list \<Rightarrow> 'r handler list) \<Rightarrow> 'r handler list \<Rightarrow> 'r \<Rightarrow> go_error + 'r" where
  "errgroup ord handlers response = foldE (\<lambda>h r. andThen h (\<lambda>w. Inr (w r))) (ord handlers) response"

text \<open>The handlers of the fields that the request asks for.\<close>

definition requested :: "request \<Rightarrow> (string list \<times> 'r handler) list \<Rightarrow> 'r handler list" where
  "requested q table =
     map snd (filter (\<lambda>(names, _). \<exists>f \<in> set names. containField (CollectAllFields q) f) table)"

end
