(* ===== verification/Resolver.thy ===== *)
theory Resolver imports Resolver_Args Query_Rewards Query_Chain Query_Votings Query_Hermes begin

text \<open>
  The resolver's handlers of accounts, the chain, delegates, votes, buckets and Hermes
  (\<open>graphql/resolver.go\<close>, with the response types of \<open>graphql/models_gen.go\<close>). The protocols of the
  \<open>Resolver\<close> struct are records of the query functions the handlers call. A handler gives the
  fields it writes into the response, or an error. The texts of durations and times are kept as the numbers
  that their \<open>String\<close> methods print.
\<close>

subsection \<open>The protocols\<close>

record rewards_queries =
  rp_GetAccountReward :: "u64 \<Rightarrow> u64 \<Rightarrow> string \<Rightarrow> go_error + string \<times> string \<times> string"
  rp_GetBookkeeping :: "u64 \<Rightarrow> u64 \<Rightarrow> string \<Rightarrow> int \<Rightarrow> bool \<Rightarrow> bool \<Rightarrow> go_error + RewardDistribution list"
  rp_GetHermesBookkeeping :: "u64 \<Rightarrow> u64 \<Rightarrow> string \<Rightarrow> u64 \<Rightarrow> go_error + DelegateHermesDistribution list"
  rp_GetAverageHermesStats :: "u64 \<Rightarrow> u64 \<Rightarrow> string \<Rightarrow> go_error + DelegateHermesAverage list"
  rp_GetRewardSources :: "u64 \<Rightarrow> u64 \<Rightarrow> string \<Rightarrow> go_error + DelegateAmount list"

record votings_queries =
  vp_BucketsByVoter :: "string \<Rightarrow> u64 \<Rightarrow> u64 \<Rightarrow> go_error + (nat \<times> VoteBucket) list"
  vp_BucketsByCandidate :: "string \<Rightarrow> u64 \<Rightarrow> u64 \<Rightarrow> go_error + (nat \<times> VoteBucket) list"
  vp_GetBucketInformation :: "u64 \<Rightarrow> u64 \<Rightarrow> string \<Rightarrow> go_error + (u64 \<times> VotingInfo list) list"
  vp_GetStaking :: "u64 \<Rightarrow> u64 \<Rightarrow> string \<Rightarrow> go_error + StakingInfo list"
  vp_GetCandidateMeta :: "u64 \<Rightarrow> u64 \<Rightarrow> go_error + CandidateMeta list \<times> u64"
  vp_GetCandidates :: "u64 \<Rightarrow> u64 \<Rightarrow> go_error + (u64 \<times> CandidateInfo list) list"
  vp_GetAlias :: "string \<Rightarrow> go_error + string"
  vp_GetOperatorAddress :: "string \<Rightarrow> go_error + string"
  vp_GetProbationHistoricalRate :: "int \<Rightarrow> int \<Rightarrow> string \<Rightarrow> go_error + string"

record chain_queries =
  cp_GetLastEpochAndHeight :: "go_error + u64 \<times> u64"
  cp_MostRecentTPS :: "u64 \<Rightarrow> go_error + f64"
  cp_GetNumberOfActions :: "u64 \<Rightarrow> u64 \<Rightarrow> go_error + u64"
  cp_GetTotalTransferredTokens :: "u64 \<Rightarrow> u64 \<Rightarrow> go_error + string"
  cp_GetTotalSupply :: "go_error + string"
  cp_GetTotalCirculatingSupply :: "string \<Rightarrow> go_error + string"
  cp_GetTotalCirculatingSupplyNoRewardPool :: "string \<Rightarrow> go_error + string"
  pp_GetProductivityHistory :: "u64 \<Rightarrow> u64 \<Rightarrow> string \<Rightarrow> go_error + string \<times> string"

record hermes_queries =
  hp_GetHermes2ByDelegate :: "HermesArg \<Rightarrow> string \<Rightarrow> go_error + VoterInfo list"
  hp_GetHermes2ByVoter :: "HermesArg \<Rightarrow> string \<Rightarrow> go_error + DelegateInfo list"
  hp_GetHermes2Ratio :: "HermesArg \<Rightarrow> string \<Rightarrow> go_error + Ratio list"
  hp_GetHermes2Count :: "HermesArg \<Rightarrow> count_query \<Rightarrow> string \<Rightarrow> go_error + nat \<times> string"
  hp_GetHermes2Meta :: "int \<Rightarrow> int \<Rightarrow> go_error + nat \<times> nat \<times> string"

text \<open>
  The \<open>switch\<close> after nearly every query: no rows are a response without data, another error is
  wrapped.
\<close>

definition if_exists :: "string \<Rightarrow> 'v \<Rightarrow> go_error + 'a \<Rightarrow> ('a \<Rightarrow> go_error + 'v) \<Rightarrow> go_error + 'v" where
  "if_exists msg missing r k =
     (case r of Inr x \<Rightarrow> k x | Inl e \<Rightarrow> if cause e = ErrNotExist then Inr missing else wrap msg (Inl e))"

subsection \<open>The chain\<close>

record VotingResultMeta =
  vrm_TotalCandidates :: int
  vrm_TotalWeightedVotes :: string
  vrm_VotedTokens :: string

record NumberOfActions =
  na_Exist :: bool
  na_Count :: int

record Chain =
  ch_MostRecentEpoch :: int
  ch_MostRecentBlockHeight :: int
  ch_VotingResultMeta :: "VotingResultMeta option"
  ch_MostRecentTps :: f64
  ch_NumberOfActions :: "NumberOfActions option"
  ch_TotalTransferredTokens :: string
  ch_TotalSupply :: string
  ch_TotalCirculatingSupply :: string
  ch_TotalCirculatingSupplyNoRewardPool :: string

definition empty_chain :: Chain where
  "empty_chain = \<lparr>ch_MostRecentEpoch = 0, ch_MostRecentBlockHeight = 0, ch_VotingResultMeta = None, ch_MostRecentTps = 0,
     ch_NumberOfActions = None, ch_TotalTransferredTokens = [], ch_TotalSupply = [], ch_TotalCirculatingSupply = [],
     ch_TotalCirculatingSupplyNoRewardPool = []\<rparr>"

definition getLastEpochAndHeight :: "chain_queries \<Rightarrow> Chain handler" where
  "getLastEpochAndHeight cp =
     andThen (wrap ''failed to get last epoch number and tip block height'' (cp_GetLastEpochAndHeight cp)) (\<lambda>(epoch, tipHeight).
     Inr (\<lambda>r. r\<lparr>ch_MostRecentEpoch := int_of_u64 epoch, ch_MostRecentBlockHeight := int_of_u64 tipHeight\<rparr>))"

text \<open>\<open>errors.Wrap\<close> of the \<open>nil\<close> error is \<open>nil\<close>: more or less than one row leaves the field out.\<close>

definition getVotingResultMeta :: "votings_queries \<Rightarrow> Chain \<Rightarrow> Chain handler" where
  "getVotingResultMeta vp chainResponse =
     andThen (wrap ''failed to get candidate metadata''
       (vp_GetCandidateMeta vp (u64_of_int (ch_MostRecentEpoch chainResponse)) 1)) (\<lambda>(cl, _).
     case cl of
       [c] \<Rightarrow> Inr (\<lambda>r. r\<lparr>ch_VotingResultMeta := Some \<lparr>vrm_TotalCandidates = int_of_u64 (cm_NumberOfCandidates c),
         vrm_TotalWeightedVotes = cm_TotalWeightedVotes c, vrm_VotedTokens = cm_VotedTokens c\<rparr>\<rparr>)
     | _ \<Rightarrow> Inr (\<lambda>r. r))"

definition getTPS :: "chain_queries \<Rightarrow> request \<Rightarrow> Chain handler" where
  "getTPS cp q =
     andThen (parseFieldArguments q ''mostRecentTPS'' []) (\<lambda>argsMap.
     andThen (wrap ''failed to get blockWindow for TPS'' (getIntArg argsMap ''blockWindow'')) (\<lambda>blockWindow.
     if blockWindow \<le> 0 then Inl (ErrMsg ''invalid block window'')
     else andThen (wrap ''failed to get most recent TPS'' (cp_MostRecentTPS cp (u64_of_int blockWindow))) (\<lambda>tps.
       Inr (\<lambda>r. r\<lparr>ch_MostRecentTps := tps\<rparr>))))"

definition number_of_actions :: "bool \<Rightarrow> u64 \<Rightarrow> Chain \<Rightarrow> Chain" where
  "number_of_actions exist n = (\<lambda>r. r\<lparr>ch_NumberOfActions := Some \<lparr>na_Exist = exist, na_Count = int_of_u64 n\<rparr>\<rparr>)"

definition getNumberOfActions :: "chain_queries \<Rightarrow> Chain \<Rightarrow> request \<Rightarrow> Chain handler" where
  "getNumberOfActions cp chainResponse q =
     andThen (parseFieldArguments q ''numberOfActions'' []) (\<lambda>argsMap.
     case getPaginationArgs argsMap of
       Inl e \<Rightarrow>
         if e = ErrPaginationNotFound then
           andThen (wrap ''failed to get number of actions''
             (cp_GetNumberOfActions cp 1 (u64_of_int (ch_MostRecentEpoch chainResponse)))) (\<lambda>n. Inr (number_of_actions True n))
         else wrap ''failed to get pagination arguments for actions'' (Inl e)
     | Inr p \<Rightarrow>
         let startEpoch = get_or 0 p ''startEpoch''; epochCount = get_or 0 p ''epochCount'' in
         if startEpoch < 1
         then Inl (ErrMsg ''invalid start epoch number or epoch count for getting number of actions'')
         else if_exists ''failed to get number of actions'' (number_of_actions False 0)
           (cp_GetNumberOfActions cp startEpoch epochCount) (\<lambda>n. Inr (number_of_actions True n)))"

definition gettotalTransferredTokens :: "chain_queries \<Rightarrow> request \<Rightarrow> Chain handler" where
  "gettotalTransferredTokens cp q =
     andThen (parseFieldArguments q ''totalTransferredTokens'' []) (\<lambda>argsMap.
     andThen (case getPaginationArgs argsMap of
         Inl e \<Rightarrow> if e = ErrPaginationNotFound then Inr (0, u64_of_int DefaultPageSize)
           else wrap ''failed to get pagination arguments for total transferred tokens'' (Inl e)
       | Inr p \<Rightarrow> Inr (get_or 0 p ''startEpoch'', get_or 0 p ''epochCount'')) (\<lambda>(startEpoch, epochCount).
     if startEpoch < 1
     then Inl (ErrMsg ''invalid start epoch number or epoch count for getting total transferred tokens'')
     else if_exists ''failed to get total transferred tokens'' (\<lambda>r. r\<lparr>ch_TotalTransferredTokens := ''0''\<rparr>)
       (cp_GetTotalTransferredTokens cp startEpoch epochCount) (\<lambda>tokens. Inr (\<lambda>r. r\<lparr>ch_TotalTransferredTokens := tokens\<rparr>))))"

definition getTotalAndTotalCirculatingSupply :: "chain_queries \<Rightarrow> Chain handler" where
  "getTotalAndTotalCirculatingSupply cp =
     andThen (cp_GetTotalSupply cp) (\<lambda>supply.
     andThen (cp_GetTotalCirculatingSupply cp supply) (\<lambda>circulating.
     andThen (cp_GetTotalCirculatingSupplyNoRewardPool cp circulating) (\<lambda>noRewardPool.
     Inr (\<lambda>r. r\<lparr>ch_TotalSupply := supply, ch_TotalCirculatingSupply := circulating,
       ch_TotalCirculatingSupplyNoRewardPool := noRewardPool\<rparr>))))"

text \<open>The last name of the last line is the one the code looks for, one letter short of the schema's.\<close>

definition chain_handlers :: "chain_queries \<Rightarrow> votings_queries \<Rightarrow> Chain \<Rightarrow> request \<Rightarrow> (string list \<times> Chain handler) list" where
  "chain_handlers cp vp chainResponse q =
     [([''votingResultMeta''], getVotingResultMeta vp chainResponse),
      ([''mostRecentTPS''], getTPS cp q),
      ([''numberOfActions''], getNumberOfActions cp chainResponse q),
      ([''totalTransferredTokens''], gettotalTransferredTokens cp q),
      ([''totalSupply'', ''totalCirculatingSupply'', ''totalCirculatingSupplyNoRewardPoo''], getTotalAndTotalCirculatingSupply cp)]"

definition resolve_Chain :: "(Chain handler list \<Rightarrow> Chain handler list) \<Rightarrow> chain_queries \<Rightarrow> votings_queries \<Rightarrow> request \<Rightarrow> go_error + Chain" where
  "resolve_Chain ord cp vp q =
     andThen (getLastEpochAndHeight cp) (\<lambda>w.
     let chainResponse = w empty_chain in
     errgroup ord (requested q (chain_handlers cp vp chainResponse q)) chainResponse)"

subsection \<open>Votes\<close>

record CandidateInfo_g =
  cg_Name :: string
  cg_Address :: string
  cg_TotalWeightedVotes :: string
  cg_SelfStakingTokens :: string
  cg_OperatorAddress :: string
  cg_RewardAddress :: string

record CandidateInfoList =
  cl_EpochNumber :: int
  cl_Candidates :: "CandidateInfo_g list"

record CandidateMeta_g =
  mg_EpochNumber :: int
  mg_TotalCandidates :: int
  mg_ConsensusDelegates :: int
  mg_TotalWeightedVotes :: string
  mg_VotedTokens :: string

record VotingMeta_g =
  vg_Exist :: bool
  vg_CandidateMeta :: "CandidateMeta_g list"

record RewardSources =
  rso_Exist :: bool
  rso_DelegateDistributions :: "(string \<times> string) list"

record Voting =
  vo_CandidateInfo :: "CandidateInfoList list"
  vo_VotingMeta :: "VotingMeta_g option"
  vo_RewardSources :: "RewardSources option"

text \<open>\<open>order_lists\<close> is the order of the loop over the map of epochs.\<close>

definition getCandidateList ::
  "((u64 \<times> CandidateInfo list) list \<Rightarrow> (u64 \<times> CandidateInfo list) list) \<Rightarrow> votings_queries \<Rightarrow> int \<Rightarrow> int \<Rightarrow> Voting handler"
where
  "getCandidateList order_lists vp startEpoch epochCount =
     andThen (wrap ''failed to get candidate info'' (vp_GetCandidates vp (u64_of_int startEpoch) (u64_of_int epochCount))) (\<lambda>m.
     Inr (\<lambda>r. r\<lparr>vo_CandidateInfo := map (\<lambda>(epoch, cs). \<lparr>cl_EpochNumber = int_of_u64 epoch,
       cl_Candidates = map (\<lambda>c. \<lparr>cg_Name = ci_Name c, cg_Address = ci_Address c, cg_TotalWeightedVotes = ci_TotalWeightedVotes c,
         cg_SelfStakingTokens = ci_SelfStakingTokens c, cg_OperatorAddress = ci_OperatorAddress c,
         cg_RewardAddress = ci_RewardAddress c\<rparr>) cs\<rparr>) (order_lists m)\<rparr>))"

text \<open>The case without rows does not return: its response is overwritten by the one with data.\<close>

definition getVotingMeta :: "votings_queries \<Rightarrow> int \<Rightarrow> int \<Rightarrow> Voting handler" where
  "getVotingMeta vp startEpoch epochCount =
     andThen (case vp_GetCandidateMeta vp (u64_of_int startEpoch) (u64_of_int epochCount) of
         Inr (cl, n) \<Rightarrow> Inr (cl, n)
       | Inl e \<Rightarrow> if cause e = ErrNotExist then Inr ([], 0) else wrap ''failed to get candidate metadata'' (Inl e)) (\<lambda>(cl, n).
     Inr (\<lambda>r. r\<lparr>vo_VotingMeta := Some \<lparr>vg_Exist = True, vg_CandidateMeta =
       map (\<lambda>c. \<lparr>mg_EpochNumber = int_of_u64 (cm_EpochNumber c), mg_TotalCandidates = int_of_u64 (cm_NumberOfCandidates c),
         mg_ConsensusDelegates = int_of_u64 n, mg_TotalWeightedVotes = cm_TotalWeightedVotes c,
         mg_VotedTokens = cm_VotedTokens c\<rparr>) cl\<rparr>\<rparr>))"

text \<open>\<open>sort.Slice\<close> by the name; equal names stay in the order of the query, which is arbitrary.\<close>

definition getRewardSources :: "rewards_queries \<Rightarrow> request \<Rightarrow> int \<Rightarrow> int \<Rightarrow> Voting handler" where
  "getRewardSources rp q startEpoch epochCount =
     andThen (parseFieldArguments q ''rewardSources'' []) (\<lambda>argsMap.
     andThen (wrap ''voter's IoTeX address is required'' (getStringArg argsMap ''voterIotexAddress'')) (\<lambda>voterIotexAddress.
     if_exists ''failed to get reward sources for the voter''
       (\<lambda>r. r\<lparr>vo_RewardSources := Some \<lparr>rso_Exist = False, rso_DelegateDistributions = []\<rparr>\<rparr>)
       (rp_GetRewardSources rp (u64_of_int startEpoch) (u64_of_int epochCount) voterIotexAddress) (\<lambda>ds.
     andThen (mapE (\<lambda>d. andThen (wrap ''failed to decode delegate name'' (DecodeDelegateName (dm_DelegateName d))) (\<lambda>name.
       Inr (name, dm_Amount d))) ds) (\<lambda>amounts.
     Inr (\<lambda>r. r\<lparr>vo_RewardSources := Some \<lparr>rso_Exist = True, rso_DelegateDistributions = sort_key fst amounts\<rparr>\<rparr>)))))"

definition voting_handlers ::
  "((u64 \<times> CandidateInfo list) list \<Rightarrow> (u64 \<times> CandidateInfo list) list) \<Rightarrow> votings_queries \<Rightarrow> rewards_queries \<Rightarrow> request \<Rightarrow>
   int \<Rightarrow> int \<Rightarrow> (string list \<times> Voting handler) list"
where
  "voting_handlers order_lists vp rp q startEpoch epochCount =
     [([''candidateInfo''], getCandidateList order_lists vp startEpoch epochCount),
      ([''votingMeta''], getVotingMeta vp startEpoch epochCount),
      ([''rewardSources''], getRewardSources rp q startEpoch epochCount)]"

definition resolve_Voting ::
  "(Voting handler list \<Rightarrow> Voting handler list) \<Rightarrow> ((u64 \<times> CandidateInfo list) list \<Rightarrow> (u64 \<times> CandidateInfo list) list) \<Rightarrow>
   votings_queries \<Rightarrow> rewards_queries \<Rightarrow> request \<Rightarrow> int \<Rightarrow> int \<Rightarrow> go_error + Voting"
where
  "resolve_Voting ord order_lists vp rp q startEpoch epochCount =
     errgroup ord (requested q (voting_handlers order_lists vp rp q startEpoch epochCount))
       \<lparr>vo_CandidateInfo = [], vo_VotingMeta = None, vo_RewardSources = None\<rparr>"

end
