(* ===== verification/Resolver_Delegates.thy ===== *)
theory Resolver_Delegates imports Resolver begin

text \<open>
  The resolver's handlers of delegates, buckets and both Hermes queries (\<open>graphql/resolver.go\<close>).
\<close>

subsection \<open>Buckets\<close>

record BucketInfo =
  bi_VoterEthAddress :: string
  bi_VoterIotexAddress :: string
  bi_IsNative :: bool
  bi_Votes :: string
  bi_WeightedVotes :: string
  bi_RemainingDuration :: int
  bi_StartTime :: int
  bi_Decay :: bool

record Pagination =
  pg_Skip :: int
  pg_First :: int

definition HexPrefix :: string where "HexPrefix = ''0x''"

text \<open>\<open>ord\<close>: the order of the loop over the map of buckets; \<open>now\<close>: the clock of \<open>CalcRemainingTime\<close>.\<close>

definition convertBuckets ::
  "libs \<Rightarrow> int \<Rightarrow> ((nat \<times> VoteBucket) list \<Rightarrow> (nat \<times> VoteBucket) list) \<Rightarrow> (nat \<times> VoteBucket) list \<Rightarrow> go_error + BucketInfo list"
where
  "convertBuckets l now ord buckets =
     mapE (\<lambda>(_, bucket).
       andThen (lib_IoAddrToEvmAddr l (vb_Owner bucket)) (\<lambda>voterAddr.
       Inr \<lparr>bi_VoterEthAddress = HexPrefix @ hex_EncodeToString voterAddr, bi_VoterIotexAddress = vb_Owner bucket,
         bi_IsNative = True, bi_Votes = vb_StakedAmount bucket, bi_WeightedVotes = ''0'',
         bi_RemainingDuration = CalcRemainingTime now bucket, bi_StartTime = vb_StakeStartTime bucket,
         bi_Decay = (\<not> vb_AutoStake bucket)\<rparr>)) (ord buckets)"

text \<open>The pagination argument is a pointer, \<open>nil\<close> when the request leaves it out.\<close>

definition checked_page :: "Pagination option \<Rightarrow> go_error + u64 \<times> u64" where
  "checked_page pagination =
     (case pagination of
        None \<Rightarrow> Inl (Panic ''invalid memory address or nil pointer dereference'')
      | Some p \<Rightarrow>
          if pg_Skip p < 0 then Inl ErrPaginationInvalidOffset
          else if pg_First p \<le> 0 \<or> MaximumPageSize < pg_First p then Inl page_size_error
          else Inr (u64_of_int (pg_Skip p), u64_of_int (pg_First p)))"

definition resolve_BucketsByVoter ::
  "libs \<Rightarrow> (string \<Rightarrow> go_error + string) \<Rightarrow> int \<Rightarrow> ((nat \<times> VoteBucket) list \<Rightarrow> (nat \<times> VoteBucket) list) \<Rightarrow> votings_queries \<Rightarrow>
   string \<Rightarrow> Pagination option \<Rightarrow> go_error + BucketInfo list"
where
  "resolve_BucketsByVoter l parse_address now ord vp voter pagination =
     andThen (wrap ''failed to parse voter address'' (parse_address voter)) (\<lambda>voterAddr.
     andThen (checked_page pagination) (\<lambda>(offset, sz).
     andThen (vp_BucketsByVoter vp voterAddr offset sz) (convertBuckets l now ord)))"

definition resolve_BucketsByCandidate ::
  "libs \<Rightarrow> int \<Rightarrow> ((nat \<times> VoteBucket) list \<Rightarrow> (nat \<times> VoteBucket) list) \<Rightarrow> votings_queries \<Rightarrow> string \<Rightarrow> Pagination option \<Rightarrow>
   go_error + BucketInfo list"
where
  "resolve_BucketsByCandidate l now ord vp name pagination =
     andThen (checked_page pagination) (\<lambda>(offset, sz).
     andThen (vp_BucketsByCandidate vp name offset sz) (convertBuckets l now ord))"

subsection \<open>Delegates\<close>

record Reward =
  re_Exist :: bool
  re_BlockReward :: string
  re_EpochReward :: string
  re_FoundationBonus :: string

record Productivity =
  py_Exist :: bool
  py_Production :: string
  py_ExpectedProduction :: string

record RewardDistribution_g =
  rg_VoterEthAddress :: string
  rg_VoterIotexAddress :: string
  rg_Amount :: string

record Bookkeeping =
  bo_Exist :: bool
  bo_RewardDistribution :: "RewardDistribution_g list"
  bo_Count :: nat

record BucketInfoList =
  bl_EpochNumber :: int
  bl_BucketInfo :: "BucketInfo list"
  bl_Count :: nat

record BucketInfoOutput =
  bu_Exist :: bool
  bu_BucketInfoList :: "BucketInfoList list"

record StakingInformation =
  sg_EpochNumber :: int
  sg_TotalStaking :: string
  sg_SelfStaking :: string

record StakingOutput =
  so_Exist :: bool
  so_StakingInfo :: "StakingInformation list"

record Delegate =
  de_Reward :: "Reward option"
  de_Productivity :: "Productivity option"
  de_Bookkeeping :: "Bookkeeping option"
  de_BucketInfo :: "BucketInfoOutput option"
  de_Staking :: "StakingOutput option"
  de_ProbationHistoricalRate :: string

definition getRewards :: "rewards_queries \<Rightarrow> int \<Rightarrow> int \<Rightarrow> string \<Rightarrow> Delegate handler" where
  "getRewards rp startEpoch epochCount delegateName =
     if_exists ''failed to get reward information''
       (\<lambda>r. r\<lparr>de_Reward := Some \<lparr>re_Exist = False, re_BlockReward = [], re_EpochReward = [], re_FoundationBonus = []\<rparr>\<rparr>)
       (rp_GetAccountReward rp (u64_of_int startEpoch) (u64_of_int epochCount) delegateName) (\<lambda>(b, e, f).
     Inr (\<lambda>r. r\<lparr>de_Reward := Some \<lparr>re_Exist = True, re_BlockReward = b, re_EpochReward = e, re_FoundationBonus = f\<rparr>\<rparr>))"

definition getProductivity :: "chain_queries \<Rightarrow> int \<Rightarrow> int \<Rightarrow> string \<Rightarrow> Delegate handler" where
  "getProductivity pp startEpoch epochCount delegateName =
     if_exists ''failed to get productivity information''
       (\<lambda>r. r\<lparr>de_Productivity := Some \<lparr>py_Exist = False, py_Production = [], py_ExpectedProduction = []\<rparr>\<rparr>)
       (pp_GetProductivityHistory pp (u64_of_int startEpoch) (u64_of_int epochCount) delegateName) (\<lambda>(p, x).
     Inr (\<lambda>r. r\<lparr>de_Productivity := Some \<lparr>py_Exist = True, py_Production = p, py_ExpectedProduction = x\<rparr>\<rparr>))"

text \<open>The part of a list that a pagination asks for, all of it without one.\<close>

definition page_of_list :: "string \<Rightarrow> string \<Rightarrow> args_map \<Rightarrow> 'a list \<Rightarrow> go_error + 'a list" where
  "page_of_list argsMsg skipMsg argsMap rows =
     (case getPaginationArgs argsMap of
        Inl e \<Rightarrow> if e = ErrPaginationNotFound then Inr rows else wrap argsMsg (Inl e)
      | Inr p \<Rightarrow>
          let skip = get_or 0 p ''skip''; first = get_or 0 p ''first''; len = of_nat (length rows) :: u64 in
          if len \<le> skip then Inl (ErrMsg skipMsg)
          else
            let first = (if len - skip < first then len - skip else first)
            in Inr (take (unat first) (drop (unat skip) rows)))"

definition distributions_of :: "RewardDistribution list \<Rightarrow> RewardDistribution_g list" where
  "distributions_of rets = sort_key rg_VoterEthAddress (map (\<lambda>ret. \<lparr>rg_VoterEthAddress = HexPrefix @ rd_VoterEthAddress ret,
     rg_VoterIotexAddress = rd_VoterIotexAddress ret, rg_Amount = rd_Amount ret\<rparr>) rets)"

definition getBookkeeping :: "rewards_queries \<Rightarrow> request \<Rightarrow> int \<Rightarrow> int \<Rightarrow> string \<Rightarrow> Delegate handler" where
  "getBookkeeping rp q startEpoch epochCount delegateName =
     andThen (parseFieldArguments q ''bookkeeping'' ''rewardDistribution'') (\<lambda>argsMap.
     andThen (wrap ''failed to get percentage for bookkeeping'' (getIntArg argsMap ''percentage'')) (\<lambda>percentage.
     andThen (wrap ''failed to get includeFoundationBonus for bookkeeping'' (getBoolArg argsMap ''includeFoundationBonus'')) (\<lambda>includeFoundationBonus.
     if percentage < 0 \<or> 100 < percentage then Inl (ErrMsg ''percentage should be 0-100'')
     else
       let includeBlockReward = (case getBoolArg argsMap ''includeBlockReward'' of Inl _ \<Rightarrow> False | Inr b \<Rightarrow> b) in
       if_exists ''failed to get bookkeeping information''
         (\<lambda>r. r\<lparr>de_Bookkeeping := Some \<lparr>bo_Exist = False, bo_RewardDistribution = [], bo_Count = 0\<rparr>\<rparr>)
         (rp_GetBookkeeping rp (u64_of_int startEpoch) (u64_of_int epochCount) delegateName percentage includeBlockReward
           includeFoundationBonus) (\<lambda>rets.
       let rds = distributions_of rets in
       andThen (page_of_list ''failed to get pagination arguments for reward distributions''
         ''invalid pagination skip number for reward distributions'' argsMap rds) (\<lambda>shown.
       Inr (\<lambda>r. r\<lparr>de_Bookkeeping := Some \<lparr>bo_Exist = True, bo_RewardDistribution = shown, bo_Count = length rds\<rparr>\<rparr>))))))"

definition bucket_info_of :: "libs \<Rightarrow> VotingInfo \<Rightarrow> go_error + BucketInfo" where
  "bucket_info_of l bucket =
     andThen (wrap ''failed to convert eth address to IoTeX address'' (ethAddrToIoAddr l (vi_VoterAddress bucket))) (\<lambda>voterIotexAddr.
     Inr \<lparr>bi_VoterEthAddress = HexPrefix @ vi_VoterAddress bucket, bi_VoterIotexAddress = voterIotexAddr,
       bi_IsNative = vi_IsNative bucket, bi_Votes = vi_Votes bucket, bi_WeightedVotes = vi_WeightedVotes bucket,
       bi_RemainingDuration = vi_RemainingDuration bucket, bi_StartTime = vi_StartTime bucket, bi_Decay = vi_Decay bucket\<rparr>)"

definition bucket_list_of :: "libs \<Rightarrow> args_map \<Rightarrow> u64 \<times> VotingInfo list \<Rightarrow> go_error + BucketInfoList" where
  "bucket_list_of l argsMap = (\<lambda>(epoch, bucketList).
     andThen (mapE (bucket_info_of l) bucketList) (\<lambda>bucketInfo.
     andThen (page_of_list ''failed to get pagination arguments for bucket info''
       ''invalid pagination skip number for bucket info'' argsMap bucketInfo) (\<lambda>shown.
     Inr \<lparr>bl_EpochNumber = int_of_u64 epoch, bl_BucketInfo = shown, bl_Count = length bucketList\<rparr>)))"

definition getBucketInfo ::
  "libs \<Rightarrow> ((u64 \<times> VotingInfo list) list \<Rightarrow> (u64 \<times> VotingInfo list) list) \<Rightarrow> votings_queries \<Rightarrow> request \<Rightarrow> int \<Rightarrow> int \<Rightarrow> string \<Rightarrow>
   Delegate handler"
where
  "getBucketInfo l order_infos vp q startEpoch epochCount delegateName =
     andThen (parseFieldArguments q ''bucketInfo'' ''bucketInfoList'') (\<lambda>argsMap.
     if_exists ''failed to get voting bucket information''
       (\<lambda>r. r\<lparr>de_BucketInfo := Some \<lparr>bu_Exist = False, bu_BucketInfoList = []\<rparr>\<rparr>)
       (vp_GetBucketInformation vp (u64_of_int startEpoch) (u64_of_int epochCount) delegateName) (\<lambda>bucketMap.
     andThen (mapE (bucket_list_of l argsMap) (order_infos bucketMap)) (\<lambda>lists.
     Inr (\<lambda>r. r\<lparr>de_BucketInfo := Some \<lparr>bu_Exist = True, bu_BucketInfoList = sort_key bl_EpochNumber lists\<rparr>\<rparr>))))"

definition getStaking :: "votings_queries \<Rightarrow> int \<Rightarrow> int \<Rightarrow> string \<Rightarrow> Delegate handler" where
  "getStaking vp startEpoch epochCount delegateName =
     if_exists ''failed to get reward information''
       (\<lambda>r. r\<lparr>de_Staking := Some \<lparr>so_Exist = False, so_StakingInfo = []\<rparr>\<rparr>)
       (vp_GetStaking vp (u64_of_int startEpoch) (u64_of_int epochCount) delegateName) (\<lambda>rl.
     Inr (\<lambda>r. r\<lparr>de_Staking := Some \<lparr>so_Exist = True, so_StakingInfo =
       map (\<lambda>i. \<lparr>sg_EpochNumber = int_of_u64 (si_EpochNumber i), sg_TotalStaking = si_TotalStaking i,
         sg_SelfStaking = si_SelfStaking i\<rparr>) rl\<rparr>\<rparr>))"

definition probationHistoricalRate :: "votings_queries \<Rightarrow> int \<Rightarrow> int \<Rightarrow> string \<Rightarrow> Delegate handler" where
  "probationHistoricalRate vp startEpoch epochCount delegateName =
     andThen (vp_GetProbationHistoricalRate vp startEpoch epochCount delegateName) (\<lambda>rate.
     Inr (\<lambda>r. r\<lparr>de_ProbationHistoricalRate := rate\<rparr>))"

record delegate_env =
  env_libs :: libs
  env_infos :: "(u64 \<times> VotingInfo list) list \<Rightarrow> (u64 \<times> VotingInfo list) list"
  env_votings :: votings_queries
  env_rewards :: rewards_queries
  env_productivity :: chain_queries

definition delegate_handlers :: "delegate_env \<Rightarrow> request \<Rightarrow> int \<Rightarrow> int \<Rightarrow> string \<Rightarrow> (string list \<times> Delegate handler) list" where
  "delegate_handlers env q startEpoch epochCount delegateName =
     [([''reward''], getRewards (env_rewards env) startEpoch epochCount delegateName),
      ([''productivity''], getProductivity (env_productivity env) startEpoch epochCount delegateName),
      ([''bookkeeping''], getBookkeeping (env_rewards env) q startEpoch epochCount delegateName),
      ([''bucketInfo''], getBucketInfo (env_libs env) (env_infos env) (env_votings env) q startEpoch epochCount delegateName),
      ([''staking''], getStaking (env_votings env) startEpoch epochCount delegateName),
      ([''probationHistoricalRate''], probationHistoricalRate (env_votings env) startEpoch epochCount delegateName)]"

definition empty_delegate :: Delegate where
  "empty_delegate = \<lparr>de_Reward = None, de_Productivity = None, de_Bookkeeping = None, de_BucketInfo = None, de_Staking = None,
     de_ProbationHistoricalRate = []\<rparr>"

definition resolve_Delegate ::
  "(Delegate handler list \<Rightarrow> Delegate handler list) \<Rightarrow> delegate_env \<Rightarrow> request \<Rightarrow> int \<Rightarrow> int \<Rightarrow> string \<Rightarrow> go_error + Delegate"
where
  "resolve_Delegate ord env q startEpoch epochCount delegateName =
     andThen (wrap ''failed to format delegate name'' (EncodeDelegateName delegateName)) (\<lambda>delegateName.
     errgroup ord (requested q (delegate_handlers env q startEpoch epochCount delegateName)) empty_delegate)"

subsection \<open>Hermes\<close>

record HermesDistribution =
  hd_DelegateName :: string
  hd_RewardDistribution :: "RewardDistribution_g list"
  hd_StakingIotexAddress :: string
  hd_VoterCount :: nat
  hd_WaiveServiceFee :: bool
  hd_Refund :: string

record Hermes =
  he_Exist :: bool
  he_HermesDistribution :: "HermesDistribution list"

record HermesAverage =
  ha_DelegateName :: string
  ha_RewardDistribution :: string
  ha_TotalWeightedVotes :: string

record AverageHermesStats =
  ah_Exist :: bool
  ah_AveragePerEpoch :: "HermesAverage list"

definition resolve_Hermes :: "rewards_queries \<Rightarrow> int \<Rightarrow> int \<Rightarrow> string \<Rightarrow> int \<Rightarrow> go_error + Hermes" where
  "resolve_Hermes rp startEpoch epochCount rewardAddress waiverThreshold =
     if_exists ''failed to get hermes bookkeeping information'' \<lparr>he_Exist = False, he_HermesDistribution = []\<rparr>
       (rp_GetHermesBookkeeping rp (u64_of_int startEpoch) (u64_of_int epochCount) rewardAddress (u64_of_int waiverThreshold)) (\<lambda>hermes.
     andThen (mapE (\<lambda>ret.
       andThen (wrap ''failed to decode delegate name'' (DecodeDelegateName (dh_DelegateName ret))) (\<lambda>aliasString.
       Inr \<lparr>hd_DelegateName = aliasString, hd_RewardDistribution = distributions_of (dh_Distributions ret),
         hd_StakingIotexAddress = dh_StakingIotexAddress ret, hd_VoterCount = dh_VoterCount ret,
         hd_WaiveServiceFee = dh_WaiveServiceFee ret, hd_Refund = dh_Refund ret\<rparr>)) hermes) (\<lambda>ds.
     Inr \<lparr>he_Exist = True, he_HermesDistribution = sort_key hd_DelegateName ds\<rparr>))"

definition resolve_HermesAverageStats :: "rewards_queries \<Rightarrow> int \<Rightarrow> int \<Rightarrow> string \<Rightarrow> go_error + AverageHermesStats" where
  "resolve_HermesAverageStats rp startEpoch epochCount rewardAddress =
     if_exists ''failed to get Hermes average stats'' \<lparr>ah_Exist = False, ah_AveragePerEpoch = []\<rparr>
       (rp_GetAverageHermesStats rp (u64_of_int startEpoch) (u64_of_int epochCount) rewardAddress) (\<lambda>stats.
     andThen (mapE (\<lambda>ret.
       andThen (wrap ''failed to decode delegate name'' (DecodeDelegateName (da_DelegateName ret))) (\<lambda>aliasString.
       Inr \<lparr>ha_DelegateName = aliasString, ha_RewardDistribution = da_RewardDistribution ret,
         ha_TotalWeightedVotes = da_TotalWeightedVotes ret\<rparr>)) stats) (\<lambda>averages.
     Inr \<lparr>ah_Exist = True, ah_AveragePerEpoch = sort_key ha_DelegateName averages\<rparr>))"

subsection \<open>Hermes of the contract\<close>

record ByDelegateResponse =
  bd_Exist :: bool
  bd_VoterInfoList :: "VoterInfo list"
  bd_Count :: nat
  bd_TotalRewardsDistributed :: string
  bd_DistributionRatio :: "Ratio list"

record ByVoterResponse =
  bv_Exist :: bool
  bv_DelegateInfoList :: "DelegateInfo list"
  bv_Count :: nat
  bv_TotalRewardsReceived :: string

record HermesMeta =
  hm_Exist :: bool
  hm_NumberOfDelegates :: nat
  hm_NumberOfRecipients :: nat
  hm_TotalRewardsDistributed :: string

record Hermes2 =
  h2_ByDelegate :: "ByDelegateResponse option"
  h2_ByVoter :: "ByVoterResponse option"
  h2_HermesMeta :: "HermesMeta option"

text \<open>
  A query that is only made when one of its fields is asked for: \<open>None\<close> means that it found nothing
  and the handler returns early. The rows are handed on as they are (their epoch numbers as \<open>int\<close>).
\<close>

definition if_asked :: "bool \<Rightarrow> string \<Rightarrow> 'v \<Rightarrow> go_error + 'v \<Rightarrow> go_error + 'v option" where
  "if_asked asked msg d r =
     (if asked then if_exists msg None r (\<lambda>x. Inr (Some x)) else Inr (Some d))"

definition no_by_delegate :: "string \<Rightarrow> ByDelegateResponse" where
  "no_by_delegate total_rewards = \<lparr>bd_Exist = False, bd_VoterInfoList = [], bd_Count = 0, bd_TotalRewardsDistributed = total_rewards,
     bd_DistributionRatio = []\<rparr>"

definition getHermes2ByDelegate :: "hermes_queries \<Rightarrow> request \<Rightarrow> int \<Rightarrow> int \<Rightarrow> Hermes2 handler" where
  "getHermes2ByDelegate hp q startEpoch epochCount =
     andThen (parseFieldArguments q ''byDelegate'' ''voterInfoList'') (\<lambda>argsMap.
     andThen (wrap ''delegateName is required'' (getStringArg argsMap ''delegateName'')) (\<lambda>delegateName.
     andThen (page_of_args ''failed to get pagination arguments for actions'' argsMap) (\<lambda>(offset, sz).
     let harg = \<lparr>ha_StartEpoch = startEpoch, ha_EpochCount = epochCount, ha_Offset = offset, ha_Size = sz\<rparr>;
         answer = (\<lambda>x. Inr (\<lambda>r. r\<lparr>h2_ByDelegate := Some x\<rparr>)) in
     andThen (if_asked (haveField q ''byDelegate'' ''voterInfoList'') ''failed to get hermes distribution by delegate name'' []
       (hp_GetHermes2ByDelegate hp harg delegateName)) (\<lambda>voters.
     case voters of None \<Rightarrow> answer (no_by_delegate []) | Some voterInfoList \<Rightarrow>
     andThen (if haveField q ''byDelegate'' ''distributionRatio''
       then andThen (wrap ''failed to format delegate name'' (EncodeDelegateName delegateName)) (\<lambda>encodedDelegateName.
         if_asked True ''failed to get hermes distribution by delegate name'' [] (hp_GetHermes2Ratio hp harg encodedDelegateName))
       else Inr (Some [])) (\<lambda>ratios.
     case ratios of None \<Rightarrow> answer (no_by_delegate []) | Some distributionRatioList \<Rightarrow>
     if haveField q ''byDelegate'' ''count'' \<or> haveField q ''byDelegate'' ''totalRewardsDistributed'' then
       andThen (wrap ''failed to get count of hermes distribution'' (hp_GetHermes2Count hp harg SelectCountByDelegateName delegateName)) (\<lambda>(n, amount).
       answer (if n = 0 then no_by_delegate amount
         else \<lparr>bd_Exist = True, bd_VoterInfoList = voterInfoList, bd_Count = n, bd_TotalRewardsDistributed = amount,
           bd_DistributionRatio = distributionRatioList\<rparr>))
     else answer \<lparr>bd_Exist = True, bd_VoterInfoList = voterInfoList, bd_Count = 0, bd_TotalRewardsDistributed = [],
       bd_DistributionRatio = distributionRatioList\<rparr>)))))"

definition no_by_voter :: "string \<Rightarrow> ByVoterResponse" where
  "no_by_voter total_rewards = \<lparr>bv_Exist = False, bv_DelegateInfoList = [], bv_Count = 0, bv_TotalRewardsReceived = total_rewards\<rparr>"

definition getHermes2ByVoter :: "hermes_queries \<Rightarrow> request \<Rightarrow> int \<Rightarrow> int \<Rightarrow> Hermes2 handler" where
  "getHermes2ByVoter hp q startEpoch epochCount =
     andThen (parseFieldArguments q ''byVoter'' ''delegateInfoList'') (\<lambda>argsMap.
     andThen (wrap ''voterAddress is required'' (getStringArg argsMap ''voterAddress'')) (\<lambda>voterAddress.
     andThen (page_of_args ''failed to get pagination arguments for actions'' argsMap) (\<lambda>(offset, sz).
     let harg = \<lparr>ha_StartEpoch = startEpoch, ha_EpochCount = epochCount, ha_Offset = offset, ha_Size = sz\<rparr>;
         answer = (\<lambda>x. Inr (\<lambda>r. r\<lparr>h2_ByVoter := Some x\<rparr>)) in
     andThen (if_asked (haveField q ''byVoter'' ''delegateInfoList'') ''failed to get hermes distribution by voter address'' []
       (hp_GetHermes2ByVoter hp harg voterAddress)) (\<lambda>delegates.
     case delegates of None \<Rightarrow> answer (no_by_voter []) | Some delegateInfoList \<Rightarrow>
     if haveField q ''byVoter'' ''count'' \<or> haveField q ''byVoter'' ''totalRewardsReceived'' then
       andThen (wrap ''failed to get count of hermes distribution'' (hp_GetHermes2Count hp harg SelectCountByVoterAddress voterAddress)) (\<lambda>(n, amount).
       answer (if n = 0 then no_by_voter amount
         else \<lparr>bv_Exist = True, bv_DelegateInfoList = delegateInfoList, bv_Count = n, bv_TotalRewardsReceived = amount\<rparr>))
     else answer \<lparr>bv_Exist = True, bv_DelegateInfoList = delegateInfoList, bv_Count = 0, bv_TotalRewardsReceived = []\<rparr>))))"

definition getHermes2HermesMeta :: "hermes_queries \<Rightarrow> int \<Rightarrow> int \<Rightarrow> Hermes2 handler" where
  "getHermes2HermesMeta hp startEpoch epochCount =
     if_exists ''failed to get hermes meta info''
       (\<lambda>r. r\<lparr>h2_HermesMeta := Some \<lparr>hm_Exist = False, hm_NumberOfDelegates = 0, hm_NumberOfRecipients = 0, hm_TotalRewardsDistributed = []\<rparr>\<rparr>)
       (hp_GetHermes2Meta hp startEpoch epochCount) (\<lambda>(delegates, recipients, amount).
     Inr (\<lambda>r. r\<lparr>h2_HermesMeta := Some \<lparr>hm_Exist = True, hm_NumberOfDelegates = delegates, hm_NumberOfRecipients = recipients,
       hm_TotalRewardsDistributed = amount\<rparr>\<rparr>))"

definition hermes2_handlers :: "hermes_queries \<Rightarrow> request \<Rightarrow> int \<Rightarrow> int \<Rightarrow> (string list \<times> Hermes2 handler) list" where
  "hermes2_handlers hp q startEpoch epochCount =
     [([''byDelegate''], getHermes2ByDelegate hp q startEpoch epochCount),
      ([''byVoter''], getHermes2ByVoter hp q startEpoch epochCount),
      ([''hermesMeta''], getHermes2HermesMeta hp startEpoch epochCount)]"

definition resolve_Hermes2 :: "(Hermes2 handler list \<Rightarrow> Hermes2 handler list) \<Rightarrow> hermes_queries \<Rightarrow> request \<Rightarrow> int \<Rightarrow> int \<Rightarrow> go_error + Hermes2" where
  "resolve_Hermes2 ord hp q startEpoch epochCount =
     errgroup ord (requested q (hermes2_handlers hp q startEpoch epochCount))
       \<lparr>h2_ByDelegate = None, h2_ByVoter = None, h2_HermesMeta = None\<rparr>"

end
