(* ===== verification/Resolver_Actions.thy ===== *)
theory Resolver_Actions imports Resolver Query_Xrc begin

text \<open>
  The resolver's handlers of accounts, actions and tokens (\<open>graphql/resolver.go\<close>). The handlers of the two
  token standards are the same functions, which look at the type of the response: here they take the
  standard as an argument, and \<open>Xrc20\<close> extends the response of \<open>Xrc721\<close>.
\<close>

record actions_queries =
  ap_GetActiveAccount :: "int \<Rightarrow> go_error + string list"
  ap_GetTotalNumberOfHolders :: "go_error + nat"
  ap_GetTotalAccountSupply :: "go_error + string"
  ap_GetTopHolders :: "u64 \<Rightarrow> u64 \<Rightarrow> u64 \<Rightarrow> go_error + TopHolder list"
  ap_GetActionsByDates :: "u64 \<Rightarrow> u64 \<Rightarrow> u64 \<Rightarrow> u64 \<Rightarrow> go_error + ActionInfo_q list"
  ap_GetActionCountByDates :: "u64 \<Rightarrow> u64 \<Rightarrow> go_error + nat"
  ap_GetActionsByType :: "string \<Rightarrow> u64 \<Rightarrow> u64 \<Rightarrow> go_error + ActionInfo_q list"
  ap_GetActionCountByType :: "string \<Rightarrow> go_error + nat"
  ap_GetActionsByAddressAndType :: "string \<Rightarrow> string \<Rightarrow> u64 \<Rightarrow> u64 \<Rightarrow> go_error + ActionInfo_q list"
  ap_GetActionCountByAddressAndType :: "string \<Rightarrow> string \<Rightarrow> go_error + nat"
  ap_GetActionsByAddress :: "string \<Rightarrow> u64 \<Rightarrow> u64 \<Rightarrow> go_error + ActionInfo_q list"
  ap_GetActionCountByAddress :: "string \<Rightarrow> go_error + nat"
  ap_GetBucketActionsByVoter :: "string \<Rightarrow> u64 \<Rightarrow> u64 \<Rightarrow> go_error + ActionInfo_q list"
  ap_GetBucketActionCountByVoter :: "string \<Rightarrow> go_error + nat"
  ap_GetActionsByBucketIndex :: "u64 \<Rightarrow> u64 \<Rightarrow> u64 \<Rightarrow> go_error + ActionInfo_q list"
  ap_GetActionCountByBucketIndex :: "u64 \<Rightarrow> go_error + nat"
  ap_GetActionDetailByHash :: "string \<Rightarrow> go_error + ActionDetail"
  ap_GetEvmTransferDetailListByAddress :: "string \<Rightarrow> u64 \<Rightarrow> u64 \<Rightarrow> go_error + EvmTransferDetail list"
  ap_GetEvmTransferCount :: "string \<Rightarrow> go_error + nat"
  ap_GetXrc20HistoryByContractCount :: "string \<Rightarrow> string \<Rightarrow> go_error + nat"
  ap_GetXrc20ByContractAndAddress :: "string \<Rightarrow> string \<Rightarrow> u64 \<Rightarrow> u64 \<Rightarrow> go_error + Xrc20Info list"

text \<open>The queries that exist once for each token standard.\<close>

record token_queries =
  tk_Get :: "string \<Rightarrow> u64 \<Rightarrow> u64 \<Rightarrow> go_error + Xrc20Info list"
  tk_TransactionCount :: "string \<Rightarrow> go_error + nat"
  tk_GetByAddress :: "string \<Rightarrow> u64 \<Rightarrow> u64 \<Rightarrow> go_error + Xrc20Info list"
  tk_HistoryCount :: "string \<Rightarrow> go_error + nat"
  tk_Holders :: "string \<Rightarrow> u64 \<Rightarrow> u64 \<Rightarrow> go_error + string list"
  tk_HolderCount :: "string \<Rightarrow> go_error + nat"
  tk_GetByPage :: "u64 \<Rightarrow> u64 \<Rightarrow> go_error + Xrc20Info list"
  tk_Count :: "string \<Rightarrow> go_error + nat"
  tk_Addresses :: "u64 \<Rightarrow> u64 \<Rightarrow> go_error + string list"
  tk_AddressesCount :: "string \<Rightarrow> go_error + nat"

subsection \<open>Accounts\<close>

record Alias =
  al_Exist :: bool
  al_AliasName :: string

record OperatorAddress =
  op_Exist :: bool
  op_OperatorAddress :: string

record Account =
  ac_ActiveAccounts :: "string list"
  ac_Alias :: "Alias option"
  ac_OperatorAddress :: "OperatorAddress option"
  ac_TotalNumberOfHolders :: nat
  ac_TotalAccountSupply :: string

definition getActiveAccounts :: "actions_queries \<Rightarrow> request \<Rightarrow> Account handler" where
  "getActiveAccounts ap q =
     andThen (parseFieldArguments q ''activeAccounts'' []) (\<lambda>argsMap.
     andThen (wrap ''failed to get count for active accounts'' (getIntArg argsMap ''count'')) (\<lambda>n.
     if n < 1 then Inl (ErrMsg ''invalid count number'')
     else andThen (wrap ''failed to get active accounts information'' (ap_GetActiveAccount ap n)) (\<lambda>accounts.
       Inr (\<lambda>r. r\<lparr>ac_ActiveAccounts := accounts\<rparr>))))"

definition getAlias :: "votings_queries \<Rightarrow> request \<Rightarrow> Account handler" where
  "getAlias vp q =
     andThen (parseFieldArguments q ''alias'' []) (\<lambda>argsMap.
     andThen (wrap ''operatorAddress is required'' (getStringArg argsMap ''operatorAddress'')) (\<lambda>opAddress.
     if_exists ''failed to get alias name'' (\<lambda>r. r\<lparr>ac_Alias := Some \<lparr>al_Exist = False, al_AliasName = []\<rparr>\<rparr>)
       (vp_GetAlias vp opAddress) (\<lambda>aliasName.
     andThen (DecodeDelegateName aliasName) (\<lambda>aliasString.
     Inr (\<lambda>r. r\<lparr>ac_Alias := Some \<lparr>al_Exist = True, al_AliasName = aliasString\<rparr>\<rparr>)))))"

definition getOperatorAddress_g :: "votings_queries \<Rightarrow> request \<Rightarrow> Account handler" where
  "getOperatorAddress_g vp q =
     andThen (parseFieldArguments q ''operatorAddress'' []) (\<lambda>argsMap.
     andThen (wrap ''aliasName is required'' (getStringArg argsMap ''aliasName'')) (\<lambda>v.
     andThen (EncodeDelegateName v) (\<lambda>aName.
     if_exists ''failed to get operator address''
       (\<lambda>r. r\<lparr>ac_OperatorAddress := Some \<lparr>op_Exist = False, op_OperatorAddress = []\<rparr>\<rparr>)
       (vp_GetOperatorAddress vp aName) (\<lambda>opAddress.
     Inr (\<lambda>r. r\<lparr>ac_OperatorAddress := Some \<lparr>op_Exist = True, op_OperatorAddress = opAddress\<rparr>\<rparr>)))))"

definition getTotalNumberOfHolders :: "actions_queries \<Rightarrow> Account handler" where
  "getTotalNumberOfHolders ap =
     andThen (wrap ''failed to get total num of holders'' (ap_GetTotalNumberOfHolders ap)) (\<lambda>n.
     Inr (\<lambda>r. r\<lparr>ac_TotalNumberOfHolders := n\<rparr>))"

definition getTotalAccountSupply :: "actions_queries \<Rightarrow> Account handler" where
  "getTotalAccountSupply ap =
     andThen (wrap ''failed to get total num of Supply'' (ap_GetTotalAccountSupply ap)) (\<lambda>n.
     Inr (\<lambda>r. r\<lparr>ac_TotalAccountSupply := n\<rparr>))"

definition account_handlers :: "actions_queries \<Rightarrow> votings_queries \<Rightarrow> request \<Rightarrow> (string list \<times> Account handler) list" where
  "account_handlers ap vp q =
     [([''activeAccounts''], getActiveAccounts ap q), ([''alias''], getAlias vp q),
      ([''operatorAddress''], getOperatorAddress_g vp q), ([''totalNumberOfHolders''], getTotalNumberOfHolders ap),
      ([''totalAccountSupply''], getTotalAccountSupply ap)]"

definition resolve_Account :: "(Account handler list \<Rightarrow> Account handler list) \<Rightarrow> actions_queries \<Rightarrow> votings_queries \<Rightarrow> request \<Rightarrow> go_error + Account" where
  "resolve_Account ord ap vp q =
     errgroup ord (requested q (account_handlers ap vp q))
       \<lparr>ac_ActiveAccounts = [], ac_Alias = None, ac_OperatorAddress = None, ac_TotalNumberOfHolders = 0, ac_TotalAccountSupply = []\<rparr>"

definition resolve_TopHolders :: "actions_queries \<Rightarrow> int \<Rightarrow> int \<Rightarrow> int \<Rightarrow> go_error + TopHolder list" where
  "resolve_TopHolders ap endEpochNumber skip first =
     (if skip < 0 then Inl ErrPaginationInvalidOffset
      else if first \<le> 0 \<or> MaximumPageSize < first then Inl page_size_error
      else ap_GetTopHolders ap (u64_of_int endEpochNumber) (u64_of_int skip) (u64_of_int first))"

subsection \<open>Actions\<close>

record ActionInfo_g =
  ig_ActHash :: string
  ig_BlkHash :: string
  ig_TimeStamp :: int
  ig_ActType :: string
  ig_Sender :: string
  ig_Recipient :: string
  ig_Amount :: string
  ig_GasFee :: string

record ActionList =
  li_Exist :: bool
  li_Actions :: "ActionInfo_g list"
  li_Count :: nat

record EvmTransferDetail_g =
  eg_From :: string
  eg_To :: string
  eg_Quantity :: string
  eg_ActHash :: string
  eg_BlkHash :: string
  eg_TimeStamp :: int

record EvmTransferList =
  el_Exist :: bool
  el_EvmTransfers :: "EvmTransferDetail_g list"
  el_Count :: nat

record Action =
  an_ByDates :: "ActionList option"
  an_ByHash :: "(ActionInfo_g \<times> EvmTransfer list) option"
  an_ByAddress :: "ActionList option"
  an_ByAddressAndType :: "ActionList option"
  an_ByBucketIndex :: "ActionList option"
  an_EvmTransfersByAddress :: "EvmTransferList option"
  an_ByType :: "ActionList option"
  an_ByVoter :: "ActionList option"

definition action_info_g :: "ActionInfo_q \<Rightarrow> ActionInfo_g" where
  "action_info_g a = \<lparr>ig_ActHash = aq_ActHash a, ig_BlkHash = aq_BlkHash a, ig_TimeStamp = int_of_u64 (aq_TimeStamp a),
     ig_ActType = aq_ActType a, ig_Sender = aq_Sender a, ig_Recipient = aq_Recipient a, ig_Amount = aq_Amount a,
     ig_GasFee = aq_GasFee a\<rparr>"

definition no_actions :: "ActionList option" where
  "no_actions = Some \<lparr>li_Exist = False, li_Actions = [], li_Count = 0\<rparr>"

definition some_actions :: "ActionInfo_q list \<Rightarrow> nat \<Rightarrow> ActionList option" where
  "some_actions acts n = Some \<lparr>li_Exist = True, li_Actions = map action_info_g acts, li_Count = n\<rparr>"

text \<open>The error of the count is wrapped and thrown away: the list goes out with the count 0.\<close>

definition getActionsByDates_g :: "actions_queries \<Rightarrow> request \<Rightarrow> Action handler" where
  "getActionsByDates_g ap q =
     andThen (parseFieldArguments q ''byDates'' ''actions'') (\<lambda>argsMap.
     andThen (wrap ''failed to get start date'' (getIntArg argsMap ''startDate'')) (\<lambda>startDate.
     andThen (wrap ''failed to get end date'' (getIntArg argsMap ''endDate'')) (\<lambda>endDate.
     if endDate < startDate then Inl (ErrMsg ''invalid dates'')
     else
       andThen (page_of_args ''failed to get pagination arguments for actions'' argsMap) (\<lambda>(offset, sz).
       if_exists ''failed to get actions' information by dates'' (\<lambda>r. r\<lparr>an_ByDates := no_actions\<rparr>)
         (ap_GetActionsByDates ap (u64_of_int startDate) (u64_of_int endDate) offset sz) (\<lambda>acts.
       let n = (case ap_GetActionCountByDates ap (u64_of_int startDate) (u64_of_int endDate) of Inl _ \<Rightarrow> 0 | Inr n \<Rightarrow> n) in
       Inr (\<lambda>r. r\<lparr>an_ByDates := some_actions acts n\<rparr>))))))"

definition supported_types :: "string list" where
  "supported_types = [''transfer'', ''execution'', ''startSubChain'', ''stopSubChain'', ''putBlock'', ''createDeposit'',
     ''settleDeposit'', ''createPlumChain'', ''terminatePlumChain'', ''plumPutBlock'', ''plumCreateDeposit'', ''plumStartExit'',
     ''plumChallengeExit'', ''plumResponseChallengeExit'', ''plumFinalizeExit'', ''plumSettleDeposit'', ''plumTransfer'',
     ''depositToRewardingFund'', ''claimFromRewardingFund'', ''grantReward'', ''stakeCreate'', ''stakeUnstake'', ''stakeWithdraw'',
     ''stakeAddDeposit'', ''stakeRestake'', ''stakeChangeCandidate'', ''stakeTransferOwnership'', ''candidateRegister'',
     ''candidateUpdate'', ''putPollResult'']"

definition getActionsByType_g :: "actions_queries \<Rightarrow> request \<Rightarrow> Action handler" where
  "getActionsByType_g ap q =
     andThen (parseFieldArguments q ''byType'' ''actions'') (\<lambda>argsMap.
     andThen (wrap ''failed to get type'' (getStringArg argsMap ''type'')) (\<lambda>actionType.
     if actionType \<notin> set supported_types then Inl ErrActionTypeNotSupported
     else
       andThen (wrap ''failed to get pagination arguments for actions'' (getPaginationArgs argsMap)) (\<lambda>p.
       if_exists ''failed to get actions' information by type'' (\<lambda>r. r\<lparr>an_ByType := no_actions\<rparr>)
         (ap_GetActionsByType ap actionType (get_or 0 p ''skip'') (get_or 0 p ''first'')) (\<lambda>acts.
       andThen (wrap ''failed to get actions' count by type'' (ap_GetActionCountByType ap actionType)) (\<lambda>n.
       Inr (\<lambda>r. r\<lparr>an_ByType := some_actions acts n\<rparr>))))))"

text \<open>An offset past the end wraps the \<open>nil\<close> error: no error, and no list either.\<close>

definition getActionsByAddressAndType_g :: "actions_queries \<Rightarrow> request \<Rightarrow> Action handler" where
  "getActionsByAddressAndType_g ap q =
     andThen (parseFieldArguments q ''byAddressAndType'' ''actions'') (\<lambda>argsMap.
     andThen (wrap ''failed to get address'' (getStringArg argsMap ''address'')) (\<lambda>addr.
     andThen (wrap ''failed to get action type'' (getStringArg argsMap ''type'')) (\<lambda>actionType.
     andThen (page_of_args ''failed to get pagination arguments for actions'' argsMap) (\<lambda>(offset, sz).
     andThen (wrap ''failed to get actions' count by address'' (ap_GetActionCountByAddressAndType ap addr actionType)) (\<lambda>n.
     if of_nat n \<le> offset then Inr (\<lambda>r. r)
     else
       if_exists ''failed to get actions' information'' (\<lambda>r. r\<lparr>an_ByAddressAndType := no_actions\<rparr>)
         (ap_GetActionsByAddressAndType ap addr actionType offset sz) (\<lambda>acts.
       Inr (\<lambda>r. r\<lparr>an_ByAddressAndType := some_actions acts n\<rparr>)))))))"

definition getActionsByAddress_g :: "actions_queries \<Rightarrow> request \<Rightarrow> Action handler" where
  "getActionsByAddress_g ap q =
     andThen (parseFieldArguments q ''byAddress'' ''actions'') (\<lambda>argsMap.
     andThen (wrap ''failed to get address'' (getStringArg argsMap ''address'')) (\<lambda>addr.
     andThen (page_of_args ''failed to get pagination arguments for actions'' argsMap) (\<lambda>(offset, sz).
     andThen (wrap ''failed to get actions' count by address'' (ap_GetActionCountByAddress ap addr)) (\<lambda>n.
     if_exists ''failed to get actions' information'' (\<lambda>r. r\<lparr>an_ByAddress := no_actions\<rparr>)
       (ap_GetActionsByAddress ap addr offset sz) (\<lambda>acts.
     Inr (\<lambda>r. r\<lparr>an_ByAddress := some_actions acts n\<rparr>))))))"

definition getActionsByVoter :: "actions_queries \<Rightarrow> request \<Rightarrow> Action handler" where
  "getActionsByVoter ap q =
     andThen (parseFieldArguments q ''byVoter'' ''actions'') (\<lambda>argsMap.
     andThen (wrap ''failed to get voter address'' (getStringArg argsMap ''voter'')) (\<lambda>voter.
     andThen (page_of_args ''failed to get pagination arguments for actions'' argsMap) (\<lambda>(offset, sz).
     andThen (wrap ''failed to get the count of actions by voter address'' (ap_GetBucketActionCountByVoter ap voter)) (\<lambda>n.
     if_exists ''failed to get actions' information'' (\<lambda>r. r\<lparr>an_ByVoter := no_actions\<rparr>)
       (ap_GetBucketActionsByVoter ap voter offset sz) (\<lambda>acts.
     Inr (\<lambda>r. r\<lparr>an_ByVoter := some_actions acts n\<rparr>))))))"

text \<open>The answer without rows goes into the field of another handler.\<close>

definition getActionsByBucketIndex_g :: "actions_queries \<Rightarrow> request \<Rightarrow> Action handler" where
  "getActionsByBucketIndex_g ap q =
     andThen (parseFieldArguments q ''byBucketIndex'' ''actions'') (\<lambda>argsMap.
     andThen (wrap ''failed to get bucket index'' (getIntArg argsMap ''bucketIndex'')) (\<lambda>bucketIndex.
     if bucketIndex \<le> 0 then Inl (ErrMsg (''bucket index '' @ big_String bucketIndex @ '' is invalid''))
     else
       andThen (page_of_args ''failed to get pagination arguments for actions'' argsMap) (\<lambda>(offset, sz).
       andThen (wrap ''failed to get the number of actions by bucket index'' (ap_GetActionCountByBucketIndex ap (u64_of_int bucketIndex))) (\<lambda>n.
       if_exists ''failed to get actions by bucket index'' (\<lambda>r. r\<lparr>an_ByAddress := no_actions\<rparr>)
         (ap_GetActionsByBucketIndex ap (u64_of_int bucketIndex) offset sz) (\<lambda>acts.
       Inr (\<lambda>r. r\<lparr>an_ByBucketIndex := some_actions acts n\<rparr>))))))"

text \<open>\<open>TimeStamp.Int64\<close> of a \<open>sql.NullInt64\<close> is 0 without a value.\<close>

definition evm_detail_g :: "EvmTransferDetail \<Rightarrow> EvmTransferDetail_g" where
  "evm_detail_g e = \<lparr>eg_From = ed_From e, eg_To = ed_To e, eg_Quantity = ed_Quantity e, eg_ActHash = ed_ActHash e,
     eg_BlkHash = ed_BlkHash e, eg_TimeStamp = (case ed_TimeStamp e of None \<Rightarrow> 0 | Some t \<Rightarrow> t)\<rparr>"

definition getEvmTransfersByAddress :: "actions_queries \<Rightarrow> request \<Rightarrow> Action handler" where
  "getEvmTransfersByAddress ap q =
     andThen (parseFieldArguments q ''evmTransfersByAddress'' ''evmTransfers'') (\<lambda>argsMap.
     andThen (wrap ''failed to get address'' (getStringArg argsMap ''address'')) (\<lambda>addr.
     andThen (page_of_args ''failed to get pagination arguments for actions'' argsMap) (\<lambda>(offset, sz).
     andThen (wrap ''failed to get execution count for actions'' (ap_GetEvmTransferCount ap addr)) (\<lambda>n.
     if_exists ''failed to get evm transfers''
       (\<lambda>r. r\<lparr>an_EvmTransfersByAddress := Some \<lparr>el_Exist = False, el_EvmTransfers = [], el_Count = n\<rparr>\<rparr>)
       (ap_GetEvmTransferDetailListByAddress ap addr offset sz) (\<lambda>es.
     Inr (\<lambda>r. r\<lparr>an_EvmTransfersByAddress := Some \<lparr>el_Exist = True, el_EvmTransfers = map evm_detail_g es, el_Count = n\<rparr>\<rparr>))))))"

definition getActionByHash :: "actions_queries \<Rightarrow> request \<Rightarrow> Action handler" where
  "getActionByHash ap q =
     andThen (parseFieldArguments q ''byHash'' []) (\<lambda>argsMap.
     andThen (wrap ''failed to get hash'' (getStringArg argsMap ''actHash'')) (\<lambda>hash.
     andThen (wrap ''failed to get action details by hash'' (ap_GetActionDetailByHash ap hash)) (\<lambda>d.
     Inr (\<lambda>r. r\<lparr>an_ByHash := Some (action_info_g (ad_ActionInfo d), ad_EvmTransfers d)\<rparr>))))"

definition action_handlers :: "actions_queries \<Rightarrow> request \<Rightarrow> (string list \<times> Action handler) list" where
  "action_handlers ap q =
     [([''byDates''], getActionsByDates_g ap q), ([''byHash''], getActionByHash ap q), ([''byAddress''], getActionsByAddress_g ap q),
      ([''byAddressAndType''], getActionsByAddressAndType_g ap q), ([''byBucketIndex''], getActionsByBucketIndex_g ap q),
      ([''evmTransfersByAddress''], getEvmTransfersByAddress ap q), ([''byType''], getActionsByType_g ap q),
      ([''byVoter''], getActionsByVoter ap q)]"

definition empty_action :: Action where
  "empty_action = \<lparr>an_ByDates = None, an_ByHash = None, an_ByAddress = None, an_ByAddressAndType = None, an_ByBucketIndex = None,
     an_EvmTransfersByAddress = None, an_ByType = None, an_ByVoter = None\<rparr>"

definition resolve_Action :: "(Action handler list \<Rightarrow> Action handler list) \<Rightarrow> actions_queries \<Rightarrow> request \<Rightarrow> go_error + Action" where
  "resolve_Action ord ap q = errgroup ord (requested q (action_handlers ap q)) empty_action"

end
