(* ===== verification/Resolver_Tokens.thy ===== *)
theory Resolver_Tokens imports Resolver_Actions begin

text \<open>
  The resolver's handlers of XRC20 and XRC721 tokens (\<open>graphql/resolver.go\<close>). One handler serves both
  standards; the response of \<open>Xrc20\<close> has one field more.
\<close>

datatype token = XRC20 | XRC721

instantiation token :: enum
begin

definition enum_token :: "token list" where
  "enum_token = [XRC20, XRC721]"

definition enum_all_token :: "(token \<Rightarrow> bool) \<Rightarrow> bool" where
  "enum_all_token P \<longleftrightarrow> P XRC20 \<and> P XRC721"

definition enum_ex_token :: "(token \<Rightarrow> bool) \<Rightarrow> bool" where
  "enum_ex_token P \<longleftrightarrow> P XRC20 \<or> P XRC721"

instance
proof
  show all: "(UNIV :: token set) = set enum_class.enum"
    by (auto simp: enum_token_def intro: token.exhaust)
  show "distinct (enum_class.enum :: token list)" by (simp add: enum_token_def)
  show "enum_class.enum_all P \<longleftrightarrow> Ball UNIV P" for P :: "token \<Rightarrow> bool"
    by (auto simp: enum_all_token_def) (metis token.exhaust)
  show "enum_class.enum_ex P \<longleftrightarrow> Bex UNIV P" for P :: "token \<Rightarrow> bool"
    by (auto simp: enum_ex_token_def) (metis token.exhaust)
qed

end

record XrcInfo =
  xg_Contract :: string
  xg_Hash :: string
  xg_Timestamp :: string
  xg_From :: string
  xg_To :: string
  xg_Quantity :: string

record XrcList =
  xl_Exist :: bool
  xl_Xrc20 :: "XrcInfo list"
  xl_Xrc721 :: "XrcInfo list"
  xl_Count :: nat

record XrcAddressList =
  xa_Exist :: bool
  xa_Addresses :: "string list"
  xa_Count :: nat

record XrcHolderAddressList =
  xd_Addresses :: "string list"
  xd_Count :: nat

record Xrc721 =
  xr_ByContractAddress :: "XrcList option"
  xr_ByAddress :: "XrcList option"
  xr_ByPage :: "XrcList option"
  xr_TokenAddresses :: "XrcAddressList option"
  xr_TokenHolderAddresses :: "XrcHolderAddressList option"

record Xrc20 = Xrc721 +
  xr_ByContractAndAddress :: "XrcList option"

definition xrc_info_g :: "Xrc20Info \<Rightarrow> XrcInfo" where
  "xrc_info_g c = \<lparr>xg_Contract = xi_Contract c, xg_Hash = xi_Hash c, xg_Timestamp = xi_Timestamp c, xg_From = xi_From c,
     xg_To = xi_To c, xg_Quantity = xi_Quantity c\<rparr>"

text \<open>The list of a standard: the count first, then the rows, in the field of the standard.\<close>

definition xrc_list :: "token \<Rightarrow> go_error + nat \<Rightarrow> go_error + Xrc20Info list \<Rightarrow> go_error + XrcList" where
  "xrc_list t found rows =
     andThen (wrap ''failed to get contract transaction count'' found) (\<lambda>n.
     if_exists ''failed to get contract information'' \<lparr>xl_Exist = False, xl_Xrc20 = [], xl_Xrc721 = [], xl_Count = n\<rparr> rows (\<lambda>infos.
     let out = map xrc_info_g infos in
     Inr \<lparr>xl_Exist = True, xl_Xrc20 = (if t = XRC20 then out else []), xl_Xrc721 = (if t = XRC721 then out else []), xl_Count = n\<rparr>))"

definition page_numbers :: "args_map \<Rightarrow> go_error + u64 \<times> u64" where
  "page_numbers argsMap =
     andThen (wrap ''failed to get numPerPage'' (getIntArg argsMap ''numPerPage'')) (\<lambda>numPerPage.
     andThen (wrap ''failed to get page'' (getIntArg argsMap ''page'')) (\<lambda>page.
     Inr (u64_of_int numPerPage, u64_of_int page)))"

definition getXrcByContractAddress :: "token \<Rightarrow> token_queries \<Rightarrow> request \<Rightarrow> ('z Xrc721_scheme) handler" where
  "getXrcByContractAddress t tq q =
     andThen (parseFieldArguments q ''byContractAddress'' []) (\<lambda>argsMap.
     andThen (wrap ''failed to get address'' (getStringArg argsMap ''address'')) (\<lambda>address.
     andThen (page_numbers argsMap) (\<lambda>(numPerPage, page).
     andThen (xrc_list t (tk_TransactionCount tq address) (tk_Get tq address numPerPage page)) (\<lambda>out.
     Inr (\<lambda>r. r\<lparr>xr_ByContractAddress := Some out\<rparr>)))))"

definition getXrcByAddress_g :: "token \<Rightarrow> token_queries \<Rightarrow> request \<Rightarrow> ('z Xrc721_scheme) handler" where
  "getXrcByAddress_g t tq q =
     andThen (parseFieldArguments q ''byAddress'' []) (\<lambda>argsMap.
     andThen (wrap ''failed to get address'' (getStringArg argsMap ''address'')) (\<lambda>address.
     andThen (page_numbers argsMap) (\<lambda>(numPerPage, page).
     andThen (xrc_list t (tk_HistoryCount tq address) (tk_GetByAddress tq address numPerPage page)) (\<lambda>out.
     Inr (\<lambda>r. r\<lparr>xr_ByAddress := Some out\<rparr>)))))"

definition getXrcByContractAndAddress :: "actions_queries \<Rightarrow> request \<Rightarrow> ('z Xrc20_scheme) handler" where
  "getXrcByContractAndAddress ap q =
     andThen (parseFieldArguments q ''byContractAndAddress'' []) (\<lambda>argsMap.
     andThen (wrap ''failed to get contract'' (getStringArg argsMap ''contract'')) (\<lambda>contract.
     andThen (wrap ''failed to get address'' (getStringArg argsMap ''address'')) (\<lambda>address.
     andThen (page_numbers argsMap) (\<lambda>(numPerPage, page).
     andThen (xrc_list XRC20 (ap_GetXrc20HistoryByContractCount ap contract address)
       (ap_GetXrc20ByContractAndAddress ap contract address numPerPage page)) (\<lambda>out.
     Inr (\<lambda>r. r\<lparr>xr_ByContractAndAddress := Some out\<rparr>))))))"

definition xrcTokenHolderAddresses :: "token_queries \<Rightarrow> request \<Rightarrow> ('z Xrc721_scheme) handler" where
  "xrcTokenHolderAddresses tq q =
     andThen (parseFieldArguments q ''tokenHolderAddresses'' ''addresses'') (\<lambda>argsMap.
     andThen (wrap ''failed to get address'' (getStringArg argsMap ''tokenAddress'')) (\<lambda>addr.
     andThen (page_of_args ''failed to get pagination arguments for xrc20 ByTokenAddress'' argsMap) (\<lambda>(offset, sz).
     andThen (tk_Holders tq addr offset sz) (\<lambda>holders.
     andThen (tk_HolderCount tq addr) (\<lambda>n.
     Inr (\<lambda>r. r\<lparr>xr_TokenHolderAddresses := Some \<lparr>xd_Addresses = holders, xd_Count = n\<rparr>\<rparr>))))))"

definition getXrcByPage_g :: "token \<Rightarrow> token_queries \<Rightarrow> request \<Rightarrow> ('z Xrc721_scheme) handler" where
  "getXrcByPage_g t tq q =
     andThen (parseFieldArguments q ''byPage'' []) (\<lambda>argsMap.
     andThen (wrap ''failed to get pagination arguments for get xrc20 ByPage'' (getPaginationArgs argsMap)) (\<lambda>p.
     andThen (xrc_list t (tk_Count tq []) (tk_GetByPage tq (get_or 0 p ''skip'') (get_or 0 p ''first''))) (\<lambda>out.
     Inr (\<lambda>r. r\<lparr>xr_ByPage := Some out\<rparr>))))"

definition addresses_field :: "token \<Rightarrow> string" where
  "addresses_field t = (case t of XRC20 \<Rightarrow> ''xrc20Addresses'' | XRC721 \<Rightarrow> ''xrc721Addresses'')"

definition getXrcAddresses_g :: "token \<Rightarrow> token_queries \<Rightarrow> request \<Rightarrow> ('z Xrc721_scheme) handler" where
  "getXrcAddresses_g t tq q =
     andThen (parseFieldArguments q (addresses_field t) []) (\<lambda>argsMap.
     andThen (wrap ''failed to get pagination arguments for get xrc20 addresses'' (getPaginationArgs argsMap)) (\<lambda>p.
     andThen (wrap ''failed to get xrc address count'' (tk_AddressesCount tq [])) (\<lambda>n.
     andThen (wrap ''failed to get contract information'' (tk_Addresses tq (get_or 0 p ''skip'') (get_or 0 p ''first''))) (\<lambda>addresses.
     Inr (\<lambda>r. r\<lparr>xr_TokenAddresses := Some \<lparr>xa_Exist = True, xa_Addresses = addresses, xa_Count = n\<rparr>\<rparr>)))))"

definition token_handlers :: "token \<Rightarrow> token_queries \<Rightarrow> request \<Rightarrow> (string list \<times> ('z Xrc721_scheme) handler) list" where
  "token_handlers t tq q =
     [([''byContractAddress''], getXrcByContractAddress t tq q), ([''byAddress''], getXrcByAddress_g t tq q),
      ([''byPage''], getXrcByPage_g t tq q), ([addresses_field t], getXrcAddresses_g t tq q),
      ([''tokenHolderAddresses''], xrcTokenHolderAddresses tq q)]"

definition empty_xrc721 :: Xrc721 where
  "empty_xrc721 = \<lparr>xr_ByContractAddress = None, xr_ByAddress = None, xr_ByPage = None, xr_TokenAddresses = None,
     xr_TokenHolderAddresses = None\<rparr>"

definition resolve_Xrc721 :: "(Xrc721 handler list \<Rightarrow> Xrc721 handler list) \<Rightarrow> token_queries \<Rightarrow> request \<Rightarrow> go_error + Xrc721" where
  "resolve_Xrc721 ord tq q = errgroup ord (requested q (token_handlers XRC721 tq q)) empty_xrc721"

definition resolve_Xrc20 :: "(Xrc20 handler list \<Rightarrow> Xrc20 handler list) \<Rightarrow> actions_queries \<Rightarrow> token_queries \<Rightarrow> request \<Rightarrow> go_error + Xrc20" where
  "resolve_Xrc20 ord ap tq q =
     errgroup ord (requested q (token_handlers XRC20 tq q @ [([''byContractAndAddress''], getXrcByContractAndAddress ap q)]))
       (Xrc721.extend empty_xrc721 \<lparr>xr_ByContractAndAddress = None\<rparr>)"

end
