(* ===== verification/Resolver_Groups.thy ===== *)
theory Resolver_Groups imports Resolver_Delegates Resolver_Tokens begin

text \<open>
  The goroutines of a request do not disturb each other. The contract \<open>independent_handlers\<close> says that
  the writes of any two handlers commute; then the group gives the same answer in whatever
  order its goroutines end, and it fails exactly when one of them does. Every group of the resolver
  meets the contract but one: the answer of \<open>byBucketIndex\<close> without rows goes into the field of
  \<open>byAddress\<close>.
\<close>

subsection \<open>The contract\<close>

definition commute :: "'r handler \<Rightarrow> 'r handler \<Rightarrow> bool" where
  "commute h k \<longleftrightarrow> (\<forall>v w. h = Inr v \<longrightarrow> k = Inr w \<longrightarrow> v \<circ> w = w \<circ> v)"

lemma commute_sym: "commute h k \<Longrightarrow> commute k h"
  by (auto simp: commute_def)

lemma group_run:
  "foldE (\<lambda>h r. andThen h (\<lambda>w. Inr (w r))) hs r = Inr r' \<longleftrightarrow> (\<forall>h \<in> set hs. \<not> isl h) \<and> r' = fold projr hs r"
proof (induction hs arbitrary: r)
  case (Cons h hs)
  then show ?case by (cases h) auto
qed auto

lemma group_fails: "(\<exists>e. foldE (\<lambda>h r. andThen h (\<lambda>w. Inr (w r))) hs r = Inl e) \<longleftrightarrow> (\<exists>h \<in> set hs. isl h)"
proof (induction hs arbitrary: r)
  case (Cons h hs)
  then show ?case by (cases h) auto
qed simp

text \<open>Every order in which the goroutines may end gives the same answer, or all of them fail.\<close>

definition order_independent :: "(('r handler list \<Rightarrow> 'r handler list) \<Rightarrow> go_error + 'a) \<Rightarrow> bool" where
  "order_independent answer \<longleftrightarrow>
     (\<forall>ord ord' r. range_order ord \<longrightarrow> range_order ord' \<longrightarrow> answer ord = Inr r \<longrightarrow> answer ord' = Inr r)"

locale independent_handlers =
  fixes table :: "(string list \<times> 'r handler) list"
  assumes independent: "sorted_wrt commute (map snd table)"
begin

lemma requested_commute: "sorted_wrt commute (requested q table)"
  using independent unfolding requested_def sorted_wrt_map by (rule sorted_wrt_filter)

lemma requested_commute_all:
  assumes "h \<in> set (requested q table)" "k \<in> set (requested q table)"
  shows "h = k \<or> commute h k"
proof -
  obtain i j where "i < length (requested q table)" "requested q table ! i = h"
    "j < length (requested q table)" "requested q table ! j = k"
    using assms by (auto simp: in_set_conv_nth)
  then show ?thesis
    using requested_commute[of q] unfolding sorted_wrt_iff_nth_less by (metis commute_sym nat_neq_iff)
qed

lemma same_answer:
  assumes "range_order ord" "range_order ord'" "errgroup ord (requested q table) r = Inr r'"
  shows "errgroup ord' (requested q table) r = Inr r'"
proof -
  let ?hs = "requested q table"
  have m: "mset (ord ?hs) = mset ?hs" "mset (ord' ?hs) = mset ?hs" using assms(1,2) by (simp_all add: range_order_def)
  have run: "\<forall>h \<in> set ?hs. \<not> isl h" "r' = fold projr (ord ?hs) r"
    using assms(3) mset_eq_setD[OF m(1)] unfolding errgroup_def group_run by auto
  have "fold projr (ord ?hs) = fold projr (ord' ?hs)"
  proof (rule fold_multiset_equiv)
    fix h k assume hk: "h \<in> set (ord ?hs)" "k \<in> set (ord ?hs)"
    then have hk: "h \<in> set ?hs" "k \<in> set ?hs" using mset_eq_setD[OF m(1)] by auto
    then have "h = k \<or> commute h k" by (rule requested_commute_all)
    moreover have "h = Inr (projr h)" "k = Inr (projr k)" using run(1) hk by simp_all
    ultimately show "projr h \<circ> projr k = projr k \<circ> projr h" unfolding commute_def by metis
  qed (simp add: m)
  then show ?thesis
    using run mset_eq_setD[OF m(2)] unfolding errgroup_def group_run by simp
qed

lemma any_order: "order_independent (\<lambda>ord. errgroup ord (requested q table) r)"
  unfolding order_independent_def
proof (intro allI impI)
  fix ord ord' :: "'r handler list \<Rightarrow> 'r handler list" and r'
  assume "range_order ord" "range_order ord'" "errgroup ord (requested q table) r = Inr r'"
  then show "errgroup ord' (requested q table) r = Inr r'" by (rule same_answer)
qed

lemma fails_with_a_handler:
  assumes "range_order ord"
  shows "(\<exists>e. errgroup ord (requested q table) r = Inl e) \<longleftrightarrow> (\<exists>h \<in> set (requested q table). isl h)"
  using assms unfolding errgroup_def group_fails by (metis mset_eq_setD range_order_def)

end

subsection \<open>What a handler writes\<close>

definition writes :: "(('v \<Rightarrow> 'v) \<Rightarrow> 'r \<Rightarrow> 'r) \<Rightarrow> 'r handler \<Rightarrow> bool" where
  "writes upd h \<longleftrightarrow> (\<forall>w. h = Inr w \<longrightarrow> (\<exists>f. w = upd f))"

lemma writes_commute:
  assumes "writes upd h" "writes upd' k" "\<And>f g. upd f \<circ> upd' g = upd' g \<circ> upd f"
  shows "commute h k"
  using assms unfolding writes_def commute_def by metis

lemma if_exists_Inr:
  "if_exists msg missing r k = Inr y \<longleftrightarrow>
   (\<exists>x. r = Inr x \<and> k x = Inr y) \<or> (\<exists>e. r = Inl e \<and> cause e = ErrNotExist \<and> y = missing)"
  by (cases r) (auto simp: if_exists_def)

lemma getActiveAccounts_writes: "writes ac_ActiveAccounts_update (getActiveAccounts ap q)"
  and getAlias_writes: "writes ac_Alias_update (getAlias vp q)"
  and getOperatorAddress_writes: "writes ac_OperatorAddress_update (getOperatorAddress_g vp q)"
  and getTotalNumberOfHolders_writes: "writes ac_TotalNumberOfHolders_update (getTotalNumberOfHolders ap)"
  and getTotalAccountSupply_writes: "writes ac_TotalAccountSupply_update (getTotalAccountSupply ap)"
  by (auto simp: writes_def getActiveAccounts_def getAlias_def getOperatorAddress_g_def getTotalNumberOfHolders_def
      getTotalAccountSupply_def andThen_eq_Inr if_exists_Inr split: if_splits)

lemmas account_writes = getActiveAccounts_writes getAlias_writes getOperatorAddress_writes getTotalNumberOfHolders_writes
  getTotalAccountSupply_writes

interpretation account_group: independent_handlers "account_handlers ap vp q" for ap vp q
  by unfold_locales (auto simp: account_handlers_def fun_eq_iff intro!: writes_commute account_writes)

text \<open>
  A handler of another group writes one field (the supply handler of the chain three at once), except
  the one of \<open>byBucketIndex\<close>.
\<close>

definition writes_supplies :: "Chain handler \<Rightarrow> bool" where
  "writes_supplies h \<longleftrightarrow> (\<forall>w. h = Inr w \<longrightarrow> (\<exists>a b c. w = (\<lambda>r. r\<lparr>ch_TotalSupply := a, ch_TotalCirculatingSupply := b,
     ch_TotalCirculatingSupplyNoRewardPool := c\<rparr>)))"

lemma writes_Inr: "writes upd (Inr (upd f))"
  by (auto simp: writes_def)

lemma writes_Inl: "writes upd (Inl e)"
  by (simp add: writes_def)

lemma writes_wrap: "writes upd (wrap msg (Inl e))"
  by (simp add: writes_def)

lemma writes_andThen: "(\<And>x. writes upd (k x)) \<Longrightarrow> writes upd (andThen r k)"
  by (cases r) (simp_all add: writes_def)

lemma writes_if_exists: "(\<And>x. writes upd (k x)) \<Longrightarrow> writes upd (Inr missing) \<Longrightarrow> writes upd (if_exists msg missing r k)"
  by (cases r) (simp_all add: if_exists_def writes_wrap)

lemma writes_if: "writes upd h \<Longrightarrow> writes upd k \<Longrightarrow> writes upd (if b then h else k)"
  by simp

lemma writes_sum: "(\<And>e. writes upd (h e)) \<Longrightarrow> (\<And>x. writes upd (k x)) \<Longrightarrow> writes upd (case r of Inl e \<Rightarrow> h e | Inr x \<Rightarrow> k x)"
  by (cases r) simp_all

lemmas writes_intros = writes_Inr writes_Inl writes_wrap writes_andThen writes_if_exists writes_if writes_sum

lemma unchanged_writes: "writes ch_VotingResultMeta_update (Inr (\<lambda>r. r))"
  unfolding writes_def by (auto simp: fun_eq_iff intro!: exI[of _ "\<lambda>x. x"])

lemma getVotingResultMeta_writes: "writes ch_VotingResultMeta_update (getVotingResultMeta vp resp)"
  unfolding getVotingResultMeta_def
  by (intro writes_andThen) (auto split: list.split intro: unchanged_writes writes_Inr)

lemma getTPS_writes: "writes ch_MostRecentTps_update (getTPS cp q)"
  unfolding getTPS_def by (intro writes_intros)

lemma getNumberOfActions_writes: "writes ch_NumberOfActions_update (getNumberOfActions cp resp q)"
  unfolding getNumberOfActions_def number_of_actions_def Let_def by (intro writes_intros)

lemma gettotalTransferredTokens_writes: "writes ch_TotalTransferredTokens_update (gettotalTransferredTokens cp q)"
  unfolding gettotalTransferredTokens_def split_def by (intro writes_intros)

lemma supply_writes: "writes_supplies (getTotalAndTotalCirculatingSupply cp)"
  by (auto simp: writes_supplies_def getTotalAndTotalCirculatingSupply_def andThen_eq_Inr)

lemmas chain_writes = getVotingResultMeta_writes getTPS_writes getNumberOfActions_writes gettotalTransferredTokens_writes

lemma supplies_commute:
  assumes "writes upd h" "writes_supplies k"
    and "\<And>f a b c. upd f \<circ> (\<lambda>r. r\<lparr>ch_TotalSupply := a, ch_TotalCirculatingSupply := b, ch_TotalCirculatingSupplyNoRewardPool := c\<rparr>) =
      (\<lambda>r. r\<lparr>ch_TotalSupply := a, ch_TotalCirculatingSupply := b, ch_TotalCirculatingSupplyNoRewardPool := c\<rparr>) \<circ> upd f"
  shows "commute h k"
  using assms unfolding writes_def writes_supplies_def commute_def by metis

lemmas supply_commutes = chain_writes[THEN supplies_commute, OF supply_writes]

interpretation chain_group: independent_handlers "chain_handlers cp vp resp q" for cp vp resp q
  by unfold_locales (auto simp: chain_handlers_def fun_eq_iff intro!: supply_commutes
      writes_commute[OF getVotingResultMeta_writes] writes_commute[OF getTPS_writes]
      writes_commute[OF getNumberOfActions_writes gettotalTransferredTokens_writes] chain_writes)

lemma voting_writes:
  "writes vo_CandidateInfo_update (getCandidateList lord vp s c)"
  "writes vo_VotingMeta_update (getVotingMeta vp s c)"
  "writes vo_RewardSources_update (getRewardSources rp q s c)"
  by (auto simp: writes_def getCandidateList_def getVotingMeta_def getRewardSources_def andThen_eq_Inr if_exists_Inr
      split: if_splits sum.splits)

interpretation voting_group: independent_handlers "voting_handlers lord vp rp q s c" for lord vp rp q s c
  by unfold_locales (auto simp: voting_handlers_def fun_eq_iff intro!: writes_commute voting_writes)

lemma delegate_writes:
  "writes de_Reward_update (getRewards rp s c n)"
  "writes de_Productivity_update (getProductivity pp s c n)"
  "writes de_Bookkeeping_update (getBookkeeping rp q s c n)"
  "writes de_BucketInfo_update (getBucketInfo l iord vp q s c n)"
  "writes de_Staking_update (getStaking vp s c n)"
  "writes de_ProbationHistoricalRate_update (probationHistoricalRate vp s c n)"
  by (auto simp: writes_def getRewards_def getProductivity_def getBookkeeping_def getBucketInfo_def getStaking_def
      probationHistoricalRate_def andThen_eq_Inr if_exists_Inr Let_def split: if_splits)

interpretation delegate_group: independent_handlers "delegate_handlers env q s c n" for env q s c n
  by unfold_locales (auto simp: delegate_handlers_def fun_eq_iff intro!: writes_commute delegate_writes)

lemma writes_prod: "(\<And>x y. writes upd (k x y)) \<Longrightarrow> writes upd (case_prod k p)"
  by (cases p) simp

lemma writes_option: "writes upd h \<Longrightarrow> (\<And>x. writes upd (k x)) \<Longrightarrow> writes upd (case_option h k a)"
  by (cases a) simp_all

lemmas writes_branches = writes_andThen writes_if writes_if_exists writes_prod writes_option writes_Inr

lemma hermes2_writes:
  "writes h2_ByDelegate_update (getHermes2ByDelegate hp q s c)"
  "writes h2_ByVoter_update (getHermes2ByVoter hp q s c)"
  "writes h2_HermesMeta_update (getHermes2HermesMeta hp s c)"
  unfolding getHermes2ByDelegate_def getHermes2ByVoter_def getHermes2HermesMeta_def Let_def
  by (intro writes_branches)+

interpretation hermes2_group: independent_handlers "hermes2_handlers hp q s c" for hp q s c
  by unfold_locales (auto simp: hermes2_handlers_def fun_eq_iff intro!: writes_commute hermes2_writes)

lemma token_writes:
  "writes xr_ByContractAddress_update (getXrcByContractAddress t tq q)"
  "writes xr_ByAddress_update (getXrcByAddress_g t tq q)"
  "writes xr_ByPage_update (getXrcByPage_g t tq q)"
  "writes xr_TokenAddresses_update (getXrcAddresses_g t tq q)"
  "writes xr_TokenHolderAddresses_update (xrcTokenHolderAddresses tq q)"
  "writes xr_ByContractAndAddress_update (getXrcByContractAndAddress ap q)"
  by (auto simp: writes_def getXrcByContractAddress_def getXrcByAddress_g_def getXrcByPage_g_def getXrcAddresses_g_def
      xrcTokenHolderAddresses_def getXrcByContractAndAddress_def andThen_eq_Inr)

interpretation xrc721_group: independent_handlers "token_handlers XRC721 tq q" for tq q
  by unfold_locales (auto simp: token_handlers_def fun_eq_iff intro!: writes_commute token_writes)

interpretation xrc20_group: independent_handlers
  "token_handlers XRC20 tq q @ [([''byContractAndAddress''], getXrcByContractAndAddress ap q)]" for tq ap q
  by unfold_locales (auto simp: token_handlers_def fun_eq_iff intro!: writes_commute token_writes)

lemma action_writes:
  "writes an_ByDates_update (getActionsByDates_g ap q)"
  "writes an_ByHash_update (getActionByHash ap q)"
  "writes an_ByAddress_update (getActionsByAddress_g ap q)"
  "writes an_EvmTransfersByAddress_update (getEvmTransfersByAddress ap q)"
  "writes an_ByType_update (getActionsByType_g ap q)"
  "writes an_ByVoter_update (getActionsByVoter ap q)"
  by (auto simp: writes_def getActionsByDates_g_def getActionByHash_def getActionsByAddress_g_def getEvmTransfersByAddress_def
      getActionsByType_g_def getActionsByVoter_def andThen_eq_Inr if_exists_Inr Let_def split: if_splits)

lemma unchanged_by_type: "\<exists>f. (\<lambda>r. r) = an_ByAddressAndType_update f"
  by (rule exI[of _ "\<lambda>x. x"]) (simp add: fun_eq_iff)

lemma by_type_writes: "writes an_ByAddressAndType_update (getActionsByAddressAndType_g ap q)"
  by (auto simp: writes_def getActionsByAddressAndType_g_def andThen_eq_Inr if_exists_Inr unchanged_by_type split: if_splits)

text \<open>The handlers of actions without the one of \<open>byBucketIndex\<close>.\<close>

definition other_action_handlers :: "actions_queries \<Rightarrow> request \<Rightarrow> (string list \<times> Action handler) list" where
  "other_action_handlers ap q = filter (\<lambda>(names, _). names \<noteq> [''byBucketIndex'']) (action_handlers ap q)"

interpretation action_group: independent_handlers "other_action_handlers ap q" for ap q
  by unfold_locales
    (auto simp: other_action_handlers_def action_handlers_def fun_eq_iff intro!: writes_commute action_writes by_type_writes)

end
