(* ===== verification/Resolver_Service.thy ===== *)
theory Resolver_Service imports Resolver_Groups begin

text \<open>
  The query protocols of the resolver on the tables of the indexer (\<open>main\<close> hands both the same
  store), the law a page query obeys, and what follows for the answers.
\<close>

subsection \<open>The protocols on the tables\<close>

text \<open>The orders in which the database gives rows with equal keys.\<close>

record action_orders =
  ao_rows :: row_order
  ao_bucket_rows :: "(((string \<times> int) \<times> ActionHistory option) \<times> BlockHistory option) list \<Rightarrow> (((string \<times> int) \<times> ActionHistory option) \<times> BlockHistory option) list"
  ao_evm_rows :: "(balance_history_row \<times> BlockHistory option) list \<Rightarrow> (balance_history_row \<times> BlockHistory option) list"
  ao_accounts :: "activeAccount list \<Rightarrow> activeAccount list"
  ao_sums :: "(string \<times> int) list \<Rightarrow> (string \<times> int) list"
  ao_events :: xrc_order
  ao_holders :: "holder_row list \<Rightarrow> holder_row list"

record 'a actions_env =
  ae_libs :: libs
  ae_addresses :: "'a address_lib"
  ae_zero_address :: string
  ae_orders :: action_orders

text \<open>\<open>buckets\<close> is the table of staking buckets that the election library keeps.\<close>

definition actions_service ::
  "'a actions_env \<Rightarrow> 'p registry \<Rightarrow> 'h index_db \<Rightarrow> StakingBucket stored_row list \<Rightarrow> actions_queries"
where
  "actions_service env registry db buckets =
     (let ords = ae_orders env; acts = action_history (db_actions db); bt = block_history (db_blocks db);
          ba = bucket_actions (db_actions db); ht = balance_history (db_accounts db); xdb = xrc_tables (db_actions db) in
      \<lparr>ap_GetActiveAccount = (\<lambda>n. GetActiveAccount (ao_accounts ords) registry n acts),
       ap_GetTotalNumberOfHolders = GetTotalNumberOfHolders registry (db_accounts db),
       ap_GetTotalAccountSupply = GetTotalAccountSupply registry (db_accounts db),
       ap_GetTopHolders = (\<lambda>e skip first. GetTopHolders (ae_zero_address env) (ao_sums ords) registry e skip first (db_accounts db)),
       ap_GetActionsByDates = (\<lambda>s e offset sz. GetActionsByDates (ao_rows ords) registry s e offset sz acts bt),
       ap_GetActionCountByDates = (\<lambda>s e. GetActionCountByDates registry s e bt),
       ap_GetActionsByType = (\<lambda>t offset sz. GetActionsByType (ao_rows ords) registry t offset sz acts bt),
       ap_GetActionCountByType = (\<lambda>t. GetActionCountByType registry t acts),
       ap_GetActionsByAddressAndType = (\<lambda>a t offset sz. GetActionsByAddressAndType (ao_rows ords) registry a t offset sz acts bt),
       ap_GetActionCountByAddressAndType = (\<lambda>a t. GetActionCountByAddressAndType registry a t acts),
       ap_GetActionsByAddress = (\<lambda>a offset sz. GetActionsByAddress (ao_rows ords) registry a offset sz acts bt),
       ap_GetActionCountByAddress = (\<lambda>a. GetActionCountByAddress registry a acts),
       ap_GetBucketActionsByVoter = (\<lambda>v offset sz. GetBucketActionsByVoter (ao_rows ords) registry v offset sz acts bt ba buckets),
       ap_GetBucketActionCountByVoter = (\<lambda>v. GetBucketActionCountByVoter registry v ba buckets),
       ap_GetActionsByBucketIndex = (\<lambda>i offset sz. GetActionsByBucketIndex (ao_bucket_rows ords) i offset sz acts bt ba),
       ap_GetActionCountByBucketIndex = (\<lambda>i. GetActionCountByBucketIndex registry i ba),
       ap_GetActionDetailByHash = (\<lambda>h. GetActionDetailByHash registry h acts bt ht),
       ap_GetEvmTransferDetailListByAddress =
         (\<lambda>a offset sz. GetEvmTransferDetailListByAddress (ao_evm_rows ords) registry a offset sz ht bt),
       ap_GetEvmTransferCount = (\<lambda>a. GetEvmTransferCount registry a ht),
       ap_GetXrc20HistoryByContractCount = (\<lambda>c a. GetXrc20HistoryByContractCount (ae_addresses env) registry c a xdb),
       ap_GetXrc20ByContractAndAddress = (\<lambda>c a n page.
         GetXrc20ByContractAndAddress (ae_libs env) (ae_addresses env) (ao_events ords) registry c a n page xdb)\<rparr>)"

definition token_service :: "token \<Rightarrow> 'a actions_env \<Rightarrow> 'p registry \<Rightarrow> xrc_db \<Rightarrow> token_queries" where
  "token_service t env registry db =
     (let l = ae_libs env; al = ae_addresses env; ev = ao_events (ae_orders env); ho = ao_holders (ae_orders env);
          su = ao_sums (ae_orders env) in
      case t of
        XRC20 \<Rightarrow>
          \<lparr>tk_Get = (\<lambda>a n page. GetXrc20 l ev registry a n page db), tk_TransactionCount = (\<lambda>a. GetXrc20TransactionCount registry a db),
           tk_GetByAddress = (\<lambda>a n page. GetXrc20ByAddress l al ev registry a n page db),
           tk_HistoryCount = (\<lambda>a. GetXrc20HistoryCount al registry a db),
           tk_Holders = (\<lambda>a offset sz. GetXrc20Holders al ho registry a offset sz db),
           tk_HolderCount = (\<lambda>a. GetXrc20HolderCount registry a db),
           tk_GetByPage = (\<lambda>offset n. GetXrc20ByPage l ev registry offset n db), tk_Count = (\<lambda>a. GetXrc20Count registry a db),
           tk_Addresses = (\<lambda>offset n. GetXrc20Addresses su registry offset n db),
           tk_AddressesCount = (\<lambda>a. GetXrc20AddressesCount registry a db)\<rparr>
      | XRC721 \<Rightarrow>
          \<lparr>tk_Get = (\<lambda>a n page. GetXrc721 l ev registry a n page db), tk_TransactionCount = (\<lambda>a. GetXrc721TransactionCount registry a db),
           tk_GetByAddress = (\<lambda>a n page. GetXrc721ByAddress l al ev registry a n page db),
           tk_HistoryCount = (\<lambda>a. GetXrc721HistoryCount al registry a db),
           tk_Holders = (\<lambda>a offset sz. GetXrc721Holders al ho registry a offset sz db),
           tk_HolderCount = (\<lambda>a. GetXrc721HolderCount registry a db),
           tk_GetByPage = (\<lambda>offset n. GetXrc721ByPage l ev registry offset n db), tk_Count = (\<lambda>a. GetXrc721Count registry a db),
           tk_Addresses = (\<lambda>offset n. GetXrc721Addresses su registry offset n db),
           tk_AddressesCount = (\<lambda>a. GetXrc721AddressesCount registry a db)\<rparr>)"

subsection \<open>The sizes of pages\<close>

lemma limit_length: "length (limit offset sz rows) \<le> unat sz"
  by (simp add: limit_def)

lemma action_list_length: "action_list (limit offset sz rows) = Inr infos \<Longrightarrow> length infos \<le> unat sz"
  using limit_length[of offset sz rows] by (auto simp: action_list_def andThen_eq_Inr dest!: mapE_length)

lemma word_of_int_le:
  assumes "0 \<le> n" "n \<le> 500"
  shows "unat (u64_of_int n) \<le> 500"
proof -
  have "unat (word_of_int n :: u64) = nat n"
    using assms by (simp add: unsigned_of_int take_bit_int_eq_self)
  then show ?thesis using assms by (simp add: u64_of_int_def)
qed

text \<open>A page that the resolver accepts has at most five hundred rows.\<close>

lemma first_of_page:
  assumes "getPaginationArgs m = Inr p"
  shows "unat (get_or 0 p ''first'') \<le> 500"
proof -
  obtain pm where pm: "p = map (\<lambda>(k, v). (k, u64_of_int v)) pm"
    and size: "case map_of pm ''first'' of None \<Rightarrow> True | Some sz \<Rightarrow> 0 < sz \<and> sz \<le> MaximumPageSize"
    using assms by (auto simp: getPaginationArgs_def andThen_eq_Inr split: option.splits if_splits)
  have "map_of p ''first'' = map_option u64_of_int (map_of pm ''first'')"
    by (simp add: pm map_of_map)
  then show ?thesis
    using size word_of_int_le by (auto simp: get_or_def MaximumPageSize_def split: option.splits)
qed

lemma page_of_args_size: "page_of_args msg m = Inr (offset, sz) \<Longrightarrow> unat sz \<le> 500"
  by (auto simp: page_of_args_def DefaultPageSize_def u64_of_int_def dest: first_of_page split: sum.splits if_splits)

text \<open>What a group answers, when each of its handlers keeps a property of the response.\<close>

definition keeps :: "('r \<Rightarrow> bool) \<Rightarrow> 'r handler \<Rightarrow> bool" where
  "keeps P h \<longleftrightarrow> (\<forall>w r. h = Inr w \<longrightarrow> P r \<longrightarrow> P (w r))"

lemma fold_keeps: "\<forall>h \<in> set hs. \<not> isl h \<and> keeps P h \<Longrightarrow> P r \<Longrightarrow> P (fold projr hs r)"
proof (induction hs arbitrary: r)
  case (Cons h hs)
  then show ?case by (cases h) (auto simp: keeps_def)
qed simp

lemma group_keeps:
  assumes "range_order ord" "errgroup ord (requested q table) r = Inr r'" "P r"
    and "\<And>h. h \<in> set (map snd table) \<Longrightarrow> keeps P h"
  shows "P r'"
proof -
  have run: "\<forall>h \<in> set (ord (requested q table)). \<not> isl h" "r' = fold projr (ord (requested q table)) r"
    using assms(2) unfolding errgroup_def group_run by auto
  have "set (ord (requested q table)) \<subseteq> set (map snd table)"
    using mset_eq_setD[of "ord (requested q table)" "requested q table"] assms(1) by (auto simp: range_order_def requested_def)
  then show ?thesis using fold_keeps[of _ P r] run assms(3,4) by blast
qed

end
