(* ===== verification/Resolver_Laws.thy ===== *)
theory Resolver_Laws imports Resolver_Service Query_Actions_Laws Query_Votings_Laws begin

text \<open>
  What the resolver promises: the same answer in whatever order the goroutines of a request end, pages
  of at most five hundred rows, names that lead back to their addresses. And where it does not:
  the race between \<open>byAddress\<close> and \<open>byBucketIndex\<close>, literal pages in requests with variables, and answers that
  claim data without any.
\<close>

subsection \<open>The order of the goroutines\<close>

lemma andThen_order_independent:
  assumes "\<And>x. order_independent (\<lambda>ord. k ord x)"
  shows "order_independent (\<lambda>ord. andThen r (k ord))"
proof (cases r)
  case (Inl e)
  then show ?thesis by (simp add: order_independent_def)
next
  case (Inr x)
  show ?thesis unfolding Inr using assms[of x] by simp
qed

lemma requested_other:
  "\<not> containField (CollectAllFields q) ''byBucketIndex'' \<Longrightarrow>
   requested q (action_handlers ap q) = requested q (other_action_handlers ap q)"
  by (simp add: requested_def other_action_handlers_def action_handlers_def)

lemma order_of_goroutines_parts:
  "order_independent (\<lambda>ord. resolve_Account ord ap vp q)"
  "order_independent (\<lambda>ord. resolve_Chain ord cp vp q)"
  "order_independent (\<lambda>ord. resolve_Voting ord epoch_ord vp rp q s c)"
  "order_independent (\<lambda>ord. resolve_Delegate ord env q s c name)"
  "order_independent (\<lambda>ord. resolve_Hermes2 ord hp q s c)"
  "order_independent (\<lambda>ord. resolve_Xrc721 ord tq q)"
  "order_independent (\<lambda>ord. resolve_Xrc20 ord ap tq q)"
  unfolding resolve_Account_def resolve_Chain_def resolve_Voting_def resolve_Delegate_def resolve_Hermes2_def
    resolve_Xrc721_def resolve_Xrc20_def Let_def
  by (rule account_group.any_order andThen_order_independent chain_group.any_order voting_group.any_order
      delegate_group.any_order hermes2_group.any_order xrc721_group.any_order xrc20_group.any_order)+

lemma action_order:
  assumes "\<not> containField (CollectAllFields q) ''byBucketIndex''"
  shows "order_independent (\<lambda>ord. resolve_Action ord ap q)"
  unfolding resolve_Action_def requested_other[OF assms]
  by (rule action_group.any_order)

text \<open>C12: The fields of a request are answered by goroutines that write into one response. In whatever order
  they end, the request gets the same answer (or fails), in every resolver; for actions when
  \<open>byBucketIndex\<close> is not among the fields.\<close>

theorem order_of_goroutines:
  "order_independent (\<lambda>ord. resolve_Account ord ap vp q) \<and>
   order_independent (\<lambda>ord. resolve_Chain ord cp vp q) \<and>
   order_independent (\<lambda>ord. resolve_Voting ord epoch_ord vp rp q s c) \<and>
   order_independent (\<lambda>ord. resolve_Delegate ord env q s c name) \<and>
   order_independent (\<lambda>ord. resolve_Hermes2 ord hp q s c) \<and>
   order_independent (\<lambda>ord. resolve_Xrc721 ord tq q) \<and>
   order_independent (\<lambda>ord. resolve_Xrc20 ord ap tq q) \<and>
   (\<not> containField (CollectAllFields q) ''byBucketIndex'' \<longrightarrow> order_independent (\<lambda>ord. resolve_Action ord ap q))"
  by (intro conjI impI order_of_goroutines_parts action_order)

lemma order_of_goroutines_witness:
  "\<not> containField (CollectAllFields \<lparr>rq_fields = [Field ''byAddress'' [] []], rq_variables = []\<rparr>) ''byBucketIndex'' \<and>
   (\<forall>ap. order_independent (\<lambda>ord. resolve_Action ord ap \<lparr>rq_fields = [Field ''byAddress'' [] []], rq_variables = []\<rparr>))"
proof -
  have no: "\<not> containField (CollectAllFields \<lparr>rq_fields = [Field ''byAddress'' [] []], rq_variables = []\<rparr>) ''byBucketIndex''"
    by (simp add: CollectAllFields_def containField_def)
  then show ?thesis using order_of_goroutines by blast
qed

subsection \<open>The race\<close>

text \<open>A request for the actions of an address and for the actions of a bucket.\<close>

definition two_lists :: "string \<Rightarrow> string \<Rightarrow> request" where
  "two_lists addr bucket =
     \<lparr>rq_fields = [Field ''byAddress'' [(''address'', Value addr ''String'' [])] [Field ''actions'' [] []],
       Field ''byBucketIndex'' [(''bucketIndex'', Value bucket ''Int'' [])] [Field ''actions'' [] []]],
      rq_variables = []\<rparr>"

lemma two_lists_handlers:
  assumes "ap_GetActionCountByAddress ap addr = Inr n" "ap_GetActionsByAddress ap addr 0 200 = Inr acts"
    and "Atoi bucket = Some i" "0 < i"
    and "ap_GetActionCountByBucketIndex ap (u64_of_int i) = Inr m"
    and "ap_GetActionsByBucketIndex ap (u64_of_int i) 0 200 = Inl ErrNotExist"
  shows "requested (two_lists addr bucket) (action_handlers ap (two_lists addr bucket)) =
    [Inr (\<lambda>r. r\<lparr>an_ByAddress := some_actions acts n\<rparr>), Inr (\<lambda>r. r\<lparr>an_ByAddress := no_actions\<rparr>)]"
proof -
  let ?q = "two_lists addr bucket"
  have hs: "requested ?q (action_handlers ap ?q) = [getActionsByAddress_g ap ?q, getActionsByBucketIndex_g ap ?q]"
    by (simp add: requested_def action_handlers_def two_lists_def CollectAllFields_def containField_def)
  have page: "page_of_args msg [(k, Value v ty [])] = Inr (0, 200)" if "k \<noteq> ''pagination''" for msg k v ty
    using that by (simp add: page_of_args_def getPaginationArgs_def u64_of_int_def DefaultPageSize_def)
  have "getActionsByAddress_g ap ?q = Inr (\<lambda>r. r\<lparr>an_ByAddress := some_actions acts n\<rparr>)"
    using assms(1,2) by (simp add: getActionsByAddress_g_def two_lists_def parseFieldArguments_def parseVariables_def getStringArg_def
        page if_exists_def)
  moreover have "getActionsByBucketIndex_g ap ?q = Inr (\<lambda>r. r\<lparr>an_ByAddress := no_actions\<rparr>)"
    using assms(3-) by (simp add: getActionsByBucketIndex_g_def two_lists_def parseFieldArguments_def parseVariables_def getStringArg_def
        getIntArg_def page if_exists_def)
  ultimately show ?thesis by (simp add: hs)
qed

text \<open>C28: When a bucket has no actions, the answer for it is written over the one for an address: which of the two
  the request gets depends on which goroutine ends last.\<close>

theorem bucket_index_race:
  assumes "ap_GetActionCountByAddress ap addr = Inr n" "ap_GetActionsByAddress ap addr 0 200 = Inr acts"
    and "Atoi bucket = Some i" "0 < i"
    and "ap_GetActionCountByBucketIndex ap (u64_of_int i) = Inr m"
    and "ap_GetActionsByBucketIndex ap (u64_of_int i) 0 200 = Inl ErrNotExist"
  shows "resolve_Action (\<lambda>hs. hs) ap (two_lists addr bucket) = Inr (empty_action\<lparr>an_ByAddress := no_actions\<rparr>) \<and>
    resolve_Action rev ap (two_lists addr bucket) = Inr (empty_action\<lparr>an_ByAddress := some_actions acts n\<rparr>)"
  unfolding resolve_Action_def errgroup_def two_lists_handlers[OF assms] by simp

text \<open>Tables with two transfers of one block, without actions of buckets.\<close>

definition sample_tables :: "unit index_db" where
  "sample_tables = (new_index ())
     \<lparr>db_actions := new_actions_db\<lparr>action_history := [sample_action ''x'', sample_action ''y''], bucket_actions := Some []\<rparr>,
      db_blocks := empty_blocks\<lparr>block_history := [block_9]\<rparr>\<rparr>"

definition sample_env :: "unit actions_env" where
  "sample_env =
     \<lparr>ae_libs = Libs actions_ctx, ae_addresses = \<lparr>al_FromString = \<lambda>_. Inr (), al_String = \<lambda>_. [], al_Hex = \<lambda>_. []\<rparr>,
      ae_zero_address = ''zero'', ae_orders = \<lparr>ao_rows = rev, ao_bucket_rows = rev, ao_evm_rows = rev, ao_accounts = rev,
        ao_sums = rev, ao_events = rev, ao_holders = rev\<rparr>\<rparr>"

definition sample_queries :: actions_queries where
  "sample_queries = actions_service sample_env [(''actions'', ()), (''accounts'', ())] sample_tables []"

lemma sample_answers:
  "ap_GetActionCountByAddress sample_queries ''a'' = Inr 2"
  "map_sum id (map aq_ActHash) (ap_GetActionsByAddress sample_queries ''a'' 0 200) = Inr [''x'', ''y'']"
  "ap_GetActionCountByBucketIndex sample_queries 7 = Inr 0"
  "ap_GetActionsByBucketIndex sample_queries 7 0 200 = Inl ErrNotExist"
  by code_simp+

lemma Atoi_7: "Atoi ''7'' = Some 7"
proof -
  have "big_String 7 = ''7''" by code_simp
  then show ?thesis using big_SetString_String[of 7] by (simp add: Atoi_def)
qed

lemma bucket_index_race_witness:
  "\<exists>acts. resolve_Action (\<lambda>hs. hs) sample_queries (two_lists ''a'' ''7'') = Inr (empty_action\<lparr>an_ByAddress := no_actions\<rparr>) \<and>
    resolve_Action rev sample_queries (two_lists ''a'' ''7'') = Inr (empty_action\<lparr>an_ByAddress := some_actions acts 2\<rparr>)"
proof -
  obtain acts where "ap_GetActionsByAddress sample_queries ''a'' 0 200 = Inr acts"
    using sample_answers(2) by (cases "ap_GetActionsByAddress sample_queries ''a'' 0 200") auto
  from bucket_index_race[OF sample_answers(1) this Atoi_7 _ _ _, of 0] sample_answers(3,4)
  show ?thesis by (auto simp: u64_of_int_def)
qed

subsection \<open>Pages\<close>

definition small_list :: "ActionList option \<Rightarrow> bool" where
  "small_list l = (case l of None \<Rightarrow> True | Some x \<Rightarrow> length (li_Actions x) \<le> 500)"

definition small_answer :: "Action \<Rightarrow> bool" where
  "small_answer r \<longleftrightarrow> list_all small_list [an_ByDates r, an_ByAddress r, an_ByAddressAndType r, an_ByBucketIndex r, an_ByType r, an_ByVoter r] \<and>
     (case an_EvmTransfersByAddress r of None \<Rightarrow> True | Some x \<Rightarrow> length (el_EvmTransfers x) \<le> 500)"

lemma small_list_simps [simp]:
  "small_list None" "small_list no_actions" "small_list (some_actions acts n) \<longleftrightarrow> length acts \<le> 500"
  by (simp_all add: small_list_def no_actions_def some_actions_def)

text \<open>What the resolver relies on: a query for a page gives no more rows than it was asked for.\<close>

locale paged_queries =
  fixes ap :: actions_queries
  assumes by_dates: "ap_GetActionsByDates ap s e offset sz = Inr rows \<Longrightarrow> length rows \<le> unat sz"
    and by_type: "ap_GetActionsByType ap t offset sz = Inr rows \<Longrightarrow> length rows \<le> unat sz"
    and by_address_and_type: "ap_GetActionsByAddressAndType ap a t offset sz = Inr rows \<Longrightarrow> length rows \<le> unat sz"
    and by_address: "ap_GetActionsByAddress ap a offset sz = Inr rows \<Longrightarrow> length rows \<le> unat sz"
    and by_voter: "ap_GetBucketActionsByVoter ap v offset sz = Inr rows \<Longrightarrow> length rows \<le> unat sz"
    and by_bucket: "ap_GetActionsByBucketIndex ap i offset sz = Inr rows \<Longrightarrow> length rows \<le> unat sz"
    and evm_transfers: "ap_GetEvmTransferDetailListByAddress ap a offset sz = Inr es \<Longrightarrow> length es \<le> unat sz"
begin

lemmas law_of_page = by_dates by_type by_address_and_type by_address by_voter by_bucket evm_transfers

lemmas page_bounds = law_of_page[THEN order_trans, OF _ page_of_args_size] law_of_page[THEN order_trans, OF _ first_of_page]

lemma keeps_small:
  "keeps small_answer (getActionsByDates_g ap q)" "keeps small_answer (getActionByHash ap q)"
  "keeps small_answer (getActionsByAddress_g ap q)" "keeps small_answer (getActionsByAddressAndType_g ap q)"
  "keeps small_answer (getActionsByBucketIndex_g ap q)" "keeps small_answer (getEvmTransfersByAddress ap q)"
  "keeps small_answer (getActionsByType_g ap q)" "keeps small_answer (getActionsByVoter ap q)"
  by (auto simp: keeps_def small_answer_def getActionsByDates_g_def getActionByHash_def getActionsByAddress_g_def
      getActionsByAddressAndType_g_def getActionsByBucketIndex_g_def getEvmTransfersByAddress_def getActionsByType_g_def
      getActionsByVoter_def andThen_eq_Inr if_exists_Inr Let_def split: if_splits dest: page_bounds)

lemma answer_is_small:
  assumes "range_order ord" "resolve_Action ord ap q = Inr r"
  shows "small_answer r"
  using assms(1) assms(2)[unfolded resolve_Action_def]
proof (rule group_keeps)
  show "small_answer empty_action" by (simp add: small_answer_def empty_action_def)
  show "keeps small_answer h" if "h \<in> set (map snd (action_handlers ap q))" for h
    using that by (auto simp: action_handlers_def keeps_small)
qed

end

lemma service_pages_hold:
  fixes env registry db buckets
  defines "ap \<equiv> actions_service env registry db buckets"
  shows "ap_GetActionsByDates ap s e offset sz = Inr rows \<Longrightarrow> length rows \<le> unat sz"
    and "ap_GetActionsByType ap t offset sz = Inr rows \<Longrightarrow> length rows \<le> unat sz"
    and "ap_GetActionsByAddressAndType ap a t offset sz = Inr rows \<Longrightarrow> length rows \<le> unat sz"
    and "ap_GetActionsByAddress ap a offset sz = Inr rows \<Longrightarrow> length rows \<le> unat sz"
    and "ap_GetBucketActionsByVoter ap v offset sz = Inr rows \<Longrightarrow> length rows \<le> unat sz"
    and "ap_GetActionsByBucketIndex ap i offset sz = Inr rows \<Longrightarrow> length rows \<le> unat sz"
    and "ap_GetEvmTransferDetailListByAddress ap a offset sz = Inr es \<Longrightarrow> length es \<le> unat sz"
  unfolding ap_def actions_service_def Let_def
  by (auto simp: GetActionsByDates_def GetActionsByType_def GetActionsByAddressAndType_def GetActionsByAddress_def
      GetBucketActionsByVoter_def GetActionsByBucketIndex_def GetEvmTransferDetailListByAddress_def andThen_eq_Inr Let_def
      dest!: action_list_length mapE_length intro: limit_length)

interpretation service_pages: paged_queries "actions_service env registry db buckets" for env registry db buckets
  by unfold_locales (fact service_pages_hold)+

text \<open>C13: Whatever the tables hold and whatever a request for actions asks, no list of the answer has more than five
  hundred entries.\<close>

theorem action_answers_are_small:
  assumes "range_order ord" "resolve_Action ord (actions_service env registry db buckets) q = Inr r"
  shows "small_answer r"
  using assms by (rule service_pages.answer_is_small)

lemma action_answers_are_small_witness:
  "\<exists>r acts. resolve_Action rev sample_queries (two_lists ''a'' ''7'') = Inr r \<and> an_ByAddress r = some_actions acts 2 \<and> small_answer r"
proof -
  obtain acts where acts: "ap_GetActionsByAddress sample_queries ''a'' 0 200 = Inr acts"
    using sample_answers(2) by (cases "ap_GetActionsByAddress sample_queries ''a'' 0 200") auto
  have hs: "requested (two_lists ''a'' ''7'') (action_handlers sample_queries (two_lists ''a'' ''7'')) =
      [Inr (\<lambda>r. r\<lparr>an_ByAddress := some_actions acts 2\<rparr>), Inr (\<lambda>r. r\<lparr>an_ByAddress := no_actions\<rparr>)]"
    using sample_answers by (intro two_lists_handlers[OF _ acts Atoi_7]) (simp_all add: u64_of_int_def)
  have answer: "resolve_Action rev sample_queries (two_lists ''a'' ''7'') = Inr (empty_action\<lparr>an_ByAddress := some_actions acts 2\<rparr>)"
    unfolding resolve_Action_def errgroup_def hs by simp
  then have "small_answer (empty_action\<lparr>an_ByAddress := some_actions acts 2\<rparr>)"
    unfolding sample_queries_def by (rule action_answers_are_small[rotated]) simp
  with answer show ?thesis by (intro exI conjI) simp_all
qed

text \<open>
  The lists of token events have no such bound: their \<open>numPerPage\<close> is not compared with the maximum,
  and a negative one becomes the largest number of 64 bits, which asks for all events of the contract.
\<close>

theorem negative_page_size_lists_all:
  assumes "length (filter (\<lambda>r. xh_Address r = address) (xrc20_history db)) < 2 ^ 64 - 1" "range_order ord"
    and "Find ''actions'' registry \<noteq> None"
  shows "GetXrc20 l ord registry address (u64_of_int (- 1)) (u64_of_int 1) db =
    andThen (some_rows (order_desc ord xh_Timestamp (filter (\<lambda>r. xh_Address r = address) (xrc20_history db)))) (mapE (xrc_info l))"
proof -
  let ?rows = "order_desc ord xh_Timestamp (filter (\<lambda>r. xh_Address r = address) (xrc20_history db))"
  have "unat (u64_of_int (- 1)) = 2 ^ 64 - 1"
    by (simp add: u64_of_int_def unsigned_minus_1_eq_mask mask_eq_exp_minus_1)
  moreover have "page_offset (u64_of_int (- 1)) (u64_of_int 1) = 0"
    by (simp add: page_offset_def u64_of_int_def)
  ultimately have all: "limit (page_offset (u64_of_int (- 1)) (u64_of_int 1)) (u64_of_int (- 1)) ?rows = ?rows"
    using assms(1,2) by (simp add: limit_def)
  then show ?thesis using assms(3) by (auto simp: GetXrc20_def getXrc_def xrc_page_def registered_def)
qed

subsection \<open>Literal pages in requests with variables\<close>

text \<open>The actions of an address, with a page written as literal numbers, in a request with variables.\<close>

definition literal_page :: "string \<Rightarrow> (string \<times> ast_value) list \<Rightarrow> (string \<times> json) list \<Rightarrow> request" where
  "literal_page addr page variables =
     \<lparr>rq_fields = [Field ''byAddress'' [(''address'', Value addr ''String'' [])]
        [Field ''actions'' [(''pagination'', Value [] ''Pagination'' page)] []]], rq_variables = variables\<rparr>"

lemma literal_page_fields [simp]:
  "rq_fields (literal_page addr page variables) = [Field ''byAddress'' [(''address'', Value addr ''String'' [])]
        [Field ''actions'' [(''pagination'', Value [] ''Pagination'' page)] []]]"
  "rq_variables (literal_page addr page variables) = variables"
  by (simp_all add: literal_page_def)

lemma literal_page_handlers:
  "requested (literal_page addr page variables) (action_handlers ap (literal_page addr page variables)) =
   [getActionsByAddress_g ap (literal_page addr page variables)]"
  by (simp add: requested_def CollectAllFields_def containField_def action_handlers_def)

lemma no_children:
  assumes "\<forall>(k, v) \<in> set page. val_Raw v \<notin> keys variables"
  shows "concat (map (\<lambda>(k, c). int64_child k (map_of variables (val_Raw c))) page) = []"
proof -
  have "int64_child k (map_of variables (val_Raw v)) = []" if "(k, v) \<in> set page" for k v
  proof -
    have "map_of variables (val_Raw v) = None" using assms that by (auto simp: map_of_eq_None_iff)
    then show ?thesis by (simp add: int64_child_def)
  qed
  then show ?thesis by auto
qed

text \<open>C26: In a request that carries any variable, a page written as literal numbers is lost: the resolver asks for
  no rows and answers that the address has no actions, whatever the tables hold.\<close>

theorem literal_page_reads_nothing:
  assumes "variables \<noteq> []" "addr \<notin> keys variables" "[] \<notin> keys variables"
    and "\<forall>(k, v) \<in> set page. val_Raw v \<notin> keys variables"
    and "Find ''actions'' registry \<noteq> None" "Find ''accounts'' registry \<noteq> None"
  shows "resolve_Action (\<lambda>hs. hs) (actions_service env registry db buckets) (literal_page addr page variables) =
    Inr (empty_action\<lparr>an_ByAddress := no_actions\<rparr>)"
proof -
  let ?q = "literal_page addr page variables" and ?ap = "actions_service env registry db buckets"
  have none: "map_of variables addr = None" "map_of variables [] = None"
    using assms(2,3) by (simp_all add: map_of_eq_None_iff)
  have kids: "concat (map (\<lambda>(k, c). int64_child k (map_of variables (val_Raw c))) page) = []"
    using assms(4) by (rule no_children)
  have args: "parseFieldArguments ?q ''byAddress'' ''actions'' =
      Inr [(''address'', Value addr ''String'' []), (''pagination'', Value [] [] [])]"
    using assms(1) by (simp add: parseFieldArguments_def parseVariables_def substitute_def none kids)
  have "page_of_args msg [(''address'', Value addr ''String'' []), (''pagination'', Value [] [] [])] = Inr (0, 0)" for msg
    by (simp add: page_of_args_def getPaginationArgs_def get_or_def)
  moreover have "\<exists>n. ap_GetActionCountByAddress ?ap addr = Inr n"
    using assms(5,6) by (auto simp: actions_service_def Let_def GetActionCountByAddress_def getCount_def registered_def)
  moreover have "ap_GetActionsByAddress ?ap addr 0 0 = Inl ErrNotExist"
    using assms(5,6) by (auto simp: actions_service_def Let_def GetActionsByAddress_def registered_def limit_def action_list_def
        some_rows_def)
  ultimately have "getActionsByAddress_g ?ap ?q = Inr (\<lambda>r. r\<lparr>an_ByAddress := no_actions\<rparr>)"
    by (auto simp: getActionsByAddress_g_def args getStringArg_def if_exists_def)
  then show ?thesis by (simp add: resolve_Action_def errgroup_def literal_page_handlers)
qed

lemma literal_page_reads_nothing_witness:
  "resolve_Action (\<lambda>hs. hs) sample_queries (literal_page ''a'' [(''first'', Value ''10'' ''Int'' [])] [(''v'', JBool True)]) =
     Inr (empty_action\<lparr>an_ByAddress := no_actions\<rparr>) \<and> ap_GetActionCountByAddress sample_queries ''a'' = Inr 2"
proof
  show "resolve_Action (\<lambda>hs. hs) sample_queries (literal_page ''a'' [(''first'', Value ''10'' ''Int'' [])] [(''v'', JBool True)]) =
     Inr (empty_action\<lparr>an_ByAddress := no_actions\<rparr>)"
    unfolding sample_queries_def by (rule literal_page_reads_nothing) (simp_all add: Find_def)
qed (rule sample_answers)

subsection \<open>Answers that claim data\<close>

text \<open>The meta data of votes is answered as existing even when the query finds none.\<close>

theorem voting_meta_always_exists:
  assumes "getVotingMeta vp startEpoch epochCount = Inr w"
  shows "\<exists>l. vo_VotingMeta (w r) = Some \<lparr>vg_Exist = True, vg_CandidateMeta = l\<rparr>"
  using assms by (auto simp: getVotingMeta_def andThen_eq_Inr)

lemma voting_meta_of_nothing:
  "vp_GetCandidateMeta vp (u64_of_int s) (u64_of_int c) = Inl ErrNotExist \<Longrightarrow>
   \<exists>w. getVotingMeta vp s c = Inr w \<and> vo_VotingMeta (w r) = Some \<lparr>vg_Exist = True, vg_CandidateMeta = []\<rparr>"
  by (simp add: getVotingMeta_def)

text \<open>
  The total of transferred tokens cannot be asked for without a page: the default first epoch 0 is
  rejected as invalid.
\<close>

theorem transferred_tokens_need_a_page:
  assumes "parseFieldArguments q ''totalTransferredTokens'' [] = Inr argsMap" "map_of argsMap ''pagination'' = None"
  shows "gettotalTransferredTokens cp q =
    Inl (ErrMsg ''invalid start epoch number or epoch count for getting total transferred tokens'')"
  using assms by (simp add: gettotalTransferredTokens_def getPaginationArgs_def)

text \<open>Asked for alone, the supply without the reward pool stays empty: the code looks for another name.\<close>

theorem supply_field_misspelt:
  assumes "CollectAllFields q = [''totalCirculatingSupplyNoRewardPool'']" "resolve_Chain (\<lambda>hs. hs) cp vp q = Inr r"
  shows "ch_TotalCirculatingSupplyNoRewardPool r = []"
proof -
  have "requested q (chain_handlers cp vp resp q) = []" for resp
    by (simp add: requested_def chain_handlers_def assms(1) containField_def)
  then show ?thesis
    using assms(2) by (auto simp: resolve_Chain_def Let_def errgroup_def andThen_eq_Inr getLastEpochAndHeight_def empty_chain_def)
qed

text \<open>Without a pagination argument the queries for buckets dereference a nil pointer.\<close>

theorem buckets_need_a_page:
  "resolve_BucketsByCandidate l now ord vp name None = Inl (Panic ''invalid memory address or nil pointer dereference'')"
  by (simp add: resolve_BucketsByCandidate_def checked_page_def)

subsection \<open>Names of delegates\<close>

text \<open>A request for the alias of an operator address, and one for the operator address of an alias.\<close>

definition alias_request :: "string \<Rightarrow> request" where
  "alias_request address =
     \<lparr>rq_fields = [Field ''alias'' [(''operatorAddress'', Value address ''String'' [])] []], rq_variables = []\<rparr>"

definition operator_request :: "string \<Rightarrow> request" where
  "operator_request name =
     \<lparr>rq_fields = [Field ''operatorAddress'' [(''aliasName'', Value name ''String'' [])] []], rq_variables = []\<rparr>"

lemma alias_handlers:
  "requested (alias_request a) (account_handlers ap vp q) = [getAlias vp q]"
  "requested (operator_request a) (account_handlers ap vp q) = [getOperatorAddress_g vp q]"
  by (simp_all add: requested_def alias_request_def operator_request_def CollectAllFields_def containField_def account_handlers_def)

definition empty_account :: Account where
  "empty_account = \<lparr>ac_ActiveAccounts = [], ac_Alias = None, ac_OperatorAddress = None, ac_TotalNumberOfHolders = 0,
     ac_TotalAccountSupply = []\<rparr>"

text \<open>The queries for names on the tables of the votings protocol.\<close>

definition name_queries ::
  "(VotingResult list \<Rightarrow> VotingResult list) \<Rightarrow> 'p registry \<Rightarrow> VotingResult list \<Rightarrow> votings_queries \<Rightarrow> votings_queries"
where
  "name_queries ord registry vt vp =
     vp\<lparr>vp_GetAlias := \<lambda>a. GetAlias ord registry a vt, vp_GetOperatorAddress := \<lambda>n. GetOperatorAddress ord registry n vt\<rparr>"

lemma latest_result_some:
  assumes "range_order ord" "v \<in> set vt" "P v"
  shows "\<exists>r. latest_result ord P vt = Inr r \<and> r \<in> set vt \<and> P r"
proof -
  have rows: "set (order_desc ord vr_EpochNumber (filter P vt)) = set (filter P vt)" using assms(1) by simp
  then have "order_desc ord vr_EpochNumber (filter P vt) \<noteq> []" using assms(2,3) by (metis filter_empty_conv set_empty)
  then obtain r rs where r: "order_desc ord vr_EpochNumber (filter P vt) = r # rs" by (cases "order_desc ord vr_EpochNumber (filter P vt)") auto
  then have "r \<in> set (filter P vt)" using rows by (metis list.set_intros(1))
  then show ?thesis by (simp add: latest_result_def r)
qed

text \<open>C27: An alias leads back to its address: when the voting results give a delegate one operator address and the
  address one delegate, asking for the alias of the address gives the delegate's name, and asking for
  the operator address of that name gives the address.\<close>

theorem alias_leads_back:
  assumes "range_order ord" "Find ''voting'' registry \<noteq> None"
    and "name_ok name" "EncodeDelegateName name = Inr encoded"
    and "v \<in> set vt" "vr_OperatorAddress v = address"
    and "\<forall>u \<in> set vt. vr_OperatorAddress u = address \<longleftrightarrow> vr_DelegateName u = encoded"
  shows "resolve_Account (\<lambda>hs. hs) ap (name_queries ord registry vt vp) (alias_request address) =
      Inr (empty_account\<lparr>ac_Alias := Some \<lparr>al_Exist = True, al_AliasName = name\<rparr>\<rparr>) \<and>
    resolve_Account (\<lambda>hs. hs) ap (name_queries ord registry vt vp) (operator_request name) =
      Inr (empty_account\<lparr>ac_OperatorAddress := Some \<lparr>op_Exist = True, op_OperatorAddress = address\<rparr>\<rparr>)"
proof
  have reg: "registered ''voting'' ''votings'' registry = Inr ()" using assms(2) by (auto simp: registered_def)
  have decode: "DecodeDelegateName encoded = Inr name"
    using delegate_name_decode[OF assms(3)] assms(4) by simp
  obtain r where "latest_result ord (\<lambda>r. vr_OperatorAddress r = address) vt = Inr r" "r \<in> set vt" "vr_OperatorAddress r = address"
    using latest_result_some[OF assms(1,5), of "\<lambda>r. vr_OperatorAddress r = address"] assms(6) by blast
  then have "GetAlias ord registry address vt = Inr encoded"
    using assms(7) by (simp add: GetAlias_def reg)
  then have "getAlias (name_queries ord registry vt vp) (alias_request address) =
      Inr (\<lambda>r. r\<lparr>ac_Alias := Some \<lparr>al_Exist = True, al_AliasName = name\<rparr>\<rparr>)"
    by (simp add: getAlias_def alias_request_def parseFieldArguments_def parseVariables_def getStringArg_def name_queries_def
        if_exists_def decode)
  then show "resolve_Account (\<lambda>hs. hs) ap (name_queries ord registry vt vp) (alias_request address) =
      Inr (empty_account\<lparr>ac_Alias := Some \<lparr>al_Exist = True, al_AliasName = name\<rparr>\<rparr>)"
    by (simp add: resolve_Account_def errgroup_def alias_handlers empty_account_def)
  obtain r where "latest_result ord (\<lambda>r. vr_DelegateName r = encoded) vt = Inr r" "r \<in> set vt" "vr_DelegateName r = encoded"
    using latest_result_some[OF assms(1,5), of "\<lambda>r. vr_DelegateName r = encoded"] assms(5,6,7) by blast
  then have "GetOperatorAddress ord registry encoded vt = Inr address"
    using assms(7) by (simp add: GetOperatorAddress_def reg)
  then have "getOperatorAddress_g (name_queries ord registry vt vp) (operator_request name) =
      Inr (\<lambda>r. r\<lparr>ac_OperatorAddress := Some \<lparr>op_Exist = True, op_OperatorAddress = address\<rparr>\<rparr>)"
    by (simp add: getOperatorAddress_g_def operator_request_def parseFieldArguments_def parseVariables_def getStringArg_def
        name_queries_def if_exists_def assms(4))
  then show "resolve_Account (\<lambda>hs. hs) ap (name_queries ord registry vt vp) (operator_request name) =
      Inr (empty_account\<lparr>ac_OperatorAddress := Some \<lparr>op_Exist = True, op_OperatorAddress = address\<rparr>\<rparr>)"
    by (simp add: resolve_Account_def errgroup_def alias_handlers empty_account_def)
qed

lemma alias_leads_back_witness:
  "\<forall>vp. resolve_Account (\<lambda>hs. hs) sample_queries (name_queries rev [(''voting'', ())]
      [result_at 3 ''00000000696f7465786c6162'' ''op'', result_at 2 ''00000000696f7465786c6162'' ''op''] vp) (operator_request ''iotexlab'') =
    Inr (empty_account\<lparr>ac_OperatorAddress := Some \<lparr>op_Exist = True, op_OperatorAddress = ''op''\<rparr>\<rparr>)"
proof (rule allI, rule alias_leads_back[THEN conjunct2])
  show "name_ok ''iotexlab''" by code_simp
  show "EncodeDelegateName ''iotexlab'' = Inr ''00000000696f7465786c6162''" by code_simp
qed (auto simp: Find_def result_at_def)

end
