(* ===== verification/Schema.thy ===== *)
theory Schema imports Names Voting_Result begin

text \<open>
  The tables of the index and how they come to be: \<open>CreateTables\<close> of the five protocols
  (\<open>indexprotocol/*/protocol.go\<close>, \<open>xrc20.go\<close>, \<open>hermes.go\<close>, \<open>bucket.go\<close>, \<open>probation.go\<close>) and
  \<open>CreateTablesIfNotExist\<close> of the indexer. Each statement commits by itself, as MySQL does with
  \<open>CREATE\<close>, so that a failure or a crash leaves the tables made so far. The tables of the operators of
  \<open>iotex-election\<close> are a parameter.
\<close>

subsection \<open>Statements\<close>

datatype col_type = DECIMAL65 | VARCHAR nat | TEXT | BLOB | BOOLEAN | INTEGER | TIMESTAMP

text \<open>
  \<open>CREATE TABLE IF NOT EXISTS\<close> with its columns, the names of its keys and the tables its foreign
  keys refer to; and \<open>CREATE INDEX\<close> after a look into \<open>INFORMATION_SCHEMA.STATISTICS\<close>.
\<close>

datatype ddl =
    CreateTable string "(string \<times> col_type) list" "string list" "string list"
  | CreateIndex string string

record table_def =
  td_columns :: "(string \<times> col_type) list"
  td_keys :: "string list"

type_synonym schema = "(string \<times> table_def) list"

fun exec_ddl :: "ddl \<Rightarrow> schema \<Rightarrow> go_error + schema" where
  "exec_ddl (CreateTable t columns ks refs) s =
     (if t \<in> keys s then Inr s
      else if set refs \<subseteq> keys s then Inr (s @ [(t, \<lparr>td_columns = columns, td_keys = ks\<rparr>)])
      else Inl (ErrSQL ''Failed to open the referenced table''))"
| "exec_ddl (CreateIndex i t) s =
     (case map_of s t of
        None \<Rightarrow> Inl (ErrSQL ''Table does not exist'')
      | Some d \<Rightarrow> Inr (if i \<in> set (td_keys d) then s else AList.update t (d\<lparr>td_keys := td_keys d @ [i]\<rparr>) s))"

definition run_ddl :: "ddl list \<Rightarrow> schema \<Rightarrow> go_error + schema" where
  "run_ddl statements s = foldE exec_ddl statements s"

subsection \<open>The tables of the protocols\<close>

abbreviation decimal_columns :: "string list \<Rightarrow> (string \<times> col_type) list" where
  "decimal_columns names \<equiv> map (\<lambda>n. (n, DECIMAL65)) names"

definition blocks_tables :: "ddl list" where
  "blocks_tables =
     [CreateTable ''block_history''
        (decimal_columns [''epoch_number'', ''block_height''] @ [(''block_hash'', VARCHAR 64)] @
         decimal_columns [''transfer'', ''execution'', ''depositToRewardingFund'', ''claimFromRewardingFund'', ''grantReward'',
           ''putPollResult'', ''stakeCreate'', ''stakeUnstake'', ''stakeWithdraw'', ''stakeAddDeposit'', ''stakeRestake'',
           ''stakeChangeCandidate'', ''stakeTransferOwnership'', ''candidateRegister'', ''candidateUpdate'', ''gas_consumed''] @
         [(''producer_address'', VARCHAR 41), (''producer_name'', VARCHAR 24), (''expected_producer_address'', VARCHAR 41),
          (''expected_producer_name'', VARCHAR 24), (''timestamp'', DECIMAL65)])
        [''PRIMARY''] [],
      CreateIndex ''epoch_producer_index'' ''block_history'',
      CreateIndex ''timestamp_index'' ''block_history'',
      CreateTable ''producer_history'' [(''epoch_number'', DECIMAL65), (''producer_name'', VARCHAR 24), (''production'', DECIMAL65)]
        [''epoch_producer_index'', ''epoch_number_index'', ''producer_name_index''] [],
      CreateTable ''expected_producer_history''
        [(''epoch_number'', DECIMAL65), (''expected_producer_name'', VARCHAR 24), (''expected_production'', DECIMAL65)]
        [''epoch_producer_index'', ''epoch_number_index'', ''expected_producer_name_index''] [],
      CreateTable ''productivity_history''
        [(''epoch_number'', DECIMAL65), (''delegate_name'', VARCHAR 24), (''production'', DECIMAL65), (''expected_production'', DECIMAL65)]
        [''epoch_number_index'', ''delegate_name_index'', ''epoch_producer_index''] []]"

text \<open>Both token standards have tables of the same shape.\<close>

definition createXrc20History :: "string \<Rightarrow> ddl" where
  "createXrc20History t = CreateTable t
     [(''action_hash'', VARCHAR 64), (''receipt_hash'', VARCHAR 64), (''address'', VARCHAR 41), (''topics'', VARCHAR 192),
      (''data'', VARCHAR 192), (''block_height'', DECIMAL65), (''index'', DECIMAL65), (''timestamp'', DECIMAL65), (''status'', VARCHAR 7)]
     [''receipt_hash'', ''PRIMARY''] []"

definition createXrc20Holders :: "string \<Rightarrow> ddl" where
  "createXrc20Holders t = CreateTable t
     [(''contract'', VARCHAR 41), (''holder'', VARCHAR 41), (''timestamp'', DECIMAL65)] [''PRIMARY''] []"

definition xrc_tables_ddl :: "ddl list" where
  "xrc_tables_ddl = [createXrc20History ''xrc20_history'', createXrc20Holders ''xrc20_holders'',
     createXrc20History ''xrc721_history'', createXrc20Holders ''xrc721_holders'']"

definition hermes_tables :: "ddl list" where
  "hermes_tables =
     [CreateTable ''hermes_contract'' [(''epoch_number'', DECIMAL65), (''action_hash'', VARCHAR 64), (''from_epoch'', DECIMAL65),
        (''to_epoch'', DECIMAL65), (''delegate_name'', VARCHAR 255), (''timestamp'', VARCHAR 128)] [''PRIMARY''] []]"

definition actions_tables :: "ddl list" where
  "actions_tables =
     [CreateTable ''action_history''
        [(''action_type'', VARCHAR 64), (''action_hash'', VARCHAR 64), (''receipt_hash'', VARCHAR 64), (''block_height'', DECIMAL65),
         (''from'', VARCHAR 41), (''to'', VARCHAR 41), (''gas_price'', DECIMAL65), (''gas_consumed'', DECIMAL65), (''nonce'', DECIMAL65),
         (''amount'', DECIMAL65), (''receipt_status'', TEXT)]
        [''receipt_hash'', ''PRIMARY''] [''block_history''],
      CreateIndex ''from_index'' ''action_history'', CreateIndex ''to_index'' ''action_history'',
      CreateIndex ''action_type_index'' ''action_history'', CreateIndex ''block_height_index'' ''action_history'']
     @ xrc_tables_ddl @ hermes_tables"

text \<open>The table of bucket actions has its statement, but no protocol runs it.\<close>

definition createBucketActionTable :: ddl where
  "createBucketActionTable = CreateTable ''bucket_actions'' [(''action_hash'', VARCHAR 64), (''bucket_id'', DECIMAL65)]
     [''PRIMARY'', ''bucket_id_index''] [''action_history'']"

definition rewards_tables :: "ddl list" where
  "rewards_tables =
     [CreateTable ''reward_history''
        [(''epoch_number'', DECIMAL65), (''action_hash'', VARCHAR 64), (''reward_address'', VARCHAR 41), (''candidate_name'', VARCHAR 24),
         (''block_reward'', DECIMAL65), (''epoch_reward'', DECIMAL65), (''foundation_bonus'', DECIMAL65)] [] [],
      CreateTable ''account_reward''
        [(''epoch_number'', DECIMAL65), (''candidate_name'', VARCHAR 24), (''block_reward'', DECIMAL65), (''epoch_reward'', DECIMAL65),
         (''foundation_bonus'', DECIMAL65)] [''epoch_candidate_index''] []]"

definition bucketCreationMySQL :: "string \<Rightarrow> ddl" where
  "bucketCreationMySQL t = CreateTable t
     [(''id'', INTEGER), (''hash'', VARCHAR 64), (''index'', DECIMAL65), (''candidate'', VARCHAR 41), (''owner'', VARCHAR 41),
      (''staked_amount'', BLOB), (''staked_duration'', TEXT), (''create_time'', TIMESTAMP), (''stake_start_time'', TIMESTAMP),
      (''unstake_start_time'', TIMESTAMP), (''auto_stake'', INTEGER)]
     [''PRIMARY'', ''hash'', ''owner_index'', ''candidate_index''] []"

definition candidateCreationMySQL :: "string \<Rightarrow> ddl" where
  "candidateCreationMySQL t = CreateTable t
     [(''id'', INTEGER), (''hash'', VARCHAR 64), (''owner'', BLOB), (''operator'', BLOB), (''reward'', BLOB), (''name'', BLOB),
      (''votes'', BLOB), (''self_stake_bucket_idx'', DECIMAL65), (''self_stake'', BLOB)]
     [''PRIMARY'', ''hash''] []"

definition createProbationList :: ddl where
  "createProbationList = CreateTable ''probation_list''
     [(''epoch_number'', DECIMAL65), (''intensity_rate'', DECIMAL65), (''address'', VARCHAR 41), (''count'', DECIMAL65)]
     [''PRIMARY'', ''epoch_address_index''] []"

text \<open>\<open>operator t\<close> are the statements of the operator for the table \<open>t\<close> besides those of this repository.\<close>

definition votings_tables :: "(string \<Rightarrow> ddl list) \<Rightarrow> ddl list" where
  "votings_tables operator =
     operator ''buckets'' @ operator ''native_buckets'' @ operator ''registrations'' @ operator ''mint_time'' @
     bucketCreationMySQL ''staking_buckets'' # operator ''staking_buckets'' @
     candidateCreationMySQL ''staking_candidates'' # operator ''staking_candidates'' @
     [CreateTable ''voting_result''
        [(''epoch_number'', DECIMAL65), (''delegate_name'', VARCHAR 255), (''operator_address'', VARCHAR 41), (''reward_address'', VARCHAR 41),
         (''total_weighted_votes'', DECIMAL65), (''self_staking'', DECIMAL65), (''block_reward_percentage'', VARCHAR 6),
         (''epoch_reward_percentage'', VARCHAR 6), (''foundation_bonus_percentage'', VARCHAR 6), (''staking_address'', VARCHAR 40)] [] [],
      CreateIndex ''epoch_candidate_index'' ''voting_result'',
      CreateTable ''aggregate_voting''
        [(''epoch_number'', DECIMAL65), (''candidate_name'', VARCHAR 255), (''voter_address'', VARCHAR 40), (''native_flag'', BOOLEAN),
         (''aggregate_votes'', DECIMAL65)] [''epoch_candidate_voter_index''] [],
      CreateTable ''voting_meta''
        [(''epoch_number'', DECIMAL65), (''voted_token'', DECIMAL65), (''delegate_count'', DECIMAL65), (''total_weighted'', DECIMAL65)]
        [''epoch_index''] [],
      createProbationList]"

definition accounts_tables :: "ddl list" where
  "accounts_tables =
     [CreateTable ''balance_history''
        [(''epoch_number'', DECIMAL65), (''block_height'', DECIMAL65), (''action_hash'', VARCHAR 64), (''action_type'', TEXT),
         (''from'', VARCHAR 41), (''to'', VARCHAR 41), (''amount'', DECIMAL65)] [''from_index'', ''to_index'', ''epoch_number_index''] [],
      CreateTable ''account_inflow'' [(''epoch_number'', DECIMAL65), (''address'', VARCHAR 41), (''inflow'', DECIMAL65)]
        [''epoch_number_index'', ''address_index'', ''epoch_address_index''] [],
      CreateTable ''account_outflow'' [(''epoch_number'', DECIMAL65), (''address'', VARCHAR 41), (''outflow'', DECIMAL65)]
        [''epoch_number_index'', ''address_index'', ''epoch_address_index''] [],
      CreateTable ''account_income'' [(''epoch_number'', DECIMAL65), (''address'', VARCHAR 41), (''income'', DECIMAL65)]
        [''epoch_address_index''] [],
      CreateIndex ''action_hash_index'' ''balance_history'']"

text \<open>\<open>CreateTablesIfNotExist\<close> over the protocols in the order of their registration.\<close>

definition create_tables :: "ddl list list \<Rightarrow> schema \<Rightarrow> go_error + schema" where
  "create_tables protocols s = foldE (\<lambda>p s. wrap ''failed to create a table'' (run_ddl p s)) protocols s"

definition default_tables :: "(string \<Rightarrow> ddl list) \<Rightarrow> ddl list list" where
  "default_tables operator = [blocks_tables, actions_tables, rewards_tables, votings_tables operator, accounts_tables]"

subsection \<open>What a statement leaves behind\<close>

fun made :: "schema \<Rightarrow> ddl \<Rightarrow> bool" where
  "made s (CreateTable t columns ks refs) \<longleftrightarrow> t \<in> keys s"
| "made s (CreateIndex i t) \<longleftrightarrow> (case map_of s t of None \<Rightarrow> False | Some d \<Rightarrow> i \<in> set (td_keys d))"

lemma exec_made: "made s st \<Longrightarrow> exec_ddl st s = Inr s"
  by (cases st) (auto split: option.splits)

lemma exec_makes: "exec_ddl st s = Inr s' \<Longrightarrow> made s' st"
  by (cases st) (auto simp: update_Some_unfold map_of_append split: option.splits if_splits)

text \<open>A schema grows: tables stay, and keep their keys.\<close>

definition grows :: "schema \<Rightarrow> schema \<Rightarrow> bool" where
  "grows s s' \<longleftrightarrow> (\<forall>t d. map_of s t = Some d \<longrightarrow> (\<exists>d'. map_of s' t = Some d' \<and> set (td_keys d) \<subseteq> set (td_keys d')))"

lemma grows_refl [simp]: "grows s s"
  by (simp add: grows_def)

lemma grows_trans [trans]: "grows s s' \<Longrightarrow> grows s' s'' \<Longrightarrow> grows s s''"
  unfolding grows_def by (meson order_trans)

lemma exec_grows: "exec_ddl st s = Inr s' \<Longrightarrow> grows s s'"
  by (cases st) (auto simp: grows_def map_of_append map_add_Some_iff update_Some_unfold split: option.splits if_splits)

lemma made_grows: "made s st \<Longrightarrow> grows s s' \<Longrightarrow> made s' st"
proof (cases st)
  case (CreateTable t columns ks refs)
  assume "made s st" "grows s s'"
  then show ?thesis
    using CreateTable unfolding grows_def by (metis made.simps(1) map_of_eq_None_iff not_None_eq)
next
  case (CreateIndex i t)
  assume "made s st" "grows s s'"
  then show ?thesis
    using CreateIndex unfolding grows_def by (fastforce split: option.splits)
qed

lemma run_Cons: "run_ddl (st # sts) s = andThen (exec_ddl st s) (run_ddl sts)"
  by (simp add: run_ddl_def[abs_def])

lemma run_Nil [simp]: "run_ddl [] s = Inr s"
  by (simp add: run_ddl_def)

lemma run_append: "run_ddl (as @ bs) s = andThen (run_ddl as s) (run_ddl bs)"
  by (simp add: run_ddl_def[abs_def] foldE_append)

lemma run_grows: "run_ddl sts s = Inr s' \<Longrightarrow> grows s s'"
  by (induction sts arbitrary: s) (auto simp: run_Cons andThen_eq_Inr intro: grows_trans exec_grows)

lemma run_makes: "run_ddl sts s = Inr s' \<Longrightarrow> \<forall>st \<in> set sts. made s' st"
proof (induction sts arbitrary: s)
  case (Cons st sts)
  then obtain u where u: "exec_ddl st s = Inr u" "run_ddl sts u = Inr s'" by (auto simp: run_Cons andThen_eq_Inr)
  then show ?case using Cons.IH exec_makes[OF u(1)] made_grows[OF _ run_grows[OF u(2)]] by auto
qed simp

lemma run_made: "\<forall>st \<in> set sts. made s st \<Longrightarrow> run_ddl sts s = Inr s"
  by (induction sts) (auto simp: run_Cons exec_made)

lemma create_tables_run: "create_tables ps s = Inr s' \<longleftrightarrow> run_ddl (concat ps) s = Inr s'"
  by (induction ps arbitrary: s) (auto simp: create_tables_def run_append andThen_eq_Inr)

subsection \<open>Statements whose tables exist\<close>

fun table_of :: "ddl \<Rightarrow> string set" where
  "table_of (CreateTable t columns ks refs) = {t}"
| "table_of (CreateIndex i t) = {}"

text \<open>With the tables \<open>T\<close>, every statement finds the tables it needs.\<close>

fun ready :: "string set \<Rightarrow> ddl list \<Rightarrow> bool" where
  "ready T [] = True"
| "ready T (CreateTable t columns ks refs # sts) \<longleftrightarrow> set refs \<subseteq> T \<and> ready (insert t T) sts"
| "ready T (CreateIndex i t # sts) \<longleftrightarrow> t \<in> T \<and> ready T sts"

lemma ready_append: "ready T (as @ bs) \<longleftrightarrow> ready T as \<and> ready (T \<union> (\<Union>st \<in> set as. table_of st)) bs"
  by (induction T as rule: ready.induct) (auto simp: insert_commute)

lemma grows_keys: "grows s s' \<Longrightarrow> keys s \<subseteq> keys s'"
  unfolding grows_def by (metis map_of_eq_None_iff not_None_eq subsetI)

lemma ready_runs: "ready T sts \<Longrightarrow> T \<subseteq> keys s \<Longrightarrow> \<exists>s'. run_ddl sts s = Inr s'"
proof (induction T sts arbitrary: s rule: ready.induct)
  case (2 T t columns ks refs sts)
  then have "set refs \<subseteq> keys s" by auto
  then obtain u where u: "exec_ddl (CreateTable t columns ks refs) s = Inr u" by (cases "t \<in> keys s") auto
  have "insert t T \<subseteq> keys u" using grows_keys[OF exec_grows[OF u]] exec_makes[OF u] 2(3) by auto
  with 2 u show ?case by (auto simp: run_Cons)
next
  case (3 T i t sts)
  then obtain d where "map_of s t = Some d" by (metis map_of_eq_None_iff not_None_eq ready.simps(3) subsetD)
  then obtain u where u: "exec_ddl (CreateIndex i t) s = Inr u" by simp
  have "T \<subseteq> keys u" using grows_keys[OF exec_grows[OF u]] 3(3) by auto
  with 3 u show ?case by (auto simp: run_Cons)
qed simp

lemma run_tables: "run_ddl sts s = Inr s' \<Longrightarrow> keys s' = keys s \<union> (\<Union>st \<in> set sts. table_of st)"
proof (induction sts arbitrary: s)
  case (Cons st sts)
  then obtain u where u: "exec_ddl st s = Inr u" "run_ddl sts u = Inr s'" by (auto simp: run_Cons andThen_eq_Inr)
  have "keys u = keys s \<union> table_of st"
  proof (cases st)
    case (CreateIndex i t)
    then obtain d where d: "map_of s t = Some d" using u(1) by (auto split: option.splits)
    then have "t \<in> keys s" by (metis map_of_eq_None_iff option.distinct(1))
    then have "insert t (keys s) = keys s" by (rule insert_absorb)
    moreover have "u = s \<or> u = AList.update t (d\<lparr>td_keys := td_keys d @ [i]\<rparr>) s"
      using u(1) CreateIndex d by (auto split: if_splits)
    ultimately show ?thesis using CreateIndex by (metis keys_update sup_bot.right_neutral table_of.simps(2))
  qed (use u(1) in \<open>auto split: if_splits\<close>)
  with Cons.IH[OF u(2)] show ?case by auto
qed simp

text \<open>The operators' statements are creations of tables without foreign keys.\<close>

definition plain :: "ddl list \<Rightarrow> bool" where
  "plain sts \<longleftrightarrow> (\<forall>st \<in> set sts. case st of CreateTable t columns ks refs \<Rightarrow> refs = [] | CreateIndex i t \<Rightarrow> False)"

lemma plain_ready: "plain sts \<Longrightarrow> ready T sts"
  by (induction T sts rule: ready.induct) (auto simp: plain_def)

lemma default_ready:
  assumes "\<And>t. plain (operator t)"
  shows "ready {} (concat (default_tables operator))"
  by (simp add: default_tables_def blocks_tables_def actions_tables_def xrc_tables_ddl_def createXrc20History_def
      createXrc20Holders_def hermes_tables_def rewards_tables_def votings_tables_def accounts_tables_def createProbationList_def
      bucketCreationMySQL_def candidateCreationMySQL_def ready_append plain_ready[OF assms])

subsection \<open>Properties\<close>

text \<open>C25: However far an earlier start of the indexer came in creating the tables before it failed or was
  killed, the next start creates the rest: it ends with the tables a start on an empty database gives, and
  every later start leaves them as they are.\<close>

theorem tables_after_any_crash:
  assumes "\<And>t. plain (operator t)"
    and "concat (default_tables operator) = done_before @ missing" "run_ddl done_before [] = Inr s"
  shows "\<exists>s'. create_tables (default_tables operator) [] = Inr s' \<and> create_tables (default_tables operator) s = Inr s' \<and>
    create_tables (default_tables operator) s' = Inr s'"
proof -
  let ?all = "concat (default_tables operator)"
  have "\<exists>s'. run_ddl ?all [] = Inr s'" using ready_runs[OF default_ready[OF assms(1)], of "[]"] by simp
  then obtain s' where s': "run_ddl ?all [] = Inr s'" ..
  then have "run_ddl missing s = Inr s'" using assms(2,3) by (simp add: run_append)
  moreover have "run_ddl done_before s = Inr s" by (rule run_made[OF run_makes[OF assms(3)]])
  ultimately have "run_ddl ?all s = Inr s'" by (simp add: assms(2) run_append)
  moreover have "run_ddl ?all s' = Inr s'" by (rule run_made[OF run_makes[OF s']])
  ultimately show ?thesis using s' by (auto simp: create_tables_run)
qed

lemma tables_after_any_crash_witness:
  "\<exists>s s'. run_ddl (take 3 blocks_tables) [] = Inr s \<and> create_tables (default_tables (\<lambda>_. [])) s = Inr s'"
proof -
  have "\<not> isl (run_ddl (take 3 blocks_tables) [])" by code_simp
  then obtain s where s: "run_ddl (take 3 blocks_tables) [] = Inr s" by (cases "run_ddl (take 3 blocks_tables) []") auto
  have "concat (default_tables (\<lambda>_. [])) =
      take 3 blocks_tables @ drop 3 blocks_tables @ concat (tl (default_tables (\<lambda>_. [])))"
    by (simp add: default_tables_def append_assoc[symmetric] del: append_assoc)
  from tables_after_any_crash[OF _ this s] s show ?thesis by (auto simp: plain_def)
qed

text \<open>
  The tables there are after a start: all that the protocols write and the queries read, but not the
  one of bucket actions, unless an operator of the election library makes it.
\<close>

theorem tables_of_the_index:
  assumes "create_tables (default_tables operator) [] = Inr s"
  shows "{''block_history'', ''producer_history'', ''expected_producer_history'', ''productivity_history'', ''action_history'',
      ''xrc20_history'', ''xrc20_holders'', ''xrc721_history'', ''xrc721_holders'', ''hermes_contract'', ''reward_history'',
      ''account_reward'', ''staking_buckets'', ''staking_candidates'', ''voting_result'', ''aggregate_voting'', ''voting_meta'',
      ''probation_list'', ''balance_history'', ''account_inflow'', ''account_outflow'', ''account_income''} \<subseteq> keys s \<and>
    (''bucket_actions'' \<in> keys s \<longrightarrow> (\<exists>t. \<exists>st \<in> set (operator t). ''bucket_actions'' \<in> table_of st))"
proof -
  have "keys s = \<Union> (table_of ` set (concat (default_tables operator)))"
    using run_tables assms by (force simp: create_tables_run)
  then have ks: "keys s = \<Union> (table_of ` set blocks_tables) \<union> \<Union> (table_of ` set actions_tables) \<union> \<Union> (table_of ` set rewards_tables) \<union>
      \<Union> (table_of ` set (votings_tables operator)) \<union> \<Union> (table_of ` set accounts_tables)"
    by (simp add: default_tables_def image_Un Un_assoc)
  show ?thesis
    unfolding ks
    by (simp add: blocks_tables_def actions_tables_def xrc_tables_ddl_def createXrc20History_def image_Un
        createXrc20Holders_def hermes_tables_def rewards_tables_def votings_tables_def accounts_tables_def createProbationList_def
        bucketCreationMySQL_def candidateCreationMySQL_def) blast
qed

text \<open>The order of registration matters on an empty database: the actions refer to the blocks.\<close>

theorem blocks_come_first:
  "create_tables [actions_tables, blocks_tables] [] =
     Inl (Wrapped ''failed to create a table'' (ErrSQL ''Failed to open the referenced table''))"
  by code_simp

text \<open>The width of a column, and the columns that hold a delegate's name in its internal form.\<close>

definition column_width :: "ddl list \<Rightarrow> string \<Rightarrow> string \<Rightarrow> nat option" where
  "column_width sts t c =
     (case [columns. CreateTable t' columns _ _ \<leftarrow> sts, t' = t] of
        [] \<Rightarrow> None
      | columns # _ \<Rightarrow> (case map_of columns c of Some (VARCHAR n) \<Rightarrow> Some n | _ \<Rightarrow> None))"

definition name_columns :: "(string \<times> string) list" where
  "name_columns =
     [(''block_history'', ''producer_name''), (''block_history'', ''expected_producer_name''), (''producer_history'', ''producer_name''),
      (''expected_producer_history'', ''expected_producer_name''), (''productivity_history'', ''delegate_name''),
      (''reward_history'', ''candidate_name''), (''account_reward'', ''candidate_name''), (''voting_result'', ''delegate_name''),
      (''aggregate_voting'', ''candidate_name'')]"

lemma name_columns_wide:
  "list_all (\<lambda>(t, c). case column_width (concat (default_tables (\<lambda>_. []))) t c of None \<Rightarrow> False | Some n \<Rightarrow> 24 \<le> n) name_columns"
  by code_simp

text \<open>Every name that the format accepts fits every column that holds names.\<close>

theorem names_fit_their_columns:
  assumes "EncodeDelegateName name = Inr encoded" "(t, c) \<in> set name_columns"
  shows "\<exists>n. column_width (concat (default_tables (\<lambda>_. []))) t c = Some n \<and> length encoded \<le> n"
  using name_columns_wide encoded_length[OF assms(1)] assms(2)
  by (auto simp: list_all_iff split: option.splits)

end
