(* ===== verification/Store_Life.thy ===== *)
theory Store_Life imports Store begin

text \<open>
  The life of the store (\<open>sql/storebase.go\<close>, \<open>mysql.go\<close>, \<open>rds.go\<close>): opening, the number of
  connections, closing. The driver is a parameter; its connections have a type of their own, and
  the effects of its calls are those of the database. The mutex makes each operation one step.
\<close>

record 'conn driver =
  dr_Open :: "string \<Rightarrow> string \<Rightarrow> go_error + 'conn"
  dr_Exec :: "'conn \<Rightarrow> string \<Rightarrow> go_error + unit"
  dr_Close :: "'conn \<Rightarrow> go_error + unit"

text \<open>An open database is its connection with the settings of its pool.\<close>

record 'conn sql_db =
  db_conn :: 'conn
  db_MaxOpenConns :: int
  db_MaxIdleConns :: int
  db_ConnMaxLifetime_minutes :: int

record 'conn storeBase =
  sb_db :: "'conn sql_db option"
  sb_maxConns :: int
  sb_connectStr :: string
  sb_dbName :: string
  sb_driverName :: string
  sb_readOnly :: bool

definition newStoreBase :: "string \<Rightarrow> string \<Rightarrow> string \<Rightarrow> bool \<Rightarrow> 'conn storeBase" where
  "newStoreBase driverName connectStr dbName readOnly =
     \<lparr>sb_db = None, sb_maxConns = 0, sb_connectStr = connectStr, sb_dbName = dbName, sb_driverName = driverName,
      sb_readOnly = readOnly\<rparr>"

definition SetMaxOpenConns :: "int \<Rightarrow> 'conn storeBase \<Rightarrow> 'conn storeBase" where
  "SetMaxOpenConns n s = s\<lparr>sb_maxConns := n\<rparr>"

definition GetDB :: "'conn storeBase \<Rightarrow> 'conn sql_db option" where
  "GetDB s = sb_db s"

text \<open>The error of closing the first connection is not looked at.\<close>

definition create_database :: "'conn driver \<Rightarrow> 'conn storeBase \<Rightarrow> go_error + unit" where
  "create_database d s =
     (if sb_readOnly s then Inr ()
      else andThen (dr_Open d (sb_driverName s) (sb_connectStr s)) (\<lambda>c.
        dr_Exec d c (''CREATE DATABASE IF NOT EXISTS '' @ sb_dbName s)))"

definition Start_s :: "'conn driver \<Rightarrow> 'conn storeBase \<Rightarrow> (go_error + unit) \<times> 'conn storeBase" where
  "Start_s d s =
     (if sb_db s \<noteq> None then (Inr (), s)
      else case andThen (create_database d s) (\<lambda>_.
          dr_Open d (sb_driverName s) (sb_connectStr s @ sb_dbName s @ ''?autocommit=false&parseTime=true'')) of
        Inl e \<Rightarrow> (Inl e, s)
      | Inr c \<Rightarrow> (Inr (), s\<lparr>sb_db := Some \<lparr>db_conn = c, db_MaxOpenConns = sb_maxConns s, db_MaxIdleConns = 10,
          db_ConnMaxLifetime_minutes = 5\<rparr>\<rparr>))"

definition Stop_s :: "'conn driver \<Rightarrow> 'conn storeBase \<Rightarrow> (go_error + unit) \<times> 'conn storeBase" where
  "Stop_s d s = (case sb_db s of None \<Rightarrow> (Inr (), s) | Some db \<Rightarrow> (dr_Close d (db_conn db), s\<lparr>sb_db := None\<rparr>))"

text \<open>\<open>Transact\<close> on the store: without a database \<open>Begin\<close> dereferences a nil pointer, outside of the recovery.\<close>

definition Transact_s :: "'conn storeBase \<Rightarrow> tx_env \<Rightarrow> ('db \<Rightarrow> ('db \<times> 'mem, unit) go) \<Rightarrow> ('db \<times> 'mem, unit) go" where
  "Transact_s s env txFunc = (\<lambda>w.
     case GetDB s of None \<Rightarrow> (Inl (Panic ''invalid memory address or nil pointer dereference''), w)
     | Some _ \<Rightarrow> Transact env txFunc w)"

definition NewMySQL :: "string \<Rightarrow> string \<Rightarrow> bool \<Rightarrow> 'conn storeBase" where
  "NewMySQL connectStr dbName readOnly = newStoreBase ''mysql'' connectStr dbName readOnly"

record RDS =
  AwsRDSEndpoint :: string
  AwsRDSPort :: u64
  AwsRDSUser :: string
  AwsPass :: string
  AwsDBName :: string
  AwsMaxConns :: "16 word"

definition NewAwsRDS :: "RDS \<Rightarrow> 'conn storeBase" where
  "NewAwsRDS cfg =
     (let store = newStoreBase ''mysql'' (AwsRDSUser cfg @ '':'' @ AwsPass cfg @ ''@tcp('' @ AwsRDSEndpoint cfg @ '':'' @
        format_uint (AwsRDSPort cfg) @ '')/'') (AwsDBName cfg) False
      in if 0 < AwsMaxConns cfg then SetMaxOpenConns (uint (AwsMaxConns cfg)) store else store)"

subsection \<open>The states of the store\<close>

inductive store_step :: "'conn driver \<Rightarrow> 'conn storeBase \<Rightarrow> 'conn storeBase \<Rightarrow> bool" for d where
  start: "store_step d s (snd (Start_s d s))"
| stop: "store_step d s (snd (Stop_s d s))"
| set_max: "store_step d s (SetMaxOpenConns n s)"

inductive_cases store_stepE: "store_step d s s'"

text \<open>An open database was opened on the store's own address, with the pool of fixed shape.\<close>

definition store_ok :: "'conn driver \<Rightarrow> 'conn storeBase \<Rightarrow> bool" where
  "store_ok d s \<longleftrightarrow> (\<forall>db. sb_db s = Some db \<longrightarrow>
     dr_Open d (sb_driverName s) (sb_connectStr s @ sb_dbName s @ ''?autocommit=false&parseTime=true'') = Inr (db_conn db) \<and>
     db_MaxIdleConns db = 10 \<and> db_ConnMaxLifetime_minutes db = 5)"

lemma store_ok_new: "store_ok d (newStoreBase driver connect name ro)"
  by (simp add: store_ok_def newStoreBase_def)

lemma store_ok_step: "store_step d s s' \<Longrightarrow> store_ok d s \<Longrightarrow> store_ok d s'"
  by (elim store_stepE) (auto simp: store_ok_def Start_s_def Stop_s_def SetMaxOpenConns_def andThen_eq_Inr
      split: sum.splits option.splits)

lemma store_address_step:
  "store_step d s s' \<Longrightarrow> sb_connectStr s' = sb_connectStr s \<and> sb_dbName s' = sb_dbName s \<and> sb_readOnly s' = sb_readOnly s"
  by (elim store_stepE) (auto simp: Start_s_def Stop_s_def SetMaxOpenConns_def split: sum.splits option.splits)

text \<open>Whatever is done to a store, an open database is the one of its own address, and its address and
  mode never change.\<close>

theorem store_keeps_its_address:
  assumes "(store_step d)\<^sup>*\<^sup>* (newStoreBase driver connect name ro) s"
  shows "store_ok d s \<and> sb_connectStr s = connect \<and> sb_dbName s = name \<and> sb_readOnly s = ro"
  using assms
proof (induction rule: rtranclp_induct)
  case base
  show ?case by (simp add: store_ok_new) (simp add: newStoreBase_def)
next
  case (step s s')
  then show ?case using store_ok_step store_address_step by metis
qed

text \<open>
  Starting an open store changes nothing, a stopped store is closed even if closing fails, and a
  read-only store starts without a statement that writes.
\<close>

theorem store_start_stop:
  "(fst (Start_s d s) = Inr () \<longrightarrow> GetDB (snd (Start_s d s)) \<noteq> None \<and> Start_s d (snd (Start_s d s)) = (Inr (), snd (Start_s d s))) \<and>
   GetDB (snd (Stop_s d s)) = None \<and> Stop_s d (snd (Stop_s d s)) = (Inr (), snd (Stop_s d s))"
  by (auto simp: Start_s_def Stop_s_def GetDB_def split: sum.splits option.splits)

text \<open>
  The limit of open connections is read when the store starts: set on a store that is open, it
  has no effect until the store is stopped and started again.
\<close>

theorem limit_after_start_is_late:
  "GetDB s = Some db \<Longrightarrow> GetDB (snd (Start_s d (SetMaxOpenConns n s))) = Some db"
  by (simp add: GetDB_def SetMaxOpenConns_def Start_s_def)

theorem read_only_store_writes_nothing:
  assumes "sb_readOnly s"
  shows "Start_s (d\<lparr>dr_Exec := exec\<rparr>) s = Start_s d s"
  using assms by (simp add: Start_s_def create_database_def)

end
