(* ===== verification/Server.thy ===== *)
theory Server imports Store_Life Resolver_Service begin

text \<open>
  What \<open>main.go\<close> decides before it starts the components: its settings from the environment
  (\<open>getenv\<close>, empty for a variable that is not set), the store it makes, and whom it takes a request
  to come from.
\<close>

definition env_or :: "(string \<Rightarrow> string) \<Rightarrow> string \<Rightarrow> string \<Rightarrow> string" where
  "env_or getenv variable fallback = (if getenv variable = [] then fallback else getenv variable)"

record main_settings =
  ms_port :: string
  ms_configPath :: string
  ms_chainEndpoint :: string
  ms_electionEndpoint :: string
  ms_connectionStr :: string
  ms_dbName :: string

definition settings :: "(string \<Rightarrow> string) \<Rightarrow> main_settings" where
  "settings getenv =
     \<lparr>ms_port = env_or getenv ''PORT'' ''8089'', ms_configPath = env_or getenv ''CONFIG'' ''config.yaml'',
      ms_chainEndpoint = env_or getenv ''CHAIN_ENDPOINT'' ''127.0.0.1:14014'',
      ms_electionEndpoint = env_or getenv ''ELECTION_ENDPOINT'' ''127.0.0.1:8090'',
      ms_connectionStr = env_or getenv ''CONNECTION_STRING'' ''root:rootuser@tcp(127.0.0.1:3306)/'',
      ms_dbName = env_or getenv ''DB_NAME'' ''analytics''\<rparr>"

text \<open>What the variable \<open>READ_ONLY\<close> makes of the configuration's \<open>ReadOnly\<close>.\<close>

definition read_only :: "(string \<Rightarrow> string) \<Rightarrow> bool \<Rightarrow> bool" where
  "read_only getenv configured =
     (if getenv ''READ_ONLY'' \<noteq> [] then getenv ''READ_ONLY'' = ''true'' else configured)"

text \<open>\<open>strconv.Atoi\<close> with the number it returns beside an error: 0 or the nearest number of 64 bits.\<close>

definition Atoi_value :: "string \<Rightarrow> int" where
  "Atoi_value s = (case big_SetString 10 s of None \<Rightarrow> 0 | Some n \<Rightarrow> max (- (2 ^ 63)) (min n (2 ^ 63 - 1)))"

definition main_store :: "(string \<Rightarrow> string) \<Rightarrow> bool \<Rightarrow> 'conn storeBase" where
  "main_store getenv configured =
     (let store = NewMySQL (ms_connectionStr (settings getenv)) (ms_dbName (settings getenv)) (read_only getenv configured);
          maxOpenConnsStr = getenv ''MAX_OPEN_CONNECTIONS''
      in if maxOpenConnsStr \<noteq> [] then SetMaxOpenConns (Atoi_value maxOpenConnsStr) store else store)"

definition getIPID :: "(string \<Rightarrow> string) \<Rightarrow> string \<Rightarrow> string \<times> string" where
  "getIPID header remoteAddr =
     (if header ''X-Forwarded-For'' = [] then remoteAddr else header ''X-Forwarded-For'',
      if header ''x-iotex-client-id'' = [] then ''unknown'' else header ''x-iotex-client-id'')"

subsection \<open>The query protocols\<close>

text \<open>
  The protocols that \<open>main\<close> hands to the resolver, on the tables of the index (the actions and token
  protocols are in \<open>Resolver_Service\<close>). A call that does not return is the error \<open>Hang\<close>.
\<close>

definition chain_service ::
  "string \<Rightarrow> (BlockHistory list \<Rightarrow> BlockHistory list) \<Rightarrow> chain_client \<Rightarrow> 'p registry \<Rightarrow> 'h index_db \<Rightarrow> chain_queries"
where
  "chain_service zero_address ord client registry db =
     \<lparr>cp_GetLastEpochAndHeight = GetLastEpochAndHeight registry (db_blocks db),
      cp_MostRecentTPS = (\<lambda>n. MostRecentTPS ord registry n (db_blocks db)),
      cp_GetNumberOfActions = (\<lambda>s c. GetNumberOfActions registry s c (db_blocks db)),
      cp_GetTotalTransferredTokens = (\<lambda>s c. GetTotalTransferredTokens registry s c (db_blocks db) (db_accounts db)),
      cp_GetTotalSupply = GetTotalSupply zero_address (db_accounts db),
      cp_GetTotalCirculatingSupply = (\<lambda>supply. GetTotalCirculatingSupply supply (db_accounts db)),
      cp_GetTotalCirculatingSupplyNoRewardPool = GetTotalCirculatingSupplyNoRewardPool client,
      pp_GetProductivityHistory = (\<lambda>s c n. GetProductivityHistory registry s c n (db_blocks db))\<rparr>"

record reward_orders = query_orders +
  order_epoch_rewards :: "(u64 \<times> int) list \<Rightarrow> (u64 \<times> int) list"
  order_shares :: "(string \<times> int) list \<Rightarrow> (string \<times> int) list"

definition rewards_service ::
  "libs \<Rightarrow> (string \<Rightarrow> string) \<Rightarrow> reward_orders \<Rightarrow> 'p registry \<Rightarrow> 'h index_db \<Rightarrow> rewards_queries"
where
  "rewards_service l checksum ords registry db =
     (let rt = account_reward (db_rewards db); vt = voting_result (db_votings db); agt = aggregate_voting (db_votings db);
          qo = query_orders.truncate ords in
      \<lparr>rp_GetAccountReward = (\<lambda>s c n. GetAccountReward registry s c n rt),
       rp_GetBookkeeping = (\<lambda>s c n percentage blockReward foundationBonus.
         GetBookkeeping l (order_epoch_rewards ords) (order_shares ords) registry s c n percentage blockReward foundationBonus rt vt agt),
       rp_GetHermesBookkeeping = (\<lambda>s c a w. GetHermesBookkeeping l qo registry s c a w rt vt agt),
       rp_GetAverageHermesStats = (\<lambda>s c a. GetAverageHermesStats qo registry s c a rt vt),
       rp_GetRewardSources = (\<lambda>s c v. GetRewardSources l checksum qo registry s c v rt vt agt)\<rparr>)"

definition hermes_service ::
  "(hermes_row list \<Rightarrow> hermes_row list) \<Rightarrow> HermesConfig \<Rightarrow> 'h index_db \<Rightarrow> hermes_queries"
where
  "hermes_service ord cfg db =
     (let bt = balance_history (db_accounts db); ht = hermes_contract (db_actions db) in
      \<lparr>hp_GetHermes2ByDelegate = (\<lambda>arg n. GetHermes2ByDelegate ord cfg arg n bt ht),
       hp_GetHermes2ByVoter = (\<lambda>arg v. GetHermes2ByVoter ord cfg arg v bt ht),
       hp_GetHermes2Ratio = (\<lambda>arg n. GetHermes2Ratio arg n (voting_result (db_votings db))),
       hp_GetHermes2Count = (\<lambda>arg select v. GetHermes2Count cfg arg select v bt ht),
       hp_GetHermes2Meta = (\<lambda>s c. GetHermes2Meta cfg s c bt ht)\<rparr>)"

definition or_hang :: "(go_error + 'a) option \<Rightarrow> go_error + 'a" where
  "or_hang r = (case r of None \<Rightarrow> Inl Hang | Some x \<Rightarrow> x)"

text \<open>
  The tables of staking records are those of the election library's operators; \<open>infos\<close> is
  \<open>GetBucketInfoByEpoch\<close> of the votings protocol, \<open>proto\<close> the conversion of time stamps.
\<close>

record votings_env =
  ve_proto :: "int \<Rightarrow> go_error + int"
  ve_infos :: "u64 \<Rightarrow> string \<Rightarrow> go_error + VotingInfo list"
  ve_results :: "VotingResult list \<Rightarrow> VotingResult list"
  ve_candidates :: "candidateStruct stored_row list \<Rightarrow> candidateStruct stored_row list"
  ve_bucket_table :: "StakingBucket stored_row list"
  ve_candidate_table :: "candidateStruct stored_row list"

definition votings_service :: "votings_env \<Rightarrow> Config \<Rightarrow> 'p registry \<Rightarrow> 'h index_db \<Rightarrow> votings_queries" where
  "votings_service env cfg registry db =
     (let vt = voting_result (db_votings db) in
      \<lparr>vp_BucketsByVoter = (\<lambda>v offset sz. BucketsByVoter (ve_proto env) registry v offset sz (ve_bucket_table env)),
       vp_BucketsByCandidate = (\<lambda>n offset sz. BucketsByCandidate (ve_proto env) (ve_candidates env) registry n offset sz
         (ve_candidate_table env) (ve_bucket_table env)),
       vp_GetBucketInformation = (\<lambda>s c n. or_hang (GetBucketInformation (ve_infos env) registry s c n (db_blocks db))),
       vp_GetStaking = (\<lambda>s c n. GetStaking registry s c n vt),
       vp_GetCandidateMeta = (\<lambda>s c. GetCandidateMeta cfg registry s c (voting_meta (db_votings db))),
       vp_GetCandidates = (\<lambda>s c. or_hang (GetCandidates registry s c (db_blocks db) vt)),
       vp_GetAlias = (\<lambda>a. GetAlias (ve_results env) registry a vt),
       vp_GetOperatorAddress = (\<lambda>n. GetOperatorAddress (ve_results env) registry n vt),
       vp_GetProbationHistoricalRate = (\<lambda>s c n.
         GetProbationHistoricalRate (ve_results env) registry s c n vt (probation_list (db_votings db)))\<rparr>)"

subsection \<open>What the chain answer says\<close>

text \<open>No handler of the chain touches the epoch and the height that were read first.\<close>

lemma keeps_tip:
  "keeps (\<lambda>r. ch_MostRecentEpoch r = e \<and> ch_MostRecentBlockHeight r = h) k"
  if "k \<in> set (map snd (chain_handlers cp vp resp q))"
proof -
  have "k \<in> {getVotingResultMeta vp resp, getTPS cp q, getNumberOfActions cp resp q, gettotalTransferredTokens cp q,
      getTotalAndTotalCirculatingSupply cp}"
    using that by (simp add: chain_handlers_def)
  then show ?thesis
    using getVotingResultMeta_writes[of vp resp] getTPS_writes[of cp q] getNumberOfActions_writes[of cp resp q]
      gettotalTransferredTokens_writes[of cp q] supply_writes[of cp]
    by (elim insertE emptyE) (auto simp: keeps_def writes_def writes_supplies_def)
qed

lemma chain_answer_tip:
  assumes "range_order ord" "resolve_Chain ord cp vp q = Inr r" "cp_GetLastEpochAndHeight cp = Inr (e, h)"
  shows "ch_MostRecentEpoch r = int_of_u64 e \<and> ch_MostRecentBlockHeight r = int_of_u64 h"
proof -
  let ?r0 = "empty_chain\<lparr>ch_MostRecentEpoch := int_of_u64 e, ch_MostRecentBlockHeight := int_of_u64 h\<rparr>"
  have "errgroup ord (requested q (chain_handlers cp vp ?r0 q)) ?r0 = Inr r"
    using assms(2,3) by (simp add: resolve_Chain_def getLastEpochAndHeight_def Let_def)
  from group_keeps[OF assms(1) this, of "\<lambda>r. ch_MostRecentEpoch r = int_of_u64 e \<and> ch_MostRecentBlockHeight r = int_of_u64 h"]
  show ?thesis using keeps_tip by simp
qed

lemma int_of_u64_inverse: "u64_of_int (int_of_u64 n) = n"
  by (simp add: u64_of_int_def int_of_u64_def)

subsection \<open>Settings that do not do what they say\<close>

text \<open>
  Any value of \<open>READ_ONLY\<close> but \<open>true\<close> makes the server write, also against its configuration: with
  \<open>READ_ONLY=1\<close> or \<open>READ_ONLY=TRUE\<close> a server configured as read-only creates the database and indexes.
\<close>

theorem read_only_must_be_spelt_true:
  assumes "getenv ''READ_ONLY'' \<noteq> []" "getenv ''READ_ONLY'' \<noteq> ''true''"
  shows "\<not> sb_readOnly (main_store getenv configured)"
  using assms by (simp add: main_store_def read_only_def NewMySQL_def newStoreBase_def SetMaxOpenConns_def Let_def)

text \<open>A limit of connections that is no number becomes 0, which the driver takes as no limit.\<close>

theorem bad_limit_is_no_limit:
  assumes "getenv ''MAX_OPEN_CONNECTIONS'' = limit_text" "limit_text \<noteq> []" "big_SetString 10 limit_text = None"
  shows "sb_maxConns (main_store getenv configured) = 0"
  using assms by (simp add: main_store_def Atoi_value_def SetMaxOpenConns_def Let_def)

text \<open>The queries are served before the store is started: until then it has no database.\<close>

theorem queries_before_start_find_no_database:
  "GetDB (main_store getenv configured) = None"
  by (simp add: main_store_def NewMySQL_def newStoreBase_def SetMaxOpenConns_def GetDB_def Let_def)

end
