(* ===== verification/Votings_Types.thy ===== *)
theory Votings_Types imports Votings_Laws begin

text \<open>
  What a row of \<open>voting_result\<close> can hold. Both paths of the handler, native staking and the gravity
  chain, change the table only through \<open>insertVotingResult\<close>; so the shape of its rows follows by
  induction on the inserts.
\<close>

subsection \<open>The table grows by inserts\<close>

inductive results_grow :: "VotingResult list \<Rightarrow> VotingResult list \<Rightarrow> bool" where
  unchanged: "results_grow t t"
| inserted: "results_grow t u \<Longrightarrow>
    insertVotingResult e name operator reward votes selfStaking b ep f (hex_EncodeToString staking) u = Inr v \<Longrightarrow> results_grow t v"

lemmas results_grow_intros [intro] = results_grow.intros

lemma results_grow_trans:
  assumes "results_grow u v" "results_grow t u"
  shows "results_grow t v"
  using assms by (induction rule: results_grow.induct) auto

lemma staking_rows_grow: "foldE (staking_result_row l p e) cs t = Inr t' \<Longrightarrow> results_grow t t'"
  by (erule foldE_invariant) (auto simp: staking_result_row_def andThen_eq_Inr Let_def)

lemma election_rows_grow: "foldE (election_result_row l el cfg e h) cs t = Inr t' \<Longrightarrow> results_grow t t'"
  by (erule foldE_invariant) (auto simp: election_result_row_def andThen_eq_Inr Let_def)

lemma put_table_results: "put_table oper height r db = Inr db' \<Longrightarrow> voting_result db' = voting_result db"
  by (auto simp: put_table_def andThen_eq_Inr)

lemma aggregates_keep_results:
  "updateAggregateStaking l cfg ord votes cs e pl db = Inr db' \<Longrightarrow> voting_result db' = voting_result db"
  "updateAggregateVotingandVotingMetaTable eord evotes flags ds e pl db = Inr db' \<Longrightarrow> voting_result db' = voting_result db"
  by (cases "stakingProbationListToMap cs (convertProbationListToLocal pl)")
    (auto simp: updateAggregateStaking_def andThen_eq_Inr,
     auto simp: updateAggregateVotingandVotingMetaTable_def andThen_eq_Inr Let_def split: prod.splits if_splits)

lemma updates_grow:
  "updateStakingResult ec pc ictx com cs e h db = Inr db' \<Longrightarrow> results_grow (voting_result db) (voting_result db')"
  "updateVotingResultTable l el cfg ds e h db = Inr db' \<Longrightarrow> results_grow (voting_result db) (voting_result db')"
  by (auto simp: updateStakingResult_def updateVotingResultTable_def andThen_eq_Inr dest: staking_rows_grow election_rows_grow)

lemma processStaking_grows:
  assumes "processStaking ec vc pc ops ord ictx com h prev e pl db = Inr db'"
  shows "results_grow (voting_result db) (voting_result db')"
  using assms unfolding processStaking_def
  by (fastforce simp: andThen_eq_Inr dest: put_table_results updates_grow(1) aggregates_keep_results(1))

lemma raw_buckets_keep_results:
  "fetchAndStoreRawBuckets p el e h g db = Inr db' \<Longrightarrow> voting_result db' = voting_result db"
  by (fastforce simp: fetchAndStoreRawBuckets_def putPoll_def putNativePoll_def andThen_eq_Inr dest: put_table_results
      split: option.splits prod.splits)

lemma updateVotingTables_grows:
  assumes "updateVotingTables p l el ord blocks actions e h g pl db = Inr db'"
  shows "results_grow (voting_result db) (voting_result db')"
  using assms unfolding updateVotingTables_def
  by (fastforce simp: andThen_eq_Inr dest: updates_grow(2) aggregates_keep_results(2) split: prod.splits)

lemma votings_HandleBlock_grows:
  assumes "votings_HandleBlock p el ords ictx com blk db = Inr db'"
  shows "results_grow (voting_result db) (voting_result db')"
proof -
  have "results_grow (voting_result db) (voting_result db')" if "votings_epoch_start p el ords ictx com h e db = Inr db'" for h e
    using that unfolding votings_epoch_start_def
    by (fastforce simp: andThen_eq_Inr Let_def dest: processStaking_grows raw_buckets_keep_results updateVotingTables_grows
        split: if_splits)
  then show ?thesis
    using assms unfolding votings_HandleBlock_def by (auto simp: andThen_eq_Inr split: if_splits)
qed

subsection \<open>The shape of a row\<close>

definition two_decimals :: "f64 \<Rightarrow> bool" where
  "two_decimals x \<longleftrightarrow> (\<exists>h. - 10000 < h \<and> h < 100000 \<and> x = round_prec 53 (of_int h / 100))"

definition result_typed :: "VotingResult \<Rightarrow> bool" where
  "result_typed r \<longleftrightarrow> two_decimals (vr_BlockRewardPercentage r) \<and> two_decimals (vr_EpochRewardPercentage r) \<and>
     two_decimals (vr_FoundationBonusPercentage r) \<and> (\<exists>bs. vr_StakingAddress r = hex_EncodeToString bs)"

lemma percent_column_typed: "percent_column x = Inr y \<Longrightarrow> two_decimals y"
  by (auto simp: percent_column_def two_decimals_def Let_def split: if_splits)

lemma insertVotingResult_typed:
  assumes "insertVotingResult e n oa ra v ss b ep f (hex_EncodeToString bs) t = Inr t'" "\<forall>r \<in> set t. result_typed r"
  shows "\<forall>r \<in> set t'. result_typed r"
  using assms
  by (auto simp: insertVotingResult_def andThen_eq_Inr insert_unique_eq_Inr result_typed_def percent_column_typed
      simp del: insert_unique.simps)

lemma results_grow_typed: "results_grow t t' \<Longrightarrow> \<forall>r \<in> set t. result_typed r \<Longrightarrow> \<forall>r \<in> set t'. result_typed r"
proof (induction rule: results_grow.induct)
  case (inserted t u e name operator reward votes selfStaking b ep f staking v)
  then show ?case using insertVotingResult_typed by metis
qed


definition typed_ctx :: IndexCtx where
  "typed_ctx = quiet_ctx
     \<lparr>ConsensusScheme := ROLLDPOS,
      ChainClient := (ChainClient quiet_ctx)\<lparr>cc_ReadState := \<lambda>rq. if rq_ProtocolID rq = ''poll'' then offline else Inr []\<rparr>,
      Libs := log_libs\<lparr>lib_IsNotFound := \<lambda>_. True, lib_MarshalStakingMethod := \<lambda>m. Inr m,
        lib_MarshalStakingRequest := \<lambda>_ _ _. Inr [], lib_UnmarshalBuckets := \<lambda>_. Inr [],
        lib_UnmarshalCandidates := \<lambda>_. Inr [voted ''io1c'' ''io1a'' ''100'']\<rparr>\<rparr>"

definition typed_db :: "unit votings_db" where
  "typed_db = empty_votings
     \<lparr>voting_result := [next_row],
      voting_meta := [\<lparr>vm_EpochNumber = 2, vm_VotedToken = 0, vm_DelegateCount = 1, vm_TotalWeighted = 100\<rparr>]\<rparr>"

lemma typed_block:
  "votings_HandleBlock sample_votings sample_el \<lparr>staking_ord = rev, election_ord = rev\<rparr> typed_ctx sample_committed
     (sample_block 2) empty_votings = Inr typed_db"
proof -
  have "hex_DecodeString topicProfileUpdated \<noteq> Inl e" for e by code_simp
  then obtain tp where "hex_DecodeString topicProfileUpdated = Inr tp" by (cases "hex_DecodeString topicProfileUpdated") auto
  then have log: "getLog typed_ctx c f n = Inr no_portions" for c f n
    by (auto simp: getLog_def typed_ctx_def quiet_ctx_def)
  have epochs: "GetEpochNumber tiny_ctx 2 = Inr 2" "GetEpochHeight tiny_ctx 2 = Inr 2" "GetEpochHeight tiny_ctx 1 = Inr 1"
    "FairbankEffectiveHeight tiny_ctx = 1"
    by code_simp+
  have pages: "GetAllStakingBuckets typed_ctx 1 = Some (Inr [])"
    "GetAllStakingCandidates typed_ctx 1 = Some (Inr [voted ''io1c'' ''io1a'' ''100''])"
    unfolding GetAllStakingBuckets_def GetAllStakingCandidates_def
    by (subst read_pages.simps, simp add: getStakingBuckets_def getStakingCandidates_def typed_ctx_def protocolID_def
      readBucketsLimit_def readCandidatesLimit_def keepCandidate_def voted_def)+
  have probation: "fetchProbationList typed_ctx 2 = Inr None"
    by (simp add: fetchProbationList_def typed_ctx_def offline_def)
  have portions: "getAllStakingDelegateRewardPortions tiny_ctx portion_cfg typed_ctx 2 2 [last_row] = Inr last_portions"
    using epochs by (simp add: getAllStakingDelegateRewardPortions_def log getLastEpochPortion_def override_def no_portions_def)
      (simp add: last_row_def last_portions_def)
  have name: "EncodeDelegateName ''bp'' = Inr (get_or [] epoch_names ''io1c'')" by code_simp
  have hex: "hex_EncodeToString ''c'' = ''63''" by code_simp
  have amounts: "big_SetString 10 ''100'' = Some 100" "big_SetString 10 ''10'' = Some 10" by code_simp+
  have row: "staking_result_row (Libs typed_ctx) last_portions 2 (voted ''io1c'' ''io1a'' ''100'') [] = Inr [next_row]"
    using last_row_percent
    by (simp add: staking_result_row_def typed_ctx_def log_libs_def voted_def name hex Let_def last_portions_def get_or_def
      insertVotingResult_def sql_decimal_def amounts last_row_def next_row_def del: hex_EncodeToString.simps)
  have names: "ownerAddressToNameMap [voted ''io1c'' ''io1a'' ''100''] = Inr [(''io1c'', get_or [] epoch_names ''io1c'')]"
    by (simp add: ownerAddressToNameMap_def voted_def name)
  have weights: "toBigInt m (cand_TotalWeightedVotes (voted ''io1c'' ''io1a'' ''100'')) = Inr 100" for m
    by (simp add: toBigInt_def voted_def amounts)
  have "votings_epoch_start sample_votings sample_el \<lparr>staking_ord = rev, election_ord = rev\<rparr> typed_ctx sample_committed
     2 2 empty_votings = Inr typed_db"
    unfolding votings_epoch_start_def probation wrap_Inr andThen_Inr
    by (simp add: sample_votings_def epochs processStaking_def pages put_table_def no_operator_def staking_operators.defs
      updateStakingResult_def sample_committed_def portions errorf_def row updateAggregateStaking_def names weights
      stakingProbationListToMap_def convertProbationListToLocal_def insertVotingMeta_def
      empty_votings_def typed_db_def updateProbationListTable_def)
  then show ?thesis
    unfolding votings_HandleBlock_def
    by (simp add: sample_votings_def sample_block_def epochs) (simp add: typed_ctx_def)
qed


end
