(* ===== verification/Spec2Isabelle.thy ===== *)
theory Spec2Isabelle imports Accounts Actions Blocks Indexer Names Query_Chain_Laws Query_Hermes_Laws Query_Rewards_Laws Query_Votings_Laws Query_Xrc_Laws Resolver_Laws Rewards Schema Server System Votings_Types begin

text \<open>
  A model of the IoTeX analytics server: it follows the IoTeX block chain, writes what the blocks say into
  MySQL tables, and answers GraphQL questions from these tables.

  \<^bold>\<open>How the program works.\<close> \<open>main.go\<close> reads its settings, makes a store (\<open>sql\<close>) and an indexer
  (\<open>indexservice/indexer.go\<close>) and registers five index protocols (\<open>indexprotocol\<close>: blocks, actions, rewards,
  votings, accounts). On start each protocol creates its tables; the indexer reads back the height it had
  reached, catches up with the chain in batches, and then polls the chain. Each block is handled in one
  transaction by all protocols in the order of their registration. At the first block of an epoch
  (\<open>epochctx/epochctx.go\<close>) the protocols close the tables of the epoch before. The query protocols
  (\<open>queryprotocol\<close>) read the tables and never write; the resolver (\<open>graphql/resolver.go\<close>) runs one goroutine
  per requested field over them.

  \<^bold>\<open>Foundations.\<close> \<open>Go_Prelude\<close>: results, errors, panics and exits as values of \<open>go_error + 'a\<close>, state passing
  that keeps the state beside an error, slices, loops over maps with their order as an argument. \<open>Go_Num\<close>:
  integers and hexadecimals as text and back. \<open>Go_Float\<close>: rounding of \<open>float64\<close>. \<open>Sql\<close>: tables as lists
  of rows, inserting under a unique key, grouping. \<open>Chain\<close>: blocks, actions, receipts, the clients of the
  chain and the libraries as records of functions. \<open>Index_Protocol\<close>: configuration and paging over the state
  of the chain. \<open>Names\<close>: the encoding of delegate names.

  \<^bold>\<open>The index.\<close> \<open>Epoch\<close> models \<open>epochctx.go\<close>; \<open>Store\<close> and \<open>Store_Life\<close> the directory \<open>sql\<close> and
  \<open>registry.go\<close>; \<open>Schema\<close> the \<open>CreateTables\<close> functions; \<open>Accounts\<close>, \<open>Blocks\<close>, \<open>Rewards\<close> the protocols of
  these names; \<open>Actions\<close> and \<open>Xrc\<close> the actions protocol with \<open>hermes.go\<close>, \<open>bucket.go\<close> and \<open>xrc20.go\<close>;
  \<open>Voting_Result\<close>, \<open>Staking_Tables\<close> (\<open>bucketoperator.go\<close>, \<open>candidateoperator.go\<close>), \<open>Staking\<close>
  (\<open>stakingprotocol.go\<close>, \<open>probation.go\<close>) and \<open>Votings\<close> the votings protocol; \<open>Indexer\<close> the indexer over
  any protocols. A protocol is a record of its tables, a record of what it keeps in memory, and its
  \<open>HandleBlock\<close> as a function of the index context, the committed tables, the block and both. \<open>System\<close>
  puts the five protocols into one database and one indexer.

  \<^bold>\<open>The answers.\<close> \<open>Query_Rewards\<close>, \<open>Query_Chain\<close> (with productivity), \<open>Query_Votings\<close>, \<open>Query_Hermes\<close>,
  \<open>Query_Actions\<close> and \<open>Query_Xrc\<close> model the packages of \<open>queryprotocol\<close> on the tables of \<open>System\<close>;
  \<open>Query_Base\<close> what they share. \<open>Resolver_Args\<close> reads the arguments of a request; \<open>Resolver\<close>,
  \<open>Resolver_Delegates\<close>, \<open>Resolver_Actions\<close> and \<open>Resolver_Tokens\<close> are the handlers, on records of query
  functions; \<open>Resolver_Service\<close> and \<open>Server\<close> give them the queries of the model, as \<open>main.go\<close> does.

  \<^bold>\<open>What is shown of the index.\<close> The 64-bit epoch arithmetic implements the plan of epochs
  (\<open>Epoch\<close>). A block is handled wholly or not at all (\<open>Indexer\<close>), after which the blocks and accounts
  tables again are those of exactly the blocks up to it, with each finished epoch aggregated once
  (\<open>Blocks\<close>, \<open>Accounts\<close>), every action is joined with its receipt (\<open>Actions\<close>), shared rewards never exceed
  what was granted (\<open>Rewards\<close>), and no voting table holds a key twice or a percentage of more than two
  decimals (\<open>Votings_Laws\<close>, \<open>Votings_Types\<close>). \<open>System\<close> lifts this to the running indexer: catching up ends,
  and whatever fails on the way, the tables fit the height. \<open>Schema\<close> shows that creating the tables may
  be stopped anywhere and done again. The weights, probation, merging and totals of votes are in
  \<open>Staking_Laws\<close> and \<open>Votings_Laws\<close>.

  \<^bold>\<open>What is shown of the answers.\<close> The \<open>Query_*_Laws\<close> theories: distributions neither lose nor make rewards
  and two computations of them agree, pages put together hold what the counts say, loops over epochs
  end, averages stay in their range, events are found by their addresses. \<open>Resolver_Groups\<close> shows of every
  group of goroutines that the order of their ends does not matter, except in one case that
  \<open>Resolver_Laws\<close> exhibits as a race. The theorem of this theory spans both halves: the tip that an answer
  names is the height of the indexer.

  \<^bold>\<open>Interfaces.\<close> Each locale is interpreted on the model: \<open>codec\<close> (numbers, hexadecimals, delegate names),
  \<open>unique_table\<close> and \<open>epoch_aggregate\<close> (the tables of \<open>Blocks\<close> and \<open>Accounts\<close>), \<open>record_table\<close> (buckets and
  candidates), \<open>probation_filter\<close> (staking and election), \<open>hub\<close> (the registry), \<open>block_indexer\<close> (one block
  keeps an invariant, hence the run does; for \<open>default_protocols\<close>), \<open>independent_handlers\<close> (each group of the
  resolver), \<open>paged_queries\<close> (the actions queries of the server).

  \<^bold>\<open>Loops and fuel.\<close> There is no fuel. Loops over lists are recursive functions. The loops that a bad
  configuration or an endless chain can keep from ending (paging with a limit of 0, the batches of the
  indexer, loops up to the largest \<open>u64\<close>) are \<open>partial_function (option)\<close>, whose \<open>None\<close> is never returning;
  that they return is proved where the properties need it. In \<open>Server\<close> such a query is the error \<open>Hang\<close>.

  \<^bold>\<open>Conventions.\<close> A Go map is an association list, and the order of a \<open>range\<close> over it, of rows that
  \<open>ORDER BY\<close> does not tell apart, and in which goroutines end, is an argument, any permutation. Words keep
  their width; \<open>big.Int\<close> and MySQL's \<open>DECIMAL(65, 0)\<close> are \<open>int\<close>; GraphQL's \<open>Int\<close> is an \<open>int\<close>, made from a
  word by \<open>int_of_u64\<close>. A finite \<open>float64\<close> is a rational number, rounded after each operation.

  \<^bold>\<open>Parameters.\<close> What the repository takes from \<open>iotex-core\<close>, \<open>iotex-election\<close>, \<open>iotex-address\<close>, the ABI
  decoder and the database driver is an argument: the functions of the records \<open>libs\<close>, \<open>chain_client\<close>,
  \<open>election_lib\<close> and \<open>driver\<close>, and the outcome of beginning and ending a transaction (\<open>tx_env\<close>). No law of
  them is assumed but what a property names, as the honest chain of \<open>Indexer\<close>.

  \<^bold>\<open>Not modelled.\<close> The GraphQL executor (\<open>graphql/generated.go\<close>) and the contract bindings are generated.
  HTTP, gRPC, logging, metrics and the configuration file are input and output. Rows are typed, so that
  the scanning by reflection (\<open>sql/util.go\<close>) is the identity. Of the limits of columns only that of the
  percentages is a behaviour of the model; \<open>Schema\<close> shows that delegate names fit theirs. Infinite
  floating-point numbers and NaN, and SQL written into a name by a hostile client, are outside the model.
  Fixtures of tests are left out.
\<close>


lemma tip_of_index:
  assumes inv: "iotex_indexed e h db" and reg: "Find ''blocks'' registry \<noteq> None"
    and tip: "GetLastEpochAndHeight registry (db_blocks db) = Inr (n, m)"
  shows "m = h \<and> GetEpochNumber e h = Inr n"
proof -
  have "ctx_ok e" "blocks_indexed e h (db_blocks db)" using inv by (simp_all add: iotex_indexed_def)
  from restart_resumes[OF this reg] tip show ?thesis
    by (auto simp: GetLastEpochAndHeight_def map_sum_def id_def split: if_splits sum.splits)
qed


definition index_at_1 :: "(unit index_db, index_mem) indexer" where
  "index_at_1 = sample_index\<lparr>idx_lastHeight := 1, idx_world := map_prod (\<lambda>db. db\<lparr>db_blocks := blocks_1\<rparr>) id (idx_world sample_index)\<rparr>"

lemma index_at_1_ready:
  "idx_IndexProtocols index_at_1 = default_protocols sample_service" "idx_lastHeight index_at_1 = 1"
  "iotex_indexed (sv_epochCtx sample_service) 1 (fst (idx_world index_at_1))"
  "0 < cfg_RangeQueryLimit (idx_Config index_at_1)"
proof -
  have "iotex_indexed tiny_ctx 0 (new_index ())" by (simp add: new_index_indexed tiny_ok)
  then have "iotex_indexed tiny_ctx 1 ((new_index ())\<lparr>db_blocks := blocks_1\<rparr>)"
    using blocks_1_indexed first_chain_facts(2) tiny_ok
    by (simp add: iotex_indexed_def accounts_indexed_def accounts_built_def new_index_def empty_accounts_def
      empty_blocks_def new_actions_db_def votings_ok_def built_Nil)
  then show "iotex_indexed (sv_epochCtx sample_service) 1 (fst (idx_world index_at_1))"
    by (simp add: index_at_1_def sample_index_def small_indexer_def sample_service_def)
qed (simp_all add: index_at_1_def sample_index_def small_indexer_def small_config_def)


end
